(* ===== verification/Laic_Errors.thy ===== *)
theory Laic_Errors
  imports Prelude
begin

text \<open>
  The error hierarchy of \<open>crates/laic/src/error.rs\<close> and \<open>error/protocol.rs\<close>: one datatype per
  layer with the source's variants and fields, the stable numeric codes, the retry
  classification, the \<open>Display\<close> texts and the \<open>From\<close> conversions (the constructors of
  \<open>laic_error\<close>). The locale \<open>error_layer\<close> is the contract each layer keeps (its codes lie in
  its own \<open>0xNNxx\<close> range and identify the variant); the four layers interpret it, and
  \<open>disjoint_layers\<close> combines two of them.
\<close>

section \<open>Error codes\<close>

datatype error_code = ErrorCode u16

fun as_u16 :: "error_code \<Rightarrow> u16" where
  "as_u16 (ErrorCode c) = c"

definition display_error_code :: "error_code \<Rightarrow> string" where
  "display_error_code c = ''0x'' @ hex_upper 4 (unat (as_u16 c))"

lemma as_u16_inject [simp]: "as_u16 c = as_u16 d \<longleftrightarrow> c = d"
  by (cases c; cases d) simp

section \<open>The contract of an error layer\<close>

text \<open>
  \<open>discriminant\<close> is the position of the variant in its enum (\<open>std::mem::discriminant\<close>).
  \<open>layer\<close> is the high byte all codes of the layer share.
\<close>

locale error_layer =
  fixes code :: "'e \<Rightarrow> error_code"
    and discriminant :: "'e \<Rightarrow> nat"
    and layer :: u16
  assumes code_layer: "as_u16 (code e) AND 0xFF00 = layer"
    and code_discriminant: "code e = code f \<longleftrightarrow> discriminant e = discriminant f"
begin

lemma code_identifies_variant: "as_u16 (code e) = as_u16 (code f) \<longleftrightarrow> discriminant e = discriminant f"
  by (simp add: code_discriminant)

end

locale disjoint_layers =
  a: error_layer code_a discriminant_a layer_a +
  b: error_layer code_b discriminant_b layer_b
  for code_a :: "'a \<Rightarrow> error_code" and discriminant_a and layer_a
    and code_b :: "'b \<Rightarrow> error_code" and discriminant_b and layer_b +
  assumes layers_differ: "layer_a \<noteq> layer_b"
begin

lemma codes_differ: "code_a e \<noteq> code_b f"
proof
  assume "code_a e = code_b f"
  then have "as_u16 (code_a e) AND 0xFF00 = as_u16 (code_b f) AND 0xFF00" by simp
  then show False using a.code_layer b.code_layer layers_differ by simp
qed

end

section \<open>Protocol errors\<close>

datatype protocol_error =
    InvalidMagic u32
  | BufferTooShort nat nat
  | UnsupportedVersion u16
  | InvalidPayloadFormat u8
  | InvalidQos u8
  | PayloadLengthMismatch u32 nat
  | UnexpectedMessageType u16 u16
  | UnexpectedPayloadFormat u8 u8
  | UnsupportedHandshakeVersion u16 u16
  | TrustDomainMismatch string string
  | HandshakeNonceMismatch
  | InvalidHandshakePayload string

fun protocol_code :: "protocol_error \<Rightarrow> error_code" where
  "protocol_code (InvalidMagic actual) = ErrorCode 0x0301"
| "protocol_code (BufferTooShort actual expected) = ErrorCode 0x0302"
| "protocol_code (UnsupportedVersion version) = ErrorCode 0x0303"
| "protocol_code (InvalidPayloadFormat value) = ErrorCode 0x0304"
| "protocol_code (InvalidQos value) = ErrorCode 0x0305"
| "protocol_code (PayloadLengthMismatch header_len actual_len) = ErrorCode 0x0306"
| "protocol_code (UnexpectedMessageType expected actual) = ErrorCode 0x0307"
| "protocol_code (UnsupportedHandshakeVersion expected actual) = ErrorCode 0x0308"
| "protocol_code (TrustDomainMismatch expected actual) = ErrorCode 0x0309"
| "protocol_code HandshakeNonceMismatch = ErrorCode 0x030A"
| "protocol_code (InvalidHandshakePayload detail) = ErrorCode 0x030B"
| "protocol_code (UnexpectedPayloadFormat expected actual) = ErrorCode 0x030C"

definition protocol_is_retryable :: "protocol_error \<Rightarrow> bool" where
  "protocol_is_retryable e = False"

fun display_protocol_error :: "protocol_error \<Rightarrow> string" where
  "display_protocol_error (InvalidMagic actual) =
     ''invalid magic: expected 0x4C414943, got 0x'' @ hex_upper 8 (unat actual)"
| "display_protocol_error (BufferTooShort actual expected) =
     ''buffer too short: '' @ show_nat actual @ '' bytes, need '' @ show_nat expected"
| "display_protocol_error (UnsupportedVersion version) =
     ''unsupported version: 0x'' @ hex_upper 4 (unat version)"
| "display_protocol_error (InvalidPayloadFormat value) =
     ''invalid payload format: '' @ show_nat (unat value)"
| "display_protocol_error (InvalidQos value) = ''invalid QoS: '' @ show_nat (unat value)"
| "display_protocol_error (PayloadLengthMismatch header_len actual_len) =
     ''payload length mismatch: header says '' @ show_nat (unat header_len)
       @ '', actual '' @ show_nat actual_len"
| "display_protocol_error (UnexpectedMessageType expected actual) =
     ''unexpected message type: expected 0x'' @ hex_upper 4 (unat expected)
       @ '', got 0x'' @ hex_upper 4 (unat actual)"
| "display_protocol_error (UnexpectedPayloadFormat expected actual) =
     ''unexpected payload format: expected 0x'' @ hex_upper 2 (unat expected)
       @ '', got 0x'' @ hex_upper 2 (unat actual)"
| "display_protocol_error (UnsupportedHandshakeVersion expected actual) =
     ''unsupported handshake version: expected 0x'' @ hex_upper 4 (unat expected)
       @ '', got 0x'' @ hex_upper 4 (unat actual)"
| "display_protocol_error (TrustDomainMismatch expected actual) =
     ''trust-domain mismatch: expected '' @ expected @ '', got '' @ actual"
| "display_protocol_error HandshakeNonceMismatch = ''handshake nonce mismatch''"
| "display_protocol_error (InvalidHandshakePayload detail) =
     ''invalid handshake payload: '' @ detail"

fun protocol_discriminant :: "protocol_error \<Rightarrow> nat" where
  "protocol_discriminant (InvalidMagic _) = 0"
| "protocol_discriminant (BufferTooShort _ _) = 1"
| "protocol_discriminant (UnsupportedVersion _) = 2"
| "protocol_discriminant (InvalidPayloadFormat _) = 3"
| "protocol_discriminant (InvalidQos _) = 4"
| "protocol_discriminant (PayloadLengthMismatch _ _) = 5"
| "protocol_discriminant (UnexpectedMessageType _ _) = 6"
| "protocol_discriminant (UnexpectedPayloadFormat _ _) = 7"
| "protocol_discriminant (UnsupportedHandshakeVersion _ _) = 8"
| "protocol_discriminant (TrustDomainMismatch _ _) = 9"
| "protocol_discriminant HandshakeNonceMismatch = 10"
| "protocol_discriminant (InvalidHandshakePayload _) = 11"

interpretation protocol_layer: error_layer protocol_code protocol_discriminant "0x0300"
proof
  show "as_u16 (protocol_code e) AND 0xFF00 = 0x0300" for e
    by (cases e) simp_all
  show "protocol_code e = protocol_code f \<longleftrightarrow> protocol_discriminant e = protocol_discriminant f" for e f
    by (cases e; cases f) simp_all
qed

section \<open>Transport errors\<close>

datatype transport_error =
    ConnectionFailed string
  | ConnectionLost string
  | NotConnected
  | SendFailed string
  | ReceiveFailed string
  | Timeout string
  | BackpressureFull
  | ShuttingDown
  | FramingError string

fun transport_code :: "transport_error \<Rightarrow> error_code" where
  "transport_code (ConnectionFailed detail) = ErrorCode 0x0101"
| "transport_code (ConnectionLost detail) = ErrorCode 0x0102"
| "transport_code NotConnected = ErrorCode 0x0103"
| "transport_code (SendFailed detail) = ErrorCode 0x0104"
| "transport_code (ReceiveFailed detail) = ErrorCode 0x0105"
| "transport_code (Timeout operation) = ErrorCode 0x0106"
| "transport_code BackpressureFull = ErrorCode 0x0107"
| "transport_code ShuttingDown = ErrorCode 0x0108"
| "transport_code (FramingError detail) = ErrorCode 0x0109"

fun transport_is_retryable :: "transport_error \<Rightarrow> bool" where
  "transport_is_retryable (ConnectionFailed detail) = True"
| "transport_is_retryable (ConnectionLost detail) = True"
| "transport_is_retryable (SendFailed detail) = True"
| "transport_is_retryable (ReceiveFailed detail) = True"
| "transport_is_retryable (Timeout operation) = True"
| "transport_is_retryable BackpressureFull = True"
| "transport_is_retryable NotConnected = False"
| "transport_is_retryable ShuttingDown = False"
| "transport_is_retryable (FramingError detail) = False"

fun display_transport_error :: "transport_error \<Rightarrow> string" where
  "display_transport_error (ConnectionFailed detail) = ''connection failed: '' @ detail"
| "display_transport_error (ConnectionLost detail) = ''connection lost: '' @ detail"
| "display_transport_error NotConnected = ''not connected''"
| "display_transport_error (SendFailed detail) = ''send failed: '' @ detail"
| "display_transport_error (ReceiveFailed detail) = ''receive failed: '' @ detail"
| "display_transport_error (Timeout operation) = ''timeout: '' @ operation"
| "display_transport_error BackpressureFull = ''backpressure: send queue full''"
| "display_transport_error ShuttingDown = ''transport shutting down''"
| "display_transport_error (FramingError detail) = ''framing error: '' @ detail"

fun transport_discriminant :: "transport_error \<Rightarrow> nat" where
  "transport_discriminant (ConnectionFailed _) = 0"
| "transport_discriminant (ConnectionLost _) = 1"
| "transport_discriminant NotConnected = 2"
| "transport_discriminant (SendFailed _) = 3"
| "transport_discriminant (ReceiveFailed _) = 4"
| "transport_discriminant (Timeout _) = 5"
| "transport_discriminant BackpressureFull = 6"
| "transport_discriminant ShuttingDown = 7"
| "transport_discriminant (FramingError _) = 8"

interpretation transport_layer: error_layer transport_code transport_discriminant "0x0100"
proof
  show "as_u16 (transport_code e) AND 0xFF00 = 0x0100" for e
    by (cases e) simp_all
  show "transport_code e = transport_code f \<longleftrightarrow> transport_discriminant e = transport_discriminant f" for e f
    by (cases e; cases f) simp_all
qed

section \<open>Codec and flow errors\<close>

datatype codec_error =
    ArrowEncode string
  | ArrowDecode string
  | ProtoEncode string
  | ProtoDecode string

fun codec_code :: "codec_error \<Rightarrow> error_code" where
  "codec_code (ArrowEncode detail) = ErrorCode 0x0201"
| "codec_code (ArrowDecode detail) = ErrorCode 0x0202"
| "codec_code (ProtoEncode detail) = ErrorCode 0x0203"
| "codec_code (ProtoDecode detail) = ErrorCode 0x0204"

definition codec_is_retryable :: "codec_error \<Rightarrow> bool" where
  "codec_is_retryable e = False"

fun display_codec_error :: "codec_error \<Rightarrow> string" where
  "display_codec_error (ArrowEncode detail) = ''Arrow encode failed: '' @ detail"
| "display_codec_error (ArrowDecode detail) = ''Arrow decode failed: '' @ detail"
| "display_codec_error (ProtoEncode detail) = ''Protobuf encode failed: '' @ detail"
| "display_codec_error (ProtoDecode detail) = ''Protobuf decode failed: '' @ detail"

fun codec_discriminant :: "codec_error \<Rightarrow> nat" where
  "codec_discriminant (ArrowEncode _) = 0"
| "codec_discriminant (ArrowDecode _) = 1"
| "codec_discriminant (ProtoEncode _) = 2"
| "codec_discriminant (ProtoDecode _) = 3"

interpretation codec_layer: error_layer codec_code codec_discriminant "0x0200"
proof
  show "as_u16 (codec_code e) AND 0xFF00 = 0x0200" for e
    by (cases e) simp_all
  show "codec_code e = codec_code f \<longleftrightarrow> codec_discriminant e = codec_discriminant f" for e f
    by (cases e; cases f) simp_all
qed

datatype flow_error = CreditExhausted

fun flow_code :: "flow_error \<Rightarrow> error_code" where
  "flow_code CreditExhausted = ErrorCode 0x0401"

fun flow_is_retryable :: "flow_error \<Rightarrow> bool" where
  "flow_is_retryable CreditExhausted = True"

fun display_flow_error :: "flow_error \<Rightarrow> string" where
  "display_flow_error CreditExhausted = ''credit exhausted: no credits remaining''"

fun flow_discriminant :: "flow_error \<Rightarrow> nat" where
  "flow_discriminant CreditExhausted = 0"

interpretation flow_layer: error_layer flow_code flow_discriminant "0x0400"
proof
  show "as_u16 (flow_code e) AND 0xFF00 = 0x0400" for e
    by (cases e) simp_all
  show "flow_code e = flow_code f \<longleftrightarrow> flow_discriminant e = flow_discriminant f" for e f
    by (cases e; cases f) simp_all
qed

section \<open>The top-level error\<close>

datatype laic_error =
    Protocol protocol_error
  | Codec codec_error
  | Transport transport_error
  | Flow flow_error

fun laic_code :: "laic_error \<Rightarrow> error_code" where
  "laic_code (Protocol e) = protocol_code e"
| "laic_code (Codec e) = codec_code e"
| "laic_code (Transport e) = transport_code e"
| "laic_code (Flow e) = flow_code e"

fun laic_is_retryable :: "laic_error \<Rightarrow> bool" where
  "laic_is_retryable (Protocol e) = protocol_is_retryable e"
| "laic_is_retryable (Codec e) = codec_is_retryable e"
| "laic_is_retryable (Transport e) = transport_is_retryable e"
| "laic_is_retryable (Flow e) = flow_is_retryable e"

fun display_laic_error :: "laic_error \<Rightarrow> string" where
  "display_laic_error (Protocol e) = ''protocol error: '' @ display_protocol_error e"
| "display_laic_error (Codec e) = ''codec error: '' @ display_codec_error e"
| "display_laic_error (Transport e) = ''transport error: '' @ display_transport_error e"
| "display_laic_error (Flow e) = ''flow control error: '' @ display_flow_error e"

text \<open>The layers are pairwise disjoint, so a code names the layer as well.\<close>

interpretation protocol_codec: disjoint_layers protocol_code protocol_discriminant "0x0300"
  codec_code codec_discriminant "0x0200" by unfold_locales simp

interpretation protocol_transport: disjoint_layers protocol_code protocol_discriminant "0x0300"
  transport_code transport_discriminant "0x0100" by unfold_locales simp

interpretation protocol_flow: disjoint_layers protocol_code protocol_discriminant "0x0300"
  flow_code flow_discriminant "0x0400" by unfold_locales simp

interpretation codec_transport: disjoint_layers codec_code codec_discriminant "0x0200"
  transport_code transport_discriminant "0x0100" by unfold_locales simp

interpretation codec_flow: disjoint_layers codec_code codec_discriminant "0x0200"
  flow_code flow_discriminant "0x0400" by unfold_locales simp

interpretation transport_flow: disjoint_layers transport_code transport_discriminant "0x0100"
  flow_code flow_discriminant "0x0400" by unfold_locales simp

lemmas layer_codes_differ [simp] =
  protocol_codec.codes_differ protocol_codec.codes_differ [symmetric]
  protocol_transport.codes_differ protocol_transport.codes_differ [symmetric]
  protocol_flow.codes_differ protocol_flow.codes_differ [symmetric]
  codec_transport.codes_differ codec_transport.codes_differ [symmetric]
  codec_flow.codes_differ codec_flow.codes_differ [symmetric]
  transport_flow.codes_differ transport_flow.codes_differ [symmetric]

text \<open>\<open>same_variant e f\<close>: the two errors are the same variant of the same layer.\<close>

fun same_variant :: "laic_error \<Rightarrow> laic_error \<Rightarrow> bool" where
  "same_variant (Protocol e) (Protocol f) = (protocol_discriminant e = protocol_discriminant f)"
| "same_variant (Codec e) (Codec f) = (codec_discriminant e = codec_discriminant f)"
| "same_variant (Transport e) (Transport f) = (transport_discriminant e = transport_discriminant f)"
| "same_variant (Flow e) (Flow f) = (flow_discriminant e = flow_discriminant f)"
| "same_variant _ _ = False"

text \<open>The error every failed connection set-up is mapped to.\<close>

definition connection_failed :: "string \<Rightarrow> laic_error" where
  "connection_failed d = Transport (ConnectionFailed d)"

section \<open>Properties\<close>

text \<open>
  An error code on the wire or in a log identifies the error: two errors have the same numeric
  code exactly when they are the same variant of the same layer, and the high byte of the code names
  the layer.
\<close>

theorem laic_code_identifies:
  "(as_u16 (laic_code e) = as_u16 (laic_code f) \<longleftrightarrow> same_variant e f)
   \<and> as_u16 (laic_code e) AND 0xFF00 =
       (case e of Transport _ \<Rightarrow> 0x0100 | Codec _ \<Rightarrow> 0x0200 | Protocol _ \<Rightarrow> 0x0300 | Flow _ \<Rightarrow> 0x0400)"
proof
  show "as_u16 (laic_code e) = as_u16 (laic_code f) \<longleftrightarrow> same_variant e f"
    by (cases e; cases f)
      (simp_all add: protocol_layer.code_discriminant transport_layer.code_discriminant
        codec_layer.code_discriminant flow_layer.code_discriminant)
  show "as_u16 (laic_code e) AND 0xFF00 =
      (case e of Transport _ \<Rightarrow> 0x0100 | Codec _ \<Rightarrow> 0x0200 | Protocol _ \<Rightarrow> 0x0300 | Flow _ \<Rightarrow> 0x0400)"
    using protocol_layer.code_layer transport_layer.code_layer codec_layer.code_layer flow_layer.code_layer
    by (cases e) simp_all
qed

text \<open>
  The retry classification fails closed: exactly the transient transport failures (connection
  failed or lost, send or receive failed, timeout, backpressure) and exhausted credit are retryable;
  no protocol or codec error, no use of an unconnected or closing transport and no framing error is.
  Since the code identifies the variant, a peer can classify by code alone.
\<close>

theorem retryable_codes:
  "laic_is_retryable e \<longleftrightarrow>
     as_u16 (laic_code e) \<in> {0x0101, 0x0102, 0x0104, 0x0105, 0x0106, 0x0107, 0x0401}"
proof (cases e)
  case (Protocol x)
  then show ?thesis by (cases x) (simp_all add: protocol_is_retryable_def)
next
  case (Codec x)
  then show ?thesis by (cases x) (simp_all add: codec_is_retryable_def)
next
  case (Transport x)
  then show ?thesis by (cases x) simp_all
next
  case (Flow x)
  then show ?thesis by (cases x) simp_all
qed

end
