(* ===== verification/Laic_Constants.thy ===== *)
theory Laic_Constants
  imports Laic_Errors
begin

text \<open>
  \<open>crates/laic/src/protocol/constants.rs\<close>: the magic number and version, the closed enums
  \<open>PayloadFormat\<close> and \<open>Qos\<close> with their byte encodings, the open set of message types, and the
  header flag bits.
\<close>

section \<open>Magic, version, sizes\<close>

definition MAGIC :: u32 where "MAGIC = 0x4C414943"

definition VERSION :: u16 where "VERSION = 0x0001"

definition HEADER_SIZE :: nat where "HEADER_SIZE = 40"

section \<open>Payload formats\<close>

datatype payload_format = Arrow | Protobuf | Raw

fun format_byte :: "payload_format \<Rightarrow> u8" where
  "format_byte Arrow = 0"
| "format_byte Protobuf = 1"
| "format_byte Raw = 2"

definition format_from_u8 :: "u8 \<Rightarrow> protocol_error + payload_format" where
  "format_from_u8 value =
     (if value = 0 then Inr Arrow
      else if value = 1 then Inr Protobuf
      else if value = 2 then Inr Raw
      else Inl (InvalidPayloadFormat value))"

lemma format_from_u8_byte [simp]: "format_from_u8 (format_byte f) = Inr f"
  by (cases f) (simp_all add: format_from_u8_def)

lemma format_from_u8_Inr_iff: "format_from_u8 v = Inr f \<longleftrightarrow> v = format_byte f"
  by (cases f) (auto simp: format_from_u8_def)

lemma format_from_u8_Inl: "format_from_u8 v = Inl e \<Longrightarrow> e = InvalidPayloadFormat v"
  by (auto simp: format_from_u8_def split: if_splits)

section \<open>Quality of service\<close>

datatype qos = Normal | High | Emergency

fun qos_byte :: "qos \<Rightarrow> u8" where
  "qos_byte Normal = 0"
| "qos_byte High = 1"
| "qos_byte Emergency = 2"

definition qos_from_u8 :: "u8 \<Rightarrow> protocol_error + qos" where
  "qos_from_u8 value =
     (if value = 0 then Inr Normal
      else if value = 1 then Inr High
      else if value = 2 then Inr Emergency
      else Inl (InvalidQos value))"

lemma qos_from_u8_byte [simp]: "qos_from_u8 (qos_byte q) = Inr q"
  by (cases q) (simp_all add: qos_from_u8_def)

lemma qos_from_u8_Inr_iff: "qos_from_u8 v = Inr q \<longleftrightarrow> v = qos_byte q"
  by (cases q) (auto simp: qos_from_u8_def)

lemma qos_from_u8_Inl: "qos_from_u8 v = Inl e \<Longrightarrow> e = InvalidQos v"
  by (auto simp: qos_from_u8_def split: if_splits)

text \<open>The priority levels are ordered as their bytes on the wire are.\<close>

instantiation qos :: linorder
begin

definition less_eq_qos :: "qos \<Rightarrow> qos \<Rightarrow> bool" where
  "less_eq_qos p q \<longleftrightarrow> qos_byte p \<le> qos_byte q"

definition less_qos :: "qos \<Rightarrow> qos \<Rightarrow> bool" where
  "less_qos p q \<longleftrightarrow> qos_byte p < qos_byte q"

instance
proof
  fix p q r :: qos
  show "p < q \<longleftrightarrow> p \<le> q \<and> \<not> q \<le> p"
    by (auto simp: less_eq_qos_def less_qos_def)
  show "p \<le> p" by (simp add: less_eq_qos_def)
  show "p \<le> q \<Longrightarrow> q \<le> r \<Longrightarrow> p \<le> r" by (simp add: less_eq_qos_def)
  show "p \<le> q \<Longrightarrow> q \<le> p \<Longrightarrow> p = q"
    by (cases p; cases q) (simp_all add: less_eq_qos_def word_le_nat_alt)
  show "p \<le> q \<or> q \<le> p" by (auto simp: less_eq_qos_def)
qed

end

section \<open>Message types\<close>

datatype msg_type = MsgType u16

fun msg_type_as_u16 :: "msg_type \<Rightarrow> u16" where
  "msg_type_as_u16 (MsgType v) = v"

definition DATA :: msg_type where "DATA = MsgType 0x0001"
definition CONTROL :: msg_type where "CONTROL = MsgType 0x0002"
definition ACK :: msg_type where "ACK = MsgType 0x0003"
definition HEARTBEAT :: msg_type where "HEARTBEAT = MsgType 0x0004"

lemma msg_type_as_u16_inject [simp]: "msg_type_as_u16 s = msg_type_as_u16 t \<longleftrightarrow> s = t"
  by (cases s; cases t) simp

lemma MsgType_as_u16 [simp]: "MsgType (msg_type_as_u16 t) = t"
  by (cases t) simp

section \<open>Header flags\<close>

definition FLAG_COMPRESSED :: u32 where "FLAG_COMPRESSED = push_bit 0 1"
definition FLAG_FRAGMENTED :: u32 where "FLAG_FRAGMENTED = push_bit 1 1"
definition FLAG_ACK_REQUESTED :: u32 where "FLAG_ACK_REQUESTED = push_bit 2 1"
definition FLAG_END_OF_STREAM :: u32 where "FLAG_END_OF_STREAM = push_bit 3 1"
definition FLAG_HAS_CREDIT_GRANT :: u32 where "FLAG_HAS_CREDIT_GRANT = push_bit 4 1"

text \<open>
  A flag is one bit, so setting, clearing and testing it are bit updates; the flags the code
  writes are at different positions.
\<close>

lemma bit_push_one: "n < 32 \<Longrightarrow> bit (push_bit n (1 :: u32)) k \<longleftrightarrow> k = n"
  by (auto simp only: bit_push_bit_iff bit_1_iff) (simp_all add: bit_simps)

lemma bit_end_of_stream [simp]: "bit FLAG_END_OF_STREAM k \<longleftrightarrow> k = 3"
  unfolding FLAG_END_OF_STREAM_def by (rule bit_push_one) simp

lemma bit_has_credit_grant [simp]: "bit FLAG_HAS_CREDIT_GRANT k \<longleftrightarrow> k = 4"
  unfolding FLAG_HAS_CREDIT_GRANT_def by (rule bit_push_one) simp

lemma test_flag:
  fixes flags flag :: u32
  assumes "\<And>k. bit flag k \<longleftrightarrow> k = n"
  shows "flags AND flag = 0 \<longleftrightarrow> \<not> bit flags n"
  using bit_imp_le_length [of flags n]
  by (auto simp: bit_eq_iff [of "flags AND flag" 0] bit_and_iff assms)

lemma test_end_of_stream [simp]: "flags AND FLAG_END_OF_STREAM = 0 \<longleftrightarrow> \<not> bit flags 3"
  by (rule test_flag) simp

lemma test_has_credit_grant [simp]: "flags AND FLAG_HAS_CREDIT_GRANT = 0 \<longleftrightarrow> \<not> bit flags 4"
  by (rule test_flag) simp

end
