(* ===== verification/Laic_Header.thy ===== *)
theory Laic_Header
  imports Laic_Constants
begin

text \<open>
  \<open>crates/laic/src/protocol/header.rs\<close>: the fixed 40-byte message header, its encoder (which
  writes into a caller's buffer) and its decoder. \<open>header_bytes\<close> is the wire layout table of the
  source as one byte list; the encoder and decoder are shown to implement exactly that table.
  The locale \<open>header_codec\<close> is what the framing and IPC layers rely on.
\<close>

section \<open>The header\<close>

record message_header =
  magic :: u32
  version :: u16
  msg_type :: u16
  msg_id :: u64
  correlation_id :: u64
  payload_len :: u32
  payload_format :: u8
  qos :: u8
  credit_grant :: u16
  flags :: u32
  reserved :: bytes

text \<open>\<open>reserved\<close> is a Rust array \<open>[u8; 4]\<close>: a list whose length the type fixes.\<close>

definition header_array_lens :: "message_header \<Rightarrow> bool" where
  "header_array_lens h \<longleftrightarrow> length (reserved h) = 4"

text \<open>The protocol-invariant fields, checked in the source's order.\<close>

definition check_header :: "message_header \<Rightarrow> laic_error + unit" where
  "check_header h =
     (if magic h \<noteq> MAGIC then Inl (Protocol (InvalidMagic (magic h)))
      else if version h \<noteq> VERSION then Inl (Protocol (UnsupportedVersion (version h)))
      else try_bind (map_err Protocol (format_from_u8 (payload_format h))) (\<lambda>_.
           try_bind (map_err Protocol (qos_from_u8 (qos h))) (\<lambda>_. Inr ())))"

section \<open>Encoding\<close>

definition encode :: "message_header \<Rightarrow> bytes \<Rightarrow> (laic_error + unit) \<times> bytes" where
  "encode h buf =
     (if length buf < HEADER_SIZE
      then (Inl (Protocol (BufferTooShort (length buf) HEADER_SIZE)), buf)
      else case check_header h of
        Inl e \<Rightarrow> (Inl e, buf)
      | Inr _ \<Rightarrow>
          (let buf = splice 0 (le_bytes 4 (magic h)) buf;
               buf = splice 4 (le_bytes 2 (version h)) buf;
               buf = splice 6 (le_bytes 2 (msg_type h)) buf;
               buf = splice 8 (le_bytes 8 (msg_id h)) buf;
               buf = splice 16 (le_bytes 8 (correlation_id h)) buf;
               buf = splice 24 (le_bytes 4 (payload_len h)) buf;
               buf = buf[28 := payload_format h];
               buf = buf[29 := qos h];
               buf = splice 30 (le_bytes 2 (credit_grant h)) buf;
               buf = splice 32 (le_bytes 4 (flags h)) buf;
               buf = splice 36 (reserved h) buf
           in (Inr (), buf)))"

text \<open>The wire layout: the table in the source's documentation.\<close>

definition header_bytes :: "message_header \<Rightarrow> bytes" where
  "header_bytes h =
     le_bytes 4 (magic h) @ le_bytes 2 (version h) @ le_bytes 2 (msg_type h)
     @ le_bytes 8 (msg_id h) @ le_bytes 8 (correlation_id h) @ le_bytes 4 (payload_len h)
     @ [payload_format h] @ [qos h] @ le_bytes 2 (credit_grant h) @ le_bytes 4 (flags h)
     @ reserved h"

section \<open>Decoding\<close>

definition decode :: "bytes \<Rightarrow> laic_error + message_header" where
  "decode buf =
     (if length buf < HEADER_SIZE
      then Inl (Protocol (BufferTooShort (length buf) HEADER_SIZE))
      else
        let magic' = of_le_bytes [buf ! 0, buf ! 1, buf ! 2, buf ! 3] in
        if magic' \<noteq> MAGIC then Inl (Protocol (InvalidMagic magic'))
        else
          let version' = of_le_bytes [buf ! 4, buf ! 5] in
          if version' \<noteq> VERSION then Inl (Protocol (UnsupportedVersion version'))
          else
            let format' = buf ! 28 in
            try_bind (map_err Protocol (format_from_u8 format')) (\<lambda>_.
            let qos' = buf ! 29 in
            try_bind (map_err Protocol (qos_from_u8 qos')) (\<lambda>_.
            Inr \<lparr>magic = magic', version = version',
                 msg_type = of_le_bytes [buf ! 6, buf ! 7],
                 msg_id = of_le_bytes [buf ! 8, buf ! 9, buf ! 10, buf ! 11,
                                       buf ! 12, buf ! 13, buf ! 14, buf ! 15],
                 correlation_id = of_le_bytes [buf ! 16, buf ! 17, buf ! 18, buf ! 19,
                                               buf ! 20, buf ! 21, buf ! 22, buf ! 23],
                 payload_len = of_le_bytes [buf ! 24, buf ! 25, buf ! 26, buf ! 27],
                 payload_format = format', qos = qos',
                 credit_grant = of_le_bytes [buf ! 30, buf ! 31],
                 flags = of_le_bytes [buf ! 32, buf ! 33, buf ! 34, buf ! 35],
                 reserved = slice 36 40 buf\<rparr>)))"

section \<open>The encoder writes the layout table\<close>

lemma length_header_bytes [layout_simps]:
  "header_array_lens h \<Longrightarrow> length (header_bytes h) = HEADER_SIZE"
  by (simp add: header_bytes_def header_array_lens_def HEADER_SIZE_def)

lemma encode_layout:
  assumes "HEADER_SIZE \<le> length buf" and "check_header h = Inr ()" and "header_array_lens h"
  shows "encode h buf = (Inr (), header_bytes h @ drop HEADER_SIZE buf)"
proof -
  have len: "length buf \<ge> 40" and res: "length (reserved h) = 4"
    using assms(1,3) by (simp_all add: HEADER_SIZE_def header_array_lens_def)
  have "encode h buf = (Inr (), (((((((((((le_bytes 4 (magic h) @ le_bytes 2 (version h))
      @ le_bytes 2 (msg_type h)) @ le_bytes 8 (msg_id h)) @ le_bytes 8 (correlation_id h))
      @ le_bytes 4 (payload_len h)) @ [payload_format h]) @ [qos h])
      @ le_bytes 2 (credit_grant h)) @ le_bytes 4 (flags h)) @ reserved h) @ drop 40 buf))"
    using assms(2) len res
    by (simp add: encode_def HEADER_SIZE_def Let_def write_steps del: append_assoc)
  then show ?thesis by (simp add: header_bytes_def HEADER_SIZE_def)
qed

lemma encode_ok_iff:
  "fst (encode h buf) = Inr () \<longleftrightarrow> HEADER_SIZE \<le> length buf \<and> check_header h = Inr ()"
  by (auto simp: encode_def Let_def split: sum.splits)

lemma encode_error_keeps_buffer: "encode h buf = (Inl e, buf') \<Longrightarrow> buf' = buf"
  by (auto simp: encode_def Let_def split: sum.splits if_splits)

section \<open>The decoder reads the layout table\<close>

lemma decode_slices:
  assumes "HEADER_SIZE \<le> length buf"
  shows "decode buf =
    (let h = \<lparr>magic = of_le_bytes (slice 0 4 buf), version = of_le_bytes (slice 4 6 buf),
              msg_type = of_le_bytes (slice 6 8 buf), msg_id = of_le_bytes (slice 8 16 buf),
              correlation_id = of_le_bytes (slice 16 24 buf),
              payload_len = of_le_bytes (slice 24 28 buf),
              payload_format = buf ! 28, qos = buf ! 29,
              credit_grant = of_le_bytes (slice 30 32 buf),
              flags = of_le_bytes (slice 32 36 buf), reserved = slice 36 40 buf\<rparr>
     in try_bind (check_header h) (\<lambda>_. Inr h))"
proof -
  have len: "40 \<le> length buf" using assms by (simp add: HEADER_SIZE_def)
  have upto4: "[0..<4] = [0, 1, 2, 3 :: nat]" by code_simp
  have reads:
    "[buf ! 0, buf ! 1, buf ! 2, buf ! 3] = slice 0 4 buf"
    "[buf ! 4, buf ! 5] = slice 4 6 buf"
    "[buf ! 6, buf ! 7] = slice 6 8 buf"
    "[buf ! 8, buf ! 9, buf ! 10, buf ! 11, buf ! 12, buf ! 13, buf ! 14, buf ! 15] = slice 8 16 buf"
    "[buf ! 16, buf ! 17, buf ! 18, buf ! 19, buf ! 20, buf ! 21, buf ! 22, buf ! 23] = slice 16 24 buf"
    "[buf ! 24, buf ! 25, buf ! 26, buf ! 27] = slice 24 28 buf"
    "[buf ! 30, buf ! 31] = slice 30 32 buf"
    "[buf ! 32, buf ! 33, buf ! 34, buf ! 35] = slice 32 36 buf"
    using len map_nth_slice [of 4 buf 0] map_nth_slice [of 6 buf 4] map_nth_slice [of 8 buf 6]
      map_nth_slice [of 16 buf 8] map_nth_slice [of 24 buf 16] map_nth_slice [of 28 buf 24]
      map_nth_slice [of 32 buf 30] map_nth_slice [of 36 buf 32]
    by (simp_all add: upt_rec_numeral upto4 del: slice_0)
  show ?thesis
    using len unfolding decode_def Let_def reads
    by (simp add: HEADER_SIZE_def check_header_def)
qed

lemma header_eta:
  "\<lparr>magic = magic h, version = version h, msg_type = msg_type h, msg_id = msg_id h,
    correlation_id = correlation_id h, payload_len = payload_len h,
    payload_format = payload_format h, qos = qos h, credit_grant = credit_grant h,
    flags = flags h, reserved = reserved h\<rparr> = h"
  by simp

lemma decode_header_bytes:
  assumes "header_array_lens h"
  shows "decode (header_bytes h @ rest) = try_bind (check_header h) (\<lambda>_. Inr h)"
proof -
  have res: "length (reserved h) = 4" using assms by (simp add: header_array_lens_def)
  have slices:
    "slice 0 4 (header_bytes h @ rest) = le_bytes 4 (magic h)"
    "slice 4 6 (header_bytes h @ rest) = le_bytes 2 (version h)"
    "slice 6 8 (header_bytes h @ rest) = le_bytes 2 (msg_type h)"
    "slice 8 16 (header_bytes h @ rest) = le_bytes 8 (msg_id h)"
    "slice 16 24 (header_bytes h @ rest) = le_bytes 8 (correlation_id h)"
    "slice 24 28 (header_bytes h @ rest) = le_bytes 4 (payload_len h)"
    "slice 30 32 (header_bytes h @ rest) = le_bytes 2 (credit_grant h)"
    "slice 32 36 (header_bytes h @ rest) = le_bytes 4 (flags h)"
    "slice 36 40 (header_bytes h @ rest) = reserved h"
    "(header_bytes h @ rest) ! 28 = payload_format h"
    "(header_bytes h @ rest) ! 29 = qos h"
    using res by (simp_all add: slice_def header_bytes_def nth_append)
  have "HEADER_SIZE \<le> length (header_bytes h @ rest)"
    using assms by (simp add: layout_simps)
  then show ?thesis
    by (simp add: decode_slices Let_def slices of_le_bytes_le_bytes header_eta del: slice_0)
qed

lemma decode_ok_check: "decode buf = Inr h \<Longrightarrow> check_header h = Inr () \<and> header_array_lens h"
proof -
  assume ok: "decode buf = Inr h"
  then have "HEADER_SIZE \<le> length buf" by (auto simp: decode_def split: if_splits)
  with ok show ?thesis
    by (auto simp: decode_slices Let_def try_bind_Inr_iff header_array_lens_def HEADER_SIZE_def)
qed

lemma decode_ok_bytes:
  assumes "decode buf = Inr h"
  shows "header_bytes h = take HEADER_SIZE buf"
proof -
  have len: "40 \<le> length buf"
    using assms by (auto simp: decode_def HEADER_SIZE_def split: if_splits)
  then have singles: "[buf ! 28] = slice 28 29 buf" "[buf ! 29] = slice 29 30 buf"
    using slice_single [of 28 buf] slice_single [of 29 buf] by simp_all
  have "header_bytes h = slice 0 4 buf @ slice 4 6 buf @ slice 6 8 buf @ slice 8 16 buf
      @ slice 16 24 buf @ slice 24 28 buf @ slice 28 29 buf @ slice 29 30 buf
      @ slice 30 32 buf @ slice 32 36 buf @ slice 36 40 buf"
    using assms len
    by (auto simp: decode_slices HEADER_SIZE_def Let_def try_bind_Inr_iff header_bytes_def
        le_bytes_of_le_bytes simp flip: singles simp del: slice_0)
  also have "\<dots> = take 40 buf"
    by (simp add: slice_join del: slice_0) simp
  finally show ?thesis by (simp add: HEADER_SIZE_def)
qed

section \<open>The contract of the header codec\<close>

text \<open>
  What the framing and shared-memory layers rely on: encoding a valid header overwrites exactly
  the first \<open>size\<close> bytes of the buffer with its wire form, and decoding accepts exactly the wire
  forms of valid headers.
\<close>

locale header_codec =
  fixes enc :: "'h \<Rightarrow> bytes \<Rightarrow> ('e + unit) \<times> bytes"
    and dec :: "bytes \<Rightarrow> 'e + 'h"
    and wire :: "'h \<Rightarrow> bytes"
    and valid :: "'h \<Rightarrow> bool"
    and size :: nat
  assumes enc_valid: "valid h \<Longrightarrow> size \<le> length buf \<Longrightarrow> enc h buf = (Inr (), wire h @ drop size buf)"
    and wire_length: "valid h \<Longrightarrow> length (wire h) = size"
    and dec_wire: "valid h \<Longrightarrow> dec (wire h @ rest) = Inr h"
    and dec_valid: "dec buf = Inr h \<Longrightarrow> valid h"
    and dec_bytes: "dec buf = Inr h \<Longrightarrow> wire h = take size buf"
begin

lemma enc_exact: "valid h \<Longrightarrow> enc h (replicate size 0) = (Inr (), wire h)"
  by (simp add: enc_valid)

lemma dec_exact: "valid h \<Longrightarrow> dec (wire h) = Inr h"
  using dec_wire [of h "[]"] by simp

lemma dec_length: "dec buf = Inr h \<Longrightarrow> size \<le> length buf"
  using dec_bytes [of buf h] dec_valid [of buf h] wire_length [of h] by auto

lemma dec_split: "dec buf = Inr h \<Longrightarrow> buf = wire h @ drop size buf"
  using dec_bytes [of buf h] by simp

text \<open>No wire form is a prefix of another: a stream of headers parses in one way.\<close>

lemma wire_prefix_free:
  assumes "valid h" and "valid g" and "wire h @ r = wire g @ s"
  shows "h = g \<and> r = s"
proof -
  have "dec (wire h @ r) = Inr h" "dec (wire g @ s) = Inr g" using assms(1,2) by (simp_all add: dec_wire)
  then have "h = g" using assms(3) by simp
  then show ?thesis using assms(3) by simp
qed

end

definition header_ok :: "message_header \<Rightarrow> bool" where
  "header_ok h \<longleftrightarrow> check_header h = Inr () \<and> header_array_lens h"

interpretation hdr: header_codec encode decode header_bytes header_ok HEADER_SIZE
proof
  show "encode h buf = (Inr (), header_bytes h @ drop HEADER_SIZE buf)"
    if "header_ok h" "HEADER_SIZE \<le> length buf" for h buf
    using that by (simp add: header_ok_def encode_layout)
  show "length (header_bytes h) = HEADER_SIZE" if "header_ok h" for h
    using that by (simp add: header_ok_def layout_simps)
  show "decode (header_bytes h @ rest) = Inr h" if "header_ok h" for h rest
    using that by (simp add: header_ok_def decode_header_bytes)
  show "header_ok h" if "decode buf = Inr h" for buf h
    using decode_ok_check [OF that] by (simp add: header_ok_def)
  show "header_bytes h = take HEADER_SIZE buf" if "decode buf = Inr h" for buf h
    using that by (rule decode_ok_bytes)
qed

lemma check_header_ok_iff:
  "check_header h = Inr () \<longleftrightarrow> magic h = MAGIC \<and> version h = VERSION \<and>
     (\<exists>f. payload_format h = format_byte f) \<and> (\<exists>q. qos h = qos_byte q)"
  by (auto simp: check_header_def try_bind_Inr_iff format_from_u8_Inr_iff qos_from_u8_Inr_iff)

lemma check_header_error:
  "check_header h = Inl e \<Longrightarrow>
     e \<in> {Protocol (InvalidMagic (magic h)), Protocol (UnsupportedVersion (version h)),
          Protocol (InvalidPayloadFormat (payload_format h)), Protocol (InvalidQos (qos h))}"
  by (auto simp: check_header_def try_bind_Inl_iff map_err_def dest: format_from_u8_Inl qos_from_u8_Inl
      split: if_splits sum.splits)

section \<open>Properties\<close>

definition sample_header :: message_header where
  "sample_header =
     \<lparr>magic = MAGIC, version = VERSION, msg_type = msg_type_as_u16 DATA,
      msg_id = 0x0102030405060708, correlation_id = 0x1112131415161718, payload_len = 1024,
      payload_format = format_byte Arrow, qos = qos_byte Normal, credit_grant = 10, flags = 0,
      reserved = [0, 0, 0, 0]\<rparr>"

lemma sample_header_ok: "header_ok sample_header"
  by (simp add: sample_header_def header_ok_def check_header_def header_array_lens_def
      format_from_u8_def qos_from_u8_def)

text \<open>
  C12. Header round trip: a header that passes the sender's checks, encoded into any buffer of at
  least 40 bytes, succeeds, decodes from that buffer to the same header, and leaves the bytes after
  the header untouched.
\<close>

theorem header_roundtrip:
  assumes "header_ok h" and "HEADER_SIZE \<le> length buf"
  shows "fst (encode h buf) = Inr () \<and> decode (snd (encode h buf)) = Inr h
     \<and> drop HEADER_SIZE (snd (encode h buf)) = drop HEADER_SIZE buf"
  using assms by (simp add: hdr.enc_valid hdr.dec_wire hdr.wire_length)

theorem header_roundtrip_witness:
  "header_ok sample_header \<and> decode (snd (encode sample_header (replicate 40 7))) = Inr sample_header"
proof -
  have "HEADER_SIZE \<le> length (replicate 40 (7 :: u8))" by (simp add: HEADER_SIZE_def)
  then show ?thesis using header_roundtrip [OF sample_header_ok] sample_header_ok by blast
qed

text \<open>
  Decoding loses nothing: whenever a buffer decodes, the decoded header is valid and re-encoding
  it reproduces the first 40 bytes of the buffer exactly, reserved bytes and unknown flags included.
\<close>

theorem decode_reencode:
  assumes "decode buf = Inr h"
  shows "header_ok h \<and> encode h (replicate HEADER_SIZE 0) = (Inr (), take HEADER_SIZE buf)"
  using hdr.dec_valid [OF assms] hdr.dec_bytes [OF assms] by (simp add: hdr.enc_exact)

theorem decode_reencode_witness:
  "decode (header_bytes sample_header @ [1, 2]) = Inr sample_header \<and>
   encode sample_header (replicate HEADER_SIZE 0) = (Inr (), header_bytes sample_header)"
proof -
  have dec: "decode (header_bytes sample_header @ [1, 2]) = Inr sample_header"
    by (rule hdr.dec_wire) (rule sample_header_ok)
  show ?thesis
    using dec decode_reencode [OF dec] hdr.wire_length [OF sample_header_ok] by simp
qed

lemma wire_magic_iff:
  assumes "40 \<le> length buf"
  shows "of_le_bytes (slice 0 4 buf) = MAGIC \<longleftrightarrow> slice 0 4 buf = [0x43, 0x49, 0x41, 0x4C]"
proof -
  have "le_bytes 4 MAGIC = [0x43, 0x49, 0x41, 0x4C]" by code_simp
  then show ?thesis
    using assms of_le_bytes_le_bytes [of 4 MAGIC] le_bytes_of_le_bytes [of "slice 0 4 buf" 4, where 'a = 32]
    by (auto simp del: slice_0)
qed

lemma wire_version_iff:
  assumes "40 \<le> length buf"
  shows "of_le_bytes (slice 4 6 buf) = VERSION \<longleftrightarrow> slice 4 6 buf = [0x01, 0x00]"
proof -
  have "le_bytes 2 VERSION = [0x01, 0x00]" by code_simp
  then show ?thesis
    using assms of_le_bytes_le_bytes [of 2 VERSION] le_bytes_of_le_bytes [of "slice 4 6 buf" 2, where 'a = 16]
    by auto
qed

lemma is_ok_decode_iff:
  "is_ok (decode buf) \<longleftrightarrow>
     HEADER_SIZE \<le> length buf \<and> take 6 buf = [0x43, 0x49, 0x41, 0x4C, 0x01, 0x00]
     \<and> buf ! 28 \<le> 2 \<and> buf ! 29 \<le> 2"
proof (cases "HEADER_SIZE \<le> length buf")
  case True
  then have len: "40 \<le> length buf" by (simp add: HEADER_SIZE_def)
  note m = wire_magic_iff [OF len] and v = wire_version_iff [OF len]
  have split: "take 6 buf = slice 0 4 buf @ slice 4 6 buf"
    by (simp add: slice_join del: slice_0) simp
  have le2: "\<And>b :: u8. b \<le> 2 \<longleftrightarrow> b = 0 \<or> b = 1 \<or> b = 2"
    by unat_arith
  have f: "(\<exists>f. buf ! 28 = format_byte f) \<longleftrightarrow> buf ! 28 \<le> 2"
    unfolding le2 by (metis format_byte.simps payload_format.exhaust)
  have q: "(\<exists>q. buf ! 29 = qos_byte q) \<longleftrightarrow> buf ! 29 \<le> 2"
    unfolding le2 by (metis qos_byte.simps qos.exhaust)
  have "is_ok (decode buf) \<longleftrightarrow> of_le_bytes (slice 0 4 buf) = MAGIC \<and> of_le_bytes (slice 4 6 buf) = VERSION
      \<and> (\<exists>f. buf ! 28 = format_byte f) \<and> (\<exists>q. buf ! 29 = qos_byte q)"
    using True by (simp add: decode_slices Let_def is_ok_iff try_bind_Inr_iff check_header_ok_iff del: slice_0)
  also have "\<dots> \<longleftrightarrow> take 6 buf = [0x43, 0x49, 0x41, 0x4C, 0x01, 0x00] \<and> buf ! 28 \<le> 2 \<and> buf ! 29 \<le> 2"
    using len by (auto simp: m v f q split append_eq_conv_conj simp del: slice_0)
  finally show ?thesis using True by simp
qed (simp add: decode_def)

lemma small_format: "(2 :: u8) < v \<longleftrightarrow> (\<nexists>f. v = format_byte f)"
proof -
  have "2 < v \<longleftrightarrow> v \<noteq> 0 \<and> v \<noteq> 1 \<and> v \<noteq> 2" by unat_arith
  then show ?thesis by (metis format_byte.simps payload_format.exhaust)
qed

lemma format_from_u8_Inl_iff:
  "format_from_u8 v = Inl e \<longleftrightarrow> (\<nexists>f. v = format_byte f) \<and> e = InvalidPayloadFormat v"
  using format_from_u8_Inr_iff [of v] format_from_u8_Inl [of v]
  by (cases "format_from_u8 v") auto

lemma decode_error:
  assumes "decode buf = Inl e"
  shows "e = Protocol
    (if length buf < 40 then BufferTooShort (length buf) 40
     else if take 4 buf \<noteq> [0x43, 0x49, 0x41, 0x4C] then InvalidMagic (of_le_bytes (take 4 buf))
     else if take 2 (drop 4 buf) \<noteq> [0x01, 0x00] then UnsupportedVersion (of_le_bytes (take 2 (drop 4 buf)))
     else if 2 < buf ! 28 then InvalidPayloadFormat (buf ! 28)
     else InvalidQos (buf ! 29))"
proof (cases "HEADER_SIZE \<le> length buf")
  case True
  then have len: "40 \<le> length buf" by (simp add: HEADER_SIZE_def)
  have s: "slice 0 4 buf = take 4 buf" "slice 4 6 buf = take 2 (drop 4 buf)"
    by (simp_all add: slice_def)
  have verdict: "check_header h = Inl e \<Longrightarrow> e = Protocol
      (if magic h \<noteq> MAGIC then InvalidMagic (magic h)
       else if version h \<noteq> VERSION then UnsupportedVersion (version h)
       else if 2 < payload_format h then InvalidPayloadFormat (payload_format h)
       else InvalidQos (qos h))" for h
    by (auto simp: check_header_def try_bind_Inl_iff map_err_def small_format format_from_u8_Inl_iff
        format_from_u8_Inr_iff dest!: qos_from_u8_Inl split: if_splits sum.splits)
  define h where "h = \<lparr>magic = of_le_bytes (slice 0 4 buf), version = of_le_bytes (slice 4 6 buf),
              msg_type = of_le_bytes (slice 6 8 buf), msg_id = of_le_bytes (slice 8 16 buf),
              correlation_id = of_le_bytes (slice 16 24 buf),
              payload_len = of_le_bytes (slice 24 28 buf),
              payload_format = buf ! 28, qos = buf ! 29,
              credit_grant = of_le_bytes (slice 30 32 buf),
              flags = of_le_bytes (slice 32 36 buf), reserved = slice 36 40 buf\<rparr>"
  have "check_header h = Inl e"
    using assms unfolding decode_slices [OF True] Let_def h_def [symmetric]
    by (simp add: try_bind_Inl_iff)
  note e = verdict [OF this]
  have "magic h = of_le_bytes (slice 0 4 buf)" "version h = of_le_bytes (slice 4 6 buf)"
    "payload_format h = buf ! 28" "qos h = buf ! 29"
    by (simp_all add: h_def)
  with e have "e = Protocol
      (if of_le_bytes (slice 0 4 buf) \<noteq> MAGIC then InvalidMagic (of_le_bytes (slice 0 4 buf))
       else if of_le_bytes (slice 4 6 buf) \<noteq> VERSION then UnsupportedVersion (of_le_bytes (slice 4 6 buf))
       else if 2 < buf ! 28 then InvalidPayloadFormat (buf ! 28) else InvalidQos (buf ! 29))"
    by (simp only:)
  then show ?thesis
    unfolding wire_magic_iff [OF len] wire_version_iff [OF len] unfolding s using len by simp
next
  case False
  then show ?thesis using assms by (simp add: decode_def HEADER_SIZE_def)
qed

text \<open>
  C13. The decoder's verdict on any buffer: it accepts exactly the buffers of 40 bytes or more that start
  with the little-endian magic and version and have a payload format and a QoS byte of at most 2 at
  offsets 28 and 29, every other field being unconstrained, and the header it returns is the one whose wire
  form is the first 40 bytes. Any other buffer is refused with the error of the first of these checks, in
  this order, that fails, carrying the offending length, bytes or byte.
\<close>

theorem decode_verdict:
  "(is_ok (decode buf) \<longleftrightarrow>
      HEADER_SIZE \<le> length buf \<and> take 6 buf = [0x43, 0x49, 0x41, 0x4C, 0x01, 0x00]
      \<and> buf ! 28 \<le> 2 \<and> buf ! 29 \<le> 2)
   \<and> (case decode buf of
        Inr h \<Rightarrow> header_array_lens h \<and> header_bytes h = take 40 buf
      | Inl e \<Rightarrow> e = Protocol
          (if length buf < 40 then BufferTooShort (length buf) 40
           else if take 4 buf \<noteq> [0x43, 0x49, 0x41, 0x4C] then InvalidMagic (of_le_bytes (take 4 buf))
           else if take 2 (drop 4 buf) \<noteq> [0x01, 0x00]
             then UnsupportedVersion (of_le_bytes (take 2 (drop 4 buf)))
           else if 2 < buf ! 28 then InvalidPayloadFormat (buf ! 28)
           else InvalidQos (buf ! 29)))"
  using is_ok_decode_iff [of buf] decode_error [of buf] decode_ok_check [of buf] decode_ok_bytes [of buf]
  by (cases "decode buf") (simp_all add: HEADER_SIZE_def)

text \<open>
  Sender and receiver agree: the encoder's verdict on a header is the decoder's verdict on the
  header's raw bytes, with the same error; so nothing is emitted that the peer's decoder would
  reject, and nothing is refused that it would accept.
\<close>

theorem encode_verdict_is_decode_verdict:
  assumes "header_array_lens h" and "HEADER_SIZE \<le> length buf"
  shows "fst (encode h buf) = try_bind (decode (header_bytes h)) (\<lambda>_. Inr ())"
proof -
  have "decode (header_bytes h) = try_bind (check_header h) (\<lambda>_. Inr h)"
    using decode_header_bytes [OF assms(1), of "[]"] by simp
  then show ?thesis
    using assms by (cases "check_header h") (simp_all add: encode_def Let_def)
qed

theorem encode_verdict_is_decode_verdict_witness:
  "fst (encode (sample_header\<lparr>qos := 7\<rparr>) (replicate 40 0)) = Inl (Protocol (InvalidQos 7))
   \<and> decode (header_bytes (sample_header\<lparr>qos := 7\<rparr>)) = Inl (Protocol (InvalidQos 7))"
proof -
  have lens: "header_array_lens (sample_header\<lparr>qos := 7\<rparr>)"
    by (simp add: header_array_lens_def sample_header_def)
  have dec: "decode (header_bytes (sample_header\<lparr>qos := 7\<rparr>)) = Inl (Protocol (InvalidQos 7))"
    using decode_header_bytes [OF lens, of "[]"]
    by (simp add: check_header_def sample_header_def format_from_u8_def qos_from_u8_def)
  show ?thesis
    using encode_verdict_is_decode_verdict [OF lens, of "replicate 40 0"] dec
    by (simp add: HEADER_SIZE_def)
qed

end
