(* ===== verification/Laic_Message.thy ===== *)
theory Laic_Message
  imports Laic_Header
begin

text \<open>
  \<open>crates/laic/src/protocol/message.rs\<close>: a message is a header and a payload behind private
  fields. The constructors and mutators are the only way to make one, so the invariant the source
  states (\<open>header.payload_len == payload.len()\<close>, valid protocol fields) is an inductive invariant
  of \<open>api_message\<close>, the messages the public operations can produce.
\<close>

section \<open>Operations\<close>

record message =
  header :: message_header
  payload :: bytes

text \<open>\<open>Message::new\<close> panics on a payload longer than \<open>u32::MAX\<close>: \<open>None\<close>.\<close>

definition message_new ::
    "msg_type \<Rightarrow> u64 \<Rightarrow> payload_format \<Rightarrow> qos \<Rightarrow> bytes \<Rightarrow> message option" where
  "message_new t i f q p =
     (if length p < 2 ^ 32
      then Some \<lparr>header =
                   \<lparr>magic = MAGIC, version = VERSION, msg_type = msg_type_as_u16 t, msg_id = i,
                    correlation_id = 0, payload_len = of_nat (length p),
                    payload_format = format_byte f, qos = qos_byte q, credit_grant = 0,
                    flags = 0, reserved = [0, 0, 0, 0]\<rparr>,
                 payload = p\<rparr>
      else None)"

definition from_parts :: "message_header \<Rightarrow> bytes \<Rightarrow> laic_error + message" where
  "from_parts h p =
     try_bind (check_header h) (\<lambda>_.
       if unat (payload_len h) \<noteq> length p
       then Inl (Protocol (PayloadLengthMismatch (payload_len h) (length p)))
       else Inr \<lparr>header = h, payload = p\<rparr>)"

definition set_credit_grant :: "u16 \<Rightarrow> message \<Rightarrow> message" where
  "set_credit_grant credits m =
     (let h = (header m)\<lparr>credit_grant := credits\<rparr>;
          h = (if credits > 0
               then h\<lparr>flags := flags h OR FLAG_HAS_CREDIT_GRANT\<rparr>
               else h\<lparr>flags := flags h AND NOT FLAG_HAS_CREDIT_GRANT\<rparr>)
      in m\<lparr>header := h\<rparr>)"

definition message_type :: "message \<Rightarrow> msg_type" where
  "message_type m = MsgType (msg_type (header m))"

definition set_correlation_id :: "u64 \<Rightarrow> message \<Rightarrow> message" where
  "set_correlation_id i m = m\<lparr>header := (header m)\<lparr>correlation_id := i\<rparr>\<rparr>"

definition set_end_of_stream :: "message \<Rightarrow> message" where
  "set_end_of_stream m =
     m\<lparr>header := (header m)\<lparr>flags := flags (header m) OR FLAG_END_OF_STREAM\<rparr>\<rparr>"

definition clear_end_of_stream :: "message \<Rightarrow> message" where
  "clear_end_of_stream m =
     m\<lparr>header := (header m)\<lparr>flags := flags (header m) AND NOT FLAG_END_OF_STREAM\<rparr>\<rparr>"

definition is_end_of_stream :: "message \<Rightarrow> bool" where
  "is_end_of_stream m \<longleftrightarrow> flags (header m) AND FLAG_END_OF_STREAM \<noteq> 0"

definition into_parts :: "message \<Rightarrow> message_header \<times> bytes" where
  "into_parts m = (header m, payload m)"

definition wire_size :: "message \<Rightarrow> nat" where
  "wire_size m = HEADER_SIZE + length (payload m)"

section \<open>The invariant\<close>

definition message_inv :: "message \<Rightarrow> bool" where
  "message_inv m \<longleftrightarrow> header_ok (header m) \<and> unat (payload_len (header m)) = length (payload m)"

text \<open>
  The messages the public interface can produce. A header argument is a Rust value, so its
  \<open>reserved\<close> array has four bytes.
\<close>

inductive api_message :: "message \<Rightarrow> bool" where
  api_new: "message_new t i f q p = Some m \<Longrightarrow> api_message m"
| api_parts: "header_array_lens h \<Longrightarrow> from_parts h p = Inr m \<Longrightarrow> api_message m"
| api_credit: "api_message m \<Longrightarrow> api_message (set_credit_grant c m)"
| api_correlation: "api_message m \<Longrightarrow> api_message (set_correlation_id i m)"
| api_set_eos: "api_message m \<Longrightarrow> api_message (set_end_of_stream m)"
| api_clear_eos: "api_message m \<Longrightarrow> api_message (clear_end_of_stream m)"

lemma header_ok_update [simp]:
  "header_ok (h\<lparr>credit_grant := c\<rparr>) \<longleftrightarrow> header_ok h"
  "header_ok (h\<lparr>flags := fl\<rparr>) \<longleftrightarrow> header_ok h"
  "header_ok (h\<lparr>correlation_id := i\<rparr>) \<longleftrightarrow> header_ok h"
  by (simp_all add: header_ok_def check_header_def header_array_lens_def)

lemma message_new_Some:
  "message_new t i f q p = Some m \<Longrightarrow>
     payload m = p \<and> length p < 2 ^ 32 \<and> message_type m = t \<and> msg_id (header m) = i
     \<and> correlation_id (header m) = 0 \<and> flags (header m) = 0 \<and> credit_grant (header m) = 0
     \<and> payload_format (header m) = format_byte f \<and> qos (header m) = qos_byte q
     \<and> payload_len (header m) = of_nat (length p)"
  by (auto simp: message_new_def message_type_def split: if_splits)

lemma message_new_inv: "message_new t i f q p = Some m \<Longrightarrow> message_inv m"
  by (auto simp: message_new_def message_inv_def header_ok_def check_header_def
      header_array_lens_def unat_of_nat split: if_splits)

lemma from_parts_Inr:
  "from_parts h p = Inr m \<longleftrightarrow>
     check_header h = Inr () \<and> unat (payload_len h) = length p \<and> m = \<lparr>header = h, payload = p\<rparr>"
  by (auto simp: from_parts_def try_bind_Inr_iff)

lemma from_parts_inv: "header_array_lens h \<Longrightarrow> from_parts h p = Inr m \<Longrightarrow> message_inv m"
  by (auto simp: from_parts_Inr message_inv_def header_ok_def)

lemma set_credit_grant_inv: "message_inv m \<Longrightarrow> message_inv (set_credit_grant c m)"
  by (simp add: message_inv_def set_credit_grant_def Let_def)

lemma set_correlation_id_inv: "message_inv m \<Longrightarrow> message_inv (set_correlation_id i m)"
  by (simp add: message_inv_def set_correlation_id_def)

lemma set_end_of_stream_inv: "message_inv m \<Longrightarrow> message_inv (set_end_of_stream m)"
  by (simp add: message_inv_def set_end_of_stream_def)

lemma clear_end_of_stream_inv: "message_inv m \<Longrightarrow> message_inv (clear_end_of_stream m)"
  by (simp add: message_inv_def clear_end_of_stream_def)

lemmas mutators_inv [simp, intro] =
  set_credit_grant_inv set_correlation_id_inv set_end_of_stream_inv clear_end_of_stream_inv

lemma into_from_parts: "message_inv m \<Longrightarrow> from_parts (header m) (payload m) = Inr m"
  by (simp add: from_parts_Inr message_inv_def header_ok_def)

section \<open>Flags\<close>

text \<open>
  Each mutator writes its own flag bit; \<open>flag_frame n m m'\<close>: the two messages differ in bit \<open>n\<close>
  of the flags at most, and in no other header field but the credit grant.
\<close>

lemma bit_end_of_stream_iff: "is_end_of_stream m \<longleftrightarrow> bit (flags (header m)) 3"
  by (simp add: is_end_of_stream_def)

lemma flags_set_credit_grant:
  "bit (flags (header (set_credit_grant c m))) k \<longleftrightarrow>
     (if k = 4 then c > 0 else bit (flags (header m)) k)"
  using bit_imp_le_length [of "flags (header m)" k]
  by (auto simp: set_credit_grant_def Let_def bit_or_iff bit_and_iff bit_not_iff)

lemma flags_set_end_of_stream:
  "bit (flags (header (set_end_of_stream m))) k \<longleftrightarrow> k = 3 \<or> bit (flags (header m)) k"
  by (auto simp: set_end_of_stream_def bit_or_iff)

lemma flags_clear_end_of_stream:
  "bit (flags (header (clear_end_of_stream m))) k \<longleftrightarrow> k \<noteq> 3 \<and> bit (flags (header m)) k"
  using bit_imp_le_length [of "flags (header m)" k]
  by (auto simp: clear_end_of_stream_def bit_and_iff bit_not_iff)

lemmas flag_bits = bit_end_of_stream_iff flags_set_credit_grant flags_set_end_of_stream
  flags_clear_end_of_stream

section \<open>Properties\<close>

text \<open>
  C14. Message invariant: every message that the public constructors and mutators can produce has
  valid protocol fields and \<open>header.payload_len == payload.len()\<close>; it therefore survives
  decomposition: \<open>from_parts\<close> accepts its parts and rebuilds it.
\<close>

theorem api_message_inv:
  assumes "api_message m"
  shows "message_inv m \<and> (case into_parts m of (h, p) \<Rightarrow> from_parts h p = Inr m)"
proof -
  from assms have "message_inv m"
    by (induction rule: api_message.induct) (auto intro: message_new_inv from_parts_inv)
  then show ?thesis by (simp add: into_parts_def into_from_parts)
qed

definition sample_message :: message where
  "sample_message = \<lparr>header = sample_header\<lparr>payload_len := 3\<rparr>, payload = [1, 2, 3]\<rparr>"

lemma sample_message_parts:
  "from_parts (sample_header\<lparr>payload_len := 3\<rparr>) [1, 2, 3] = Inr sample_message"
  using sample_header_ok
  by (auto simp: from_parts_Inr sample_message_def header_ok_def check_header_def split: if_splits)

lemma sample_message_inv: "message_inv sample_message"
  using from_parts_inv [OF _ sample_message_parts] sample_header_ok
  by (simp add: header_array_lens_def header_ok_def)

theorem api_message_inv_witness:
  "api_message (set_end_of_stream sample_message) \<and> message_inv (set_end_of_stream sample_message)"
proof -
  have "header_array_lens (sample_header\<lparr>payload_len := 3\<rparr>)"
    using sample_header_ok by (simp add: header_array_lens_def header_ok_def)
  then have "api_message (set_end_of_stream sample_message)"
    using sample_message_parts by (intro api_message.intros)
  then show ?thesis using api_message_inv by blast
qed

text \<open>
  Flag independence: setting a credit grant, and setting or clearing end-of-stream, each change
  their own flag bit only. The credit flag is set exactly when the grant is positive, the
  end-of-stream test follows the last set or clear, the payload and its length are untouched.
\<close>

theorem flag_mutators:
  "is_end_of_stream (set_end_of_stream m)
   \<and> \<not> is_end_of_stream (clear_end_of_stream m)
   \<and> is_end_of_stream (set_credit_grant c m) = is_end_of_stream m
   \<and> credit_grant (header (set_credit_grant c m)) = c
   \<and> (flags (header (set_credit_grant c m)) AND FLAG_HAS_CREDIT_GRANT \<noteq> 0) = (c > 0)
   \<and> clear_end_of_stream (set_end_of_stream m) = clear_end_of_stream m
   \<and> set_credit_grant c (set_end_of_stream m) = set_end_of_stream (set_credit_grant c m)
   \<and> payload (set_credit_grant c m) = payload m
   \<and> payload_len (header (set_credit_grant c m)) = payload_len (header m)"
proof -
  have clear: "clear_end_of_stream (set_end_of_stream m) = clear_end_of_stream m"
  proof -
    have "(flags (header m) OR FLAG_END_OF_STREAM) AND NOT FLAG_END_OF_STREAM
        = flags (header m) AND NOT FLAG_END_OF_STREAM"
      by (rule bit_word_eqI) (auto simp: bit_or_iff bit_and_iff bit_not_iff)
    then show ?thesis by (simp add: clear_end_of_stream_def set_end_of_stream_def)
  qed
  have commute: "set_credit_grant c (set_end_of_stream m) = set_end_of_stream (set_credit_grant c m)"
  proof -
    have "(flags (header m) OR FLAG_END_OF_STREAM) AND NOT FLAG_HAS_CREDIT_GRANT
        = (flags (header m) AND NOT FLAG_HAS_CREDIT_GRANT) OR FLAG_END_OF_STREAM"
      by (rule bit_word_eqI) (auto simp: bit_or_iff bit_and_iff bit_not_iff)
    then show ?thesis
      by (simp add: set_credit_grant_def set_end_of_stream_def Let_def ac_simps)
  qed
  show ?thesis
    by (simp add: clear commute flag_bits)
      (simp add: set_credit_grant_def Let_def)
qed

text \<open>
  \<open>from_parts\<close> accepts a decoded header and payload exactly when the four protocol fields are
  valid and the declared length is the real one, and otherwise reports the first violated check in
  the order magic, version, format, QoS, length.
\<close>

theorem from_parts_verdict:
  "from_parts h p =
     (if magic h \<noteq> MAGIC then Inl (Protocol (InvalidMagic (magic h)))
      else if version h \<noteq> VERSION then Inl (Protocol (UnsupportedVersion (version h)))
      else if 2 < payload_format h then Inl (Protocol (InvalidPayloadFormat (payload_format h)))
      else if 2 < qos h then Inl (Protocol (InvalidQos (qos h)))
      else if unat (payload_len h) \<noteq> length p
      then Inl (Protocol (PayloadLengthMismatch (payload_len h) (length p)))
      else Inr \<lparr>header = h, payload = p\<rparr>)"
proof -
  have gt2: "2 < b \<longleftrightarrow> b \<noteq> 0 \<and> b \<noteq> 1 \<and> b \<noteq> 2" for b :: u8
    by unat_arith
  show ?thesis
    by (simp add: from_parts_def check_header_def format_from_u8_def qos_from_u8_def gt2)
qed

end
