(* ===== verification/Laic_Flow.thy ===== *)
theory Laic_Flow
  imports Laic_Errors
begin

text \<open>
  \<open>crates/laic/src/flow.rs\<close>: the sender-side credit controller. The state is one \<open>u16\<close>;
  \<open>acquire\<close> takes a credit or fails, \<open>replenish\<close> adds a grant with saturation. The abstract
  specification is a bounded counter over the natural numbers (\<open>ledger\<close>), which the controller
  refines step by step; runs of operations are lists of \<open>credit_op\<close>.
\<close>

section \<open>Operations\<close>

record credit_controller =
  available :: u16

definition credit_new :: "u16 \<Rightarrow> credit_controller" where
  "credit_new initial_credits = \<lparr>available = initial_credits\<rparr>"

definition acquire :: "credit_controller \<Rightarrow> (flow_error + unit) \<times> credit_controller" where
  "acquire c =
     (if available c = 0 then (Inl CreditExhausted, c)
      else (Inr (), c\<lparr>available := available c - 1\<rparr>))"

text \<open>\<open>u16::saturating_add\<close>.\<close>

definition saturating_add :: "u16 \<Rightarrow> u16 \<Rightarrow> u16" where
  "saturating_add a b = (if unat a + unat b < 2 ^ 16 then a + b else 0xFFFF)"

definition replenish :: "u16 \<Rightarrow> credit_controller \<Rightarrow> credit_controller" where
  "replenish credits c = c\<lparr>available := saturating_add (available c) credits\<rparr>"

section \<open>The abstract ledger\<close>

definition credits :: "credit_controller \<Rightarrow> nat" where
  "credits c = unat (available c)"

definition credit_cap :: nat where "credit_cap = 65535"

lemma unat_saturating_add: "unat (saturating_add a b) = min 65535 (unat a + unat b)"
  by (auto simp: saturating_add_def unat_word_ariths)

lemma credits_new [simp]: "credits (credit_new n) = unat n"
  by (simp add: credits_def credit_new_def)

lemma credits_le_cap: "credits c \<le> credit_cap"
  using unsigned_less [of "available c", where 'a = nat] by (simp add: credits_def credit_cap_def)

lemma credits_replenish [simp]:
  "credits (replenish n c) = min credit_cap (credits c + unat n)"
  by (simp add: credits_def replenish_def unat_saturating_add credit_cap_def)

lemma credits_acquire:
  "acquire c = (r, c') \<Longrightarrow>
     (r = Inl CreditExhausted \<and> credits c = 0 \<and> c' = c) \<or>
     (r = Inr () \<and> credits c = Suc (credits c'))"
  by (auto simp: acquire_def credits_def unat_gt_0 unat_minus_one split: if_splits)

section \<open>Runs\<close>

datatype credit_op = Acquire | Replenish u16

fun credit_step :: "credit_controller \<Rightarrow> credit_op \<Rightarrow> (flow_error + unit) \<times> credit_controller" where
  "credit_step c Acquire = acquire c"
| "credit_step c (Replenish n) = (Inr (), replenish n c)"

text \<open>A run returns the number of sends it allowed and the final controller.\<close>

fun credit_run :: "credit_controller \<Rightarrow> credit_op list \<Rightarrow> nat \<times> credit_controller" where
  "credit_run c [] = (0, c)"
| "credit_run c (Acquire # ops) =
     (let (r, c') = acquire c; (k, c'') = credit_run c' ops
      in (if is_ok r then Suc k else k, c''))"
| "credit_run c (Replenish n # ops) = credit_run (replenish n c) ops"

fun granted :: "credit_op list \<Rightarrow> nat" where
  "granted [] = 0"
| "granted (Acquire # ops) = granted ops"
| "granted (Replenish n # ops) = unat n + granted ops"

text \<open>The ledger: a counter capped at \<open>credit_cap\<close> that refuses to go below zero.\<close>

fun ledger_step :: "nat \<Rightarrow> credit_op \<Rightarrow> bool \<times> nat" where
  "ledger_step n Acquire = (0 < n, n - 1)"
| "ledger_step n (Replenish k) = (True, min credit_cap (n + unat k))"

section \<open>Properties\<close>

text \<open>
  C38. Refinement: every operation of the controller does on its credit count what the capped
  counter does, including the verdict of \<open>acquire\<close>; the subtraction never wraps and the addition
  saturates at 65535.
\<close>

theorem credit_refines_ledger:
  "ledger_step (credits c) op
     = (is_ok (fst (credit_step c op)), credits (snd (credit_step c op)))"
proof (cases op)
  case Acquire
  then show ?thesis using credits_acquire [of c "fst (acquire c)" "snd (acquire c)"] by auto
next
  case (Replenish n)
  then show ?thesis by simp
qed

text \<open>
  Backpressure: over any sequence of operations the controller never allows more sends than its
  initial credits plus everything the peer granted, and what is left never exceeds the difference.
\<close>

theorem credit_conservation:
  "fst (credit_run c ops) + credits (snd (credit_run c ops)) \<le> credits c + granted ops"
proof (induction c ops rule: credit_run.induct)
  case (2 c ops)
  obtain r c' where acq: "acquire c = (r, c')" by fastforce
  obtain k c'' where run: "credit_run c' ops = (k, c'')" by fastforce
  have "k + credits c'' \<le> credits c' + granted ops" using 2 acq run by simp
  then show ?case using credits_acquire [OF acq] acq run by auto
next
  case (3 c n ops)
  then show ?case by simp
qed simp

text \<open>
  No credit is lost before saturation: if the initial credits and all grants together stay
  within 65535, the sends allowed and the credits left account for them exactly.
\<close>

theorem credit_exact_accounting:
  assumes "credits c + granted ops \<le> credit_cap"
  shows "fst (credit_run c ops) + credits (snd (credit_run c ops)) = credits c + granted ops"
  using assms
proof (induction c ops rule: credit_run.induct)
  case (2 c ops)
  obtain r c' where acq: "acquire c = (r, c')" by fastforce
  obtain k c'' where run: "credit_run c' ops = (k, c'')" by fastforce
  have "credits c' + granted ops \<le> credit_cap"
    using credits_acquire [OF acq] "2.prems" by auto
  then have "k + credits c'' = credits c' + granted ops" using "2.IH" acq run by simp
  then show ?case using credits_acquire [OF acq] acq run by auto
next
  case (3 c n ops)
  then show ?case by simp
qed simp

theorem credit_exact_accounting_witness:
  "credits (credit_new 1) + granted [Acquire, Acquire, Replenish 2, Acquire] \<le> credit_cap
   \<and> fst (credit_run (credit_new 1) [Acquire, Acquire, Replenish 2, Acquire])
     + credits (snd (credit_run (credit_new 1) [Acquire, Acquire, Replenish 2, Acquire])) = 3"
proof -
  have h: "credits (credit_new 1) + granted [Acquire, Acquire, Replenish 2, Acquire] \<le> credit_cap"
    by (simp add: credit_cap_def)
  show ?thesis using h credit_exact_accounting [OF h] by simp
qed

end
