(* ===== verification/Laic_Pattern.thy ===== *)
theory Laic_Pattern
  imports Laic_Message
begin

text \<open>
  \<open>crates/laic/src/pattern.rs\<close>: the message constructors and matchers of the three communication
  patterns (Skill RPC, Stream, Topic). A constructor is \<open>None\<close> where \<open>Message::new\<close> panics
  (payload over \<open>u32::MAX\<close> bytes); \<open>skill_response\<close> checks its request before building.
\<close>

section \<open>Message types\<close>

definition SKILL_REQUEST :: msg_type where "SKILL_REQUEST = MsgType 0x0010"
definition SKILL_RESPONSE :: msg_type where "SKILL_RESPONSE = MsgType 0x0011"
definition STREAM_DATA :: msg_type where "STREAM_DATA = MsgType 0x0020"
definition TOPIC_PUBLISH :: msg_type where "TOPIC_PUBLISH = MsgType 0x0030"

lemmas pattern_types = SKILL_REQUEST_def SKILL_RESPONSE_def STREAM_DATA_def TOPIC_PUBLISH_def

section \<open>Matchers and constructors\<close>

definition is_skill_request :: "message \<Rightarrow> bool" where
  "is_skill_request m \<longleftrightarrow> message_type m = SKILL_REQUEST"

definition is_skill_response :: "message \<Rightarrow> bool" where
  "is_skill_response m \<longleftrightarrow> message_type m = SKILL_RESPONSE"

definition is_stream_data :: "message \<Rightarrow> bool" where
  "is_stream_data m \<longleftrightarrow> message_type m = STREAM_DATA"

definition is_topic_publish :: "message \<Rightarrow> bool" where
  "is_topic_publish m \<longleftrightarrow> message_type m = TOPIC_PUBLISH"

definition skill_request :: "u64 \<Rightarrow> payload_format \<Rightarrow> qos \<Rightarrow> bytes \<Rightarrow> message option" where
  "skill_request i f q p = message_new SKILL_REQUEST i f q p"

definition skill_response ::
    "message \<Rightarrow> u64 \<Rightarrow> payload_format \<Rightarrow> qos \<Rightarrow> bytes \<Rightarrow> (laic_error + message) option" where
  "skill_response request response_id f q p =
     (if \<not> is_skill_request request
      then Some (Inl (Protocol (UnexpectedMessageType (msg_type_as_u16 SKILL_REQUEST)
                                  (msg_type_as_u16 (message_type request)))))
      else case message_new SKILL_RESPONSE response_id f q p of
        None \<Rightarrow> None
      | Some m \<Rightarrow> Some (Inr (set_correlation_id (msg_id (header request)) m)))"

definition stream_chunk ::
    "u64 \<Rightarrow> payload_format \<Rightarrow> qos \<Rightarrow> bytes \<Rightarrow> bool \<Rightarrow> message option" where
  "stream_chunk i f q p is_last =
     (case message_new STREAM_DATA i f q p of
        None \<Rightarrow> None
      | Some m \<Rightarrow> Some (if is_last then set_end_of_stream m else m))"

definition topic_publish :: "u64 \<Rightarrow> payload_format \<Rightarrow> qos \<Rightarrow> bytes \<Rightarrow> message option" where
  "topic_publish i f q p = message_new TOPIC_PUBLISH i f q p"

lemmas matchers = is_skill_request_def is_skill_response_def is_stream_data_def is_topic_publish_def

lemma message_type_mutators [simp]:
  "message_type (set_correlation_id i m) = message_type m"
  "message_type (set_end_of_stream m) = message_type m"
  by (simp_all add: message_type_def set_correlation_id_def set_end_of_stream_def)

section \<open>Properties\<close>

text \<open>
  RPC correlation: a response is only ever built from a skill request; it is then a valid skill
  response whose correlation id is the request's message id, with the given id and payload. For any
  other message the error names the type found, whatever the payload.
\<close>

theorem skill_response_correlates:
  assumes "length p < 2 ^ 32"
  shows "case skill_response request rid f q p of
           None \<Rightarrow> False
         | Some (Inl e) \<Rightarrow> \<not> is_skill_request request \<and>
             e = Protocol (UnexpectedMessageType 0x0010 (msg_type (header request)))
         | Some (Inr m) \<Rightarrow> is_skill_request request \<and> is_skill_response m \<and> message_inv m
             \<and> correlation_id (header m) = msg_id (header request)
             \<and> msg_id (header m) = rid \<and> payload m = p"
proof (cases "is_skill_request request")
  case True
  from assms obtain m where m: "message_new SKILL_RESPONSE rid f q p = Some m"
    by (simp add: message_new_def)
  then show ?thesis
    using True message_new_Some [OF m] message_new_inv [OF m]
    by (simp add: skill_response_def matchers) (simp add: set_correlation_id_def)
next
  case False
  then show ?thesis
    by (simp add: skill_response_def message_type_def pattern_types)
qed

definition sample_request :: message where
  "sample_request = the (skill_request 42 Protobuf Normal [1])"

theorem skill_response_correlates_witness:
  "length [2 :: u8] < 2 ^ 32 \<and>
   (case skill_response sample_request 100 Protobuf Normal [2] of
      Some (Inr m) \<Rightarrow> correlation_id (header m) = 42 | _ \<Rightarrow> False)"
proof -
  have h: "length [2 :: u8] < 2 ^ 32" by simp
  have req: "is_skill_request sample_request" "msg_id (header sample_request) = 42"
    by (simp_all add: sample_request_def skill_request_def message_new_def matchers message_type_def)
  show ?thesis
    using h req skill_response_correlates [OF h, of sample_request 100 Protobuf Normal]
    by (auto split: option.splits sum.splits)
qed

text \<open>
  The patterns partition their messages: each constructor's result is recognised by its own
  matcher and by no other, it satisfies the message invariant, and a stream chunk ends the stream
  exactly when it was built as the last one.
\<close>

theorem pattern_constructors_matched:
  "(case skill_request i f q p of
      None \<Rightarrow> 2 ^ 32 \<le> length p
    | Some m \<Rightarrow> message_inv m \<and> is_skill_request m
        \<and> \<not> is_skill_response m \<and> \<not> is_stream_data m \<and> \<not> is_topic_publish m)
   \<and> (case stream_chunk i f q p is_last of
      None \<Rightarrow> 2 ^ 32 \<le> length p
    | Some m \<Rightarrow> message_inv m \<and> is_stream_data m \<and> is_end_of_stream m = is_last
        \<and> \<not> is_skill_request m \<and> \<not> is_skill_response m \<and> \<not> is_topic_publish m)
   \<and> (case topic_publish i f q p of
      None \<Rightarrow> 2 ^ 32 \<le> length p
    | Some m \<Rightarrow> message_inv m \<and> is_topic_publish m
        \<and> \<not> is_skill_request m \<and> \<not> is_skill_response m \<and> \<not> is_stream_data m)"
proof (cases "length p < 2 ^ 32")
  case True
  then obtain r s t where
    r: "message_new SKILL_REQUEST i f q p = Some r" and
    s: "message_new STREAM_DATA i f q p = Some s" and
    t: "message_new TOPIC_PUBLISH i f q p = Some t"
    by (simp add: message_new_def)
  then show ?thesis
    using message_new_Some [OF r] message_new_Some [OF s] message_new_Some [OF t]
      message_new_inv [OF r] message_new_inv [OF s] message_new_inv [OF t]
    by (simp add: skill_request_def stream_chunk_def topic_publish_def matchers pattern_types flag_bits)
next
  case False
  then show ?thesis
    by (simp add: skill_request_def stream_chunk_def topic_publish_def message_new_def)
qed

end
