(* ===== verification/Laic_Framing.thy ===== *)
theory Laic_Framing
  imports Laic_Message
begin

text \<open>
  \<open>crates/laic/src/transport/framing.rs\<close>: reading and writing messages on a byte stream. The
  stream itself is tokio's \<open>AsyncWrite\<close> / \<open>AsyncRead\<close>, code outside the repository, so
  \<open>write_all\<close> and \<open>read_exact\<close> are parameters over an arbitrary stream state; what the code
  relies on is \<open>writer_law\<close> and \<open>reader_law\<close>, the documented behaviour of the two calls.
  \<open>frame_bytes\<close> is the wire format of one message.
\<close>

section \<open>The stream interface\<close>

text \<open>The error of a stream operation is kept as its \<open>to_string()\<close>.\<close>

type_synonym 'w write_all = "bytes \<Rightarrow> 'w \<Rightarrow> (string + unit) \<times> 'w"
type_synonym 'r read_exact = "nat \<Rightarrow> 'r \<Rightarrow> (string + bytes) \<times> 'r"

text \<open>
  \<open>write_all\<close> appends all of its bytes or fails after a prefix of them; \<open>sent w\<close> is everything
  written so far. \<open>read_exact n\<close> takes exactly the next \<open>n\<close> bytes or fails because the stream
  ends before; \<open>pending r\<close> is everything the stream still delivers.
\<close>

definition writer_law :: "'w write_all \<Rightarrow> ('w \<Rightarrow> bytes) \<Rightarrow> bool" where
  "writer_law wr sent \<longleftrightarrow>
     (\<forall>bs w. case wr bs w of
        (Inr _, w') \<Rightarrow> sent w' = sent w @ bs
      | (Inl _, w') \<Rightarrow> \<exists>k. sent w' = sent w @ take k bs)"

definition reader_law :: "'r read_exact \<Rightarrow> ('r \<Rightarrow> bytes) \<Rightarrow> bool" where
  "reader_law rd pending \<longleftrightarrow>
     (\<forall>n r. case rd n r of
        (Inr bs, r') \<Rightarrow> length bs = n \<and> pending r = bs @ pending r'
      | (Inl _, r') \<Rightarrow> length (pending r) < n)"

lemma writer_law_ok: "writer_law wr sent \<Longrightarrow> wr bs w = (Inr u, w') \<Longrightarrow> sent w' = sent w @ bs"
  unfolding writer_law_def by (auto dest!: spec [of _ bs] spec [of _ w])

lemma reader_law_ok:
  "reader_law rd pending \<Longrightarrow> rd n r = (Inr bs, r') \<Longrightarrow> length bs = n \<and> pending r = bs @ pending r'"
  unfolding reader_law_def by (auto dest!: spec [of _ n] spec [of _ r])

lemma reader_law_err: "reader_law rd pending \<Longrightarrow> rd n r = (Inl e, r') \<Longrightarrow> length (pending r) < n"
  unfolding reader_law_def by (auto dest!: spec [of _ n] spec [of _ r])

lemma reader_law_enough:
  assumes "reader_law rd pending" and "pending r = bs @ rest" and "length bs = n"
  shows "\<exists>r'. rd n r = (Inr bs, r') \<and> pending r' = rest"
proof (cases "rd n r")
  case (Pair res r')
  show ?thesis
  proof (cases res)
    case (Inl e)
    then show ?thesis using reader_law_err [OF assms(1), of n r e r'] Pair assms(2,3) by simp
  next
    case (Inr bs')
    then have "length bs' = n" "pending r = bs' @ pending r'"
      using reader_law_ok [OF assms(1), of n r bs' r'] Pair by simp_all
    then have "bs' = bs \<and> pending r' = rest" using assms(2,3) by simp
    then show ?thesis using Pair Inr by simp
  qed
qed

section \<open>Frames\<close>

definition MAX_PAYLOAD_LEN :: u32 where "MAX_PAYLOAD_LEN = 64 * 1024 * 1024"

definition oversized_error :: "u32 \<Rightarrow> laic_error" where
  "oversized_error n =
     Transport (FramingError (''payload length '' @ show_nat (unat n) @ '' exceeds maximum ''
       @ show_nat (unat MAX_PAYLOAD_LEN)))"

definition write_frame :: "'w write_all \<Rightarrow> message \<Rightarrow> 'w \<Rightarrow> (laic_error + unit) \<times> 'w" where
  "write_frame wr m w =
     (if payload_len (header m) > MAX_PAYLOAD_LEN
      then (Inl (oversized_error (payload_len (header m))), w)
      else case encode (header m) (replicate HEADER_SIZE 0) of
        (Inl e, _) \<Rightarrow> (Inl e, w)
      | (Inr _, header_buf) \<Rightarrow>
          (case wr header_buf w of
             (Inl d, w) \<Rightarrow> (Inl (Transport (SendFailed d)), w)
           | (Inr _, w) \<Rightarrow>
               (case wr (payload m) w of
                  (Inl d, w) \<Rightarrow> (Inl (Transport (SendFailed d)), w)
                | (Inr _, w) \<Rightarrow> (Inr (), w))))"

definition read_frame :: "'r read_exact \<Rightarrow> 'r \<Rightarrow> (laic_error + message) \<times> 'r" where
  "read_frame rd r =
     (case rd HEADER_SIZE r of
        (Inl d, r) \<Rightarrow> (Inl (Transport (ReceiveFailed d)), r)
      | (Inr header_buf, r) \<Rightarrow>
          (case decode header_buf of
             Inl e \<Rightarrow> (Inl e, r)
           | Inr h \<Rightarrow>
               if payload_len h > MAX_PAYLOAD_LEN
               then (Inl (oversized_error (payload_len h)), r)
               else if unat (payload_len h) > 0
               then (case rd (unat (payload_len h)) r of
                       (Inl d, r) \<Rightarrow> (Inl (Transport (ReceiveFailed d)), r)
                     | (Inr p, r) \<Rightarrow> (from_parts h p, r))
               else (from_parts h [], r)))"

definition frame_bytes :: "message \<Rightarrow> bytes" where
  "frame_bytes m = header_bytes (header m) @ payload m"

definition within_max :: "message \<Rightarrow> bool" where
  "within_max m \<longleftrightarrow> payload_len (header m) \<le> MAX_PAYLOAD_LEN"

lemma length_frame_bytes: "message_inv m \<Longrightarrow> length (frame_bytes m) = wire_size m"
  by (simp add: frame_bytes_def wire_size_def message_inv_def hdr.wire_length)

lemma from_parts_fields:
  "from_parts h p = Inr m \<Longrightarrow> header m = h \<and> payload m = p \<and> length p = unat (payload_len h)"
  by (auto simp: from_parts_Inr)

lemma from_parts_ok_header:
  "header_ok h \<Longrightarrow> length p = unat (payload_len h) \<Longrightarrow> from_parts h p = Inr \<lparr>header = h, payload = p\<rparr>"
  by (simp add: from_parts_Inr header_ok_def)

text \<open>A successful write puts the frame on the stream; a valid message fails only on I/O or size.\<close>

lemma write_frame_ok:
  assumes law: "writer_law wr sent" and inv: "message_inv m"
    and ok: "write_frame wr m w = (Inr (), w')"
  shows "sent w' = sent w @ frame_bytes m \<and> within_max m"
proof -
  have enc: "encode (header m) (replicate HEADER_SIZE 0) = (Inr (), header_bytes (header m))"
    using inv by (simp add: message_inv_def hdr.enc_exact)
  have small: "\<not> payload_len (header m) > MAX_PAYLOAD_LEN"
    using ok by (auto simp: write_frame_def split: if_splits)
  obtain w1 u1 u2 where "wr (header_bytes (header m)) w = (Inr u1, w1)" "wr (payload m) w1 = (Inr u2, w')"
    using ok small by (auto simp: write_frame_def enc split: prod.splits sum.splits)
  then show ?thesis
    using writer_law_ok [OF law] small by (simp add: frame_bytes_def within_max_def not_less)
qed

text \<open>Reading consumes exactly the frame of the message it returns.\<close>

lemma read_frame_ok:
  assumes law: "reader_law rd pending" and ok: "read_frame rd r = (Inr m, r')"
  shows "message_inv m \<and> within_max m \<and> pending r = frame_bytes m @ pending r'"
proof -
  obtain buf r1 h where buf: "rd HEADER_SIZE r = (Inr buf, r1)" and h: "decode buf = Inr h"
    and small: "\<not> payload_len h > MAX_PAYLOAD_LEN"
    using ok by (auto simp: read_frame_def split: prod.splits sum.splits if_splits)
  have hok: "header_ok h" using h by (rule hdr.dec_valid)
  have pend: "length buf = HEADER_SIZE" "pending r = buf @ pending r1"
    using reader_law_ok [OF law buf] by simp_all
  have bufh: "buf = header_bytes h" using hdr.dec_bytes [OF h] pend(1) by simp
  have "header m = h \<and> unat (payload_len h) = length (payload m) \<and> pending r1 = payload m @ pending r'"
  proof (cases "unat (payload_len h) > 0")
    case True
    then obtain p where p: "rd (unat (payload_len h)) r1 = (Inr p, r')" and m: "from_parts h p = Inr m"
      using ok buf h small by (auto simp: read_frame_def split: prod.splits sum.splits)
    then show ?thesis using reader_law_ok [OF law p] from_parts_fields [OF m] by simp
  next
    case False
    then have m: "from_parts h [] = Inr m" and r': "r' = r1"
      using ok buf h small by (auto simp: read_frame_def)
    then show ?thesis using from_parts_fields [OF m] by simp
  qed
  then show ?thesis
    using hok pend(2) bufh small
    by (auto simp: message_inv_def within_max_def frame_bytes_def not_less)
qed

text \<open>And a stream that starts with the frame of a valid message yields that message.\<close>

lemma read_frame_frame_bytes:
  assumes law: "reader_law rd pending" and inv: "message_inv m" and max: "within_max m"
    and pend: "pending r = frame_bytes m @ rest"
  shows "\<exists>r'. read_frame rd r = (Inr m, r') \<and> pending r' = rest"
proof -
  let ?h = "header m"
  have hok: "header_ok ?h" and len: "unat (payload_len ?h) = length (payload m)"
    using inv by (simp_all add: message_inv_def)
  obtain r1 where r1: "rd HEADER_SIZE r = (Inr (header_bytes ?h), r1)" "pending r1 = payload m @ rest"
    using reader_law_enough [OF law, of r "header_bytes ?h" "payload m @ rest"] pend hok
    by (auto simp: frame_bytes_def hdr.wire_length)
  have dec: "decode (header_bytes ?h) = Inr ?h" using hok by (rule hdr.dec_exact)
  have parts: "from_parts ?h (payload m) = Inr m" using inv by (rule into_from_parts)
  have small: "\<not> payload_len ?h > MAX_PAYLOAD_LEN" using max by (simp add: within_max_def not_less)
  show ?thesis
  proof (cases "payload m = []")
    case True
    then show ?thesis using r1 dec parts small len by (simp add: read_frame_def)
  next
    case False
    then have pos: "unat (payload_len ?h) > 0" using len by simp
    obtain r2 where "rd (unat (payload_len ?h)) r1 = (Inr (payload m), r2)" "pending r2 = rest"
      using reader_law_enough [OF law r1(2), of "unat (payload_len ?h)"] len by auto
    then show ?thesis using r1(1) dec parts small pos by (simp add: read_frame_def)
  qed
qed

text \<open>How a write fails.\<close>

lemma write_frame_error:
  assumes "writer_law wr sent" and "message_inv m" and "write_frame wr m w = (Inl e, w')"
  shows "(\<not> within_max m \<and> e = oversized_error (payload_len (header m)) \<and> w' = w)
    \<or> (within_max m \<and> (\<exists>d k. e = Transport (SendFailed d) \<and> sent w' = sent w @ take k (frame_bytes m)))"
proof (cases "within_max m")
  case False
  then show ?thesis using assms(3) by (simp add: write_frame_def within_max_def not_le)
next
  case True
  have enc: "encode (header m) (replicate HEADER_SIZE 0) = (Inr (), header_bytes (header m))"
    using assms(2) by (simp add: message_inv_def hdr.enc_exact)
  have err: "\<exists>k. sent w2 = sent w1 @ take k bs" if "wr bs w1 = (Inl d, w2)" for bs w1 d w2
    using assms(1) that unfolding writer_law_def by (auto dest!: spec [of _ bs] spec [of _ w1])
  obtain res w1 where wr1: "wr (header_bytes (header m)) w = (res, w1)" by fastforce
  have small: "\<not> payload_len (header m) > MAX_PAYLOAD_LEN" using True by (simp add: within_max_def not_less)
  show ?thesis
  proof (cases res)
    case (Inl d)
    then have "e = Transport (SendFailed d) \<and> w' = w1"
      using assms(3) small enc wr1 by (simp add: write_frame_def)
    moreover from Inl obtain k where "sent w1 = sent w @ take k (header_bytes (header m))" using err wr1 by blast
    then have "sent w1 = sent w @ take (min k (length (header_bytes (header m)))) (frame_bytes m)"
      by (simp add: frame_bytes_def min_def)
    ultimately show ?thesis using True by blast
  next
    case (Inr u)
    then have sent1: "sent w1 = sent w @ header_bytes (header m)"
      using writer_law_ok [OF assms(1)] wr1 by blast
    obtain d where wr2: "wr (payload m) w1 = (Inl d, w')" "e = Transport (SendFailed d)"
      using assms(3) small enc wr1 Inr by (auto simp: write_frame_def split: prod.splits sum.splits)
    then obtain k where "sent w' = sent w1 @ take k (payload m)" using err by blast
    then have "sent w' = sent w @ take (length (header_bytes (header m)) + k) (frame_bytes m)"
      by (simp add: sent1 frame_bytes_def)
    then show ?thesis using True wr2(2) by blast
  qed
qed

text \<open>Sequences of frames: a sender's and a receiver's loop, stopping at the first error.\<close>

fun write_frames :: "'w write_all \<Rightarrow> message list \<Rightarrow> 'w \<Rightarrow> (laic_error + unit) \<times> 'w" where
  "write_frames wr [] w = (Inr (), w)"
| "write_frames wr (m # ms) w =
     (case write_frame wr m w of
        (Inl e, w) \<Rightarrow> (Inl e, w)
      | (Inr _, w) \<Rightarrow> write_frames wr ms w)"

fun read_frames :: "'r read_exact \<Rightarrow> nat \<Rightarrow> 'r \<Rightarrow> (laic_error + message list) \<times> 'r" where
  "read_frames rd 0 r = (Inr [], r)"
| "read_frames rd (Suc n) r =
     (case read_frame rd r of
        (Inl e, r) \<Rightarrow> (Inl e, r)
      | (Inr m, r) \<Rightarrow>
          (case read_frames rd n r of
             (Inl e, r) \<Rightarrow> (Inl e, r)
           | (Inr ms, r) \<Rightarrow> (Inr (m # ms), r)))"

lemma write_frames_ok:
  assumes "writer_law wr sent" and "list_all message_inv ms" and "write_frames wr ms w = (Inr (), w')"
  shows "sent w' = sent w @ concat (map frame_bytes ms) \<and> list_all within_max ms"
  using assms(2,3)
proof (induction ms arbitrary: w)
  case (Cons m ms)
  then obtain w1 where "write_frame wr m w = (Inr (), w1)" "write_frames wr ms w1 = (Inr (), w')"
    by (auto split: prod.splits sum.splits)
  then show ?case using write_frame_ok [OF assms(1)] Cons by auto
qed simp

lemma read_frames_concat:
  assumes "reader_law rd pending" and "list_all message_inv ms" and "list_all within_max ms"
    and "pending r = concat (map frame_bytes ms) @ rest"
  shows "\<exists>r'. read_frames rd (length ms) r = (Inr ms, r') \<and> pending r' = rest"
  using assms(2-)
proof (induction ms arbitrary: r)
  case (Cons m ms)
  obtain r1 where "read_frame rd r = (Inr m, r1)" "pending r1 = concat (map frame_bytes ms) @ rest"
    using read_frame_frame_bytes [OF assms(1), of m r "concat (map frame_bytes ms) @ rest"] Cons.prems
    by auto
  moreover obtain r2 where "read_frames rd (length ms) r1 = (Inr ms, r2)" "pending r2 = rest"
    using Cons.IH [of r1] Cons.prems calculation(2) by auto
  ultimately show ?case by simp
qed simp

section \<open>An in-memory stream\<close>

text \<open>A byte buffer as a stream: the instance used by the witnesses.\<close>

definition mem_write :: "bytes write_all" where
  "mem_write bs w = (Inr (), w @ bs)"

definition mem_read :: "bytes read_exact" where
  "mem_read n r = (if n \<le> length r then (Inr (take n r), drop n r) else (Inl ''early eof'', []))"

lemma mem_write_law: "writer_law mem_write (\<lambda>w. w)"
  by (simp add: writer_law_def mem_write_def)

lemma mem_read_law: "reader_law mem_read (\<lambda>r. r)"
  by (simp add: reader_law_def mem_read_def)

section \<open>Properties\<close>

text \<open>
  C1. Stream round trip: if a sender writes any sequence of valid messages successfully, then a
  receiver whose stream delivers those bytes, followed by anything else, reads back exactly those
  messages in order, and has consumed exactly their frames.
\<close>

theorem frames_roundtrip:
  assumes "writer_law wr sent" and "reader_law rd pending" and "list_all message_inv ms"
    and "write_frames wr ms w = (Inr (), w')"
    and "sent w' = sent w @ delivered" and "pending r = delivered @ rest"
  shows "\<exists>r'. read_frames rd (length ms) r = (Inr ms, r') \<and> pending r' = rest"
  using write_frames_ok [OF assms(1,3,4)] read_frames_concat [OF assms(2,3), of r rest] assms(5,6)
  by simp

lemma sample_frame_small: "within_max sample_message"
  by (simp add: within_max_def sample_message_def MAX_PAYLOAD_LEN_def word_le_nat_alt)

lemma mem_write_frame:
  assumes "message_inv m" and "within_max m"
  shows "write_frame mem_write m w = (Inr (), w @ frame_bytes m)"
proof -
  have "encode (header m) (replicate HEADER_SIZE 0) = (Inr (), header_bytes (header m))"
    using assms(1) by (simp add: message_inv_def hdr.enc_exact)
  then show ?thesis
    using assms(2)
    by (simp add: write_frame_def within_max_def not_less [symmetric] mem_write_def frame_bytes_def)
qed

theorem frames_roundtrip_witness:
  "\<exists>r'. write_frames mem_write [sample_message, sample_message] [] =
          (Inr (), frame_bytes sample_message @ frame_bytes sample_message)
     \<and> read_frames mem_read 2 (frame_bytes sample_message @ frame_bytes sample_message @ [9])
          = (Inr [sample_message, sample_message], r') \<and> r' = [9]"
proof -
  note w = mem_write_frame [OF sample_message_inv sample_frame_small]
  have wrote: "write_frames mem_write [sample_message, sample_message] [] =
      (Inr (), frame_bytes sample_message @ frame_bytes sample_message)"
    by (simp add: w)
  have valid: "list_all message_inv [sample_message, sample_message]"
    by (simp add: sample_message_inv)
  show ?thesis
    using wrote frames_roundtrip [OF mem_write_law mem_read_law valid wrote,
        of "frame_bytes sample_message @ frame_bytes sample_message" _ "[9]"]
    by (simp add: numeral_2_eq_2)
qed

text \<open>
  C5. What the reader returns is trustworthy: a message read from any stream, hostile or not,
  satisfies the message invariant, has at most 64 MiB of payload, and the bytes consumed are exactly
  its frame, so the next frame is read from where this one ends.
\<close>

theorem read_frame_sound:
  assumes "reader_law rd pending" and "read_frame rd r = (Inr m, r')"
  shows "message_inv m \<and> length (payload m) \<le> 64 * 1024 * 1024
     \<and> pending r = frame_bytes m @ pending r'"
proof -
  have ok: "message_inv m" "within_max m" "pending r = frame_bytes m @ pending r'"
    using read_frame_ok [OF assms] by simp_all
  have "unat (payload_len (header m)) \<le> unat MAX_PAYLOAD_LEN"
    using ok(2) by (simp add: within_max_def word_le_nat_alt)
  then show ?thesis using ok by (simp add: message_inv_def MAX_PAYLOAD_LEN_def)
qed

theorem read_frame_sound_witness:
  "read_frame mem_read (frame_bytes sample_message) = (Inr sample_message, []) \<and> message_inv sample_message"
proof -
  obtain r' where "read_frame mem_read (frame_bytes sample_message) = (Inr sample_message, r')" "r' = []"
    using read_frame_frame_bytes [OF mem_read_law sample_message_inv sample_frame_small, of _ "[]"]
    by auto
  then show ?thesis using read_frame_sound [OF mem_read_law] by blast
qed

lemma read_frame_payload_error:
  assumes rd: "reader_law rd pending" and "read_frame rd r = (Inl e, r')"
    and rd1: "rd HEADER_SIZE r = (Inr buf, r1)" and dec: "decode buf = Inr h" and hok: "header_ok h"
    and small: "\<not> payload_len h > MAX_PAYLOAD_LEN"
  shows "length (pending r1) < unat (payload_len h) \<and> (\<exists>d. e = Transport (ReceiveFailed d))"
proof -
  have pos: "unat (payload_len h) > 0"
    using assms(2) rd1 dec small from_parts_ok_header [OF hok, of "[]"]
    by (auto simp: read_frame_def split: if_splits)
  obtain res r2 where rd2: "rd (unat (payload_len h)) r1 = (res, r2)" by fastforce
  have result: "read_frame rd r = (case res of
      Inl d \<Rightarrow> (Inl (Transport (ReceiveFailed d)), r2) | Inr p \<Rightarrow> (from_parts h p, r2))"
    using rd1 dec small pos rd2 by (simp add: read_frame_def)
  show ?thesis
  proof (cases res)
    case (Inl d)
    then show ?thesis using reader_law_err [OF rd] rd2 result assms(2) by auto
  next
    case (Inr p)
    then have "length p = unat (payload_len h)" using reader_law_ok [OF rd] rd2 by blast
    then show ?thesis using from_parts_ok_header [OF hok] result Inr assms(2) by simp
  qed
qed

text \<open>
  C11. Every way a read can fail, in terms of the bytes on the stream: the stream ends inside the
  header; the header is rejected by the decoder, with the decoder's error; the declared length is
  over the maximum (a framing error, before any payload is read); or the stream ends inside the
  payload.
\<close>

theorem read_frame_errors:
  assumes "reader_law rd pending" and "read_frame rd r = (Inl e, r')"
  shows "(length (pending r) < HEADER_SIZE \<and> (\<exists>d. e = Transport (ReceiveFailed d)))
    \<or> decode (take HEADER_SIZE (pending r)) = Inl e
    \<or> (\<exists>h. decode (take HEADER_SIZE (pending r)) = Inr h \<and> payload_len h > MAX_PAYLOAD_LEN
          \<and> e = oversized_error (payload_len h) \<and> pending r = header_bytes h @ pending r')
    \<or> (\<exists>h d. decode (take HEADER_SIZE (pending r)) = Inr h \<and> payload_len h \<le> MAX_PAYLOAD_LEN
          \<and> length (pending r) < HEADER_SIZE + unat (payload_len h)
          \<and> e = Transport (ReceiveFailed d))"
proof -
  obtain res r1 where rd1: "rd HEADER_SIZE r = (res, r1)" by fastforce
  show ?thesis
  proof (cases res)
    case (Inl d)
    then show ?thesis using assms reader_law_err [OF assms(1)] rd1 by (auto simp: read_frame_def)
  next
    case (Inr buf)
    then have len: "length buf = HEADER_SIZE" and pend: "pending r = buf @ pending r1"
      using reader_law_ok [OF assms(1)] rd1 by blast+
    have tk: "take HEADER_SIZE (pending r) = buf" using len pend by simp
    show ?thesis
    proof (cases "decode buf")
      case (Inl e')
      then show ?thesis using assms(2) rd1 Inr tk by (simp add: read_frame_def)
    next
      case dec: (Inr h)
      have hok: "header_ok h" and wire: "header_bytes h = buf"
        using hdr.dec_valid [OF dec] hdr.dec_bytes [OF dec] len by simp_all
      show ?thesis
      proof (cases "payload_len h > MAX_PAYLOAD_LEN")
        case True
        then show ?thesis using assms(2) rd1 Inr dec tk pend wire by (simp add: read_frame_def)
      next
        case small: False
        then have "length (pending r1) < unat (payload_len h) \<and> (\<exists>d. e = Transport (ReceiveFailed d))"
          using read_frame_payload_error [OF assms] rd1 Inr dec hok by blast
        then show ?thesis using dec tk small pend len by (auto simp: not_less)
      qed
    qed
  qed
qed

theorem read_frame_errors_witness:
  "read_frame mem_read [1, 2, 3] = (Inl (Transport (ReceiveFailed ''early eof'')), [])
   \<and> length [1 :: u8, 2, 3] < HEADER_SIZE"
proof -
  have rd: "read_frame mem_read [1, 2, 3] = (Inl (Transport (ReceiveFailed ''early eof'')), [])"
    by (simp add: read_frame_def mem_read_def HEADER_SIZE_def)
  show ?thesis using read_frame_errors [OF mem_read_law rd] rd by (simp add: HEADER_SIZE_def)
qed

text \<open>
  C40. Allocation bound: whatever a peer declares, \<open>read_frame\<close> never asks the stream for more than
  the 40 header bytes or 64 MiB of payload at a time: it cannot tell apart two streams that agree on
  all smaller requests.
\<close>

theorem read_frame_bounded_requests:
  assumes "\<And>n s. n \<le> 64 * 1024 * 1024 \<Longrightarrow> rd n s = rd' n s"
  shows "read_frame rd r = read_frame rd' r"
proof -
  have "rd HEADER_SIZE s = rd' HEADER_SIZE s" for s
    by (rule assms) (simp add: HEADER_SIZE_def)
  moreover have "rd (unat n) s = rd' (unat n) s" if "\<not> n > MAX_PAYLOAD_LEN" for n s
    using that by (intro assms) (simp add: not_less word_le_nat_alt MAX_PAYLOAD_LEN_def)
  ultimately show ?thesis
    by (auto simp: read_frame_def split: prod.splits sum.splits)
qed

definition capped_read :: "bytes read_exact" where
  "capped_read n r = (if n \<le> 64 * 1024 * 1024 then mem_read n r else (Inl ''refused'', r))"

theorem read_frame_bounded_requests_witness:
  "capped_read (64 * 1024 * 1024 + 1) [] \<noteq> mem_read (64 * 1024 * 1024 + 1) []
   \<and> read_frame capped_read [1, 2, 3] = read_frame mem_read [1, 2, 3]"
proof -
  have "read_frame capped_read r = read_frame mem_read r" for r
    by (rule read_frame_bounded_requests) (simp add: capped_read_def)
  then show ?thesis by (simp add: capped_read_def mem_read_def)
qed

text \<open>
  The writer is symmetric with the reader: a valid message over 64 MiB is refused with the
  framing error before a byte is written, and when a write fails on I/O what reached the stream is a
  prefix of the message's frame.
\<close>

theorem write_frame_failure:
  assumes "writer_law wr sent" and "message_inv m" and "write_frame wr m w = (Inl e, w')"
  shows "(\<not> within_max m \<and> e = oversized_error (payload_len (header m)) \<and> w' = w)
    \<or> (within_max m \<and> (\<exists>d k. e = Transport (SendFailed d) \<and> sent w' = sent w @ take k (frame_bytes m)))"
  using assms by (rule write_frame_error)

definition full_disk :: "bytes write_all" where
  "full_disk bs w = (Inl ''disk full'', w @ take 10 bs)"

theorem write_frame_failure_witness:
  "writer_law full_disk (\<lambda>w. w) \<and>
   (\<exists>k. snd (write_frame full_disk sample_message []) = take k (frame_bytes sample_message))"
proof -
  have law: "writer_law full_disk (\<lambda>w. w)" by (auto simp: writer_law_def full_disk_def)
  have enc: "encode (header sample_message) (replicate HEADER_SIZE 0)
      = (Inr (), header_bytes (header sample_message))"
    using sample_message_inv by (simp add: message_inv_def hdr.enc_exact)
  have fail: "write_frame full_disk sample_message []
      = (Inl (Transport (SendFailed ''disk full'')), take 10 (header_bytes (header sample_message)))"
    using sample_frame_small enc
    by (simp add: write_frame_def full_disk_def within_max_def not_less [symmetric])
  show ?thesis
    using law fail write_frame_failure [OF law sample_message_inv fail] sample_frame_small by auto
qed

end
