(* ===== verification/Laic_Lifecycle.thy ===== *)
theory Laic_Lifecycle
  imports Laic_Errors
begin

text \<open>
  The lifecycle contract of \<open>crates/laic/src/transport/mod.rs\<close> (\<open># Lifecycle Contract\<close>): open,
  send and receive, close; after \<open>close\<close>, \<open>send\<close> and \<open>receive\<close> answer \<open>ShuttingDown\<close> and a repeated
  \<open>close\<close> succeeds (it is documented to be idempotent). The locale is
  the interface all message channels of the crate provide (IPC, QUIC, the \<open>Transport\<close> facade,
  the emergency channel); each interprets it in its own theory, and the gateway and the facade
  rest on it.
\<close>

section \<open>Histories of a connection\<close>

text \<open>
  \<open>receive\<close> may never return (it polls or awaits), which is \<open>None\<close>.
\<close>

datatype 'm conn_op = OpSend 'm | OpReceive | OpClose

datatype 'm op_result =
    Sent "laic_error + unit"
  | Received "laic_error + 'm"
  | Closed "laic_error + unit"

fun conn_run ::
    "('m \<Rightarrow> 's \<Rightarrow> (laic_error + unit) \<times> 's) \<Rightarrow> ('s \<Rightarrow> ((laic_error + 'm) \<times> 's) option)
     \<Rightarrow> ('s \<Rightarrow> (laic_error + unit) \<times> 's) \<Rightarrow> 'm conn_op list \<Rightarrow> 's
     \<Rightarrow> ('m op_result list \<times> 's) option" where
  "conn_run sf rf cf [] s = Some ([], s)"
| "conn_run sf rf cf (OpSend m # ops) s =
     (case sf m s of (r, s) \<Rightarrow>
        map_option (\<lambda>(rs, s). (Sent r # rs, s)) (conn_run sf rf cf ops s))"
| "conn_run sf rf cf (OpReceive # ops) s =
     (case rf s of
        None \<Rightarrow> None
      | Some (r, s) \<Rightarrow> map_option (\<lambda>(rs, s). (Received r # rs, s)) (conn_run sf rf cf ops s))"
| "conn_run sf rf cf (OpClose # ops) s =
     (case cf s of (r, s) \<Rightarrow>
        map_option (\<lambda>(rs, s). (Closed r # rs, s)) (conn_run sf rf cf ops s))"

text \<open>What a closed connection answers.\<close>

fun closed_answer :: "'m conn_op \<Rightarrow> 'm op_result" where
  "closed_answer (OpSend m) = Sent (Inl (Transport ShuttingDown))"
| "closed_answer OpReceive = Received (Inl (Transport ShuttingDown))"
| "closed_answer OpClose = Closed (Inr ())"

lemma conn_run_append:
  "conn_run sf rf cf (ops @ ops') s =
     (case conn_run sf rf cf ops s of
        None \<Rightarrow> None
      | Some (rs, s') \<Rightarrow> map_option (\<lambda>(rs', s''). (rs @ rs', s'')) (conn_run sf rf cf ops' s'))"
proof (induction ops arbitrary: s)
  case Nil
  then show ?case by (cases "conn_run sf rf cf ops' s") auto
next
  case (Cons op ops)
  then show ?case
    by (cases op) (auto simp: option.map_comp comp_def case_prod_unfold split: option.splits)
qed

section \<open>The contract\<close>

locale connection_lifecycle =
  fixes send :: "'m \<Rightarrow> 's \<Rightarrow> (laic_error + unit) \<times> 's"
    and receive :: "'s \<Rightarrow> ((laic_error + 'm) \<times> 's) option"
    and close :: "'s \<Rightarrow> (laic_error + unit) \<times> 's"
    and is_closed :: "'s \<Rightarrow> bool"
  assumes send_closed: "is_closed s \<Longrightarrow> send m s = (Inl (Transport ShuttingDown), s)"
    and receive_closed: "is_closed s \<Longrightarrow> receive s = Some (Inl (Transport ShuttingDown), s)"
    and close_closed: "is_closed s \<Longrightarrow> close s = (Inr (), s)"
    and close_closes: "close s = (r, s') \<Longrightarrow> is_closed s'"
    and send_keeps_open: "send m s = (r, s') \<Longrightarrow> is_closed s' = is_closed s"
    and receive_keeps_open: "receive s = Some (r', s') \<Longrightarrow> is_closed s' = is_closed s"
begin

lemma closed_run: "is_closed s \<Longrightarrow> conn_run send receive close ops s = Some (map closed_answer ops, s)"
proof (induction ops)
  case (Cons op ops)
  then show ?case by (cases op) (simp_all add: send_closed receive_closed close_closed)
qed simp

lemma run_with_close:
  assumes "conn_run send receive close ops s = Some (rs, s1)" and "close s1 = (r, s')"
  shows "conn_run send receive close (ops @ OpClose # ops') s = Some (rs @ Closed r # map closed_answer ops', s')
    \<and> is_closed s'"
  using assms closed_run [OF close_closes [OF assms(2)], of ops'] close_closes [OF assms(2)]
  by (simp add: conn_run_append)

lemma open_until_close:
  assumes "conn_run send receive close ops s = Some (rs, s')" and "OpClose \<notin> set ops"
  shows "is_closed s' = is_closed s"
  using assms
proof (induction ops arbitrary: s rs)
  case (Cons op ops)
  show ?case
  proof (cases op)
    case (OpSend m)
    obtain r s1 where s1: "send m s = (r, s1)" by fastforce
    then obtain rs1 where "conn_run send receive close ops s1 = Some (rs1, s')"
      using Cons.prems OpSend by auto
    then show ?thesis using Cons.IH [of s1] Cons.prems send_keeps_open [OF s1] by simp
  next
    case OpReceive
    then obtain r s1 where s1: "receive s = Some (r, s1)"
      using Cons.prems by (auto split: option.splits)
    then obtain rs1 where "conn_run send receive close ops s1 = Some (rs1, s')"
      using Cons.prems OpReceive by auto
    then show ?thesis using Cons.IH [of s1] Cons.prems receive_keeps_open [OF s1] by simp
  next
    case OpClose
    then show ?thesis using Cons.prems by simp
  qed
qed simp

end

end
