(* ===== verification/Laic_Shm.thy ===== *)
theory Laic_Shm
  imports Laic_Errors
begin

text \<open>
  The shared-memory publish/subscribe ports of iceoryx2 as the IPC and emergency channels use
  them. iceoryx2 is a third-party crate: its operations are the fields of \<open>publisher_ops\<close>,
  \<open>node_ops\<close> and the \<open>poll\<close> and clock parameters, and \<open>shm_law\<close> is what the source documents of
  a service opened with a bounded subscriber buffer and \<open>enable_safe_overflow(true)\<close>: when the
  buffer is full the oldest unread message is replaced by the newest.
\<close>

section \<open>Ports\<close>

datatype loan_error = ExceedsMaxLoans | OtherLoanError string

record ('f, 'p) publisher_ops =
  loan_uninit :: "'p \<Rightarrow> (loan_error + unit) \<times> 'p"
  publish :: "'f \<Rightarrow> 'p \<Rightarrow> (string + unit) \<times> 'p"

type_synonym ('f, 's) poll = "'s \<Rightarrow> (string + 'f option) \<times> 's"

text \<open>Opening a service: names, the two services, a port on each, and peer discovery.\<close>

record ('n, 'sn, 'svc, 'p, 's) node_ops =
  create_node :: "string + 'n"
  service_name :: "string \<Rightarrow> string + 'sn"
  open_or_create :: "'n \<Rightarrow> 'sn \<Rightarrow> nat \<Rightarrow> bool \<Rightarrow> string + 'svc"
  create_subscriber :: "'svc \<Rightarrow> string + 's"
  create_publisher :: "'svc \<Rightarrow> string + 'p"
  update_publisher :: "'p \<Rightarrow> 'p"
  update_subscriber :: "'s \<Rightarrow> 's"

text \<open>The clock and the scheduler, durations and instants in nanoseconds.\<close>

record 't clock_ops =
  instant_now :: "'t \<Rightarrow> nat \<times> 't"
  sleep_for :: "nat \<Rightarrow> 't \<Rightarrow> 't"
  yield_now :: "'t \<Rightarrow> 't"

section \<open>The documented buffer\<close>

definition overflow_push :: "nat \<Rightarrow> 'f list \<Rightarrow> 'f \<Rightarrow> 'f list" where
  "overflow_push cap q f = (if length q < cap then q @ [f] else tl q @ [f])"

definition shm_law :: "nat \<Rightarrow> ('f, 'c) publisher_ops \<Rightarrow> ('f, 'c) poll \<Rightarrow> ('c \<Rightarrow> 'f list) \<Rightarrow> bool" where
  "shm_law cap pub poll queue \<longleftrightarrow>
     (\<forall>c. queue (snd (loan_uninit pub c)) = queue c) \<and>
     (\<forall>f c. case publish pub f c of
        (Inr _, c') \<Rightarrow> queue c' = overflow_push cap (queue c) f
      | (Inl _, c') \<Rightarrow> queue c' = queue c) \<and>
     (\<forall>c. case poll c of
        (Inr (Some f), c') \<Rightarrow> queue c = f # queue c'
      | (Inr None, c') \<Rightarrow> queue c = [] \<and> queue c' = []
      | (Inl _, c') \<Rightarrow> queue c' = queue c)"

lemma shm_law_loan: "shm_law cap pub poll queue \<Longrightarrow> loan_uninit pub c = (r, c') \<Longrightarrow> queue c' = queue c"
  unfolding shm_law_def by (auto dest!: spec [of _ c])

lemma shm_law_publish:
  "shm_law cap pub poll queue \<Longrightarrow> publish pub f c = (Inr u, c') \<Longrightarrow>
     queue c' = overflow_push cap (queue c) f"
  unfolding shm_law_def by (auto dest!: spec [of _ c] spec [of _ f])

lemma shm_law_publish_error:
  "shm_law cap pub poll queue \<Longrightarrow> publish pub f c = (Inl e, c') \<Longrightarrow> queue c' = queue c"
  unfolding shm_law_def by (auto dest!: spec [of _ c] spec [of _ f])

lemma shm_law_poll:
  "shm_law cap pub poll queue \<Longrightarrow> poll c = (Inr (Some f), c') \<Longrightarrow> queue c = f # queue c'"
  "shm_law cap pub poll queue \<Longrightarrow> poll c = (Inr None, c') \<Longrightarrow> queue c = [] \<and> queue c' = []"
  unfolding shm_law_def by (auto dest!: spec [of _ c])

text \<open>A subscriber whose polls do not fail returns the head of a non-empty buffer.\<close>

lemma shm_law_poll_head:
  assumes "shm_law cap pub poll queue" and "is_ok (fst (poll c))" and "queue c = f # q"
  shows "\<exists>c'. poll c = (Inr (Some f), c') \<and> queue c' = q"
proof -
  obtain x c' where p: "poll c = (Inr x, c')"
    using assms(2) by (cases "poll c") (auto simp: is_ok_iff)
  then show ?thesis
    using shm_law_poll [OF assms(1), of c] assms(3) by (cases x) auto
qed

text \<open>Publishing a burst keeps the newest \<open>cap\<close> frames, in order.\<close>

lemma length_overflow_push: "0 < cap \<Longrightarrow> length q \<le> cap \<Longrightarrow> length (overflow_push cap q f) \<le> cap"
  by (cases q) (auto simp: overflow_push_def)

lemma foldl_overflow_push:
  assumes "0 < cap" and "length q \<le> cap"
  shows "foldl (overflow_push cap) q fs = drop (length q + length fs - cap) (q @ fs)"
  using assms(2)
proof (induction fs arbitrary: q)
  case (Cons f fs)
  have IH: "foldl (overflow_push cap) q (f # fs) =
      drop (length (overflow_push cap q f) + length fs - cap) (overflow_push cap q f @ fs)"
    using Cons length_overflow_push [OF assms(1) Cons.prems] by simp
  show ?case
  proof (cases "length q < cap")
    case True
    then have "overflow_push cap q f = q @ [f]" by (simp add: overflow_push_def)
    then show ?thesis using IH by simp
  next
    case False
    then have len: "length q = cap" and ne: "q \<noteq> []" using Cons.prems assms(1) by auto
    then obtain x q' where q: "q = x # q'" by (cases q) auto
    then have "overflow_push cap q f = q' @ [f]" using len by (simp add: overflow_push_def)
    moreover have "cap = Suc (length q')" using len q by simp
    ultimately show ?thesis using IH q by simp
  qed
qed simp

text \<open>
  \<open>polled poll n s x s'\<close>: \<open>n\<close> polls find the buffer empty, the next one answers \<open>x\<close>. It is what the
  polling loops of both channels compute, whatever they do between two polls.
\<close>

inductive polled :: "('f, 's) poll \<Rightarrow> nat \<Rightarrow> 's \<Rightarrow> string + 'f \<Rightarrow> 's \<Rightarrow> bool" for poll where
  polled_error: "poll s = (Inl e, s') \<Longrightarrow> polled poll 0 s (Inl e) s'"
| polled_sample: "poll s = (Inr (Some f), s') \<Longrightarrow> polled poll 0 s (Inr f) s'"
| polled_empty: "poll s = (Inr None, s1) \<Longrightarrow> polled poll n s1 x s' \<Longrightarrow> polled poll (Suc n) s x s'"

inductive_simps polled_0 [simp]: "polled poll 0 s x s'"
inductive_simps polled_Suc [simp]: "polled poll (Suc n) s x s'"

lemma polled_deterministic: "polled poll n s x s' \<Longrightarrow> polled poll k s y s'' \<Longrightarrow> n = k \<and> x = y \<and> s' = s''"
proof (induction arbitrary: k rule: polled.induct)
  case (polled_empty s s1 n x s')
  then show ?case by (cases k) auto
qed (erule polled.cases; simp)+

text \<open>
  The classification of a failed loan that both channels make: over the loan limit is
  backpressure, anything else a send failure.
\<close>

definition loan_failure :: "string \<Rightarrow> loan_error \<Rightarrow> transport_error" where
  "loan_failure what e =
     (case e of ExceedsMaxLoans \<Rightarrow> BackpressureFull | OtherLoanError d \<Rightarrow> SendFailed (what @ d))"

section \<open>An in-memory channel\<close>

text \<open>A queue as the shared state of both ports: the instance used by the witnesses.\<close>

definition mem_pub :: "nat \<Rightarrow> ('f, 'f list) publisher_ops" where
  "mem_pub cap = \<lparr>loan_uninit = (\<lambda>q. (Inr (), q)), publish = (\<lambda>f q. (Inr (), overflow_push cap q f))\<rparr>"

definition mem_poll :: "('f, 'f list) poll" where
  "mem_poll q = (case q of [] \<Rightarrow> (Inr None, []) | f # q \<Rightarrow> (Inr (Some f), q))"

lemma mem_shm_law: "shm_law cap (mem_pub cap) mem_poll (\<lambda>q. q)"
  by (auto simp: shm_law_def mem_pub_def mem_poll_def split: list.splits)

definition still_clock :: "nat clock_ops" where
  "still_clock = \<lparr>instant_now = (\<lambda>t. (t, t)), sleep_for = (\<lambda>d t. t + d), yield_now = Suc\<rparr>"

end
