(* ===== verification/Laic_Ipc.thy ===== *)
theory Laic_Ipc
  imports Laic_Framing Laic_Lifecycle Laic_Shm
begin

text \<open>
  \<open>crates/laic/src/transport/ipc.rs\<close>: the shared-memory backend. The ports, the clock and the
  process environment are parameters (\<open>Laic_Shm\<close>); the frame layout, the operations of
  \<open>IpcConnection\<close> and the polling loop of \<open>receive\<close> are translated. The loop may run forever when
  nothing is ever published, so it is a \<open>partial_function\<close> and \<open>None\<close> is not returning.
  Durations and instants are natural numbers of nanoseconds.
\<close>

section \<open>Frames and connections\<close>

definition MAX_IPC_PAYLOAD_LEN :: u32 where "MAX_IPC_PAYLOAD_LEN = 65536"
definition POLL_INTERVAL :: nat where "POLL_INTERVAL = 100 * 1000"
definition SUBSCRIBER_BUFFER_SIZE :: nat where "SUBSCRIBER_BUFFER_SIZE = 16"

record ipc_frame =
  frame_header :: bytes
  frame_payload :: bytes

record ('n, 'p, 's) ipc_connection =
  ipc_publisher :: 'p
  ipc_subscriber :: 's
  ipc_node :: 'n
  ipc_closed :: bool

definition ipc_service :: "string \<Rightarrow> string \<Rightarrow> string" where
  "ipc_service name dir = ''laic/ipc/'' @ name @ ''/'' @ dir"

definition ipc_open ::
    "('n, 'sn, 'svc, 'p, 's) node_ops \<Rightarrow> string \<Rightarrow> string \<Rightarrow> string
     \<Rightarrow> laic_error + ('n, 'p, 's) ipc_connection" where
  "ipc_open ops name sub_dir pub_dir =
     try_bind (map_err (\<lambda>e. connection_failed (''failed to create iceoryx2 node: '' @ e))
       (create_node ops)) (\<lambda>node.
     let sub_name = ipc_service name sub_dir; pub_name = ipc_service name pub_dir in
     try_bind (map_err (\<lambda>e. connection_failed (''invalid service name '' @ quoted sub_name @ '': '' @ e))
       (service_name ops sub_name)) (\<lambda>sub_service_name.
     try_bind (map_err (\<lambda>e. connection_failed (''invalid service name '' @ quoted pub_name @ '': '' @ e))
       (service_name ops pub_name)) (\<lambda>pub_service_name.
     try_bind (map_err (\<lambda>e. connection_failed (''failed to open/create sub service '' @ quoted sub_name @ '': '' @ e))
       (open_or_create ops node sub_service_name SUBSCRIBER_BUFFER_SIZE True)) (\<lambda>sub_service.
     try_bind (map_err (\<lambda>e. connection_failed (''failed to open/create pub service '' @ quoted pub_name @ '': '' @ e))
       (open_or_create ops node pub_service_name SUBSCRIBER_BUFFER_SIZE True)) (\<lambda>pub_service.
     try_bind (map_err (\<lambda>e. connection_failed (''failed to create subscriber on '' @ quoted sub_name @ '': '' @ e))
       (create_subscriber ops sub_service)) (\<lambda>subscriber.
     try_bind (map_err (\<lambda>e. connection_failed (''failed to create publisher on '' @ quoted pub_name @ '': '' @ e))
       (create_publisher ops pub_service)) (\<lambda>publisher.
     Inr \<lparr>ipc_publisher = update_publisher ops publisher,
          ipc_subscriber = update_subscriber ops subscriber,
          ipc_node = node, ipc_closed = False\<rparr>)))))))"

definition ipc_open_server where
  "ipc_open_server ops name = ipc_open ops name ''c2s'' ''s2c''"

definition ipc_open_client where
  "ipc_open_client ops name = ipc_open ops name ''s2c'' ''c2s''"

section \<open>Sending\<close>

definition ipc_oversized_error :: "nat \<Rightarrow> laic_error" where
  "ipc_oversized_error n =
     Transport (FramingError (''payload length '' @ show_nat n @ '' exceeds IPC maximum ''
       @ show_nat (unat MAX_IPC_PAYLOAD_LEN)))"

definition pack_frame :: "bytes \<Rightarrow> bytes \<Rightarrow> ipc_frame" where
  "pack_frame header_buf p =
     \<lparr>frame_header = header_buf,
      frame_payload = splice 0 p (replicate (unat MAX_IPC_PAYLOAD_LEN) 0)\<rparr>"

definition ipc_send ::
    "(ipc_frame, 'p) publisher_ops \<Rightarrow> message \<Rightarrow> ('n, 'p, 's) ipc_connection
     \<Rightarrow> (laic_error + unit) \<times> ('n, 'p, 's) ipc_connection" where
  "ipc_send pub m c =
     (if ipc_closed c then (Inl (Transport ShuttingDown), c)
      else if length (payload m) > unat MAX_IPC_PAYLOAD_LEN
      then (Inl (ipc_oversized_error (length (payload m))), c)
      else case encode (header m) (replicate HEADER_SIZE 0) of
        (Inl e, _) \<Rightarrow> (Inl e, c)
      | (Inr _, header_buf) \<Rightarrow>
          (case loan_uninit pub (ipc_publisher c) of
             (Inl e, p) \<Rightarrow> (Inl (Transport (loan_failure ''loan failed: '' e)), c\<lparr>ipc_publisher := p\<rparr>)
           | (Inr _, p) \<Rightarrow>
               (case publish pub (pack_frame header_buf (payload m)) p of
                  (Inl e, p) \<Rightarrow>
                    (Inl (Transport (SendFailed (''send failed: '' @ e))), c\<lparr>ipc_publisher := p\<rparr>)
                | (Inr _, p) \<Rightarrow> (Inr (), c\<lparr>ipc_publisher := p\<rparr>))))"

section \<open>The process around a receive\<close>

text \<open>
  \<open>"...".parse::<u64>()\<close>: an optional plus sign, then decimal digits, without overflow.
\<close>

fun parse_digits :: "nat \<Rightarrow> string \<Rightarrow> nat option" where
  "parse_digits acc [] = Some acc"
| "parse_digits acc (c # cs) =
     (if 48 \<le> (of_char c :: nat) \<and> (of_char c :: nat) \<le> 57 \<and> acc * 10 + (of_char c - 48) < 2 ^ 64
      then parse_digits (acc * 10 + (of_char c - 48)) cs else None)"

definition parse_u64 :: "string \<Rightarrow> nat option" where
  "parse_u64 s =
     (case s of
        [] \<Rightarrow> None
      | c # cs \<Rightarrow> if c = CHR ''+'' then (if cs = [] then None else parse_digits 0 cs)
                  else parse_digits 0 s)"

text \<open>
  What \<open>receive\<close> touches outside the connection: the clock, the two environment variables (unset or
  not Unicode is \<open>None\<close>), the once-initialised budget cell and the timing lines it prints.
\<close>

record poll_stats =
  empty_polls :: u64
  active_yields :: u64
  requested_sleep :: nat
  actual_sleep :: nat

record 't ipc_world =
  clock :: 't
  budget_var :: "string option"
  timing_var :: bool
  budget_cell :: "nat option option"
  timing_lines :: "(poll_stats \<times> nat) list"

definition active_poll_budget :: "'t ipc_world \<Rightarrow> nat option \<times> 't ipc_world" where
  "active_poll_budget w =
     (case budget_cell w of
        Some b \<Rightarrow> (b, w)
      | None \<Rightarrow>
          let b = Option.bind (budget_var w) (\<lambda>raw. Option.bind (parse_u64 raw) (\<lambda>millis.
                    if millis > 0 then Some (millis * 1000000) else None))
          in (b, w\<lparr>budget_cell := Some b\<rparr>))"

section \<open>Receiving\<close>

definition ipc_capacity_error :: "nat \<Rightarrow> laic_error" where
  "ipc_capacity_error n =
     Transport (FramingError (''received payload_len '' @ show_nat n @ '' exceeds IPC frame capacity ''
       @ show_nat (unat MAX_IPC_PAYLOAD_LEN)))"

definition unpack_frame :: "ipc_frame \<Rightarrow> laic_error + message" where
  "unpack_frame f =
     try_bind (decode (frame_header f)) (\<lambda>h.
     let payload_len = unat (payload_len h) in
     if payload_len > unat MAX_IPC_PAYLOAD_LEN then Inl (ipc_capacity_error payload_len)
     else from_parts h (take payload_len (frame_payload f)))"

definition deadline_open :: "'t clock_ops \<Rightarrow> nat option \<Rightarrow> 't \<Rightarrow> bool \<times> 't" where
  "deadline_open clk active_poll_until t =
     (case active_poll_until of
        None \<Rightarrow> (False, t)
      | Some deadline \<Rightarrow> (case instant_now clk t of (now, t) \<Rightarrow> (now < deadline, t)))"

partial_function (option) poll_loop ::
    "('f, 's) poll \<Rightarrow> 't clock_ops \<Rightarrow> nat option \<Rightarrow> 's \<Rightarrow> 't \<Rightarrow> poll_stats
     \<Rightarrow> ((string + 'f) \<times> 's \<times> 't \<times> poll_stats) option" where
  "poll_loop poll clk active_poll_until s t st =
     (case poll s of
        (Inl e, s) \<Rightarrow> Some (Inl e, s, t, st)
      | (Inr (Some f), s) \<Rightarrow> Some (Inr f, s, t, st)
      | (Inr None, s) \<Rightarrow>
          (case deadline_open clk active_poll_until t of (active, t) \<Rightarrow>
             if active then
               poll_loop poll clk active_poll_until s (yield_now clk t)
                 (st\<lparr>empty_polls := empty_polls st + 1, active_yields := active_yields st + 1\<rparr>)
             else
               (case instant_now clk t of (sleep_start, t) \<Rightarrow>
                case instant_now clk (sleep_for clk POLL_INTERVAL t) of (woken, t) \<Rightarrow>
                  poll_loop poll clk active_poll_until s t
                    (st\<lparr>empty_polls := empty_polls st + 1,
                        requested_sleep := requested_sleep st + POLL_INTERVAL,
                        actual_sleep := actual_sleep st + (woken - sleep_start)\<rparr>))))"

definition no_stats :: poll_stats where
  "no_stats = \<lparr>empty_polls = 0, active_yields = 0, requested_sleep = 0, actual_sleep = 0\<rparr>"

text \<open>
  The start of a receive: the budget, the start instant when the budget or the timing line needs
  one, and the deadline of the active window.
\<close>

definition receive_starts ::
    "'t clock_ops \<Rightarrow> 't ipc_world \<Rightarrow> nat option \<times> nat option \<times> 't ipc_world" where
  "receive_starts clk w =
     (case active_poll_budget w of (budget, w) \<Rightarrow>
      case (if timing_var w \<or> budget \<noteq> None
            then map_prod Some id (instant_now clk (clock w)) else (None, clock w)) of
        (receive_start, t) \<Rightarrow>
          (Option.bind budget (\<lambda>b. map_option (\<lambda>start. start + b) receive_start),
           receive_start, w\<lparr>clock := t\<rparr>))"

definition print_timing :: "'t clock_ops \<Rightarrow> nat option \<Rightarrow> poll_stats \<Rightarrow> 't ipc_world \<Rightarrow> 't ipc_world" where
  "print_timing clk receive_start st w =
     (if timing_var w
      then case (case receive_start of
                   None \<Rightarrow> (0, clock w)
                 | Some start \<Rightarrow> map_prod (\<lambda>now. now - start) id (instant_now clk (clock w))) of
             (elapsed, t) \<Rightarrow> w\<lparr>clock := t, timing_lines := timing_lines w @ [(st, elapsed)]\<rparr>
      else w)"

definition ipc_receive ::
    "(ipc_frame, 's) poll \<Rightarrow> 't clock_ops \<Rightarrow> ('n, 'p, 's) ipc_connection \<Rightarrow> 't ipc_world
     \<Rightarrow> ((laic_error + message) \<times> ('n, 'p, 's) ipc_connection \<times> 't ipc_world) option" where
  "ipc_receive poll clk c w =
     (if ipc_closed c then Some (Inl (Transport ShuttingDown), c, w)
      else
        case receive_starts clk w of (active_poll_until, receive_start, w) \<Rightarrow>
        (case poll_loop poll clk active_poll_until (ipc_subscriber c) (clock w) no_stats of
           None \<Rightarrow> None
         | Some (Inl e, s, t, st) \<Rightarrow>
             Some (Inl (Transport (ReceiveFailed (''receive failed: '' @ e))),
                   c\<lparr>ipc_subscriber := s\<rparr>, w\<lparr>clock := t\<rparr>)
         | Some (Inr f, s, t, st) \<Rightarrow>
             Some (unpack_frame f, c\<lparr>ipc_subscriber := s\<rparr>,
                   print_timing clk receive_start st (w\<lparr>clock := t\<rparr>))))"

definition ipc_close ::
    "('n, 'p, 's) ipc_connection \<Rightarrow> (laic_error + unit) \<times> ('n, 'p, 's) ipc_connection" where
  "ipc_close c = (Inr (), c\<lparr>ipc_closed := True\<rparr>)"

section \<open>Frames carry messages\<close>

text \<open>
  The slot of a message, written out: the 40 header bytes, then the payload, then zero bytes up to 64 KiB.
\<close>

definition message_frame :: "message \<Rightarrow> ipc_frame" where
  "message_frame m =
     \<lparr>frame_header = header_bytes (header m),
      frame_payload = payload m @ replicate (65536 - length (payload m)) 0\<rparr>"

definition ipc_frame_wf :: "ipc_frame \<Rightarrow> bool" where
  "ipc_frame_wf f \<longleftrightarrow> length (frame_header f) = HEADER_SIZE
     \<and> length (frame_payload f) = unat MAX_IPC_PAYLOAD_LEN"

definition fits_ipc :: "message \<Rightarrow> bool" where
  "fits_ipc m \<longleftrightarrow> length (payload m) \<le> unat MAX_IPC_PAYLOAD_LEN"

lemma unpack_message_frame:
  assumes "message_inv m" and "fits_ipc m"
  shows "unpack_frame (message_frame m) = Inr m"
proof -
  have len: "unat (payload_len (header m)) = length (payload m)"
    using assms(1) by (simp add: message_inv_def)
  have "decode (header_bytes (header m)) = Inr (header m)"
    using assms(1) by (simp add: message_inv_def hdr.dec_exact)
  then show ?thesis
    using assms(2) into_from_parts [OF assms(1)] len
    by (simp add: unpack_frame_def message_frame_def fits_ipc_def)
qed

lemma pack_message: "pack_frame (header_bytes (header m)) (payload m) = message_frame m"
  by (simp add: pack_frame_def message_frame_def splice_first MAX_IPC_PAYLOAD_LEN_def)

text \<open>What a send does on an open connection with a message that fits, down to the external calls.\<close>

lemma ipc_send_open:
  assumes "message_inv m" and "fits_ipc m" and "\<not> ipc_closed c"
  shows "ipc_send pub m c =
    (case loan_uninit pub (ipc_publisher c) of
       (Inl e, p) \<Rightarrow> (Inl (Transport (loan_failure ''loan failed: '' e)), c\<lparr>ipc_publisher := p\<rparr>)
     | (Inr _, p) \<Rightarrow>
         (case publish pub (message_frame m) p of
            (Inl e, p) \<Rightarrow> (Inl (Transport (SendFailed (''send failed: '' @ e))), c\<lparr>ipc_publisher := p\<rparr>)
          | (Inr _, p) \<Rightarrow> (Inr (), c\<lparr>ipc_publisher := p\<rparr>)))"
proof -
  have "encode (header m) (replicate HEADER_SIZE 0) = (Inr (), header_bytes (header m))"
    using assms(1) by (simp add: message_inv_def hdr.enc_exact)
  then show ?thesis
    using assms(2,3) unfolding pack_message [symmetric] by (simp add: ipc_send_def fits_ipc_def)
qed

lemma ipc_send_cases:
  assumes "shm_law cap pub poll queue" and "message_inv m" and "ipc_send pub m c = (r, c')"
  shows "c' = c\<lparr>ipc_publisher := ipc_publisher c'\<rparr> \<and>
    (if is_ok r
     then \<not> ipc_closed c \<and> fits_ipc m
       \<and> queue (ipc_publisher c') = overflow_push cap (queue (ipc_publisher c)) (message_frame m)
     else queue (ipc_publisher c') = queue (ipc_publisher c))"
proof (cases "ipc_closed c \<or> \<not> fits_ipc m")
  case True
  then show ?thesis using assms(3) by (auto simp: ipc_send_def fits_ipc_def split: if_splits)
next
  case False
  note snd = ipc_send_open [OF assms(2), of c pub]
  obtain l p where loan: "loan_uninit pub (ipc_publisher c) = (l, p)" by fastforce
  obtain q p' where publ: "publish pub (message_frame m) p = (q, p')" by fastforce
  have keep: "queue p = queue (ipc_publisher c)" using shm_law_loan [OF assms(1) loan] .
  have pushed: "queue p' = (if is_ok q then overflow_push cap (queue p) (message_frame m) else queue p)"
    using shm_law_publish [OF assms(1), of "message_frame m" p] shm_law_publish_error [OF assms(1)] publ
    by (cases q) auto
  show ?thesis
    using assms(3) False snd loan keep publ pushed by (cases l; cases q) auto
qed

section \<open>The polling loop\<close>

lemma poll_loop_step:
  "poll s = (Inl e, s') \<Longrightarrow> poll_loop poll clk d s t st = Some (Inl e, s', t, st)"
  "poll s = (Inr (Some f), s') \<Longrightarrow> poll_loop poll clk d s t st = Some (Inr f, s', t, st)"
  "poll s = (Inr None, s1) \<Longrightarrow> deadline_open clk d t = (True, t1) \<Longrightarrow>
     poll_loop poll clk d s t st = poll_loop poll clk d s1 (yield_now clk t1)
       (st\<lparr>empty_polls := empty_polls st + 1, active_yields := active_yields st + 1\<rparr>)"
  "poll s = (Inr None, s1) \<Longrightarrow> deadline_open clk d t = (False, t1) \<Longrightarrow>
     instant_now clk t1 = (b, t2) \<Longrightarrow> instant_now clk (sleep_for clk POLL_INTERVAL t2) = (e', t3) \<Longrightarrow>
     poll_loop poll clk d s t st = poll_loop poll clk d s1 t3
       (st\<lparr>empty_polls := empty_polls st + 1, requested_sleep := requested_sleep st + POLL_INTERVAL,
           actual_sleep := actual_sleep st + (e' - b)\<rparr>)"
  by (subst poll_loop.simps, simp)+

lemma poll_loop_polled:
  assumes "polled poll n s x s'"
  shows "\<exists>y t' st'. poll_loop poll clk d s t st = Some (x, s', t', st') \<and> y \<le> n
    \<and> (d = None \<longrightarrow> y = 0)
    \<and> empty_polls st' = empty_polls st + of_nat n \<and> active_yields st' = active_yields st + of_nat y
    \<and> requested_sleep st' = requested_sleep st + (n - y) * POLL_INTERVAL"
  using assms
proof (induction arbitrary: t st rule: polled.induct)
  case (polled_error s e s')
  then show ?case by (auto simp: poll_loop_step)
next
  case (polled_sample s f s')
  then show ?case by (auto simp: poll_loop_step)
next
  case (polled_empty s s1 n x s')
  obtain active t1 where dl: "deadline_open clk d t = (active, t1)" by fastforce
  have off: "d = None \<Longrightarrow> \<not> active" using dl by (auto simp: deadline_open_def)
  show ?case
  proof (cases active)
    case True
    then have not_none: "d \<noteq> None" using off by blast
    let ?st = "st\<lparr>empty_polls := empty_polls st + 1, active_yields := active_yields st + 1\<rparr>"
    obtain y t' st' where "poll_loop poll clk d s1 (yield_now clk t1) ?st = Some (x, s', t', st')" "y \<le> n"
      "empty_polls st' = empty_polls ?st + of_nat n" "active_yields st' = active_yields ?st + of_nat y"
      "requested_sleep st' = requested_sleep ?st + (n - y) * POLL_INTERVAL"
      using polled_empty.IH [of "yield_now clk t1" ?st] by blast
    then show ?thesis
      using polled_empty.hyps(1) dl True not_none
      by (intro exI [of _ "Suc y"] exI [of _ t'] exI [of _ st'])
        (simp add: poll_loop_step(3) algebra_simps)
  next
    case False
    obtain t2 b t3 e where clk2: "instant_now clk t1 = (b, t2)"
      "instant_now clk (sleep_for clk POLL_INTERVAL t2) = (e, t3)" by fastforce
    let ?st = "st\<lparr>empty_polls := empty_polls st + 1,
       requested_sleep := requested_sleep st + POLL_INTERVAL, actual_sleep := actual_sleep st + (e - b)\<rparr>"
    obtain y t' st' where "poll_loop poll clk d s1 t3 ?st = Some (x, s', t', st')" "y \<le> n" "d = None \<longrightarrow> y = 0"
      "empty_polls st' = empty_polls ?st + of_nat n" "active_yields st' = active_yields ?st + of_nat y"
      "requested_sleep st' = requested_sleep ?st + (n - y) * POLL_INTERVAL"
      using polled_empty.IH [of t3 ?st] by blast
    then show ?thesis
      using polled_empty.hyps(1) dl False clk2
      by (intro exI [of _ y] exI [of _ t'] exI [of _ st'])
        (simp add: poll_loop_step(4) Suc_diff_le add_ac)
  qed
qed

lemma poll_loop_returns:
  assumes "poll_loop poll clk d s t st = Some res"
  shows "\<exists>n. polled poll n s (fst res) (fst (snd res))"
proof (rule poll_loop.raw_induct
    [where P = "\<lambda>poll clk d s t st res. \<exists>n. polled poll n s (fst res) (fst (snd res))", OF _ assms],
    goal_cases)
  case (1 loop poll clk d s t st res)
  obtain r s1 where p: "poll s = (r, s1)" by fastforce
  show ?case
  proof (cases "r = Inr None")
    case True
    then obtain t' st' where "loop poll clk d s1 t' st' = Some res"
      using 1(2) p by (auto split: prod.splits if_splits)
    then obtain n where "polled poll n s1 (fst res) (fst (snd res))" using 1(1) by blast
    then have "polled poll (Suc n) s (fst res) (fst (snd res))" using p True by simp
    then show ?thesis by blast
  next
    case False
    then have "polled poll 0 s (fst res) (fst (snd res))"
      using 1(2) p by (auto split: sum.splits option.splits)
    then show ?thesis by blast
  qed
qed

section \<open>What a receive answers\<close>

definition ipc_verdict :: "string + ipc_frame \<Rightarrow> laic_error + message" where
  "ipc_verdict x =
     (case x of
        Inl e \<Rightarrow> Inl (Transport (ReceiveFailed (''receive failed: '' @ e)))
      | Inr f \<Rightarrow> unpack_frame f)"

lemma ipc_receive_loop:
  assumes "\<not> ipc_closed c" and "receive_starts clk w = (until, start, w1)"
  shows "poll_loop poll clk until (ipc_subscriber c) (clock w1) no_stats = None \<Longrightarrow>
      ipc_receive poll clk c w = None"
    and "poll_loop poll clk until (ipc_subscriber c) (clock w1) no_stats = Some (Inl e, s, t, st) \<Longrightarrow>
      ipc_receive poll clk c w = Some (ipc_verdict (Inl e), c\<lparr>ipc_subscriber := s\<rparr>, w1\<lparr>clock := t\<rparr>)"
    and "poll_loop poll clk until (ipc_subscriber c) (clock w1) no_stats = Some (Inr f, s, t, st) \<Longrightarrow>
      ipc_receive poll clk c w = Some (ipc_verdict (Inr f), c\<lparr>ipc_subscriber := s\<rparr>,
        print_timing clk start st (w1\<lparr>clock := t\<rparr>))"
  unfolding ipc_receive_def assms(2) ipc_verdict_def
  by (simp_all only: assms(1) if_False prod.case option.case sum.case)

lemma ipc_receive_polled:
  assumes "\<not> ipc_closed c" and "polled poll n (ipc_subscriber c) x s'"
  shows "\<exists>w'. ipc_receive poll clk c w = Some (ipc_verdict x, c\<lparr>ipc_subscriber := s'\<rparr>, w')"
proof -
  obtain until start w1 where st: "receive_starts clk w = (until, start, w1)"
    by (cases "receive_starts clk w") auto
  obtain t' st' where "poll_loop poll clk until (ipc_subscriber c) (clock w1) no_stats = Some (x, s', t', st')"
    using poll_loop_polled [OF assms(2), of clk until "clock w1" no_stats] by blast
  then show ?thesis
    using ipc_receive_loop(2,3) [OF assms(1) st] by (cases x) blast+
qed

lemma ipc_receive_returns:
  assumes "ipc_receive poll clk c w = Some (r, c', w')" and "\<not> ipc_closed c"
  shows "\<exists>n x s'. polled poll n (ipc_subscriber c) x s' \<and> r = ipc_verdict x
    \<and> c' = c\<lparr>ipc_subscriber := s'\<rparr>"
proof -
  obtain until start w1 where st: "receive_starts clk w = (until, start, w1)"
    by (cases "receive_starts clk w") auto
  obtain x s' t' st' where
    loop: "poll_loop poll clk until (ipc_subscriber c) (clock w1) no_stats = Some (x, s', t', st')"
    using assms(1) ipc_receive_loop(1) [OF assms(2) st, of poll]
    by (cases "poll_loop poll clk until (ipc_subscriber c) (clock w1) no_stats") auto
  have "r = ipc_verdict x \<and> c' = c\<lparr>ipc_subscriber := s'\<rparr>"
  proof (cases x)
    case (Inl e)
    then show ?thesis using assms(1) ipc_receive_loop(2) [OF assms(2) st loop [unfolded Inl]] by simp
  next
    case (Inr f)
    then show ?thesis using assms(1) ipc_receive_loop(3) [OF assms(2) st loop [unfolded Inr]] by simp
  qed
  then show ?thesis using poll_loop_returns [OF loop] by auto
qed

interpretation ipc_life: connection_lifecycle
  "\<lambda>m (c, w). case ipc_send pub m c of (r, c') \<Rightarrow> (r, (c', w))"
  "\<lambda>(c, w). ipc_receive poll clk c w"
  "\<lambda>(c, w). case ipc_close c of (r, c') \<Rightarrow> (r, (c', w))"
  "\<lambda>(c, w). ipc_closed c" for pub poll clk
proof unfold_locales
  fix s :: "('a, 'b, 'c) ipc_connection \<times> 'd ipc_world" and m r s'
  assume "(case s of (c, w) \<Rightarrow> case ipc_send pub m c of (r, c') \<Rightarrow> (r, (c', w))) = (r, s')"
  then show "(case s' of (c, w) \<Rightarrow> ipc_closed c) = (case s of (c, w) \<Rightarrow> ipc_closed c)"
    by (auto simp: ipc_send_def split: prod.splits if_splits sum.splits)
next
  fix s :: "('a, 'b, 'c) ipc_connection \<times> 'd ipc_world" and r s'
  assume ret: "(case s of (c, w) \<Rightarrow> ipc_receive poll clk c w) = Some (r, s')"
  show "(case s' of (c, w) \<Rightarrow> ipc_closed c) = (case s of (c, w) \<Rightarrow> ipc_closed c)"
  proof (cases "ipc_closed (fst s)")
    case True
    then show ?thesis using ret by (auto simp: ipc_receive_def split: prod.splits)
  next
    case False
    then show ?thesis
      using ret ipc_receive_returns [of poll clk "fst s" "snd s" r "fst s'" "snd s'"]
      by (auto split: prod.splits)
  qed
qed (auto simp: ipc_send_def ipc_receive_def ipc_close_def split: prod.splits)

section \<open>Bursts\<close>

text \<open>A sender's and a receiver's loop over a connection, stopping at the first error.\<close>

fun ipc_sends ::
    "(ipc_frame, 'p) publisher_ops \<Rightarrow> message list \<Rightarrow> ('n, 'p, 's) ipc_connection
     \<Rightarrow> (laic_error + unit) \<times> ('n, 'p, 's) ipc_connection" where
  "ipc_sends pub [] c = (Inr (), c)"
| "ipc_sends pub (m # ms) c =
     (case ipc_send pub m c of
        (Inl e, c) \<Rightarrow> (Inl e, c)
      | (Inr _, c) \<Rightarrow> ipc_sends pub ms c)"

fun ipc_receives ::
    "(ipc_frame, 's) poll \<Rightarrow> 't clock_ops \<Rightarrow> nat \<Rightarrow> ('n, 'p, 's) ipc_connection \<Rightarrow> 't ipc_world
     \<Rightarrow> ((laic_error + message list) \<times> ('n, 'p, 's) ipc_connection \<times> 't ipc_world) option" where
  "ipc_receives poll clk 0 c w = Some (Inr [], c, w)"
| "ipc_receives poll clk (Suc n) c w =
     (case ipc_receive poll clk c w of
        None \<Rightarrow> None
      | Some (Inl e, c, w) \<Rightarrow> Some (Inl e, c, w)
      | Some (Inr m, c, w) \<Rightarrow>
          map_option (\<lambda>(r, c, w). (map_sum id ((#) m) r, c, w)) (ipc_receives poll clk n c w))"

lemma ipc_sends_queue:
  assumes "shm_law cap pub poll queue" and "list_all message_inv ms"
    and "ipc_sends pub ms c = (Inr (), c')"
  shows "queue (ipc_publisher c') = foldl (overflow_push cap) (queue (ipc_publisher c)) (map message_frame ms)
    \<and> list_all fits_ipc ms"
  using assms(2,3)
proof (induction ms arbitrary: c)
  case (Cons m ms)
  obtain r c1 where s1: "ipc_send pub m c = (r, c1)" by fastforce
  then have ok: "is_ok r" and rest: "ipc_sends pub ms c1 = (Inr (), c')"
    using Cons.prems(2) by (auto split: sum.splits)
  show ?case
    using Cons.IH [OF _ rest] Cons.prems(1) ipc_send_cases [OF assms(1) _ s1] ok by simp
qed simp

lemma ipc_receives_queue:
  assumes law: "shm_law cap pub poll queue" and live: "\<And>q. is_ok (fst (poll q))"
    and "\<not> ipc_closed c" and "queue (ipc_subscriber c) = map message_frame ms @ rest"
    and "list_all message_inv ms" and "list_all fits_ipc ms"
  shows "\<exists>c' w'. ipc_receives poll clk (length ms) c w = Some (Inr ms, c', w')
    \<and> queue (ipc_subscriber c') = rest"
  using assms(3-)
proof (induction ms arbitrary: c w)
  case (Cons m ms)
  obtain q' where p: "poll (ipc_subscriber c) = (Inr (Some (message_frame m)), q')"
    and q': "queue q' = map message_frame ms @ rest"
    using shm_law_poll_head [OF law live, of "ipc_subscriber c"] Cons.prems(2) by auto
  have "polled poll 0 (ipc_subscriber c) (Inr (message_frame m)) q'" using p by simp
  then obtain w' where "ipc_receive poll clk c w = Some (Inr m, c\<lparr>ipc_subscriber := q'\<rparr>, w')"
    using ipc_receive_polled [OF Cons.prems(1), of poll 0 _ q' clk w] unpack_message_frame [of m] Cons.prems
    by (auto simp: ipc_verdict_def)
  moreover obtain c'' w'' where
    "ipc_receives poll clk (length ms) (c\<lparr>ipc_subscriber := q'\<rparr>) w' = Some (Inr ms, c'', w'')"
    "queue (ipc_subscriber c'') = rest"
    using Cons.IH [of "c\<lparr>ipc_subscriber := q'\<rparr>" w'] Cons.prems q' by auto
  ultimately show ?case by simp
qed simp

section \<open>Properties\<close>

text \<open>
  C15. What \<open>receive\<close> answers, completely: on a closed connection \<open>ShuttingDown\<close>; otherwise it
  returns exactly when some poll is not empty, and then it has discarded nothing and answers that
  poll: the unpacked frame, or the receive failure. Neither the clock, nor the polling budget, nor
  the timing output influence the answer or the connection.
\<close>

theorem ipc_receive_spec:
  "(\<exists>w'. ipc_receive poll clk c w = Some (r, c', w')) \<longleftrightarrow>
     (if ipc_closed c then r = Inl (Transport ShuttingDown) \<and> c' = c
      else \<exists>n x s'. polled poll n (ipc_subscriber c) x s' \<and> c' = c\<lparr>ipc_subscriber := s'\<rparr>
             \<and> r = (case x of
                       Inl e \<Rightarrow> Inl (Transport (ReceiveFailed (''receive failed: '' @ e)))
                     | Inr f \<Rightarrow> unpack_frame f))"
proof (cases "ipc_closed c")
  case True
  then show ?thesis by (auto simp: ipc_receive_def)
next
  case False
  then show ?thesis
    using ipc_receive_returns [of poll clk c w r c'] ipc_receive_polled [OF False, of poll _ _ _ clk w]
    unfolding ipc_verdict_def by (simp only: if_False) blast
qed

text \<open>
  C6. Burst delivery over the documented buffer: when a sender's messages have all been accepted on
  an empty channel, the receiver on the same service gets the last 16 of them, intact and in order,
  and then the channel is empty again; in particular a burst of at most 16 messages loses nothing.
\<close>

theorem ipc_burst_delivery:
  assumes "shm_law SUBSCRIBER_BUFFER_SIZE pub poll queue" and "\<And>q. is_ok (fst (poll q))"
    and "queue (ipc_publisher sender) = []" and "list_all message_inv ms"
    and "ipc_sends pub ms sender = (Inr (), sender')"
    and "ipc_subscriber receiver = ipc_publisher sender'" and "\<not> ipc_closed receiver"
  shows "\<exists>receiver' w'.
    ipc_receives poll clk (min (length ms) 16) receiver w = Some (Inr (drop (length ms - 16) ms), receiver', w')
    \<and> queue (ipc_subscriber receiver') = []"
proof -
  let ?ms = "drop (length ms - 16) ms"
  have sent: "queue (ipc_publisher sender') = map message_frame ?ms" and "list_all fits_ipc ms"
    using ipc_sends_queue [OF assms(1,4,5)] assms(3)
    by (simp_all add: foldl_overflow_push SUBSCRIBER_BUFFER_SIZE_def drop_map)
  then have "list_all message_inv ?ms" "list_all fits_ipc ?ms"
    using assms(4) by (auto simp: list_all_iff dest: in_set_dropD)
  moreover have "length ms - (length ms - 16) = min (length ms) 16" by simp
  ultimately show ?thesis
    using ipc_receives_queue [OF assms(1,2,7), of ?ms "[]" clk w] sent assms(6) by simp
qed

definition mem_conn :: "'f list \<Rightarrow> (unit, 'f list, 'f list) ipc_connection" where
  "mem_conn q = \<lparr>ipc_publisher = q, ipc_subscriber = q, ipc_node = (), ipc_closed = False\<rparr>"

definition quiet_world :: "nat ipc_world" where
  "quiet_world = \<lparr>clock = 0, budget_var = None, timing_var = False, budget_cell = None, timing_lines = []\<rparr>"

lemma sample_message_fits: "fits_ipc sample_message"
  by (simp add: fits_ipc_def sample_message_def MAX_IPC_PAYLOAD_LEN_def)

lemma mem_ipc_send:
  assumes "message_inv m" and "fits_ipc m"
  shows "ipc_send (mem_pub cap) m (mem_conn q) =
    (Inr (), (mem_conn q)\<lparr>ipc_publisher := overflow_push cap q (message_frame m)\<rparr>)"
  using ipc_send_open [OF assms, of "mem_conn q" "mem_pub cap"] by (simp add: mem_conn_def mem_pub_def)

theorem ipc_burst_delivery_witness:
  "\<exists>receiver' w'. ipc_receives mem_poll still_clock 1
      (mem_conn [message_frame sample_message]) quiet_world = Some (Inr [sample_message], receiver', w')"
proof -
  let ?m = sample_message
  have sent: "ipc_sends (mem_pub SUBSCRIBER_BUFFER_SIZE) [?m] (mem_conn []) =
      (Inr (), (mem_conn [])\<lparr>ipc_publisher := [message_frame ?m]\<rparr>)"
    by (simp add: mem_ipc_send sample_message_inv sample_message_fits overflow_push_def SUBSCRIBER_BUFFER_SIZE_def)
  have live: "is_ok (fst (mem_poll q))" for q :: "ipc_frame list"
    by (simp add: mem_poll_def split: list.split)
  show ?thesis
    using ipc_burst_delivery [OF mem_shm_law live _ _ sent, of "mem_conn [message_frame ?m]" still_clock quiet_world]
    by (auto simp: mem_conn_def sample_message_inv)
qed

text \<open>
  C16. A send is atomic: an error of any kind leaves the channel as it was (a closed connection, an
  oversized payload and a rejected header do not even touch the publisher), and a success publishes
  exactly one frame, the message's, over a payload that fits.
\<close>

theorem ipc_send_atomic:
  assumes "shm_law cap pub poll queue" and "message_inv m" and "ipc_send pub m c = (r, c')"
  shows "c' = c\<lparr>ipc_publisher := ipc_publisher c'\<rparr> \<and>
    (case r of
       Inr _ \<Rightarrow> length (payload m) \<le> 65536 \<and> \<not> ipc_closed c \<and>
         queue (ipc_publisher c') = overflow_push cap (queue (ipc_publisher c)) (message_frame m)
     | Inl e \<Rightarrow> queue (ipc_publisher c') = queue (ipc_publisher c))
    \<and> (length (payload m) > 65536 \<and> \<not> ipc_closed c \<longrightarrow>
         r = Inl (ipc_oversized_error (length (payload m))) \<and> c' = c)"
proof -
  have fits: "fits_ipc m \<longleftrightarrow> length (payload m) \<le> 65536"
    by (simp add: fits_ipc_def MAX_IPC_PAYLOAD_LEN_def)
  have "length (payload m) > 65536 \<and> \<not> ipc_closed c \<longrightarrow>
      r = Inl (ipc_oversized_error (length (payload m))) \<and> c' = c"
    using assms(3) fits by (auto simp: ipc_send_def fits_ipc_def)
  then show ?thesis
    using ipc_send_cases [OF assms] fits by (cases r) (auto simp: is_ok_def)
qed

theorem ipc_send_atomic_witness:
  "\<exists>c'. ipc_send (mem_pub 16) sample_message (mem_conn []) = (Inr (), c')
     \<and> ipc_publisher c' = [message_frame sample_message]"
proof -
  note sent = mem_ipc_send [OF sample_message_inv sample_message_fits, of 16 "[]"]
  show ?thesis
    using sent ipc_send_atomic [OF mem_shm_law sample_message_inv sent]
    by (auto simp: overflow_push_def mem_conn_def)
qed

text \<open>
  C17. A frame from shared memory is not trusted: whatever bytes a slot holds, unpacking it yields a
  valid message whose payload is a prefix of the slot and at most 64 KiB, or the decoder's error, or
  the capacity error; no slice runs past the slot.
\<close>

theorem unpack_untrusted_frame:
  assumes "ipc_frame_wf f"
  shows "case unpack_frame f of
      Inr m \<Rightarrow> message_inv m \<and> frame_header f = header_bytes (header m)
        \<and> length (payload m) \<le> 65536 \<and> payload m = take (length (payload m)) (frame_payload f)
    | Inl e \<Rightarrow> decode (frame_header f) = Inl e
        \<or> (\<exists>h. decode (frame_header f) = Inr h \<and> unat (payload_len h) > 65536
              \<and> e = ipc_capacity_error (unat (payload_len h)))"
proof (cases "decode (frame_header f)")
  case (Inl e)
  then show ?thesis by (simp add: unpack_frame_def)
next
  case (Inr h)
  have hok: "header_ok h" and wire: "header_bytes h = frame_header f"
    using hdr.dec_valid [OF Inr] hdr.dec_bytes [OF Inr] assms by (simp_all add: ipc_frame_wf_def)
  show ?thesis
  proof (cases "unat (payload_len h) > 65536")
    case True
    then show ?thesis using Inr by (simp add: unpack_frame_def MAX_IPC_PAYLOAD_LEN_def)
  next
    case False
    let ?p = "take (unat (payload_len h)) (frame_payload f)"
    have len: "length ?p = unat (payload_len h)"
      using assms False by (simp add: ipc_frame_wf_def MAX_IPC_PAYLOAD_LEN_def)
    then have parts: "from_parts h ?p = Inr \<lparr>header = h, payload = ?p\<rparr>"
      using from_parts_ok_header [OF hok] by simp
    then have "unpack_frame f = Inr \<lparr>header = h, payload = ?p\<rparr>"
      using Inr False by (simp add: unpack_frame_def MAX_IPC_PAYLOAD_LEN_def)
    moreover have "message_inv \<lparr>header = h, payload = ?p\<rparr>"
      using hok len by (simp add: message_inv_def)
    ultimately show ?thesis using wire len False by simp
  qed
qed

definition oversized_frame :: ipc_frame where
  "oversized_frame =
     \<lparr>frame_header = header_bytes (sample_header\<lparr>payload_len := 65537\<rparr>),
      frame_payload = replicate (unat MAX_IPC_PAYLOAD_LEN) 0\<rparr>"

theorem unpack_untrusted_frame_witness:
  "unpack_frame oversized_frame = Inl (ipc_capacity_error 65537)"
proof -
  let ?h = "sample_header\<lparr>payload_len := 65537\<rparr>"
  have hok: "header_ok ?h" using sample_header_ok
    by (simp add: header_ok_def check_header_ok_iff header_array_lens_def)
  have wf: "ipc_frame_wf oversized_frame"
    using hdr.wire_length [OF hok] by (simp add: ipc_frame_wf_def oversized_frame_def)
  have dec: "decode (frame_header oversized_frame) = Inr ?h"
    using hdr.dec_exact [OF hok] by (simp add: oversized_frame_def)
  show ?thesis
    using unpack_untrusted_frame [OF wf] dec
    by (cases "unpack_frame oversized_frame") (auto simp: unpack_frame_def MAX_IPC_PAYLOAD_LEN_def)
qed

text \<open>
  The default receive path sleeps, and the timing line tells the truth: when the budget variable
  is unset, is not a number or is zero, a receive that finds \<open>n\<close> empty polls before a frame prints
  \<open>n\<close> empty polls, no active yield and exactly \<open>n\<close> times 100 microseconds of requested sleep.
\<close>

theorem default_polling_sleeps:
  assumes "\<not> ipc_closed c" and "timing_var w" and "budget_cell w = None"
    and "case budget_var w of None \<Rightarrow> True | Some raw \<Rightarrow> parse_u64 raw = None \<or> parse_u64 raw = Some 0"
    and "polled poll n (ipc_subscriber c) (Inr f) s'"
  shows "\<exists>w' st elapsed. ipc_receive poll clk c w = Some (unpack_frame f, c\<lparr>ipc_subscriber := s'\<rparr>, w')
    \<and> timing_lines w' = timing_lines w @ [(st, elapsed)]
    \<and> empty_polls st = of_nat n \<and> active_yields st = 0 \<and> requested_sleep st = n * (100 * 1000)"
proof -
  have none: "active_poll_budget w = (None, w\<lparr>budget_cell := Some None\<rparr>)"
    using assms(3,4) by (auto simp: active_poll_budget_def Let_def split: option.splits)
  obtain t0 t1 where now: "instant_now clk (clock w) = (t0, t1)" by fastforce
  let ?w1 = "w\<lparr>budget_cell := Some None, clock := t1\<rparr>"
  have st: "receive_starts clk w = (None, Some t0, ?w1)"
    using none now assms(2) by (simp add: receive_starts_def)
  obtain t st where loop: "poll_loop poll clk None (ipc_subscriber c) (clock ?w1) no_stats = Some (Inr f, s', t, st)"
    and stats: "empty_polls st = of_nat n" "active_yields st = 0" "requested_sleep st = n * POLL_INTERVAL"
    using poll_loop_polled [OF assms(5), of clk None "clock ?w1" no_stats]
    by (auto simp: no_stats_def)
  obtain t2 t3 where "instant_now clk t = (t2, t3)" by fastforce
  then have "timing_lines (print_timing clk (Some t0) st (?w1\<lparr>clock := t\<rparr>)) = timing_lines w @ [(st, t2 - t0)]"
    using assms(2) by (simp add: print_timing_def)
  then show ?thesis
    using ipc_receive_loop(3) [OF assms(1) st loop] stats by (auto simp: ipc_verdict_def POLL_INTERVAL_def)
qed

text \<open>A subscriber whose buffer fills on the third poll.\<close>

definition late_poll :: "(ipc_frame, nat) poll" where
  "late_poll k = (if k < 2 then (Inr None, Suc k) else (Inr (Some (message_frame sample_message)), k))"

theorem default_polling_sleeps_witness:
  "\<exists>w' st elapsed. ipc_receive late_poll still_clock
       \<lparr>ipc_publisher = (), ipc_subscriber = 0, ipc_node = (), ipc_closed = False\<rparr>
       (quiet_world\<lparr>timing_var := True, budget_var := Some ''-5''\<rparr>)
     = Some (Inr sample_message, \<lparr>ipc_publisher = (), ipc_subscriber = 2, ipc_node = (), ipc_closed = False\<rparr>, w')
     \<and> timing_lines w' = [(st, elapsed)] \<and> empty_polls st = 2 \<and> requested_sleep st = 200000"
proof -
  let ?c = "\<lparr>ipc_publisher = (), ipc_subscriber = 0, ipc_node = (), ipc_closed = False\<rparr>"
  let ?w = "quiet_world\<lparr>timing_var := True, budget_var := Some ''-5''\<rparr>"
  have polled: "polled late_poll 2 (ipc_subscriber ?c) (Inr (message_frame sample_message)) 2"
    by (simp add: numeral_2_eq_2 late_poll_def)
  have junk: "case budget_var ?w of None \<Rightarrow> True | Some raw \<Rightarrow> parse_u64 raw = None \<or> parse_u64 raw = Some 0"
    by (simp add: parse_u64_def)
  show ?thesis
    using default_polling_sleeps [OF _ _ _ junk polled, of still_clock]
      unpack_message_frame [OF sample_message_inv sample_message_fits]
    by (auto simp: quiet_world_def)
qed

text \<open>
  The lifecycle contract of the IPC backend: after any history that has returned, a \<open>close\<close> makes
  every later operation return at once and answer as a closed connection does (\<open>ShuttingDown\<close> for send
  and receive, success for a repeated close), and the connection stays closed.
\<close>

theorem ipc_lifecycle:
  assumes "conn_run (\<lambda>m (c, w). case ipc_send pub m c of (r, c') \<Rightarrow> (r, (c', w)))
      (\<lambda>(c, w). ipc_receive poll clk c w)
      (\<lambda>(c, w). case ipc_close c of (r, c') \<Rightarrow> (r, (c', w))) ops (c, w) = Some (rs, (c1, w1))"
  shows "conn_run (\<lambda>m (c, w). case ipc_send pub m c of (r, c') \<Rightarrow> (r, (c', w)))
      (\<lambda>(c, w). ipc_receive poll clk c w)
      (\<lambda>(c, w). case ipc_close c of (r, c') \<Rightarrow> (r, (c', w))) (ops @ OpClose # ops') (c, w) =
      Some (rs @ Closed (Inr ()) # map closed_answer ops', (c1\<lparr>ipc_closed := True\<rparr>, w1))"
  by (rule conjunct1 [OF ipc_life.run_with_close [OF assms]]) (simp add: ipc_close_def)

text \<open>
  The two ends of an IPC name meet: when the server and the client of a name both open, each
  publishes on the very service the other subscribes to, the client-to-server one and the
  server-to-client one, which are different services; and different names never share a service.
\<close>

theorem ipc_endpoints_meet:
  "(case (ipc_open_server ops name, ipc_open_client ops name) of
      (Inr server, Inr client) \<Rightarrow>
        \<exists>node up down upn downn s p s' p'.
          create_node ops = Inr node
          \<and> service_name ops (''laic/ipc/'' @ name @ ''/c2s'') = Inr upn
          \<and> service_name ops (''laic/ipc/'' @ name @ ''/s2c'') = Inr downn
          \<and> open_or_create ops node upn 16 True = Inr up \<and> open_or_create ops node downn 16 True = Inr down
          \<and> create_subscriber ops up = Inr s \<and> create_publisher ops up = Inr p
          \<and> create_subscriber ops down = Inr s' \<and> create_publisher ops down = Inr p'
          \<and> ipc_subscriber server = update_subscriber ops s \<and> ipc_publisher client = update_publisher ops p
          \<and> ipc_subscriber client = update_subscriber ops s' \<and> ipc_publisher server = update_publisher ops p'
          \<and> \<not> ipc_closed server \<and> \<not> ipc_closed client
    | _ \<Rightarrow> True)
   \<and> ipc_service name ''c2s'' \<noteq> ipc_service name' ''s2c''
   \<and> (ipc_service name ''c2s'' = ipc_service name' ''c2s'' \<longleftrightarrow> name = name')
   \<and> (ipc_service name ''s2c'' = ipc_service name' ''s2c'' \<longleftrightarrow> name = name')"
proof -
  have "ipc_service name ''c2s'' \<noteq> ipc_service name' ''s2c''"
  proof
    assume "ipc_service name ''c2s'' = ipc_service name' ''s2c''"
    then have "last (ipc_service name ''c2s'') = last (ipc_service name' ''s2c'')" by (rule arg_cong)
    then show False by (simp add: ipc_service_def)
  qed
  then show ?thesis
    by (auto simp: ipc_open_server_def ipc_open_client_def ipc_open_def try_bind_Inr_iff Let_def
        ipc_service_def SUBSCRIBER_BUFFER_SIZE_def split: sum.splits)
qed

end
