(* ===== verification/Laic_Emergency.thy ===== *)
theory Laic_Emergency
  imports Laic_Ipc
begin

text \<open>
  \<open>crates/laic/src/emergency.rs\<close>: the LP7 emergency channel, raw bytes of at most 168 in fixed
  172-byte slots, with its own services and buffer. It has the lifecycle of the message channels and
  interprets the same contract, with bytes as its messages.
\<close>

section \<open>Frames and channels\<close>

definition MAX_EMERGENCY_PAYLOAD_LEN :: nat where "MAX_EMERGENCY_PAYLOAD_LEN = 168"
definition EMERGENCY_FRAME_SIZE :: nat where "EMERGENCY_FRAME_SIZE = 4 + MAX_EMERGENCY_PAYLOAD_LEN"
definition EMERGENCY_POLL_INTERVAL :: nat where "EMERGENCY_POLL_INTERVAL = 50 * 1000"
definition EMERGENCY_BUFFER_SIZE :: nat where "EMERGENCY_BUFFER_SIZE = 8"

record emergency_frame =
  frame_len :: u32
  frame_data :: bytes

record ('n, 'p, 's) emergency_channel =
  em_publisher :: 'p
  em_subscriber :: 's
  em_node :: 'n
  em_closed :: bool

definition emergency_service :: "string \<Rightarrow> string \<Rightarrow> string" where
  "emergency_service name dir = ''laic/emergency/'' @ name @ ''/'' @ dir"

definition emergency_open ::
    "('n, 'sn, 'svc, 'p, 's) node_ops \<Rightarrow> string \<Rightarrow> string \<Rightarrow> string
     \<Rightarrow> laic_error + ('n, 'p, 's) emergency_channel" where
  "emergency_open ops name sub_dir pub_dir =
     try_bind (map_err (\<lambda>e. connection_failed (''emergency node creation failed: '' @ e))
       (create_node ops)) (\<lambda>node.
     let sub_name = emergency_service name sub_dir; pub_name = emergency_service name pub_dir in
     try_bind (map_err (\<lambda>e. connection_failed (''invalid service name '' @ quoted sub_name @ '': '' @ e))
       (service_name ops sub_name)) (\<lambda>sub_svc_name.
     try_bind (map_err (\<lambda>e. connection_failed (''invalid service name '' @ quoted pub_name @ '': '' @ e))
       (service_name ops pub_name)) (\<lambda>pub_svc_name.
     try_bind (map_err (\<lambda>e. connection_failed (''emergency sub service '' @ quoted sub_name @ '' failed: '' @ e))
       (open_or_create ops node sub_svc_name EMERGENCY_BUFFER_SIZE True)) (\<lambda>sub_service.
     try_bind (map_err (\<lambda>e. connection_failed (''emergency pub service '' @ quoted pub_name @ '' failed: '' @ e))
       (open_or_create ops node pub_svc_name EMERGENCY_BUFFER_SIZE True)) (\<lambda>pub_service.
     try_bind (map_err (\<lambda>e. connection_failed (''emergency subscriber on '' @ quoted sub_name @ '' failed: '' @ e))
       (create_subscriber ops sub_service)) (\<lambda>subscriber.
     try_bind (map_err (\<lambda>e. connection_failed (''emergency publisher on '' @ quoted pub_name @ '' failed: '' @ e))
       (create_publisher ops pub_service)) (\<lambda>publisher.
     Inr \<lparr>em_publisher = update_publisher ops publisher,
          em_subscriber = update_subscriber ops subscriber,
          em_node = node, em_closed = False\<rparr>)))))))"

definition emergency_open_server where
  "emergency_open_server ops name = emergency_open ops name ''c2s'' ''s2c''"

definition emergency_open_client where
  "emergency_open_client ops name = emergency_open ops name ''s2c'' ''c2s''"

section \<open>Operations\<close>

definition emergency_oversized_error :: "nat \<Rightarrow> laic_error" where
  "emergency_oversized_error n =
     Transport (FramingError (''emergency payload length '' @ show_nat n @ '' exceeds maximum ''
       @ show_nat MAX_EMERGENCY_PAYLOAD_LEN))"

definition emergency_capacity_error :: "nat \<Rightarrow> laic_error" where
  "emergency_capacity_error n =
     Transport (FramingError (''emergency frame len '' @ show_nat n @ '' exceeds capacity ''
       @ show_nat MAX_EMERGENCY_PAYLOAD_LEN))"

definition pack_emergency :: "bytes \<Rightarrow> emergency_frame" where
  "pack_emergency p =
     \<lparr>frame_len = of_nat (length p),
      frame_data = splice 0 p (replicate MAX_EMERGENCY_PAYLOAD_LEN 0)\<rparr>"

definition unpack_emergency :: "emergency_frame \<Rightarrow> laic_error + bytes" where
  "unpack_emergency f =
     (let len = unat (frame_len f) in
      if len > MAX_EMERGENCY_PAYLOAD_LEN then Inl (emergency_capacity_error len)
      else Inr (take len (frame_data f)))"

definition emergency_send ::
    "(emergency_frame, 'p) publisher_ops \<Rightarrow> bytes \<Rightarrow> ('n, 'p, 's) emergency_channel
     \<Rightarrow> (laic_error + unit) \<times> ('n, 'p, 's) emergency_channel" where
  "emergency_send pub p c =
     (if em_closed c then (Inl (Transport ShuttingDown), c)
      else if length p > MAX_EMERGENCY_PAYLOAD_LEN then (Inl (emergency_oversized_error (length p)), c)
      else case loan_uninit pub (em_publisher c) of
        (Inl e, q) \<Rightarrow> (Inl (Transport (loan_failure ''emergency loan failed: '' e)), c\<lparr>em_publisher := q\<rparr>)
      | (Inr _, q) \<Rightarrow>
          (case publish pub (pack_emergency p) q of
             (Inl e, q) \<Rightarrow>
               (Inl (Transport (SendFailed (''emergency send failed: '' @ e))), c\<lparr>em_publisher := q\<rparr>)
           | (Inr _, q) \<Rightarrow> (Inr (), c\<lparr>em_publisher := q\<rparr>)))"

partial_function (option) emergency_loop ::
    "('f, 's) poll \<Rightarrow> 't clock_ops \<Rightarrow> 's \<Rightarrow> 't \<Rightarrow> ((string + 'f) \<times> 's \<times> 't) option" where
  "emergency_loop poll clk s t =
     (case poll s of
        (Inl e, s) \<Rightarrow> Some (Inl e, s, t)
      | (Inr (Some f), s) \<Rightarrow> Some (Inr f, s, t)
      | (Inr None, s) \<Rightarrow> emergency_loop poll clk s (sleep_for clk EMERGENCY_POLL_INTERVAL t))"

definition emergency_receive ::
    "(emergency_frame, 's) poll \<Rightarrow> 't clock_ops \<Rightarrow> ('n, 'p, 's) emergency_channel \<Rightarrow> 't
     \<Rightarrow> ((laic_error + bytes) \<times> ('n, 'p, 's) emergency_channel \<times> 't) option" where
  "emergency_receive poll clk c t =
     (if em_closed c then Some (Inl (Transport ShuttingDown), c, t)
      else case emergency_loop poll clk (em_subscriber c) t of
        None \<Rightarrow> None
      | Some (Inl e, s, t) \<Rightarrow>
          Some (Inl (Transport (ReceiveFailed (''emergency receive failed: '' @ e))),
                c\<lparr>em_subscriber := s\<rparr>, t)
      | Some (Inr f, s, t) \<Rightarrow> Some (unpack_emergency f, c\<lparr>em_subscriber := s\<rparr>, t))"

definition emergency_close ::
    "('n, 'p, 's) emergency_channel \<Rightarrow> (laic_error + unit) \<times> ('n, 'p, 's) emergency_channel" where
  "emergency_close c = (Inr (), c\<lparr>em_closed := True\<rparr>)"

section \<open>Frames carry payloads\<close>

lemma unpack_pack_emergency: "length p \<le> 168 \<Longrightarrow> unpack_emergency (pack_emergency p) = Inr p"
  by (simp add: unpack_emergency_def pack_emergency_def MAX_EMERGENCY_PAYLOAD_LEN_def splice_def
      unat_of_nat take_bit_nat_eq_self)

lemma emergency_send_cases:
  assumes "shm_law cap pub poll queue" and "emergency_send pub p c = (r, c')"
  shows "c' = c\<lparr>em_publisher := em_publisher c'\<rparr> \<and>
    (if is_ok r
     then \<not> em_closed c \<and> length p \<le> 168
       \<and> queue (em_publisher c') = overflow_push cap (queue (em_publisher c)) (pack_emergency p)
     else queue (em_publisher c') = queue (em_publisher c))"
proof (cases "em_closed c \<or> length p > MAX_EMERGENCY_PAYLOAD_LEN")
  case True
  then show ?thesis using assms(2) by (auto simp: emergency_send_def split: if_splits)
next
  case False
  obtain l q where loan: "loan_uninit pub (em_publisher c) = (l, q)" by fastforce
  obtain x q' where publ: "publish pub (pack_emergency p) q = (x, q')" by fastforce
  have keep: "queue q = queue (em_publisher c)" using shm_law_loan [OF assms(1) loan] .
  show ?thesis
  proof (cases l)
    case (Inl e)
    then show ?thesis using assms(2) False loan keep by (auto simp: emergency_send_def)
  next
    case (Inr u)
    have "queue q' = (if is_ok x then overflow_push cap (queue q) (pack_emergency p) else queue q)"
      using shm_law_publish [OF assms(1), of "pack_emergency p" q] shm_law_publish_error [OF assms(1)] publ
      by (cases x) auto
    then show ?thesis
      using assms(2) False loan keep publ Inr
      by (cases x) (auto simp: emergency_send_def MAX_EMERGENCY_PAYLOAD_LEN_def)
  qed
qed

section \<open>The polling loop\<close>

lemma emergency_loop_polled:
  "polled poll n s x s' \<Longrightarrow> emergency_loop poll clk s t =
     Some (x, s', (sleep_for clk EMERGENCY_POLL_INTERVAL ^^ n) t)"
proof (induction arbitrary: t rule: polled.induct)
  case (polled_empty s s1 n x s')
  then show ?case by (subst emergency_loop.simps) (simp add: funpow_Suc_right del: funpow.simps)
qed (subst emergency_loop.simps, simp)+

lemma emergency_loop_returns:
  assumes "emergency_loop poll clk s t = Some res"
  shows "\<exists>n. polled poll n s (fst res) (fst (snd res))"
proof (rule emergency_loop.raw_induct
    [where P = "\<lambda>poll clk s t res. \<exists>n. polled poll n s (fst res) (fst (snd res))", OF _ assms],
    goal_cases)
  case (1 loop poll clk s t res)
  obtain r s1 where p: "poll s = (r, s1)" by fastforce
  show ?case
  proof (cases "r = Inr None")
    case True
    then obtain n where "polled poll n s1 (fst res) (fst (snd res))" using 1 p by fastforce
    then have "polled poll (Suc n) s (fst res) (fst (snd res))" using p True by simp
    then show ?thesis by blast
  next
    case False
    then have "polled poll 0 s (fst res) (fst (snd res))"
      using 1(2) p by (auto split: sum.splits option.splits)
    then show ?thesis by blast
  qed
qed

definition emergency_verdict :: "string + emergency_frame \<Rightarrow> laic_error + bytes" where
  "emergency_verdict x =
     (case x of
        Inl e \<Rightarrow> Inl (Transport (ReceiveFailed (''emergency receive failed: '' @ e)))
      | Inr f \<Rightarrow> unpack_emergency f)"

lemma emergency_receive_polled:
  assumes "\<not> em_closed c" and "polled poll n (em_subscriber c) x s'"
  shows "emergency_receive poll clk c t = Some (emergency_verdict x, c\<lparr>em_subscriber := s'\<rparr>,
    (sleep_for clk EMERGENCY_POLL_INTERVAL ^^ n) t)"
  using assms
  by (cases x) (simp_all add: emergency_receive_def emergency_loop_polled emergency_verdict_def)

lemma emergency_receive_returns:
  assumes "emergency_receive poll clk c t = Some (r, c', t')" and "\<not> em_closed c"
  shows "\<exists>n x s'. polled poll n (em_subscriber c) x s'"
proof -
  obtain res where loop: "emergency_loop poll clk (em_subscriber c) t = Some res"
    using assms by (auto simp: emergency_receive_def split: option.splits)
  show ?thesis using emergency_loop_returns [OF loop] by blast
qed

interpretation em_life: connection_lifecycle
  "\<lambda>p (c, t). case emergency_send pub p c of (r, c') \<Rightarrow> (r, (c', t))"
  "\<lambda>(c, t). emergency_receive poll clk c t"
  "\<lambda>(c, t). case emergency_close c of (r, c') \<Rightarrow> (r, (c', t))"
  "\<lambda>(c, t). em_closed c" for pub poll clk
proof unfold_locales
  fix s :: "('a, 'b, 'c) emergency_channel \<times> 'd" and p r s'
  assume "(case s of (c, t) \<Rightarrow> case emergency_send pub p c of (r, c') \<Rightarrow> (r, (c', t))) = (r, s')"
  then show "(case s' of (c, t) \<Rightarrow> em_closed c) = (case s of (c, t) \<Rightarrow> em_closed c)"
    by (auto simp: emergency_send_def split: prod.splits if_splits sum.splits)
next
  fix s :: "('a, 'b, 'c) emergency_channel \<times> 'd" and r s'
  assume ret: "(case s of (c, t) \<Rightarrow> emergency_receive poll clk c t) = Some (r, s')"
  show "(case s' of (c, t) \<Rightarrow> em_closed c) = (case s of (c, t) \<Rightarrow> em_closed c)"
  proof (cases "em_closed (fst s)")
    case True
    then show ?thesis using ret by (auto simp: emergency_receive_def split: prod.splits)
  next
    case False
    then show ?thesis
      using ret emergency_receive_returns [of poll clk "fst s" "snd s" r "fst s'" "snd s'"]
        emergency_receive_polled [OF False, of poll _ _ _ clk "snd s"]
      by (auto split: prod.splits)
  qed
qed (auto simp: emergency_send_def emergency_receive_def emergency_close_def split: prod.splits)

section \<open>Properties\<close>

text \<open>
  C39. The emergency channel is a bounded lossy queue of byte strings: an accepted send appends its
  payload (replacing the oldest when eight are unread), a refused one changes nothing, and a receive
  takes the oldest payload, byte for byte, without sleeping.
\<close>

theorem emergency_queue_refinement:
  assumes "shm_law EMERGENCY_BUFFER_SIZE pub poll queue" and "\<And>q. is_ok (fst (poll q))"
    and "queue (em_publisher c) = map pack_emergency ps" and "emergency_send pub p c = (r, c')"
    and "\<not> em_closed d" and "queue (em_subscriber d) = map pack_emergency (q # qs)" and "length q \<le> 168"
  shows "queue (em_publisher c') = map pack_emergency (case r of
        Inr _ \<Rightarrow> (if length ps < 8 then ps @ [p] else tl ps @ [p])
      | Inl _ \<Rightarrow> ps)
    \<and> (\<exists>d'. emergency_receive poll clk d t = Some (Inr q, d', t)
          \<and> queue (em_subscriber d') = map pack_emergency qs)"
proof
  show "queue (em_publisher c') = map pack_emergency (case r of
        Inr _ \<Rightarrow> (if length ps < 8 then ps @ [p] else tl ps @ [p]) | Inl _ \<Rightarrow> ps)"
    using emergency_send_cases [OF assms(1,4)] assms(3)
    by (cases r) (simp_all add: overflow_push_def EMERGENCY_BUFFER_SIZE_def map_tl)
next
  obtain s' where p: "poll (em_subscriber d) = (Inr (Some (pack_emergency q)), s')"
    and rest: "queue s' = map pack_emergency qs"
    using shm_law_poll_head [OF assms(1,2), of "em_subscriber d"] assms(6) by auto
  have "polled poll 0 (em_subscriber d) (Inr (pack_emergency q)) s'" using p by simp
  from emergency_receive_polled [OF assms(5) this, of clk t]
  show "\<exists>d'. emergency_receive poll clk d t = Some (Inr q, d', t)
      \<and> queue (em_subscriber d') = map pack_emergency qs"
    using rest unpack_pack_emergency [OF assms(7)] by (simp add: emergency_verdict_def)
qed

definition mem_channel :: "'f list \<Rightarrow> (unit, 'f list, 'f list) emergency_channel" where
  "mem_channel q = \<lparr>em_publisher = q, em_subscriber = q, em_node = (), em_closed = False\<rparr>"

theorem emergency_queue_refinement_witness:
  "\<exists>c' d'. emergency_send (mem_pub EMERGENCY_BUFFER_SIZE) [4] (mem_channel (map pack_emergency [[1], [2, 3]])) = (Inr (), c')
     \<and> em_publisher c' = map pack_emergency [[1], [2, 3], [4]]
     \<and> emergency_receive mem_poll still_clock (mem_channel (map pack_emergency [[1], [2, 3]])) 0 = Some (Inr [1], d', 0)
     \<and> em_subscriber d' = map pack_emergency [[2, 3]]"
proof -
  let ?c = "mem_channel (map pack_emergency [[1], [2, 3]])"
  obtain c' where sent: "emergency_send (mem_pub EMERGENCY_BUFFER_SIZE) [4] ?c = (Inr (), c')"
    by (simp add: emergency_send_def mem_channel_def mem_pub_def MAX_EMERGENCY_PAYLOAD_LEN_def)
  have live: "is_ok (fst (mem_poll q))" for q :: "emergency_frame list"
    by (simp add: mem_poll_def split: list.split)
  show ?thesis
    using sent emergency_queue_refinement [OF mem_shm_law live _ sent, of "[[1], [2, 3]]" ?c "[1]" "[[2, 3]]" still_clock 0]
    by (auto simp: mem_channel_def)
qed

text \<open>
  What an emergency receive answers, completely, and when: on a closed channel \<open>ShuttingDown\<close> at
  once; otherwise it returns exactly when some poll is not empty, with that poll's verdict, having
  slept 50 microseconds for each empty poll before it and done nothing else to the clock.
\<close>

theorem emergency_receive_spec:
  "emergency_receive poll clk c t = Some (r, c', t') \<longleftrightarrow>
     (if em_closed c then r = Inl (Transport ShuttingDown) \<and> c' = c \<and> t' = t
      else \<exists>n x s'. polled poll n (em_subscriber c) x s' \<and> c' = c\<lparr>em_subscriber := s'\<rparr>
             \<and> t' = (sleep_for clk (50 * 1000) ^^ n) t
             \<and> r = (case x of
                       Inl e \<Rightarrow> Inl (Transport (ReceiveFailed (''emergency receive failed: '' @ e)))
                     | Inr f \<Rightarrow> unpack_emergency f))"
proof (cases "em_closed c")
  case True
  then show ?thesis by (auto simp: emergency_receive_def)
next
  case False
  note polled = emergency_receive_polled [OF False, of poll _ _ _ clk t]
  show ?thesis
  proof (rule iffI)
    assume ret: "emergency_receive poll clk c t = Some (r, c', t')"
    then obtain n x s' where p: "polled poll n (em_subscriber c) x s'"
      using emergency_receive_returns [OF ret False] by blast
    then show "if em_closed c then r = Inl (Transport ShuttingDown) \<and> c' = c \<and> t' = t
      else \<exists>n x s'. polled poll n (em_subscriber c) x s' \<and> c' = c\<lparr>em_subscriber := s'\<rparr>
             \<and> t' = (sleep_for clk (50 * 1000) ^^ n) t
             \<and> r = (case x of
                       Inl e \<Rightarrow> Inl (Transport (ReceiveFailed (''emergency receive failed: '' @ e)))
                     | Inr f \<Rightarrow> unpack_emergency f)"
      using polled [OF p] ret False
      unfolding emergency_verdict_def EMERGENCY_POLL_INTERVAL_def by auto
  next
    assume "if em_closed c then r = Inl (Transport ShuttingDown) \<and> c' = c \<and> t' = t
      else \<exists>n x s'. polled poll n (em_subscriber c) x s' \<and> c' = c\<lparr>em_subscriber := s'\<rparr>
             \<and> t' = (sleep_for clk (50 * 1000) ^^ n) t
             \<and> r = (case x of
                       Inl e \<Rightarrow> Inl (Transport (ReceiveFailed (''emergency receive failed: '' @ e)))
                     | Inr f \<Rightarrow> unpack_emergency f)"
    then show "emergency_receive poll clk c t = Some (r, c', t')"
      using polled False unfolding emergency_verdict_def EMERGENCY_POLL_INTERVAL_def by auto
  qed
qed

text \<open>
  A slot is not trusted: unpacking any 168-byte buffer with any declared length yields at most
  168 bytes, a prefix of the buffer as long as declared, or is refused when the length is over the
  capacity; and what the sender packs is a frame of 172 bytes that unpacks to its payload.
\<close>

theorem unpack_untrusted_emergency:
  "(case unpack_emergency f of
      Inr p \<Rightarrow> unat (frame_len f) \<le> 168 \<and> p = take (unat (frame_len f)) (frame_data f)
    | Inl e \<Rightarrow> unat (frame_len f) > 168 \<and> e = emergency_capacity_error (unat (frame_len f)))
   \<and> (case emergency_send pub p c of
        (Inr _, _) \<Rightarrow> unpack_emergency (pack_emergency p) = Inr p
          \<and> 4 + length (frame_data (pack_emergency p)) = EMERGENCY_FRAME_SIZE
      | (Inl _, _) \<Rightarrow> True)"
proof
  show "case unpack_emergency f of
      Inr p \<Rightarrow> unat (frame_len f) \<le> 168 \<and> p = take (unat (frame_len f)) (frame_data f)
    | Inl e \<Rightarrow> unat (frame_len f) > 168 \<and> e = emergency_capacity_error (unat (frame_len f))"
    by (auto simp: unpack_emergency_def Let_def MAX_EMERGENCY_PAYLOAD_LEN_def split: sum.splits if_splits)
  have "unpack_emergency (pack_emergency p) = Inr p
      \<and> 4 + length (frame_data (pack_emergency p)) = EMERGENCY_FRAME_SIZE" if "length p \<le> 168"
    using that unpack_pack_emergency [OF that]
    by (simp add: EMERGENCY_FRAME_SIZE_def MAX_EMERGENCY_PAYLOAD_LEN_def pack_emergency_def)
  then show "case emergency_send pub p c of
        (Inr _, _) \<Rightarrow> unpack_emergency (pack_emergency p) = Inr p
          \<and> 4 + length (frame_data (pack_emergency p)) = EMERGENCY_FRAME_SIZE
      | (Inl _, _) \<Rightarrow> True"
    by (auto simp: emergency_send_def MAX_EMERGENCY_PAYLOAD_LEN_def split: prod.splits sum.splits if_splits)
qed

text \<open>
  Isolation: the emergency channel of a name uses services no IPC connection of any name uses,
  and its two ends meet on the same two services, with a buffer of eight.
\<close>

theorem emergency_isolated:
  "ipc_service name dir \<noteq> emergency_service name' dir'
   \<and> (case (emergency_open_server ops name, emergency_open_client ops name) of
      (Inr server, Inr client) \<Rightarrow>
        \<exists>node up down upn downn s p s' p'.
          create_node ops = Inr node
          \<and> service_name ops (emergency_service name ''c2s'') = Inr upn
          \<and> service_name ops (emergency_service name ''s2c'') = Inr downn
          \<and> open_or_create ops node upn 8 True = Inr up \<and> open_or_create ops node downn 8 True = Inr down
          \<and> create_subscriber ops up = Inr s \<and> create_publisher ops up = Inr p
          \<and> create_subscriber ops down = Inr s' \<and> create_publisher ops down = Inr p'
          \<and> em_subscriber server = update_subscriber ops s \<and> em_publisher client = update_publisher ops p
          \<and> em_subscriber client = update_subscriber ops s' \<and> em_publisher server = update_publisher ops p'
          \<and> \<not> em_closed server \<and> \<not> em_closed client
    | _ \<Rightarrow> True)"
  by (auto simp: emergency_open_server_def emergency_open_client_def emergency_open_def try_bind_Inr_iff
      Let_def ipc_service_def emergency_service_def EMERGENCY_BUFFER_SIZE_def split: sum.splits)

text \<open>
  The lifecycle contract of the emergency channel: after any history that has returned, a \<open>close\<close>
  makes every later operation return at once and answer as a closed channel does (\<open>ShuttingDown\<close>, or
  success for a repeated close).
\<close>

theorem emergency_lifecycle:
  assumes "conn_run (\<lambda>p (c, t). case emergency_send pub p c of (r, c') \<Rightarrow> (r, (c', t)))
      (\<lambda>(c, t). emergency_receive poll clk c t)
      (\<lambda>(c, t). case emergency_close c of (r, c') \<Rightarrow> (r, (c', t))) ops (c, t) = Some (rs, (c1, t1))"
  shows "conn_run (\<lambda>p (c, t). case emergency_send pub p c of (r, c') \<Rightarrow> (r, (c', t)))
      (\<lambda>(c, t). emergency_receive poll clk c t)
      (\<lambda>(c, t). case emergency_close c of (r, c') \<Rightarrow> (r, (c', t))) (ops @ OpClose # ops') (c, t) =
      Some (rs @ Closed (Inr ()) # map closed_answer ops', (c1\<lparr>em_closed := True\<rparr>, t1))"
  by (rule conjunct1 [OF em_life.run_with_close [OF assms]]) (simp add: emergency_close_def)

end
