(* ===== verification/Laic_Tls.thy ===== *)
theory Laic_Tls
  imports Laic_Errors
begin

text \<open>
  \<open>crates/laic/src/transport/tls.rs\<close>: building the rustls/quinn configurations of both endpoints.
  rustls and quinn are third-party, so each call is a field of \<open>tls_ops\<close>; the order of the calls,
  what is passed to each and the errors are translated.
\<close>

record ('cert, 'key, 'store, 'verifier, 'scfg, 'ccfg, 'qs, 'qc) tls_ops =
  empty_store :: 'store
  store_add :: "'cert \<Rightarrow> 'store \<Rightarrow> string + 'store"
  build_verifier :: "'store \<Rightarrow> string + 'verifier"
  with_single_cert :: "'verifier \<Rightarrow> 'cert list \<Rightarrow> 'key \<Rightarrow> string + 'scfg"
  set_server_alpn :: "bytes list \<Rightarrow> 'scfg \<Rightarrow> 'scfg"
  quic_server_config :: "'scfg \<Rightarrow> string + 'qs"
  with_client_auth_cert :: "'store \<Rightarrow> 'cert list \<Rightarrow> 'key \<Rightarrow> string + 'ccfg"
  set_client_alpn :: "bytes list \<Rightarrow> 'ccfg \<Rightarrow> 'ccfg"
  quic_client_config :: "'ccfg \<Rightarrow> string + 'qc"

definition ALPN_LAIC :: bytes where "ALPN_LAIC = [0x6C, 0x61, 0x69, 0x63]"

record ('cert, 'key) server_tls_config =
  server_cert_chain :: "'cert list"
  server_key :: 'key
  client_ca :: 'cert

record ('cert, 'key) client_tls_config =
  server_ca :: 'cert
  client_cert_chain :: "'cert list"
  client_key :: 'key

definition server_tls_new :: "'cert list \<Rightarrow> 'key \<Rightarrow> 'cert \<Rightarrow> ('cert, 'key) server_tls_config" where
  "server_tls_new chain key ca = \<lparr>server_cert_chain = chain, server_key = key, client_ca = ca\<rparr>"

definition client_tls_new :: "'cert \<Rightarrow> 'cert list \<Rightarrow> 'key \<Rightarrow> ('cert, 'key) client_tls_config" where
  "client_tls_new ca chain key = \<lparr>server_ca = ca, client_cert_chain = chain, client_key = key\<rparr>"

definition server_tls_build where
  "server_tls_build ops c =
     try_bind (map_err (\<lambda>e. connection_failed (''invalid client CA certificate: '' @ e))
       (store_add ops (client_ca c) (empty_store ops))) (\<lambda>root_store.
     try_bind (map_err (\<lambda>e. connection_failed (''failed to build client verifier: '' @ e))
       (build_verifier ops root_store)) (\<lambda>client_verifier.
     try_bind (map_err (\<lambda>e. connection_failed (''invalid server certificate/key: '' @ e))
       (with_single_cert ops client_verifier (server_cert_chain c) (server_key c))) (\<lambda>tls_config.
     try_bind (map_err (\<lambda>e. connection_failed (''failed to create QUIC server config: '' @ e))
       (quic_server_config ops (set_server_alpn ops [ALPN_LAIC] tls_config))) Inr)))"

definition client_tls_build where
  "client_tls_build ops c =
     try_bind (map_err (\<lambda>e. connection_failed (''invalid server CA certificate: '' @ e))
       (store_add ops (server_ca c) (empty_store ops))) (\<lambda>root_store.
     try_bind (map_err (\<lambda>e. connection_failed (''invalid client certificate/key: '' @ e))
       (with_client_auth_cert ops root_store (client_cert_chain c) (client_key c))) (\<lambda>tls_config.
     try_bind (map_err (\<lambda>e. connection_failed (''failed to create QUIC client config: '' @ e))
       (quic_client_config ops (set_client_alpn ops [ALPN_LAIC] tls_config))) Inr))"

lemma server_tls_build_Inl: "server_tls_build ops c = Inl e \<Longrightarrow> \<exists>d. e = connection_failed d"
  by (auto simp: server_tls_build_def try_bind_Inl_iff map_err_def split: sum.splits)

lemma client_tls_build_Inl: "client_tls_build ops c = Inl e \<Longrightarrow> \<exists>d. e = connection_failed d"
  by (auto simp: client_tls_build_def try_bind_Inl_iff map_err_def split: sum.splits)

section \<open>Properties\<close>

text \<open>
  No insecure mode: a server configuration exists exactly when the client CA was accepted, a
  client verifier was built from a store holding that CA alone, the certificate matched and the ALPN
  list is the single protocol \<open>laic\<close>; a client configuration exists exactly when the server CA is
  the only root and the client certificate is presented, with the same ALPN list; and every failure
  of either is a connection failure.
\<close>

theorem tls_build_mutual:
  "(server_tls_build ops sc = Inr q \<longleftrightarrow>
      (\<exists>store v cfg. store_add ops (client_ca sc) (empty_store ops) = Inr store
         \<and> build_verifier ops store = Inr v
         \<and> with_single_cert ops v (server_cert_chain sc) (server_key sc) = Inr cfg
         \<and> quic_server_config ops (set_server_alpn ops [[0x6C, 0x61, 0x69, 0x63]] cfg) = Inr q))
   \<and> (client_tls_build ops cc = Inr q' \<longleftrightarrow>
      (\<exists>store cfg. store_add ops (server_ca cc) (empty_store ops) = Inr store
         \<and> with_client_auth_cert ops store (client_cert_chain cc) (client_key cc) = Inr cfg
         \<and> quic_client_config ops (set_client_alpn ops [[0x6C, 0x61, 0x69, 0x63]] cfg) = Inr q'))
   \<and> (case server_tls_build ops sc of Inl e \<Rightarrow> laic_code e = ErrorCode 0x0101 | Inr _ \<Rightarrow> True)
   \<and> (case client_tls_build ops cc of Inl e \<Rightarrow> laic_code e = ErrorCode 0x0101 | Inr _ \<Rightarrow> True)"
  by (auto simp: server_tls_build_def client_tls_build_def try_bind_Inr_iff ALPN_LAIC_def
      connection_failed_def try_bind_Inl_iff map_err_def split: sum.splits)

end
