(* ===== verification/Laic_Quic.thy ===== *)
theory Laic_Quic
  imports Laic_Framing Laic_Lifecycle Laic_Tls
begin

text \<open>
  \<open>crates/laic/src/transport/quic.rs\<close>: server, connection and their operations. quinn is
  third-party: the endpoint calls are the fields of \<open>quinn_ops\<close> (an awaited call is its outcome), the
  stream calls are \<open>write_all\<close> and \<open>read_exact\<close> of \<open>Laic_Framing\<close>, \<open>finish\<close> and \<open>conn_close\<close>.
\<close>

section \<open>Endpoints and connections\<close>

datatype socket_addr = V4 bytes u16 | V6 bytes u16

fun is_ipv6 :: "socket_addr \<Rightarrow> bool" where
  "is_ipv6 (V4 _ _) = False"
| "is_ipv6 (V6 _ _) = True"

record ('e, 'i, 'k, 'w, 'r, 'sc, 'cc) quinn_ops =
  server_endpoint :: "'sc \<Rightarrow> socket_addr \<Rightarrow> string + 'e"
  client_endpoint :: "socket_addr \<Rightarrow> string + 'e"
  set_default_client_config :: "'cc \<Rightarrow> 'e \<Rightarrow> 'e"
  start_connect :: "'e \<Rightarrow> socket_addr \<Rightarrow> string \<Rightarrow> string + 'i"
  accept_incoming :: "'e \<Rightarrow> 'i option"
  await_connection :: "'i \<Rightarrow> string + 'k"
  accept_bi :: "'k \<Rightarrow> string + 'w \<times> 'r"
  open_bi :: "'k \<Rightarrow> string + 'w \<times> 'r"
  endpoint_addr :: "'e \<Rightarrow> string + socket_addr"
  endpoint_close :: "u32 \<Rightarrow> string \<Rightarrow> 'e \<Rightarrow> 'e"
  remote_address :: "'k \<Rightarrow> socket_addr"

record ('w, 'k) stream_ops =
  finish :: "'w \<Rightarrow> (string + unit) \<times> 'w"
  conn_close :: "u32 \<Rightarrow> string \<Rightarrow> 'k \<Rightarrow> 'k"

record ('w, 'r, 'k, 'e) quic_connection =
  quic_send_stream :: 'w
  quic_recv_stream :: 'r
  quic_conn :: 'k
  quic_closed :: bool
  quic_endpoint :: "'e option"

section \<open>The server\<close>

record 'e quic_server =
  endpoint :: 'e

definition quic_bind where
  "quic_bind tls ops addr cfg =
     try_bind (server_tls_build tls cfg) (\<lambda>server_config.
     try_bind (map_err (\<lambda>e. connection_failed (''failed to bind QUIC server: '' @ e))
       (server_endpoint ops server_config addr)) (\<lambda>e. Inr \<lparr>endpoint = e\<rparr>))"

definition quic_accept ::
    "('e, 'i, 'k, 'w, 'r, 'sc, 'cc) quinn_ops \<Rightarrow> 'e quic_server
     \<Rightarrow> laic_error + ('w, 'r, 'k, 'e) quic_connection" where
  "quic_accept ops srv =
     (case accept_incoming ops (endpoint srv) of
        None \<Rightarrow> Inl (connection_failed ''server endpoint closed'')
      | Some incoming \<Rightarrow>
          try_bind (map_err (\<lambda>e. connection_failed (''incoming connection failed: '' @ e))
            (await_connection ops incoming)) (\<lambda>conn.
          try_bind (map_err (\<lambda>e. connection_failed (''failed to accept bidirectional stream: '' @ e))
            (accept_bi ops conn)) (\<lambda>(send, recv).
          Inr \<lparr>quic_send_stream = send, quic_recv_stream = recv, quic_conn = conn,
               quic_closed = False, quic_endpoint = None\<rparr>)))"

definition quic_local_addr where
  "quic_local_addr ops srv =
     map_err (\<lambda>e. connection_failed (''failed to get local address: '' @ e))
       (endpoint_addr ops (endpoint srv))"

definition quic_server_close where
  "quic_server_close ops srv = srv\<lparr>endpoint := endpoint_close ops 0 ''shutdown'' (endpoint srv)\<rparr>"

section \<open>The connection\<close>

definition client_bind_addr :: "socket_addr \<Rightarrow> socket_addr" where
  "client_bind_addr addr = (if is_ipv6 addr then V6 (replicate 16 0) 0 else V4 (replicate 4 0) 0)"

definition quic_connect where
  "quic_connect tls ops addr server_name cfg =
     try_bind (client_tls_build tls cfg) (\<lambda>client_config.
     try_bind (map_err (\<lambda>e. connection_failed (''failed to create client endpoint: '' @ e))
       (client_endpoint ops (client_bind_addr addr))) (\<lambda>ep.
     let ep = set_default_client_config ops client_config ep in
     try_bind (map_err (\<lambda>e. connection_failed (''failed to initiate connection: '' @ e))
       (start_connect ops ep addr server_name)) (\<lambda>connecting.
     try_bind (map_err (\<lambda>e. connection_failed (''connection failed: '' @ e))
       (await_connection ops connecting)) (\<lambda>conn.
     try_bind (map_err (\<lambda>e. connection_failed (''failed to open bidirectional stream: '' @ e))
       (open_bi ops conn)) (\<lambda>(send, recv).
     Inr \<lparr>quic_send_stream = send, quic_recv_stream = recv, quic_conn = conn,
          quic_closed = False, quic_endpoint = Some ep\<rparr>)))))"

definition quic_send ::
    "'w write_all \<Rightarrow> message \<Rightarrow> ('w, 'r, 'k, 'e) quic_connection
     \<Rightarrow> (laic_error + unit) \<times> ('w, 'r, 'k, 'e) quic_connection" where
  "quic_send wr m c =
     (if quic_closed c then (Inl (Transport ShuttingDown), c)
      else case write_frame wr m (quic_send_stream c) of
        (r, w) \<Rightarrow> (r, c\<lparr>quic_send_stream := w\<rparr>))"

definition quic_receive ::
    "'r read_exact \<Rightarrow> ('w, 'r, 'k, 'e) quic_connection
     \<Rightarrow> (laic_error + message) \<times> ('w, 'r, 'k, 'e) quic_connection" where
  "quic_receive rd c =
     (if quic_closed c then (Inl (Transport ShuttingDown), c)
      else case read_frame rd (quic_recv_stream c) of
        (r, s) \<Rightarrow> (r, c\<lparr>quic_recv_stream := s\<rparr>))"

definition quic_close ::
    "('w, 'k) stream_ops \<Rightarrow> ('w, 'r, 'k, 'e) quic_connection
     \<Rightarrow> (laic_error + unit) \<times> ('w, 'r, 'k, 'e) quic_connection" where
  "quic_close sops c =
     (if quic_closed c then (Inr (), c)
      else case finish sops (quic_send_stream c) of
        (finish_result, w) \<Rightarrow>
          (map_err (\<lambda>e. connection_failed (''failed to finish send stream: '' @ e)) finish_result,
           c\<lparr>quic_closed := True, quic_send_stream := w,
             quic_conn := conn_close sops 0 ''done'' (quic_conn c)\<rparr>))"

definition quic_remote_addr where
  "quic_remote_addr ops c = remote_address ops (quic_conn c)"

interpretation quic_life: connection_lifecycle
  "quic_send wr" "\<lambda>c. Some (quic_receive rd c)" "quic_close sops" quic_closed for wr rd sops
  by unfold_locales
    (auto simp: quic_send_def quic_receive_def quic_close_def split: prod.splits if_splits)

section \<open>Bursts\<close>

fun quic_sends where
  "quic_sends wr [] c = (Inr (), c)"
| "quic_sends wr (m # ms) c =
     (case quic_send wr m c of
        (Inl e, c) \<Rightarrow> (Inl e, c)
      | (Inr _, c) \<Rightarrow> quic_sends wr ms c)"

fun quic_receives where
  "quic_receives rd 0 c = (Inr [], c)"
| "quic_receives rd (Suc n) c =
     (case quic_receive rd c of
        (Inl e, c) \<Rightarrow> (Inl e, c)
      | (Inr m, c) \<Rightarrow>
          (case quic_receives rd n c of
             (Inl e, c) \<Rightarrow> (Inl e, c)
           | (Inr ms, c) \<Rightarrow> (Inr (m # ms), c)))"

lemma quic_sends_frames:
  "\<not> quic_closed c \<Longrightarrow> quic_sends wr ms c =
     (case write_frames wr ms (quic_send_stream c) of (r, w) \<Rightarrow> (r, c\<lparr>quic_send_stream := w\<rparr>))"
  by (induction ms arbitrary: c) (auto simp: quic_send_def split: prod.splits sum.splits)

lemma quic_receives_frames:
  "\<not> quic_closed c \<Longrightarrow> quic_receives rd n c =
     (case read_frames rd n (quic_recv_stream c) of (r, s) \<Rightarrow> (r, c\<lparr>quic_recv_stream := s\<rparr>))"
  by (induction n arbitrary: c) (auto simp: quic_receive_def split: prod.splits sum.splits)

section \<open>Properties\<close>

text \<open>
  End to end over QUIC: when a connection has sent a list of valid messages without an error and
  the peer's stream delivers what was sent, the peer receives exactly those messages in order, and
  nothing is left over.
\<close>

theorem quic_session_roundtrip:
  assumes "writer_law wr sent" and "reader_law rd pending" and "list_all message_inv ms"
    and "\<not> quic_closed sender" and "\<not> quic_closed receiver"
    and "sent (quic_send_stream sender) = []" and "quic_sends wr ms sender = (Inr (), sender')"
    and "pending (quic_recv_stream receiver) = sent (quic_send_stream sender')"
  shows "\<exists>receiver'. quic_receives rd (length ms) receiver = (Inr ms, receiver')
    \<and> pending (quic_recv_stream receiver') = [] \<and> \<not> quic_closed receiver'"
proof -
  obtain w' where w: "write_frames wr ms (quic_send_stream sender) = (Inr (), w')"
    and s': "quic_send_stream sender' = w'"
    using assms(7) by (auto simp: quic_sends_frames [OF assms(4)] split: prod.splits)
  obtain r' where "read_frames rd (length ms) (quic_recv_stream receiver) = (Inr ms, r')" "pending r' = []"
    using read_frames_concat [OF assms(2,3), of "quic_recv_stream receiver" "[]"]
      write_frames_ok [OF assms(1,3) w] assms(6,8) s' by auto
  then show ?thesis using assms(5) by (simp add: quic_receives_frames [OF assms(5)])
qed

definition mem_quic :: "bytes \<Rightarrow> (bytes, bytes, unit, unit) quic_connection" where
  "mem_quic bs = \<lparr>quic_send_stream = [], quic_recv_stream = bs, quic_conn = (),
                  quic_closed = False, quic_endpoint = None\<rparr>"

theorem quic_session_roundtrip_witness:
  "\<exists>receiver'. quic_receives mem_read 2
      (mem_quic (frame_bytes sample_message @ frame_bytes sample_message))
    = (Inr [sample_message, sample_message], receiver')"
proof -
  let ?ms = "[sample_message, sample_message]"
  have valid: "list_all message_inv ?ms" by (simp add: sample_message_inv)
  have sent: "quic_sends mem_write ?ms (mem_quic []) =
      (Inr (), (mem_quic [])\<lparr>quic_send_stream := frame_bytes sample_message @ frame_bytes sample_message\<rparr>)"
    by (simp add: quic_send_def mem_quic_def mem_write_frame sample_message_inv sample_frame_small)
  show ?thesis
    using quic_session_roundtrip [OF mem_write_law mem_read_law valid _ _ _ sent,
        of "mem_quic (frame_bytes sample_message @ frame_bytes sample_message)"]
    by (auto simp: mem_quic_def numeral_2_eq_2)
qed

text \<open>
  Closing a QUIC connection: it is closed afterwards whatever happens, the connection is closed
  even when finishing the stream fails, the error is the finish failure, and a second close does
  nothing at all.
\<close>

theorem quic_close_spec:
  "case quic_close sops c of (r, c') \<Rightarrow>
     quic_closed c' \<and> quic_close sops c' = (Inr (), c')
     \<and> (if quic_closed c then r = Inr () \<and> c' = c
        else quic_conn c' = conn_close sops 0 ''done'' (quic_conn c)
          \<and> quic_recv_stream c' = quic_recv_stream c
          \<and> quic_send_stream c' = snd (finish sops (quic_send_stream c))
          \<and> r = (case fst (finish sops (quic_send_stream c)) of
                   Inr _ \<Rightarrow> Inr ()
                 | Inl d \<Rightarrow> Inl (Transport (ConnectionFailed (''failed to finish send stream: '' @ d)))))"
  by (auto simp: quic_close_def connection_failed_def map_err_def split: prod.splits sum.splits)

text \<open>
  Setting up QUIC: whatever rustls and quinn answer, \<open>bind\<close>, \<open>accept\<close> and \<open>connect\<close> either fail with
  the connection-failed code or give a usable result: an accepted or connected connection is open, on
  the streams of the connection it keeps; only the client keeps its endpoint alive, which it bound to
  the unspecified address, port 0, of the peer's address family.
\<close>

theorem quic_setup:
  "(case quic_bind tls ops addr scfg of
      Inl e \<Rightarrow> laic_code e = ErrorCode 0x0101
    | Inr srv \<Rightarrow> (\<exists>q. server_tls_build tls scfg = Inr q \<and> server_endpoint ops q addr = Inr (endpoint srv)))
   \<and> (case quic_accept ops server of
      Inl e \<Rightarrow> laic_code e = ErrorCode 0x0101
    | Inr c \<Rightarrow> \<not> quic_closed c \<and> quic_endpoint c = None
        \<and> accept_bi ops (quic_conn c) = Inr (quic_send_stream c, quic_recv_stream c))
   \<and> (case quic_connect tls ops addr name ccfg of
      Inl e \<Rightarrow> laic_code e = ErrorCode 0x0101
    | Inr c \<Rightarrow> \<not> quic_closed c \<and> open_bi ops (quic_conn c) = Inr (quic_send_stream c, quic_recv_stream c)
        \<and> (\<exists>q ep. client_tls_build tls ccfg = Inr q
              \<and> client_endpoint ops (case addr of V4 _ _ \<Rightarrow> V4 [0, 0, 0, 0] 0 | V6 _ _ \<Rightarrow> V6 (replicate 16 0) 0) = Inr ep
              \<and> quic_endpoint c = Some (set_default_client_config ops q ep)))"
proof (intro conjI)
  show "case quic_bind tls ops addr scfg of
      Inl e \<Rightarrow> laic_code e = ErrorCode 0x0101
    | Inr srv \<Rightarrow> (\<exists>q. server_tls_build tls scfg = Inr q \<and> server_endpoint ops q addr = Inr (endpoint srv))"
    by (auto simp: quic_bind_def try_bind_Inr_iff try_bind_Inl_iff map_err_Inl_iff connection_failed_def
        dest!: server_tls_build_Inl split: sum.splits)
  show "case quic_accept ops server of
      Inl e \<Rightarrow> laic_code e = ErrorCode 0x0101
    | Inr c \<Rightarrow> \<not> quic_closed c \<and> quic_endpoint c = None
        \<and> accept_bi ops (quic_conn c) = Inr (quic_send_stream c, quic_recv_stream c)"
    by (auto simp: quic_accept_def try_bind_Inr_iff try_bind_Inl_iff map_err_Inl_iff connection_failed_def
        split: sum.splits option.splits)
  have "client_bind_addr addr = (case addr of V4 _ _ \<Rightarrow> V4 [0, 0, 0, 0] 0 | V6 _ _ \<Rightarrow> V6 (replicate 16 0) 0)"
    by (cases addr) (simp_all add: client_bind_addr_def numeral_eq_Suc)
  then show "case quic_connect tls ops addr name ccfg of
      Inl e \<Rightarrow> laic_code e = ErrorCode 0x0101
    | Inr c \<Rightarrow> \<not> quic_closed c \<and> open_bi ops (quic_conn c) = Inr (quic_send_stream c, quic_recv_stream c)
        \<and> (\<exists>q ep. client_tls_build tls ccfg = Inr q
              \<and> client_endpoint ops (case addr of V4 _ _ \<Rightarrow> V4 [0, 0, 0, 0] 0 | V6 _ _ \<Rightarrow> V6 (replicate 16 0) 0) = Inr ep
              \<and> quic_endpoint c = Some (set_default_client_config ops q ep))"
    by (auto simp: quic_connect_def try_bind_Inr_iff try_bind_Inl_iff map_err_Inl_iff connection_failed_def Let_def
        dest!: client_tls_build_Inl split: sum.splits)
qed

end
