(* ===== verification/Laic_Transport.thy ===== *)
theory Laic_Transport
  imports Laic_Ipc Laic_Quic
begin

text \<open>
  \<open>crates/laic/src/transport/mod.rs\<close> and \<open>gateway.rs\<close>: the \<open>Transport\<close> facade over the two backends
  and the IPC/QUIC gateway. \<open>backends\<close> collects the external calls both backends use; the world of
  the IPC polling loop is threaded beside the connection.
\<close>

section \<open>The facade\<close>

record ('p, 's, 't, 'w, 'r, 'k) backends =
  b_publisher :: "(ipc_frame, 'p) publisher_ops"
  b_poll :: "(ipc_frame, 's) poll"
  b_clock :: "'t clock_ops"
  b_write :: "'w write_all"
  b_read :: "'r read_exact"
  b_stream :: "('w, 'k) stream_ops"

datatype ('n, 'p, 's, 'w, 'r, 'k, 'e) transport =
    Ipc "('n, 'p, 's) ipc_connection"
  | Quic "('w, 'r, 'k, 'e) quic_connection"

type_synonym ('n, 'p, 's, 'w, 'r, 'k, 'e, 't) transport_state =
  "('n, 'p, 's, 'w, 'r, 'k, 'e) transport \<times> 't ipc_world"

definition transport_send ::
    "('p, 's, 't, 'w, 'r, 'k) backends \<Rightarrow> message \<Rightarrow> ('n, 'p, 's, 'w, 'r, 'k, 'e, 't) transport_state
     \<Rightarrow> (laic_error + unit) \<times> ('n, 'p, 's, 'w, 'r, 'k, 'e, 't) transport_state" where
  "transport_send b m s =
     (case s of
        (Ipc c, w) \<Rightarrow> (case ipc_send (b_publisher b) m c of (r, c) \<Rightarrow> (r, (Ipc c, w)))
      | (Quic c, w) \<Rightarrow> (case quic_send (b_write b) m c of (r, c) \<Rightarrow> (r, (Quic c, w))))"

definition transport_receive ::
    "('p, 's, 't, 'w, 'r, 'k) backends \<Rightarrow> ('n, 'p, 's, 'w, 'r, 'k, 'e, 't) transport_state
     \<Rightarrow> ((laic_error + message) \<times> ('n, 'p, 's, 'w, 'r, 'k, 'e, 't) transport_state) option" where
  "transport_receive b s =
     (case s of
        (Ipc c, w) \<Rightarrow>
          (case ipc_receive (b_poll b) (b_clock b) c w of
             None \<Rightarrow> None
           | Some (r, c, w) \<Rightarrow> Some (r, (Ipc c, w)))
      | (Quic c, w) \<Rightarrow> (case quic_receive (b_read b) c of (r, c) \<Rightarrow> Some (r, (Quic c, w))))"

definition transport_close ::
    "('p, 's, 't, 'w, 'r, 'k) backends \<Rightarrow> ('n, 'p, 's, 'w, 'r, 'k, 'e, 't) transport_state
     \<Rightarrow> (laic_error + unit) \<times> ('n, 'p, 's, 'w, 'r, 'k, 'e, 't) transport_state" where
  "transport_close b s =
     (case s of
        (Ipc c, w) \<Rightarrow> (case ipc_close c of (r, c) \<Rightarrow> (r, (Ipc c, w)))
      | (Quic c, w) \<Rightarrow> (case quic_close (b_stream b) c of (r, c) \<Rightarrow> (r, (Quic c, w))))"

fun transport_closed :: "('n, 'p, 's, 'w, 'r, 'k, 'e, 't) transport_state \<Rightarrow> bool" where
  "transport_closed (Ipc c, w) = ipc_closed c"
| "transport_closed (Quic c, w) = quic_closed c"

text \<open>The facade keeps the lifecycle contract because both backends do.\<close>

interpretation facade: connection_lifecycle
  "transport_send b" "transport_receive b" "transport_close b" transport_closed for b
proof unfold_locales
  fix s m r s'
  assume "transport_send b m s = (r, s')"
  then show "transport_closed s' = transport_closed s"
    using ipc_life.send_keeps_open [of "b_publisher b" m _ _ _] quic_life.send_keeps_open [of "b_write b" m]
    by (cases s rule: transport_closed.cases) (fastforce simp: transport_send_def split: prod.splits)+
next
  fix s r s'
  assume "transport_receive b s = Some (r, s')"
  then show "transport_closed s' = transport_closed s"
    using ipc_life.receive_keeps_open [of "b_poll b" "b_clock b"] quic_life.receive_keeps_open [of "b_read b"]
    by (cases s rule: transport_closed.cases)
      (fastforce simp: transport_receive_def split: prod.splits option.splits)+
next
  fix s r s'
  assume "transport_close b s = (r, s')"
  then show "transport_closed s'"
    using quic_life.close_closes [of "b_stream b"]
    by (cases s rule: transport_closed.cases)
      (fastforce simp: transport_close_def ipc_close_def split: prod.splits)+
next
  fix s m
  show "transport_closed s \<Longrightarrow> transport_send b m s = (Inl (Transport ShuttingDown), s)"
    by (cases s rule: transport_closed.cases) (simp_all add: transport_send_def ipc_send_def quic_send_def)
  show "transport_closed s \<Longrightarrow> transport_receive b s = Some (Inl (Transport ShuttingDown), s)"
    by (cases s rule: transport_closed.cases)
      (simp_all add: transport_receive_def ipc_receive_def quic_receive_def)
  show "transport_closed s \<Longrightarrow> transport_close b s = (Inr (), s)"
    by (cases s rule: transport_closed.cases) (simp_all add: transport_close_def ipc_close_def quic_close_def)
qed

section \<open>The gateway\<close>

record ('n, 'p, 's, 'w, 'r, 'k, 'e) gateway =
  gw_ipc :: "('n, 'p, 's) ipc_connection"
  gw_quic :: "('w, 'r, 'k, 'e) quic_connection"

definition gateway_new where
  "gateway_new ipc quic = \<lparr>gw_ipc = ipc, gw_quic = quic\<rparr>"

definition forward_ipc_to_quic where
  "forward_ipc_to_quic b g w =
     (case ipc_receive (b_poll b) (b_clock b) (gw_ipc g) w of
        None \<Rightarrow> None
      | Some (Inl e, c, w) \<Rightarrow> Some (Inl e, g\<lparr>gw_ipc := c\<rparr>, w)
      | Some (Inr m, c, w) \<Rightarrow>
          (case quic_send (b_write b) m (gw_quic g) of
             (r, q) \<Rightarrow> Some (r, g\<lparr>gw_ipc := c, gw_quic := q\<rparr>, w)))"

definition forward_quic_to_ipc where
  "forward_quic_to_ipc b g =
     (case quic_receive (b_read b) (gw_quic g) of
        (Inl e, q) \<Rightarrow> (Inl e, g\<lparr>gw_quic := q\<rparr>)
      | (Inr m, q) \<Rightarrow>
          (case ipc_send (b_publisher b) m (gw_ipc g) of
             (r, c) \<Rightarrow> (r, g\<lparr>gw_quic := q, gw_ipc := c\<rparr>)))"

definition gateway_close where
  "gateway_close b g =
     (case ipc_close (gw_ipc g) of
        (ipc_result, c) \<Rightarrow>
      case quic_close (b_stream b) (gw_quic g) of
        (quic_result, q) \<Rightarrow>
          (case ipc_result of Inl e \<Rightarrow> Inl e | Inr _ \<Rightarrow> quic_result, g\<lparr>gw_ipc := c, gw_quic := q\<rparr>))"

definition gateway_into_parts where
  "gateway_into_parts g = (gw_ipc g, gw_quic g)"

section \<open>Properties\<close>

text \<open>In-memory backends, used by the witnesses.\<close>

definition mem_backends ::
    "(ipc_frame list, ipc_frame list, nat, bytes, bytes, unit) backends" where
  "mem_backends = \<lparr>b_publisher = mem_pub SUBSCRIBER_BUFFER_SIZE, b_poll = mem_poll, b_clock = still_clock,
     b_write = mem_write, b_read = mem_read,
     b_stream = \<lparr>finish = (\<lambda>w. (Inr (), w)), conn_close = (\<lambda>_ _ k. k)\<rparr>\<rparr>"

text \<open>
  C18. The lifecycle contract of the \<open>Transport\<close> facade, whichever backend is inside. Take any history of
  sends, receives and closes that has returned, then a \<open>close\<close> and any further operations: the
  whole run returns, none of the later operations waits; every later send and receive answers
  \<open>ShuttingDown\<close>, every later close answers Ok (repeated closes are documented to be idempotent), the
  transport is closed and keeps the state the close left, even if the close reported an error; and without
  a close in the history, whatever fails in it, the transport is as open as it was.
\<close>

theorem transport_lifecycle:
  assumes "conn_run (transport_send b) (transport_receive b) (transport_close b) ops s = Some (rs, s1)"
    and "transport_close b s1 = (r, s')"
  shows "conn_run (transport_send b) (transport_receive b) (transport_close b) (ops @ OpClose # ops') s =
      Some (rs @ Closed r # map closed_answer ops', s')
    \<and> transport_closed s'
    \<and> (OpClose \<in> set ops \<or> transport_closed s1 = transport_closed s)"
  using facade.run_with_close [OF assms, of ops'] facade.open_until_close [OF assms(1)] by auto

theorem transport_lifecycle_witness:
  "\<exists>s'. conn_run (transport_send mem_backends) (transport_receive mem_backends) (transport_close mem_backends)
       [OpSend sample_message, OpReceive, OpClose, OpSend sample_message, OpReceive, OpClose]
       (Ipc (mem_conn [message_frame sample_message]), quiet_world)
     = Some ([Sent (Inr ()), Received (Inr sample_message), Closed (Inr ()),
              Sent (Inl (Transport ShuttingDown)), Received (Inl (Transport ShuttingDown)), Closed (Inr ())], s')
     \<and> transport_closed s'"
proof -
  let ?run = "conn_run (transport_send mem_backends) (transport_receive mem_backends) (transport_close mem_backends)"
  let ?s = "(Ipc (mem_conn [message_frame sample_message]), quiet_world)"
  obtain w1 where rec: "ipc_receive mem_poll still_clock (mem_conn [message_frame sample_message]
        \<lparr>ipc_publisher := [message_frame sample_message, message_frame sample_message]\<rparr>) quiet_world =
      Some (Inr sample_message, mem_conn [message_frame sample_message]
        \<lparr>ipc_publisher := [message_frame sample_message, message_frame sample_message], ipc_subscriber := []\<rparr>, w1)"
    using ipc_receive_polled [of "mem_conn [message_frame sample_message]
        \<lparr>ipc_publisher := [message_frame sample_message, message_frame sample_message]\<rparr>" mem_poll 0
        "Inr (message_frame sample_message)" "[]" still_clock quiet_world]
      unpack_message_frame [OF sample_message_inv sample_message_fits]
    by (auto simp: ipc_verdict_def mem_conn_def mem_poll_def)
  have run: "?run [OpSend sample_message, OpReceive] ?s = Some ([Sent (Inr ()), Received (Inr sample_message)],
      (Ipc (mem_conn [message_frame sample_message]
        \<lparr>ipc_publisher := [message_frame sample_message, message_frame sample_message], ipc_subscriber := []\<rparr>), w1))"
    using rec by (simp add: transport_send_def transport_receive_def mem_backends_def
        mem_ipc_send sample_message_inv sample_message_fits overflow_push_def SUBSCRIBER_BUFFER_SIZE_def)
  have cl: "transport_close mem_backends (Ipc c, w1) = (Inr (), (Ipc (c\<lparr>ipc_closed := True\<rparr>), w1))" for c
    by (simp add: transport_close_def ipc_close_def)
  show ?thesis
    using transport_lifecycle [OF run cl, of "[OpSend sample_message, OpReceive, OpClose]"]
    unfolding append.simps list.map closed_answer.simps by blast
qed

lemma fits_ipc_within_max: "message_inv m \<Longrightarrow> fits_ipc m \<Longrightarrow> within_max m"
  by (simp add: message_inv_def fits_ipc_def within_max_def word_le_nat_alt MAX_IPC_PAYLOAD_LEN_def
      MAX_PAYLOAD_LEN_def)

text \<open>
  Forwarding from IPC to QUIC: the message is taken off the IPC side in any case; on an open QUIC
  side a success has put exactly its frame on the stream, a failure is a send failure with a prefix of
  the frame on the stream (never a size or framing error); on a closed one it is lost with
  \<open>ShuttingDown\<close>.
\<close>

theorem gateway_ipc_to_quic:
  assumes "writer_law (b_write b) sent" and "message_inv m" and "fits_ipc m" and "\<not> ipc_closed (gw_ipc g)"
    and "polled (b_poll b) n (ipc_subscriber (gw_ipc g)) (Inr (message_frame m)) s'"
  shows "\<exists>r g' w'. forward_ipc_to_quic b g w = Some (r, g', w')
    \<and> gw_ipc g' = (gw_ipc g)\<lparr>ipc_subscriber := s'\<rparr>
    \<and> (if quic_closed (gw_quic g) then r = Inl (Transport ShuttingDown) \<and> gw_quic g' = gw_quic g
       else case r of
           Inr _ \<Rightarrow> sent (quic_send_stream (gw_quic g')) = sent (quic_send_stream (gw_quic g)) @ frame_bytes m
         | Inl e \<Rightarrow> \<exists>d k. e = Transport (SendFailed d) \<and>
             sent (quic_send_stream (gw_quic g')) = sent (quic_send_stream (gw_quic g)) @ take k (frame_bytes m))"
proof -
  obtain w' where rec: "ipc_receive (b_poll b) (b_clock b) (gw_ipc g) w =
      Some (Inr m, (gw_ipc g)\<lparr>ipc_subscriber := s'\<rparr>, w')"
    using ipc_receive_polled [OF assms(4,5), of "b_clock b" w] unpack_message_frame [OF assms(2,3)]
    by (auto simp: ipc_verdict_def)
  obtain r q where snd: "quic_send (b_write b) m (gw_quic g) = (r, q)" by fastforce
  have fwd: "forward_ipc_to_quic b g w = Some (r, g\<lparr>gw_ipc := (gw_ipc g)\<lparr>ipc_subscriber := s'\<rparr>, gw_quic := q\<rparr>, w')"
    using rec snd by (simp add: forward_ipc_to_quic_def)
  have effect: "if quic_closed (gw_quic g) then r = Inl (Transport ShuttingDown) \<and> q = gw_quic g
      else case r of
          Inr _ \<Rightarrow> sent (quic_send_stream q) = sent (quic_send_stream (gw_quic g)) @ frame_bytes m
        | Inl e \<Rightarrow> \<exists>d k. e = Transport (SendFailed d) \<and>
            sent (quic_send_stream q) = sent (quic_send_stream (gw_quic g)) @ take k (frame_bytes m)"
  proof (cases "quic_closed (gw_quic g)")
    case True
    then show ?thesis using snd by (simp add: quic_send_def)
  next
    case False
    then obtain st where wf: "write_frame (b_write b) m (quic_send_stream (gw_quic g)) = (r, st)"
      and q: "quic_send_stream q = st"
      using snd by (auto simp: quic_send_def split: prod.splits)
    show ?thesis
      using False q wf write_frame_ok [OF assms(1)] write_frame_error [OF assms(1,2)]
        fits_ipc_within_max [OF assms(2,3)] assms(2)
      by (cases r) auto
  qed
  let ?g' = "g\<lparr>gw_ipc := (gw_ipc g)\<lparr>ipc_subscriber := s'\<rparr>, gw_quic := q\<rparr>"
  have fields: "gw_ipc ?g' = (gw_ipc g)\<lparr>ipc_subscriber := s'\<rparr>" "gw_quic ?g' = q" by simp_all
  show ?thesis
    by (rule exI [of _ r], rule exI [of _ ?g'], rule exI [of _ w'], unfold fields,
      intro conjI refl fwd effect)
qed

theorem gateway_ipc_to_quic_witness:
  "\<exists>r g' w' k. forward_ipc_to_quic mem_backends
       (gateway_new (mem_conn [message_frame sample_message]) (mem_quic [])) quiet_world = Some (r, g', w')
     \<and> ipc_subscriber (gw_ipc g') = [] \<and> quic_send_stream (gw_quic g') = take k (frame_bytes sample_message)"
proof -
  let ?g = "gateway_new (mem_conn [message_frame sample_message]) (mem_quic [])"
  have law: "writer_law (b_write mem_backends) (\<lambda>w. w)" by (simp add: mem_backends_def mem_write_law)
  have polled: "polled (b_poll mem_backends) 0 (ipc_subscriber (gw_ipc ?g)) (Inr (message_frame sample_message)) []"
    by (simp add: mem_backends_def gateway_new_def mem_conn_def mem_poll_def)
  have open_both: "\<not> ipc_closed (gw_ipc ?g)" "\<not> quic_closed (gw_quic ?g)" "quic_send_stream (gw_quic ?g) = []"
    by (simp_all add: gateway_new_def mem_conn_def mem_quic_def)
  obtain r g' w' where fwd: "forward_ipc_to_quic mem_backends ?g quiet_world = Some (r, g', w')"
    and sub: "gw_ipc g' = (gw_ipc ?g)\<lparr>ipc_subscriber := []\<rparr>"
    and eff: "case r of Inr _ \<Rightarrow> quic_send_stream (gw_quic g') = frame_bytes sample_message
      | Inl e \<Rightarrow> \<exists>d k. e = Transport (SendFailed d) \<and> quic_send_stream (gw_quic g') = take k (frame_bytes sample_message)"
    using gateway_ipc_to_quic [OF law sample_message_inv sample_message_fits open_both(1) polled, of quiet_world]
    unfolding open_both(3) by (simp only: open_both(2) if_False append_Nil) blast
  have "\<exists>k. quic_send_stream (gw_quic g') = take k (frame_bytes sample_message)"
    using eff by (cases r) (auto intro: exI [of _ "length (frame_bytes sample_message)"])
  then show ?thesis using fwd sub by auto
qed

lemma forward_quic_to_ipc_read:
  assumes "read_frame (b_read b) (quic_recv_stream (gw_quic g)) = (Inr m, st)" and "\<not> quic_closed (gw_quic g)"
    and "ipc_send (b_publisher b) m (gw_ipc g) = (r, c)"
  shows "forward_quic_to_ipc b g = (r, g\<lparr>gw_quic := (gw_quic g)\<lparr>quic_recv_stream := st\<rparr>, gw_ipc := c\<rparr>)"
  using assms by (simp add: forward_quic_to_ipc_def quic_receive_def)

text \<open>
  C35. Forwarding from QUIC to IPC: exactly the message's frame is consumed from the stream. A message
  that fits the 64 KiB slot is published unless shared memory itself refuses: the result is Ok exactly
  when a slot could be loaned and the publication of the message's slot succeeded, and then that slot is in the
  receivers' queue; otherwise the result is the loan's or the publication's error and the queue
  is as it was. A message over 64 KiB, which QUIC carries, is lost with the IPC framing error
  and the IPC side is untouched.
\<close>

theorem gateway_quic_to_ipc:
  assumes "reader_law (b_read b) pending" and "shm_law cap (b_publisher b) poll queue"
    and "message_inv m" and "within_max m" and "\<not> quic_closed (gw_quic g)" and "\<not> ipc_closed (gw_ipc g)"
    and "pending (quic_recv_stream (gw_quic g)) = frame_bytes m @ rest"
  shows "case forward_quic_to_ipc b g of (r, g') \<Rightarrow>
     pending (quic_recv_stream (gw_quic g')) = rest
     \<and> queue (ipc_publisher (gw_ipc g')) =
         (if is_ok r then overflow_push cap (queue (ipc_publisher (gw_ipc g))) (message_frame m)
          else queue (ipc_publisher (gw_ipc g)))
     \<and> (if length (payload m) > 65536
        then r = Inl (ipc_oversized_error (length (payload m))) \<and> gw_ipc g' = gw_ipc g
        else case loan_uninit (b_publisher b) (ipc_publisher (gw_ipc g)) of
            (Inl e, p) \<Rightarrow> r = Inl (Transport (loan_failure ''loan failed: '' e))
          | (Inr _, p) \<Rightarrow>
              (case publish (b_publisher b) (message_frame m) p of
                 (Inl e, p') \<Rightarrow> r = Inl (Transport (SendFailed (''send failed: '' @ e)))
               | (Inr _, p') \<Rightarrow> r = Inr () \<and> ipc_publisher (gw_ipc g') = p'))"
proof -
  obtain s' where rd: "read_frame (b_read b) (quic_recv_stream (gw_quic g)) = (Inr m, s')" "pending s' = rest"
    using read_frame_frame_bytes [OF assms(1,3,4)] assms(7) by blast
  obtain r c where snd: "ipc_send (b_publisher b) m (gw_ipc g) = (r, c)" by fastforce
  note fwd = forward_quic_to_ipc_read [OF rd(1) assms(5) snd]
  have big: "r = Inl (ipc_oversized_error (length (payload m))) \<and> c = gw_ipc g" if "length (payload m) > 65536"
    using snd that assms(6) by (simp add: ipc_send_def MAX_IPC_PAYLOAD_LEN_def)
  have small: "case loan_uninit (b_publisher b) (ipc_publisher (gw_ipc g)) of
            (Inl e, p) \<Rightarrow> r = Inl (Transport (loan_failure ''loan failed: '' e))
          | (Inr _, p) \<Rightarrow>
              (case publish (b_publisher b) (message_frame m) p of
                 (Inl e, p') \<Rightarrow> r = Inl (Transport (SendFailed (''send failed: '' @ e)))
               | (Inr _, p') \<Rightarrow> r = Inr () \<and> ipc_publisher c = p')" if "\<not> length (payload m) > 65536"
  proof -
    have "fits_ipc m" using that by (simp add: fits_ipc_def MAX_IPC_PAYLOAD_LEN_def)
    from ipc_send_open [OF assms(3) this assms(6), of "b_publisher b"] snd show ?thesis
      by (auto split: prod.splits sum.splits)
  qed
  have sel: "gw_ipc (g\<lparr>gw_quic := q, gw_ipc := c\<rparr>) = c" "gw_quic (g\<lparr>gw_quic := q, gw_ipc := c\<rparr>) = q" for q
    by simp_all
  show ?thesis
    using ipc_send_cases [OF assms(2,3) snd] rd(2) big small unfolding fwd prod.case sel by simp
qed

text \<open>The witness forwards a message that fits, and one of 65537 bytes.\<close>

definition large_message :: message where
  "large_message =
     \<lparr>header = (header sample_message)\<lparr>payload_len := 65537\<rparr>, payload = replicate 65537 0\<rparr>"

lemma large_message_inv: "message_inv large_message" and large_message_max: "within_max large_message"
proof -
  have "header_ok (h\<lparr>payload_len := n\<rparr>) = header_ok h" for h n
    by (simp add: header_ok_def header_array_lens_def check_header_def)
  then show "message_inv large_message"
    using sample_message_inv by (simp add: large_message_def message_inv_def)
  show "within_max large_message"
    by (simp add: large_message_def within_max_def MAX_PAYLOAD_LEN_def)
qed

theorem gateway_quic_to_ipc_witness:
  "(case forward_quic_to_ipc mem_backends (gateway_new (mem_conn []) (mem_quic (frame_bytes sample_message @ [7]))) of
     (r, g') \<Rightarrow> r = Inr () \<and> quic_recv_stream (gw_quic g') = [7]
       \<and> ipc_publisher (gw_ipc g') = [message_frame sample_message])
   \<and> (case forward_quic_to_ipc mem_backends (gateway_new (mem_conn []) (mem_quic (frame_bytes large_message @ [7]))) of
     (r, g') \<Rightarrow> r = Inl (ipc_oversized_error 65537) \<and> quic_recv_stream (gw_quic g') = [7]
       \<and> ipc_publisher (gw_ipc g') = [])"
proof -
  let ?g = "\<lambda>m. gateway_new (mem_conn []) (mem_quic (frame_bytes m @ [7]))"
  have r: "reader_law (b_read mem_backends) (\<lambda>r. r)" by (simp add: mem_backends_def mem_read_law)
  have p: "shm_law SUBSCRIBER_BUFFER_SIZE (b_publisher mem_backends) mem_poll (\<lambda>q. q)"
    by (simp add: mem_backends_def mem_shm_law)
  have open_both: "\<not> ipc_closed (gw_ipc (?g m))" "\<not> quic_closed (gw_quic (?g m))"
    "quic_recv_stream (gw_quic (?g m)) = frame_bytes m @ [7]" "ipc_publisher (gw_ipc (?g m)) = []" for m
    by (simp_all add: gateway_new_def mem_conn_def mem_quic_def)
  have pub: "loan_uninit (b_publisher mem_backends) q = (Inr (), q)"
    "publish (b_publisher mem_backends) f [] = (Inr (), [f])" for q f
    by (simp_all add: mem_backends_def mem_pub_def overflow_push_def SUBSCRIBER_BUFFER_SIZE_def)
  have sizes: "length (payload sample_message) \<le> 65536" "length (payload large_message) = 65537"
    using sample_message_fits by (simp_all add: fits_ipc_def MAX_IPC_PAYLOAD_LEN_def large_message_def)
  have "case forward_quic_to_ipc mem_backends (?g sample_message) of
     (r, g') \<Rightarrow> r = Inr () \<and> quic_recv_stream (gw_quic g') = [7]
       \<and> ipc_publisher (gw_ipc g') = [message_frame sample_message]"
    using gateway_quic_to_ipc [OF r p sample_message_inv sample_frame_small open_both(2,1,3)] sizes(1)
    by (auto simp: open_both pub)
  moreover have "case forward_quic_to_ipc mem_backends (?g large_message) of
     (r, g') \<Rightarrow> r = Inl (ipc_oversized_error 65537) \<and> quic_recv_stream (gw_quic g') = [7]
       \<and> ipc_publisher (gw_ipc g') = []"
    using gateway_quic_to_ipc [OF r p large_message_inv large_message_max open_both(2,1,3)]
    by (auto simp: open_both sizes(2))
  ultimately show ?thesis by blast
qed

text \<open>
  Closing the gateway closes both sides whatever fails: afterwards both connections are closed,
  the QUIC connection has been told to close even when its stream could not be finished, and the
  error reported is the QUIC one, the only side whose close can fail; decomposing the gateway gives
  back its two connections.
\<close>

theorem gateway_close_both:
  "case gateway_close b g of (r, g') \<Rightarrow>
     ipc_closed (gw_ipc g') \<and> quic_closed (gw_quic g')
     \<and> (r, gw_quic g') = quic_close (b_stream b) (gw_quic g)
     \<and> (if quic_closed (gw_quic g) then True
        else quic_conn (gw_quic g') = conn_close (b_stream b) 0 ''done'' (quic_conn (gw_quic g)))
     \<and> gateway_into_parts (gateway_new (gw_ipc g) (gw_quic g)) = (gw_ipc g, gw_quic g)"
  by (auto simp: gateway_close_def gateway_into_parts_def gateway_new_def ipc_close_def quic_close_def
      split: prod.splits sum.splits)

end
