(* ===== verification/Laic_Codec.thy ===== *)
theory Laic_Codec
  imports Laic_Errors
begin

text \<open>
  \<open>crates/laic/src/codec/arrow.rs\<close> and \<open>codec/proto.rs\<close>: the payload codecs. The Arrow stream writer and
  reader and prost are third-party, the fields of \<open>arrow_ops\<close> and \<open>proto_codec\<close>; \<open>arrow_law\<close> and
  \<open>proto_law\<close> are what they document (a finished stream reads back the batches written to it, in
  order; decoding inverts encoding).
\<close>

section \<open>Arrow\<close>

record ('batch, 'sch, 'wr, 'rd) arrow_ops =
  batch_schema :: "'batch \<Rightarrow> 'sch"
  writer_new :: "'sch \<Rightarrow> string + 'wr"
  writer_write :: "'batch \<Rightarrow> 'wr \<Rightarrow> string + 'wr"
  writer_finish :: "'wr \<Rightarrow> string + 'wr"
  writer_buffer :: "'wr \<Rightarrow> bytes"
  reader_new :: "bytes \<Rightarrow> string + 'rd"
  reader_next :: "'rd \<Rightarrow> (string + 'batch) option \<times> 'rd"

definition arrow_encode :: "string \<Rightarrow> laic_error" where
  "arrow_encode d = Codec (ArrowEncode d)"

definition arrow_decode :: "string \<Rightarrow> laic_error" where
  "arrow_decode d = Codec (ArrowDecode d)"

definition encode_record_batch ::
    "('batch, 'sch, 'wr, 'rd) arrow_ops \<Rightarrow> 'batch \<Rightarrow> laic_error + bytes" where
  "encode_record_batch ops batch =
     try_bind (map_err arrow_encode (writer_new ops (batch_schema ops batch))) (\<lambda>writer.
     try_bind (map_err arrow_encode (writer_write ops batch writer)) (\<lambda>writer.
     try_bind (map_err arrow_encode (writer_finish ops writer)) (\<lambda>writer.
     Inr (writer_buffer ops writer))))"

definition decode_record_batch ::
    "('batch, 'sch, 'wr, 'rd) arrow_ops \<Rightarrow> bytes \<Rightarrow> laic_error + 'batch" where
  "decode_record_batch ops bs =
     try_bind (map_err arrow_decode (reader_new ops bs)) (\<lambda>reader.
     case reader_next ops reader of
       (None, _) \<Rightarrow> Inl (arrow_decode ''expected 1 record batch, got 0'')
     | (Some (Inl e), _) \<Rightarrow> Inl (arrow_decode e)
     | (Some (Inr first), reader) \<Rightarrow>
         (case fst (reader_next ops reader) of
            None \<Rightarrow> Inr first
          | Some (Inr _) \<Rightarrow> Inl (arrow_decode ''expected 1 record batch, got >1'')
          | Some (Inl e) \<Rightarrow> Inl (arrow_decode e)))"

text \<open>
  \<open>written w\<close> is what a writer has accepted, \<open>items r\<close> what a reader still yields, an undecodable
  batch being a \<open>Left\<close>.
\<close>

definition arrow_law ::
    "('batch, 'sch, 'wr, 'rd) arrow_ops \<Rightarrow> ('wr \<Rightarrow> 'batch list) \<Rightarrow> ('rd \<Rightarrow> (string + 'batch) list) \<Rightarrow> bool" where
  "arrow_law ops written items \<longleftrightarrow>
     (\<forall>sch w. writer_new ops sch = Inr w \<longrightarrow> written w = []) \<and>
     (\<forall>b w w'. writer_write ops b w = Inr w' \<longrightarrow> written w' = written w @ [b]) \<and>
     (\<forall>w w'. writer_finish ops w = Inr w' \<longrightarrow>
        (\<exists>r. reader_new ops (writer_buffer ops w') = Inr r \<and> items r = map Inr (written w))) \<and>
     (\<forall>r. case items r of
        [] \<Rightarrow> fst (reader_next ops r) = None
      | x # xs \<Rightarrow> (\<exists>r'. reader_next ops r = (Some x, r') \<and> items r' = xs))"

lemma arrow_law_write:
  "arrow_law ops written items \<Longrightarrow> writer_new ops sch = Inr w \<Longrightarrow> writer_write ops b w = Inr w' \<Longrightarrow>
     written w' = [b]"
  unfolding arrow_law_def by (metis append_Nil)

lemma arrow_law_finish:
  "arrow_law ops written items \<Longrightarrow> writer_finish ops w = Inr w' \<Longrightarrow>
     \<exists>r. reader_new ops (writer_buffer ops w') = Inr r \<and> items r = map Inr (written w)"
  unfolding arrow_law_def by blast

lemma arrow_law_next:
  assumes "arrow_law ops written items"
  shows "items r = [] \<Longrightarrow> fst (reader_next ops r) = None"
    and "items r = x # xs \<Longrightarrow> \<exists>r'. reader_next ops r = (Some x, r') \<and> items r' = xs"
proof -
  have next_item: "case items r of
      [] \<Rightarrow> fst (reader_next ops r) = None
    | x # xs \<Rightarrow> (\<exists>r'. reader_next ops r = (Some x, r') \<and> items r' = xs)"
    using assms unfolding arrow_law_def by blast
  then show "items r = [] \<Longrightarrow> fst (reader_next ops r) = None"
    and "items r = x # xs \<Longrightarrow> \<exists>r'. reader_next ops r = (Some x, r') \<and> items r' = xs" by auto
qed

section \<open>Protobuf\<close>

record 'm proto_codec =
  proto_encode :: "'m \<Rightarrow> string + bytes"
  proto_decode :: "bytes \<Rightarrow> string + 'm"

definition encode_proto :: "'m proto_codec \<Rightarrow> 'm \<Rightarrow> laic_error + bytes" where
  "encode_proto c msg = map_err (\<lambda>e. Codec (ProtoEncode e)) (proto_encode c msg)"

definition decode_proto :: "'m proto_codec \<Rightarrow> bytes \<Rightarrow> laic_error + 'm" where
  "decode_proto c bs = map_err (\<lambda>e. Codec (ProtoDecode e)) (proto_decode c bs)"

definition proto_law :: "'m proto_codec \<Rightarrow> bool" where
  "proto_law c \<longleftrightarrow> (\<forall>m bs. proto_encode c m = Inr bs \<longrightarrow> proto_decode c bs = Inr m)"

lemma decode_encode_proto: "proto_law c \<Longrightarrow> encode_proto c m = Inr bs \<Longrightarrow> decode_proto c bs = Inr m"
  by (simp add: proto_law_def encode_proto_def decode_proto_def)

section \<open>Properties\<close>

text \<open>
  One Arrow message carries exactly one record batch: decoding a readable stream succeeds exactly
  when the stream yields a single batch; an empty stream and a second batch are cardinality errors,
  while an undecodable first or second batch is reported with its own error, never masked as a
  cardinality error.
\<close>

theorem decode_exactly_one_batch:
  assumes "arrow_law ops written items" and "reader_new ops bs = Inr r"
  shows "decode_record_batch ops bs =
    (case items r of
       [] \<Rightarrow> Inl (arrow_decode ''expected 1 record batch, got 0'')
     | Inl e # _ \<Rightarrow> Inl (arrow_decode e)
     | [Inr b] \<Rightarrow> Inr b
     | Inr b # Inr b' # _ \<Rightarrow> Inl (arrow_decode ''expected 1 record batch, got >1'')
     | Inr b # Inl e # _ \<Rightarrow> Inl (arrow_decode e))"
proof (cases "items r")
  case Nil
  then show ?thesis
    using arrow_law_next(1) [OF assms(1) Nil] assms(2)
    by (cases "reader_next ops r") (simp add: decode_record_batch_def)
next
  case (Cons x xs)
  obtain r' where r': "reader_next ops r = (Some x, r')" "items r' = xs"
    using arrow_law_next(2) [OF assms(1) Cons] by blast
  show ?thesis
  proof (cases x)
    case (Inl e)
    then show ?thesis using r' assms(2) Cons by (simp add: decode_record_batch_def)
  next
    case (Inr b)
    show ?thesis
    proof (cases xs)
      case Nil
      then show ?thesis
        using r' assms(2) Cons Inr arrow_law_next(1) [OF assms(1), of r']
        by (simp add: decode_record_batch_def)
    next
      case second: (Cons y ys)
      obtain r'' where "reader_next ops r' = (Some y, r'')"
        using arrow_law_next(2) [OF assms(1), of r' y ys] r'(2) second by blast
      then show ?thesis
        using r' assms(2) Cons Inr second by (cases y) (simp_all add: decode_record_batch_def)
    qed
  qed
qed

text \<open>A reader and writer over lists of numbers: the instance used by the witnesses.\<close>

definition list_arrow :: "(u8, unit, bytes, (string + u8) list) arrow_ops" where
  "list_arrow = \<lparr>batch_schema = (\<lambda>_. ()), writer_new = (\<lambda>_. Inr []), writer_write = (\<lambda>b w. Inr (w @ [b])),
     writer_finish = Inr, writer_buffer = (\<lambda>w. w), reader_new = (\<lambda>bs. Inr (map Inr bs)),
     reader_next = (\<lambda>r. case r of [] \<Rightarrow> (None, []) | x # xs \<Rightarrow> (Some x, xs))\<rparr>"

lemma list_arrow_law: "arrow_law list_arrow (\<lambda>w. w) (\<lambda>r. r)"
  by (auto simp: arrow_law_def list_arrow_def split: list.splits)

theorem decode_exactly_one_batch_witness:
  "decode_record_batch list_arrow [7] = Inr 7
   \<and> decode_record_batch list_arrow [7, 8] = Inl (Codec (ArrowDecode ''expected 1 record batch, got >1''))"
proof -
  have rd: "reader_new list_arrow bs = Inr (map Inr bs)" for bs by (simp add: list_arrow_def)
  show ?thesis
    using decode_exactly_one_batch [OF list_arrow_law rd, of "[7]"]
      decode_exactly_one_batch [OF list_arrow_law rd, of "[7, 8]"]
    by (simp add: arrow_decode_def)
qed

text \<open>
  Round trip of the Arrow codec: whatever batch encodes decodes to itself, and every failure
  to encode is the Arrow encode error.
\<close>

theorem arrow_roundtrip:
  assumes "arrow_law ops written items"
  shows "case encode_record_batch ops b of
      Inr bs \<Rightarrow> decode_record_batch ops bs = Inr b
    | Inl e \<Rightarrow> laic_code e = ErrorCode 0x0201"
proof (cases "encode_record_batch ops b")
  case (Inl e)
  then show ?thesis
    by (auto simp: encode_record_batch_def try_bind_Inl_iff map_err_Inl_iff arrow_encode_def)
next
  case (Inr bs)
  then obtain w0 w1 w2 where w: "writer_new ops (batch_schema ops b) = Inr w0" "writer_write ops b w0 = Inr w1"
    "writer_finish ops w1 = Inr w2" and bs: "bs = writer_buffer ops w2"
    by (auto simp: encode_record_batch_def try_bind_Inr_iff)
  obtain r where r: "reader_new ops bs = Inr r" "items r = [Inr b]"
    using arrow_law_finish [OF assms w(3)] arrow_law_write [OF assms w(1,2)] bs by auto
  obtain r' where r': "reader_next ops r = (Some (Inr b), r')" "items r' = []"
    using arrow_law_next(2) [OF assms r(2)] by blast
  then have "decode_record_batch ops bs = Inr b"
    using r arrow_law_next(1) [OF assms r'(2)] by (simp add: decode_record_batch_def)
  then show ?thesis using Inr by simp
qed

theorem arrow_roundtrip_witness:
  "encode_record_batch list_arrow 5 = Inr [5] \<and> decode_record_batch list_arrow [5] = Inr 5"
proof -
  have enc: "encode_record_batch list_arrow 5 = Inr [5]"
    by (simp add: encode_record_batch_def list_arrow_def)
  then show ?thesis using arrow_roundtrip [OF list_arrow_law, of 5] by simp
qed

end
