(* ===== verification/Laic_Handshake.thy ===== *)
theory Laic_Handshake
  imports Laic_Quic Laic_Codec
begin

text \<open>
  \<open>crates/laic/src/handshake.rs\<close>: the trust-domain handshake over an established QUIC connection. The
  two process-wide counters and the wall clock are the \<open>hs_world\<close>; the protobuf codecs of the two
  messages and the streams are parameters. \<open>None\<close> is the panic of \<open>Message::new\<close> on a payload of
  4 GiB. The client is written in the two parts an exchange interleaves with the server:
  \<open>client_start\<close> up to the sent hello, \<open>client_finish\<close> from the received acknowledgement.
\<close>

section \<open>Messages, configurations, sessions\<close>

definition HANDSHAKE_TOKEN_LEN :: nat where "HANDSHAKE_TOKEN_LEN = 16"

record hello =
  hello_version :: u32
  hello_domain :: string
  hello_nonce :: bytes

record hello_ack =
  ack_version :: u32
  ack_domain :: string
  ack_client_nonce :: bytes
  ack_server_nonce :: bytes
  ack_session_id :: bytes
  rejection_code :: u32
  rejected_expected :: "string option"

text \<open>\<open>ClientHandshakeConfig\<close> and \<open>ServerHandshakeConfig\<close> have the same three fields.\<close>

record handshake_config =
  local_domain :: string
  expected_remote :: "string option"
  cfg_version :: u16

definition config_new :: "string \<Rightarrow> string option \<Rightarrow> handshake_config" where
  "config_new domain expected = \<lparr>local_domain = domain, expected_remote = expected, cfg_version = VERSION\<rparr>"

definition with_protocol_version :: "u16 \<Rightarrow> handshake_config \<Rightarrow> handshake_config" where
  "with_protocol_version v cfg = cfg\<lparr>cfg_version := v\<rparr>"

definition server_config_new :: "string \<Rightarrow> string option \<Rightarrow> handshake_config" where
  "server_config_new domain expected = \<lparr>local_domain = domain, expected_remote = expected, cfg_version = VERSION\<rparr>"

definition server_with_protocol_version :: "u16 \<Rightarrow> handshake_config \<Rightarrow> handshake_config" where
  "server_with_protocol_version v cfg = cfg\<lparr>cfg_version := v\<rparr>"

record trust_domain_session =
  session_version :: u16
  session_local :: string
  session_remote :: string
  session_client_nonce :: bytes
  session_server_nonce :: bytes
  session_id :: bytes

section \<open>Tokens and message ids\<close>

record 'v hs_world =
  hs_counter :: u64
  hs_msg_id :: u64
  hs_wall :: 'v

definition HANDSHAKE_COUNTER_INIT :: u64 where "HANDSHAKE_COUNTER_INIT = 1"
definition HANDSHAKE_MSG_ID_INIT :: u64 where "HANDSHAKE_MSG_ID_INIT = 10000"

text \<open>The wall clock answers the nanoseconds since the epoch, or \<open>None\<close> before it.\<close>

type_synonym 'v wall_clock = "'v \<Rightarrow> u128 option \<times> 'v"

definition next_handshake_token :: "'v wall_clock \<Rightarrow> 'v hs_world \<Rightarrow> bytes \<times> 'v hs_world" where
  "next_handshake_token now w =
     (let counter = (ucast (hs_counter w) :: u128);
          w = w\<lparr>hs_counter := hs_counter w + 1\<rparr> in
      case now (hs_wall w) of (t, v) \<Rightarrow>
        let nanos = (case t of Some d \<Rightarrow> d | None \<Rightarrow> 0)
        in (be_bytes 16 (nanos XOR push_bit 64 counter), w\<lparr>hs_wall := v\<rparr>))"

section \<open>Validation\<close>

definition invalid_payload :: "string \<Rightarrow> laic_error" where
  "invalid_payload d = Protocol (InvalidHandshakePayload d)"

definition decode_token :: "string \<Rightarrow> bytes \<Rightarrow> laic_error + bytes" where
  "decode_token fld bs =
     (if length bs \<noteq> HANDSHAKE_TOKEN_LEN
      then Inl (invalid_payload (fld @ '' must be '' @ show_nat HANDSHAKE_TOKEN_LEN @ '' bytes, got ''
                  @ show_nat (length bs)))
      else Inr bs)"

definition validate_trust_domain :: "string \<Rightarrow> string \<Rightarrow> laic_error + unit" where
  "validate_trust_domain fld domain =
     (if domain = [] then Inl (invalid_payload (fld @ '' must not be empty'')) else Inr ())"

definition validate_expected_domain :: "string option \<Rightarrow> string \<Rightarrow> laic_error + unit" where
  "validate_expected_domain expected actual =
     (case expected of
        Some d \<Rightarrow> if d \<noteq> actual then Inl (Protocol (TrustDomainMismatch d actual)) else Inr ()
      | None \<Rightarrow> Inr ())"

definition validate_protocol_version :: "u16 \<Rightarrow> u32 \<Rightarrow> laic_error + unit" where
  "validate_protocol_version expected actual =
     (if unat actual \<ge> 2 ^ 16
      then Inl (invalid_payload (''protocol_version '' @ show_nat (unat actual) @ '' exceeds u16''))
      else if (ucast actual :: u16) \<noteq> expected
      then Inl (Protocol (UnsupportedHandshakeVersion expected (ucast actual)))
      else Inr ())"

definition validate_ack_shape :: "hello_ack \<Rightarrow> laic_error + unit" where
  "validate_ack_shape ack =
     (if rejection_code ack = 0 then
        if rejected_expected ack \<noteq> None
        then Inl (invalid_payload ''hello_ack success must not include rejection explanation'')
        else try_bind (decode_token ''server_nonce'' (ack_server_nonce ack)) (\<lambda>_.
             try_bind (decode_token ''session_id'' (ack_session_id ack)) (\<lambda>_. Inr ()))
      else if ack_server_nonce ack \<noteq> []
      then Inl (invalid_payload ''hello_ack rejection must not include server_nonce'')
      else if ack_session_id ack \<noteq> []
      then Inl (invalid_payload ''hello_ack rejection must not include session_id'')
      else Inr ())"

definition validate_ack_rejection :: "handshake_config \<Rightarrow> hello_ack \<Rightarrow> laic_error + unit" where
  "validate_ack_rejection cfg ack =
     try_bind (validate_ack_shape ack) (\<lambda>_.
       if rejection_code ack = 0 then Inr ()
       else if rejection_code ack = 0x0308 then
         (if unat (ack_version ack) \<ge> 2 ^ 16
          then Inl (invalid_payload (''hello_ack rejection echoed protocol_version ''
                      @ show_nat (unat (ack_version ack)) @ '' outside u16''))
          else if (ucast (ack_version ack) :: u16) = cfg_version cfg
          then Inl (invalid_payload
                      ''hello_ack rejected protocol version but echoed a matching version'')
          else Inl (Protocol (UnsupportedHandshakeVersion (cfg_version cfg) (ucast (ack_version ack)))))
       else if rejection_code ack = 0x0309 then
         (case rejected_expected ack of
            None \<Rightarrow> Inl (invalid_payload
                      ''hello_ack trust-domain rejection omitted expected remote domain'')
          | Some expected \<Rightarrow> Inl (Protocol (TrustDomainMismatch expected (local_domain cfg))))
       else if rejection_code ack = 0x030B
       then Inl (invalid_payload ''server rejected client hello as malformed'')
       else Inl (invalid_payload (''unknown hello_ack rejection code 0x''
                   @ hex_upper 4 (unat (rejection_code ack)))))"

definition validate_peer_hello :: "handshake_config \<Rightarrow> hello \<Rightarrow> laic_error + unit" where
  "validate_peer_hello cfg h =
     try_bind (validate_trust_domain ''hello trust_domain'' (hello_domain h)) (\<lambda>_.
     try_bind (validate_protocol_version (cfg_version cfg) (hello_version h)) (\<lambda>_.
     validate_expected_domain (expected_remote cfg) (hello_domain h)))"

definition handshake_rejected_expected_domain :: "laic_error \<Rightarrow> string option" where
  "handshake_rejected_expected_domain e =
     (case e of Protocol (TrustDomainMismatch expected _) \<Rightarrow> Some expected | _ \<Rightarrow> None)"

section \<open>The control envelope\<close>

definition decode_control_message :: "'m proto_codec \<Rightarrow> message \<Rightarrow> laic_error + 'm" where
  "decode_control_message codec m =
     (if message_type m \<noteq> CONTROL
      then Inl (Protocol (UnexpectedMessageType (msg_type_as_u16 CONTROL) (msg_type_as_u16 (message_type m))))
      else try_bind (map_err Protocol (format_from_u8 (payload_format (header m)))) (\<lambda>actual.
        if actual \<noteq> Protobuf
        then Inl (Protocol (UnexpectedPayloadFormat (format_byte Protobuf) (format_byte actual)))
        else map_err (\<lambda>err. invalid_payload (''handshake protobuf decode failed: '' @ display_laic_error err))
               (decode_proto codec (payload m))))"

text \<open>\<open>conn.send\<close> of a control message under the next message id.\<close>

definition send_control_message where
  "send_control_message wr p c w =
     (case message_new CONTROL (hs_msg_id w) Protobuf High p of
        None \<Rightarrow> None
      | Some m \<Rightarrow>
          (case quic_send wr m c of (r, c) \<Rightarrow> Some (r, c, w\<lparr>hs_msg_id := hs_msg_id w + 1\<rparr>)))"

section \<open>The two sides\<close>

definition client_start where
  "client_start wr now hello_codec cfg c w =
     (case validate_trust_domain ''client hello trust_domain'' (local_domain cfg) of
        Inl e \<Rightarrow> Some (Inl e, c, w)
      | Inr _ \<Rightarrow>
          (case next_handshake_token now w of (client_nonce, w) \<Rightarrow>
           case encode_proto hello_codec
                  \<lparr>hello_version = ucast (cfg_version cfg), hello_domain = local_domain cfg,
                   hello_nonce = client_nonce\<rparr> of
             Inl e \<Rightarrow> Some (Inl e, c, w)
           | Inr p \<Rightarrow>
               (case send_control_message wr p c w of
                  None \<Rightarrow> None
                | Some (Inl e, c, w) \<Rightarrow> Some (Inl e, c, w)
                | Some (Inr _, c, w) \<Rightarrow> Some (Inr client_nonce, c, w))))"

definition client_accept :: "handshake_config \<Rightarrow> bytes \<Rightarrow> hello_ack \<Rightarrow> laic_error + trust_domain_session" where
  "client_accept cfg client_nonce ack =
     try_bind (validate_protocol_version (cfg_version cfg) (ack_version ack)) (\<lambda>_.
     try_bind (validate_trust_domain ''hello_ack trust_domain'' (ack_domain ack)) (\<lambda>_.
     try_bind (validate_expected_domain (expected_remote cfg) (ack_domain ack)) (\<lambda>_.
     try_bind (validate_ack_rejection cfg ack) (\<lambda>_.
     try_bind (decode_token ''client_nonce'' (ack_client_nonce ack)) (\<lambda>echoed.
     if echoed \<noteq> client_nonce then Inl (Protocol HandshakeNonceMismatch)
     else
     try_bind (decode_token ''server_nonce'' (ack_server_nonce ack)) (\<lambda>server_nonce.
     try_bind (decode_token ''session_id'' (ack_session_id ack)) (\<lambda>sid.
     Inr \<lparr>session_version = cfg_version cfg, session_local = local_domain cfg,
          session_remote = ack_domain ack, session_client_nonce = client_nonce,
          session_server_nonce = server_nonce, session_id = sid\<rparr>)))))))"

definition client_finish where
  "client_finish rd ack_codec cfg client_nonce c =
     (case quic_receive rd c of
        (Inl e, c) \<Rightarrow> (Inl e, c)
      | (Inr m, c) \<Rightarrow>
          (try_bind (decode_control_message ack_codec m) (client_accept cfg client_nonce), c))"

definition client_handshake where
  "client_handshake wr rd now hello_codec ack_codec cfg c w =
     (case client_start wr now hello_codec cfg c w of
        None \<Rightarrow> None
      | Some (Inl e, c, w) \<Rightarrow> Some (Inl e, c, w)
      | Some (Inr client_nonce, c, w) \<Rightarrow>
          (case client_finish rd ack_codec cfg client_nonce c of (r, c) \<Rightarrow> Some (r, c, w)))"

definition accepting_ack :: "handshake_config \<Rightarrow> bytes \<Rightarrow> bytes \<Rightarrow> bytes \<Rightarrow> hello_ack" where
  "accepting_ack cfg client_nonce server_nonce sid =
     \<lparr>ack_version = ucast (cfg_version cfg), ack_domain = local_domain cfg,
      ack_client_nonce = client_nonce, ack_server_nonce = server_nonce, ack_session_id = sid,
      rejection_code = 0, rejected_expected = None\<rparr>"

definition rejecting_ack :: "handshake_config \<Rightarrow> bytes \<Rightarrow> laic_error \<Rightarrow> hello_ack" where
  "rejecting_ack cfg client_nonce err =
     \<lparr>ack_version = ucast (cfg_version cfg), ack_domain = local_domain cfg,
      ack_client_nonce = client_nonce, ack_server_nonce = [], ack_session_id = [],
      rejection_code = ucast (as_u16 (laic_code err)),
      rejected_expected = handshake_rejected_expected_domain err\<rparr>"

text \<open>The server from the decoded hello on: validate, answer, conclude.\<close>

definition server_answer where
  "server_answer wr now ack_codec cfg h c w =
     (case decode_token ''client_nonce'' (hello_nonce h) of
        Inl e \<Rightarrow> Some (Inl e, c, w)
      | Inr client_nonce \<Rightarrow>
          (case validate_peer_hello cfg h of
             Inr _ \<Rightarrow>
               (case next_handshake_token now w of (server_nonce, w) \<Rightarrow>
                case next_handshake_token now w of (sid, w) \<Rightarrow>
                case encode_proto ack_codec (accepting_ack cfg client_nonce server_nonce sid) of
                  Inl e \<Rightarrow> Some (Inl e, c, w)
                | Inr p \<Rightarrow>
                    (case send_control_message wr p c w of
                       None \<Rightarrow> None
                     | Some (Inl e, c, w) \<Rightarrow> Some (Inl e, c, w)
                     | Some (Inr _, c, w) \<Rightarrow>
                         Some (Inr \<lparr>session_version = cfg_version cfg, session_local = local_domain cfg,
                                    session_remote = hello_domain h, session_client_nonce = client_nonce,
                                    session_server_nonce = server_nonce, session_id = sid\<rparr>, c, w)))
           | Inl err \<Rightarrow>
               (case encode_proto ack_codec (rejecting_ack cfg client_nonce err) of
                  Inl e \<Rightarrow> Some (Inl e, c, w)
                | Inr p \<Rightarrow>
                    (case send_control_message wr p c w of
                       None \<Rightarrow> None
                     | Some (Inl e, c, w) \<Rightarrow> Some (Inl e, c, w)
                     | Some (Inr _, c, w) \<Rightarrow> Some (Inl err, c, w)))))"

definition server_handshake where
  "server_handshake wr rd now hello_codec ack_codec cfg c w =
     (case validate_trust_domain ''server hello_ack trust_domain'' (local_domain cfg) of
        Inl e \<Rightarrow> Some (Inl e, c, w)
      | Inr _ \<Rightarrow>
          (case quic_receive rd c of
             (Inl e, c) \<Rightarrow> Some (Inl e, c, w)
           | (Inr m, c) \<Rightarrow>
               (case decode_control_message hello_codec m of
                  Inl e \<Rightarrow> Some (Inl e, c, w)
                | Inr h \<Rightarrow> server_answer wr now ack_codec cfg h c w)))"

section \<open>Tokens, envelopes and validators\<close>

lemma length_token: "next_handshake_token now w = (t, w') \<Longrightarrow> length t = 16"
  by (auto simp: next_handshake_token_def Let_def split: prod.splits)

lemma decode_token_16 [simp]: "length bs = 16 \<Longrightarrow> decode_token fld bs = Inr bs"
  by (simp add: decode_token_def HANDSHAKE_TOKEN_LEN_def)

lemma decode_token_Inr: "decode_token fld bs = Inr t \<longleftrightarrow> t = bs \<and> length bs = 16"
  by (auto simp: decode_token_def HANDSHAKE_TOKEN_LEN_def)

lemma validate_version_ucast [simp]:
  "validate_protocol_version v (ucast v') =
     (if v' = v then Inr () else Inl (Protocol (UnsupportedHandshakeVersion v v')))"
proof -
  have "unat (ucast v' :: u32) < 2 ^ 16"
    using unsigned_less [of v', where 'a = nat] by (simp add: unsigned_ucast_eq take_bit_nat_eq_self)
  moreover have "ucast (ucast v' :: u32) = v'" by (rule bit_word_eqI) (simp add: bit_simps)
  ultimately show ?thesis by (auto simp: validate_protocol_version_def not_le [symmetric])
qed

definition domain_ok :: "string option \<Rightarrow> string \<Rightarrow> bool" where
  "domain_ok expected actual = (case expected of None \<Rightarrow> True | Some d \<Rightarrow> d = actual)"

definition domain_mismatch :: "string option \<Rightarrow> string \<Rightarrow> laic_error" where
  "domain_mismatch expected actual = Protocol (TrustDomainMismatch (the expected) actual)"

lemma validate_expected_domain_eq:
  "validate_expected_domain expected actual =
     (if domain_ok expected actual then Inr () else Inl (domain_mismatch expected actual))"
  by (auto simp: validate_expected_domain_def domain_ok_def domain_mismatch_def split: option.splits)

lemma validate_trust_domain_Inr [simp]: "validate_trust_domain fld d = Inr u \<longleftrightarrow> d \<noteq> []"
  by (auto simp: validate_trust_domain_def)

lemma decode_control_message_ok:
  assumes "message_type m = CONTROL" and "payload_format (header m) = format_byte Protobuf"
    and "decode_proto codec (payload m) = Inr x"
  shows "decode_control_message codec m = Inr x"
  using assms by (simp add: decode_control_message_def format_from_u8_def)

lemma send_control_ok:
  assumes "writer_law wr sent" and "\<not> quic_closed c"
    and "send_control_message wr p c w = Some (Inr u, c', w')"
  shows "\<exists>m. message_inv m \<and> within_max m \<and> payload m = p \<and> message_type m = CONTROL
    \<and> payload_format (header m) = format_byte Protobuf
    \<and> sent (quic_send_stream c') = sent (quic_send_stream c) @ frame_bytes m
    \<and> quic_recv_stream c' = quic_recv_stream c \<and> \<not> quic_closed c'"
proof -
  obtain m where m: "message_new CONTROL (hs_msg_id w) Protobuf High p = Some m"
    and snd: "quic_send wr m c = (Inr u, c')"
    using assms(3) by (auto simp: send_control_message_def split: option.splits prod.splits)
  have inv: "message_inv m" using message_new_inv [OF m] .
  obtain st where wf: "write_frame wr m (quic_send_stream c) = (Inr u, st)"
    and c': "c' = c\<lparr>quic_send_stream := st\<rparr>"
    using snd assms(2) by (auto simp: quic_send_def split: prod.splits)
  show ?thesis
    using write_frame_ok [OF assms(1) inv, of "quic_send_stream c" st] wf c' inv m assms(2)
    by (auto simp: message_new_def message_type_def CONTROL_def split: if_splits)
qed

lemma quic_receive_frame:
  assumes "reader_law rd pending" and "\<not> quic_closed c" and "message_inv m" and "within_max m"
    and "pending (quic_recv_stream c) = frame_bytes m @ rest"
  shows "\<exists>c'. quic_receive rd c = (Inr m, c') \<and> quic_send_stream c' = quic_send_stream c
    \<and> \<not> quic_closed c' \<and> pending (quic_recv_stream c') = rest"
proof -
  obtain s' where "read_frame rd (quic_recv_stream c) = (Inr m, s')" "pending s' = rest"
    using read_frame_frame_bytes [OF assms(1,3,4,5)] by blast
  then show ?thesis using assms(2) by (simp add: quic_receive_def)
qed

text \<open>A control message that was sent is received as sent, and decodes to what was encoded.\<close>

lemma control_delivery:
  assumes "writer_law wr sent" and "reader_law rd pending" and "proto_law codec"
    and "\<not> quic_closed c" and "\<not> quic_closed d"
    and "encode_proto codec x = Inr p" and "send_control_message wr p c w = Some (Inr u, c', w')"
    and "sent (quic_send_stream c') = sent (quic_send_stream c) @ bs"
    and "pending (quic_recv_stream d) = bs @ rest"
  shows "\<exists>m d'. quic_receive rd d = (Inr m, d') \<and> decode_control_message codec m = Inr x
    \<and> quic_send_stream d' = quic_send_stream d \<and> \<not> quic_closed d'
    \<and> quic_recv_stream c' = quic_recv_stream c \<and> \<not> quic_closed c'"
proof -
  obtain m where m: "message_inv m" "within_max m" "payload m = p" "message_type m = CONTROL"
    "payload_format (header m) = format_byte Protobuf"
    "sent (quic_send_stream c') = sent (quic_send_stream c) @ frame_bytes m"
    "quic_recv_stream c' = quic_recv_stream c" "\<not> quic_closed c'"
    using send_control_ok [OF assms(1,4,7)] by blast
  then have "pending (quic_recv_stream d) = frame_bytes m @ rest" using assms(8,9) by simp
  then obtain d' where "quic_receive rd d = (Inr m, d')" "quic_send_stream d' = quic_send_stream d"
    "\<not> quic_closed d'"
    using quic_receive_frame [OF assms(2,5) m(1,2)] by blast
  moreover have "decode_control_message codec m = Inr x"
    using decode_control_message_ok [OF m(4,5)] decode_encode_proto [OF assms(3,6)] m(3) by simp
  ultimately show ?thesis using m(7,8) by blast
qed

section \<open>What each side decides\<close>

definition client_hello :: "handshake_config \<Rightarrow> bytes \<Rightarrow> hello" where
  "client_hello cfg nonce =
     \<lparr>hello_version = ucast (cfg_version cfg), hello_domain = local_domain cfg, hello_nonce = nonce\<rparr>"

lemma client_start_ok:
  assumes "client_start wr now hc cfg c w = Some (Inr nonce, c', w')"
  shows "local_domain cfg \<noteq> [] \<and> length nonce = 16 \<and>
    (\<exists>p w1 u. encode_proto hc (client_hello cfg nonce) = Inr p
        \<and> send_control_message wr p c w1 = Some (Inr u, c', w'))"
  using assms
  by (auto simp: client_start_def client_hello_def length_token
      split: sum.splits prod.splits option.splits)

lemma validate_peer_hello_client:
  assumes "local_domain ccfg \<noteq> []"
  shows "validate_peer_hello scfg (client_hello ccfg nonce) =
    (if cfg_version ccfg \<noteq> cfg_version scfg
     then Inl (Protocol (UnsupportedHandshakeVersion (cfg_version scfg) (cfg_version ccfg)))
     else if domain_ok (expected_remote scfg) (local_domain ccfg) then Inr ()
     else Inl (domain_mismatch (expected_remote scfg) (local_domain ccfg)))"
  using assms
  by (simp add: validate_peer_hello_def client_hello_def validate_trust_domain_def
      validate_expected_domain_eq)

lemma client_accepts_accepting:
  assumes "local_domain scfg \<noteq> []" and "length nonce = 16" and "length sn = 16" and "length sid = 16"
  shows "client_accept ccfg nonce (accepting_ack scfg nonce sn sid) =
    (if cfg_version scfg \<noteq> cfg_version ccfg
     then Inl (Protocol (UnsupportedHandshakeVersion (cfg_version ccfg) (cfg_version scfg)))
     else if \<not> domain_ok (expected_remote ccfg) (local_domain scfg)
     then Inl (domain_mismatch (expected_remote ccfg) (local_domain scfg))
     else Inr \<lparr>session_version = cfg_version ccfg, session_local = local_domain ccfg,
               session_remote = local_domain scfg, session_client_nonce = nonce,
               session_server_nonce = sn, session_id = sid\<rparr>)"
  using assms
  by (simp add: client_accept_def accepting_ack_def validate_trust_domain_def
      validate_expected_domain_eq validate_ack_rejection_def validate_ack_shape_def)

lemma client_rejects_rejecting:
  assumes "local_domain scfg \<noteq> []"
  shows "cfg_version scfg \<noteq> cfg_version ccfg \<Longrightarrow>
      client_accept ccfg nonce (rejecting_ack scfg nonce e) =
        Inl (Protocol (UnsupportedHandshakeVersion (cfg_version ccfg) (cfg_version scfg)))"
    and "cfg_version scfg = cfg_version ccfg \<Longrightarrow> \<not> domain_ok (expected_remote ccfg) (local_domain scfg) \<Longrightarrow>
      client_accept ccfg nonce (rejecting_ack scfg nonce e) =
        Inl (domain_mismatch (expected_remote ccfg) (local_domain scfg))"
    and "cfg_version scfg = cfg_version ccfg \<Longrightarrow> domain_ok (expected_remote ccfg) (local_domain scfg) \<Longrightarrow>
      client_accept ccfg nonce (rejecting_ack scfg nonce (Protocol (TrustDomainMismatch d actual))) =
        Inl (Protocol (TrustDomainMismatch d (local_domain ccfg)))"
  using assms
  by (simp_all add: client_accept_def rejecting_ack_def validate_trust_domain_def
      validate_expected_domain_eq validate_ack_rejection_def validate_ack_shape_def
      handshake_rejected_expected_domain_def)

lemma client_refuses_rejecting:
  assumes "local_domain ccfg \<noteq> []" and "local_domain scfg \<noteq> []"
    and refused: "validate_peer_hello scfg (client_hello ccfg nonce) = Inl e"
  shows "\<exists>e'. client_accept ccfg nonce (rejecting_ack scfg nonce e) = Inl e'"
proof (cases "cfg_version scfg = cfg_version ccfg")
  case True
  then obtain d a where "e = Protocol (TrustDomainMismatch d a)"
    using refused by (auto simp: validate_peer_hello_client [OF assms(1)] domain_mismatch_def split: if_splits)
  then show ?thesis
    using True client_rejects_rejecting(2,3) [OF assms(2), of ccfg]
    by (cases "domain_ok (expected_remote ccfg) (local_domain scfg)") simp_all
next
  case False
  then show ?thesis using client_rejects_rejecting(1) [OF assms(2)] by simp
qed

section \<open>The exchange\<close>

text \<open>Failures of the streams or the codec, as opposed to verdicts of the protocol.\<close>

fun io_failure :: "laic_error \<Rightarrow> bool" where
  "io_failure (Transport _) = True"
| "io_failure (Codec _) = True"
| "io_failure _ = False"

lemma encode_proto_Inl: "encode_proto codec x = Inl e \<Longrightarrow> io_failure e"
  by (auto simp: encode_proto_def map_err_Inl_iff)

lemma send_control_Inl:
  assumes "writer_law wr sent" and "send_control_message wr p c w = Some (Inl e, c', w')"
  shows "io_failure e"
proof -
  obtain m where m: "message_new CONTROL (hs_msg_id w) Protobuf High p = Some m"
    and snd: "quic_send wr m c = (Inl e, c')"
    using assms(2) by (auto simp: send_control_message_def split: option.splits prod.splits)
  show ?thesis
  proof (cases "quic_closed c")
    case True
    then show ?thesis using snd by (auto simp: quic_send_def)
  next
    case False
    then obtain st where "write_frame wr m (quic_send_stream c) = (Inl e, st)"
      using snd by (auto simp: quic_send_def split: prod.splits)
    from write_frame_error [OF assms(1) message_new_inv [OF m] this]
    show ?thesis by (auto simp: oversized_error_def)
  qed
qed

definition session_of :: "handshake_config \<Rightarrow> string \<Rightarrow> bytes \<Rightarrow> bytes \<Rightarrow> bytes \<Rightarrow> trust_domain_session" where
  "session_of cfg remote nonce sn sid =
     \<lparr>session_version = cfg_version cfg, session_local = local_domain cfg, session_remote = remote,
      session_client_nonce = nonce, session_server_nonce = sn, session_id = sid\<rparr>"

lemma server_concludes:
  assumes "writer_law wr sent" and "length (hello_nonce h) = 16"
    and ans: "server_answer wr now ac scfg h c w = Some (sr, c', w')"
    and io: "case sr of Inl e \<Rightarrow> \<not> io_failure e | Inr _ \<Rightarrow> True"
  shows "\<exists>ack p w1 u. encode_proto ac ack = Inr p \<and> send_control_message wr p c w1 = Some (Inr u, c', w') \<and>
    (case validate_peer_hello scfg h of
       Inr _ \<Rightarrow> \<exists>sn sid. length sn = 16 \<and> length sid = 16
         \<and> ack = accepting_ack scfg (hello_nonce h) sn sid
         \<and> sr = Inr (session_of scfg (hello_domain h) (hello_nonce h) sn sid)
     | Inl e \<Rightarrow> ack = rejecting_ack scfg (hello_nonce h) e \<and> sr = Inl e)"
proof (cases "validate_peer_hello scfg h")
  case (Inl err)
  let ?ack = "rejecting_ack scfg (hello_nonce h) err"
  obtain p where p: "encode_proto ac ?ack = Inr p"
    using ans io Inl assms(2) encode_proto_Inl [of ac ?ack]
    by (cases "encode_proto ac ?ack") (auto simp: server_answer_def)
  obtain r where snd: "send_control_message wr p c w = Some (r, c', w')"
    and sr: "sr = (case r of Inl e \<Rightarrow> Inl e | Inr _ \<Rightarrow> Inl err)"
    using ans Inl assms(2) p by (auto simp: server_answer_def split: option.splits prod.splits sum.splits)
  show ?thesis
    using snd sr p Inl io send_control_Inl [OF assms(1), of p c w _ c' w'] by (cases r) auto
next
  case (Inr u)
  obtain sn w1 where sn: "next_handshake_token now w = (sn, w1)" by fastforce
  obtain sid w2 where sid: "next_handshake_token now w1 = (sid, w2)" by fastforce
  let ?ack = "accepting_ack scfg (hello_nonce h) sn sid"
  obtain p where p: "encode_proto ac ?ack = Inr p"
    using ans io Inr assms(2) sn sid encode_proto_Inl [of ac ?ack]
    by (cases "encode_proto ac ?ack") (auto simp: server_answer_def)
  obtain r where snd: "send_control_message wr p c w2 = Some (r, c', w')"
    and sr: "sr = (case r of Inl e \<Rightarrow> Inl e
      | Inr _ \<Rightarrow> Inr (session_of scfg (hello_domain h) (hello_nonce h) sn sid))"
    using ans Inr assms(2) p sn sid
    by (auto simp: server_answer_def session_of_def split: option.splits prod.splits sum.splits)
  have "length sn = 16" "length sid = 16" using length_token sn sid by blast+
  then show ?thesis
    using snd sr p Inr io send_control_Inl [OF assms(1), of p c w2 _ c' w'] by (cases r) auto
qed

text \<open>
  A whole exchange: the client starts, the server's stream delivers what the client sent, the server
  answers without an I/O failure, the client's stream delivers the answer, the client finishes.
\<close>

definition exchange where
  "exchange wr sent rd pending wr' sent' rd' pending' now now' hc ac ccfg scfg
      c w s v nonce c1 w1 sr s1 v1 cr c2 \<longleftrightarrow>
     writer_law wr sent \<and> reader_law rd pending \<and> writer_law wr' sent' \<and> reader_law rd' pending'
     \<and> proto_law hc \<and> proto_law ac
     \<and> \<not> quic_closed c \<and> \<not> quic_closed s \<and> local_domain scfg \<noteq> []
     \<and> client_start wr now hc ccfg c w = Some (Inr nonce, c1, w1)
     \<and> (\<exists>bs rest. sent (quic_send_stream c1) = sent (quic_send_stream c) @ bs
          \<and> pending' (quic_recv_stream s) = bs @ rest)
     \<and> server_handshake wr' rd' now' hc ac scfg s v = Some (sr, s1, v1)
     \<and> (case sr of Inl e \<Rightarrow> \<not> io_failure e | Inr _ \<Rightarrow> True)
     \<and> (\<exists>bs rest. sent' (quic_send_stream s1) = sent' (quic_send_stream s) @ bs
          \<and> pending (quic_recv_stream c1) = bs @ rest)
     \<and> client_finish rd ac ccfg nonce c1 = (cr, c2)"

lemma exchange_verdicts:
  assumes "exchange wr sent rd pending wr' sent' rd' pending' now now' hc ac ccfg scfg
      c w s v nonce c1 w1 sr s1 v1 cr c2"
  shows "local_domain ccfg \<noteq> [] \<and> local_domain scfg \<noteq> [] \<and> length nonce = 16 \<and>
    (\<exists>ack. cr = client_accept ccfg nonce ack \<and>
      (case validate_peer_hello scfg (client_hello ccfg nonce) of
         Inr _ \<Rightarrow> \<exists>sn sid. length sn = 16 \<and> length sid = 16 \<and> ack = accepting_ack scfg nonce sn sid
           \<and> sr = Inr (session_of scfg (local_domain ccfg) nonce sn sid)
       | Inl e \<Rightarrow> ack = rejecting_ack scfg nonce e \<and> sr = Inl e))"
proof -
  note ex = assms [unfolded exchange_def]
  have cs: "client_start wr now hc ccfg c w = Some (Inr nonce, c1, w1)" using ex by blast
  have ccfg: "local_domain ccfg \<noteq> []" "length nonce = 16" using client_start_ok [OF cs] by blast+
  obtain p w0 u where hello: "encode_proto hc (client_hello ccfg nonce) = Inr p"
    "send_control_message wr p c w0 = Some (Inr u, c1, w1)" using client_start_ok [OF cs] by blast
  obtain bs rest where bs: "sent (quic_send_stream c1) = sent (quic_send_stream c) @ bs"
    "pending' (quic_recv_stream s) = bs @ rest" using ex by blast
  have laws: "writer_law wr sent" "reader_law rd' pending'" "proto_law hc" "\<not> quic_closed c" "\<not> quic_closed s"
    "writer_law wr' sent'" "reader_law rd pending" "proto_law ac" "local_domain scfg \<noteq> []" using ex by blast+
  obtain m s0 where m: "quic_receive rd' s = (Inr m, s0)" "decode_control_message hc m = Inr (client_hello ccfg nonce)"
    "quic_send_stream s0 = quic_send_stream s" "\<not> quic_closed s0" "quic_recv_stream c1 = quic_recv_stream c"
    "\<not> quic_closed c1"
    using control_delivery [OF laws(1-5) hello bs] by blast
  have "server_handshake wr' rd' now' hc ac scfg s v = Some (sr, s1, v1)" using ex by blast
  then have ans: "server_answer wr' now' ac scfg (client_hello ccfg nonce) s0 v = Some (sr, s1, v1)"
    using m(1,2) laws(9) by (simp add: server_handshake_def validate_trust_domain_def)
  have io: "case sr of Inl e \<Rightarrow> \<not> io_failure e | Inr _ \<Rightarrow> True" using ex by blast
  have nonce: "hello_nonce (client_hello ccfg nonce) = nonce" "hello_domain (client_hello ccfg nonce) = local_domain ccfg"
    by (simp_all add: client_hello_def)
  obtain ack q v0 u' where ack: "encode_proto ac ack = Inr q" "send_control_message wr' q s0 v0 = Some (Inr u', s1, v1)"
    and verdict: "case validate_peer_hello scfg (client_hello ccfg nonce) of
         Inr _ \<Rightarrow> \<exists>sn sid. length sn = 16 \<and> length sid = 16 \<and> ack = accepting_ack scfg nonce sn sid
           \<and> sr = Inr (session_of scfg (local_domain ccfg) nonce sn sid)
       | Inl e \<Rightarrow> ack = rejecting_ack scfg nonce e \<and> sr = Inl e"
    using server_concludes [OF laws(6) _ ans io] ccfg(2) unfolding nonce by blast
  obtain bs' rest' where bs': "sent' (quic_send_stream s1) = sent' (quic_send_stream s0) @ bs'"
    "pending (quic_recv_stream c1) = bs' @ rest'" using ex m(3) by auto
  obtain m' c2' where "quic_receive rd c1 = (Inr m', c2')" "decode_control_message ac m' = Inr ack"
    using control_delivery [OF laws(6,7,8) m(4,6) ack bs'] by blast
  then have "cr = client_accept ccfg nonce ack"
    using ex by (auto simp: client_finish_def)
  then show ?thesis using verdict ccfg laws(9) by blast
qed

section \<open>Uniqueness of tokens\<close>

fun draw_tokens :: "'v wall_clock \<Rightarrow> nat \<Rightarrow> 'v hs_world \<Rightarrow> bytes list" where
  "draw_tokens now 0 w = []"
| "draw_tokens now (Suc n) w =
     (case next_handshake_token now w of (t, w) \<Rightarrow> t # draw_tokens now n w)"

definition clock_64 :: "'v wall_clock \<Rightarrow> bool" where
  "clock_64 now \<longleftrightarrow> (\<forall>v d. fst (now v) = Some d \<longrightarrow> unat d < 2 ^ 64)"

lemma ucast_ucast_id_u64: "(ucast (ucast (c :: u64) :: u128) :: u64) = c"
  by (rule bit_word_eqI) (simp add: bit_simps)

lemma high_bits_zero: "unat (d :: u128) < 2 ^ 64 \<Longrightarrow> drop_bit 64 d = 0"
  by (simp add: drop_bit_eq_div word_arith_nat_div unat_word_ariths)

lemma next_token_counter:
  assumes "clock_64 now" and "next_handshake_token now w = (t, w')"
  shows "\<exists>x. t = be_bytes 16 (x :: u128) \<and> drop_bit 64 x = ucast (hs_counter w) \<and> hs_counter w' = hs_counter w + 1"
proof -
  let ?n = "case fst (now (hs_wall w)) of Some d \<Rightarrow> d | None \<Rightarrow> 0"
  let ?x = "?n XOR push_bit 64 (ucast (hs_counter w) :: u128)"
  have t: "t = be_bytes 16 ?x" "hs_counter w' = hs_counter w + 1"
    using assms(2) by (auto simp: next_handshake_token_def Let_def split: prod.splits)
  have "drop_bit 64 ?n = (0 :: u128)"
    using assms(1) by (auto simp: clock_64_def intro!: high_bits_zero split: option.splits)
  moreover have "drop_bit 64 (push_bit 64 (ucast (hs_counter w) :: u128)) = ucast (hs_counter w)"
    by (rule bit_word_eqI) (auto simp: bit_simps dest: bit_imp_le_length)
  ultimately have "drop_bit 64 ?x = ucast (hs_counter w)" by (simp add: drop_bit_xor)
  then show ?thesis using t by blast
qed

lemma drawn_tokens:
  assumes "clock_64 now" and "t \<in> set (draw_tokens now n w)"
  shows "\<exists>x i. t = be_bytes 16 (x :: u128) \<and> i < n \<and> drop_bit 64 x = ucast (hs_counter w + of_nat i)"
  using assms(2)
proof (induction n arbitrary: w)
  case (Suc n)
  obtain t0 w0 where d: "next_handshake_token now w = (t0, w0)" by fastforce
  obtain x where x: "t0 = be_bytes 16 (x :: u128)" "drop_bit 64 x = ucast (hs_counter w)"
    "hs_counter w0 = hs_counter w + 1"
    using next_token_counter [OF assms(1) d] by blast
  show ?case
  proof (cases "t \<in> set (draw_tokens now n w0)")
    case True
    then obtain y i where "t = be_bytes 16 (y :: u128)" "i < n" "drop_bit 64 y = ucast (hs_counter w0 + of_nat i)"
      using Suc.IH by blast
    then show ?thesis using x(3) by (intro exI [of _ y] exI [of _ "Suc i"]) (simp add: algebra_simps)
  next
    case False
    then have "t = t0" using Suc.prems d by simp
    then show ?thesis using x by (intro exI [of _ x] exI [of _ 0]) simp
  qed
qed simp

lemma distinct_drawn_tokens:
  assumes "clock_64 now" and "n \<le> 2 ^ 64"
  shows "distinct (draw_tokens now n w)"
  using assms(2)
proof (induction n arbitrary: w)
  case (Suc n)
  obtain t0 w0 where d: "next_handshake_token now w = (t0, w0)" by fastforce
  obtain x where x: "t0 = be_bytes 16 (x :: u128)" "drop_bit 64 x = ucast (hs_counter w)"
    "hs_counter w0 = hs_counter w + 1"
    using next_token_counter [OF assms(1) d] by blast
  have "t0 \<notin> set (draw_tokens now n w0)"
  proof
    assume "t0 \<in> set (draw_tokens now n w0)"
    then obtain y i where y: "t0 = be_bytes 16 (y :: u128)" "i < n"
      "drop_bit 64 y = ucast (hs_counter w0 + of_nat i)"
      using drawn_tokens [OF assms(1)] by blast
    have "x = y" using x(1) y(1) be_bytes_inject [of 16 x y] by simp
    then have eq: "(ucast (hs_counter w) :: u128) = ucast (hs_counter w + 1 + of_nat i)"
      using x(2,3) y(3) by simp
    have "hs_counter w = hs_counter w + 1 + of_nat i"
      using eq by (metis ucast_ucast_id_u64)
    then have "(of_nat (Suc i) :: u64) = 0" by (simp add: algebra_simps)
    then show False using y(2) Suc.prems by (simp add: word_of_nat_eq_0_iff nat_dvd_not_less del: of_nat_Suc)
  qed
  then show ?case using Suc d by simp
qed simp

section \<open>A concrete exchange\<close>

text \<open>In-memory streams, a codec for one message and a stopped clock: the instance of the witnesses.\<close>

definition one_codec :: "'m \<Rightarrow> 'm proto_codec" where
  "one_codec x = \<lparr>proto_encode = (\<lambda>m. if m = x then Inr [1] else Inl ''unsupported''),
                  proto_decode = (\<lambda>_. Inr x)\<rparr>"

lemma one_codec_law: "proto_law (one_codec x)"
  by (simp add: proto_law_def one_codec_def)

definition sample_client_cfg :: handshake_config where
  "sample_client_cfg = config_new ''client.example'' (Some ''server.example'')"

definition sample_server_cfg :: handshake_config where
  "sample_server_cfg = config_new ''server.example'' None"

definition stopped_clock :: "unit wall_clock" where
  "stopped_clock v = (Some 0, v)"

definition sample_world :: "u64 \<Rightarrow> unit hs_world" where
  "sample_world n = \<lparr>hs_counter = n, hs_msg_id = 10000, hs_wall = ()\<rparr>"

definition token_of :: "u64 \<Rightarrow> bytes" where
  "token_of n = be_bytes 16 (push_bit 64 (ucast n) :: u128)"

lemma sample_token: "next_handshake_token stopped_clock (sample_world n) = (token_of n, sample_world (n + 1))"
  by (simp add: next_handshake_token_def sample_world_def stopped_clock_def token_of_def)

lemma length_token_of [simp]: "length (token_of n) = 16"
  by (simp add: token_of_def)

definition control_message :: "u64 \<Rightarrow> message" where
  "control_message i = the (message_new CONTROL i Protobuf High [1])"

lemma control_message:
  "message_new CONTROL i Protobuf High [1] = Some (control_message i)"
  "message_inv (control_message i)" "within_max (control_message i)" "payload (control_message i) = [1]"
  "message_type (control_message i) = CONTROL"
  "payload_format (header (control_message i)) = format_byte Protobuf"
proof -
  show new: "message_new CONTROL i Protobuf High [1] = Some (control_message i)"
    by (simp add: control_message_def message_new_def)
  show "message_inv (control_message i)" using message_new_inv [OF new] .
  show "within_max (control_message i)"
    by (simp add: control_message_def message_new_def within_max_def MAX_PAYLOAD_LEN_def word_le_nat_alt)
  show "payload (control_message i) = [1]"
    "message_type (control_message i) = CONTROL"
    "payload_format (header (control_message i)) = format_byte Protobuf"
    by (simp_all add: control_message_def message_new_def message_type_def CONTROL_def)
qed

lemma decode_one_codec: "decode_control_message (one_codec x) (control_message i) = Inr x"
  by (rule decode_control_message_ok) (simp_all add: control_message decode_proto_def one_codec_def)

lemma mem_control:
  "\<not> quic_closed c \<Longrightarrow> send_control_message mem_write [1] c (sample_world n) =
     Some (Inr (), c\<lparr>quic_send_stream := quic_send_stream c @ frame_bytes (control_message 10000)\<rparr>,
       (sample_world n)\<lparr>hs_msg_id := 10001\<rparr>)"
  by (simp add: send_control_message_def sample_world_def control_message quic_send_def mem_write_frame)

definition sample_ack :: hello_ack where
  "sample_ack = accepting_ack sample_server_cfg (token_of 1) (token_of 7) (token_of 8)"

lemma sample_exchange:
  "\<exists>c1 s1 w1 v1 sr cr c2. exchange mem_write (\<lambda>w. w) mem_read (\<lambda>r. r) mem_write (\<lambda>w. w) mem_read (\<lambda>r. r)
     stopped_clock stopped_clock (one_codec (client_hello sample_client_cfg (token_of 1))) (one_codec sample_ack)
     sample_client_cfg sample_server_cfg
     (mem_quic (frame_bytes (control_message 10000))) (sample_world 1)
     (mem_quic (frame_bytes (control_message 10000))) (sample_world 7)
     (token_of 1) c1 w1 sr s1 v1 cr c2"
proof -
  let ?m = "control_message 10000"
  let ?hc = "one_codec (client_hello sample_client_cfg (token_of 1))" and ?ac = "one_codec sample_ack"
  let ?c = "mem_quic (frame_bytes ?m)"
  let ?c1 = "?c\<lparr>quic_send_stream := frame_bytes ?m\<rparr>"
  have mq: "\<not> quic_closed ?c" "quic_send_stream ?c = []" "quic_recv_stream ?c = frame_bytes ?m"
    by (simp_all add: mem_quic_def)
  have start: "client_start mem_write stopped_clock ?hc sample_client_cfg ?c (sample_world 1) =
      Some (Inr (token_of 1), ?c1, (sample_world 2)\<lparr>hs_msg_id := 10001\<rparr>)"
    using mem_control [OF mq(1), of 2] mq
    by (simp add: client_start_def sample_token validate_trust_domain_def sample_client_cfg_def config_new_def
        encode_proto_def one_codec_def client_hello_def)
  obtain s0 where rec: "quic_receive mem_read ?c = (Inr ?m, s0)" "quic_send_stream s0 = []" "\<not> quic_closed s0"
    using quic_receive_frame [OF mem_read_law mq(1) control_message(2,3), of 10000 "[]"] mq by auto
  have hello_ok: "validate_peer_hello sample_server_cfg (client_hello sample_client_cfg (token_of 1)) = Inr ()"
    by (simp add: validate_peer_hello_def client_hello_def sample_client_cfg_def sample_server_cfg_def
        config_new_def validate_trust_domain_def validate_expected_domain_def)
  let ?ss = "session_of sample_server_cfg (local_domain sample_client_cfg) (token_of 1) (token_of 7) (token_of 8)"
  have "server_answer mem_write stopped_clock ?ac sample_server_cfg (client_hello sample_client_cfg (token_of 1))
      s0 (sample_world 7) = Some (Inr ?ss, s0\<lparr>quic_send_stream := frame_bytes ?m\<rparr>,
        (sample_world 9)\<lparr>hs_msg_id := 10001\<rparr>)"
    using mem_control [OF rec(3), of 9] rec(2) hello_ok
    by (simp add: server_answer_def sample_token encode_proto_def one_codec_def sample_ack_def session_of_def
        client_hello_def)
  then have srv: "server_handshake mem_write mem_read stopped_clock ?hc ?ac sample_server_cfg ?c (sample_world 7) =
      Some (Inr ?ss, s0\<lparr>quic_send_stream := frame_bytes ?m\<rparr>, (sample_world 9)\<lparr>hs_msg_id := 10001\<rparr>)"
    using rec(1)
    by (simp add: decode_one_codec server_handshake_def validate_trust_domain_def sample_server_cfg_def config_new_def)
  obtain cr c2 where fin: "client_finish mem_read ?ac sample_client_cfg (token_of 1) ?c1 = (cr, c2)" by fastforce
  have "exchange mem_write (\<lambda>w. w) mem_read (\<lambda>r. r) mem_write (\<lambda>w. w) mem_read (\<lambda>r. r)
     stopped_clock stopped_clock ?hc ?ac sample_client_cfg sample_server_cfg ?c (sample_world 1) ?c (sample_world 7)
     (token_of 1) ?c1 ((sample_world 2)\<lparr>hs_msg_id := 10001\<rparr>) (Inr ?ss) (s0\<lparr>quic_send_stream := frame_bytes ?m\<rparr>)
     ((sample_world 9)\<lparr>hs_msg_id := 10001\<rparr>) cr c2"
    unfolding exchange_def
    using start srv fin mq rec
    by (simp add: sample_server_cfg_def config_new_def mem_write_law mem_read_law one_codec_law)
  then show ?thesis by blast
qed

section \<open>Properties\<close>

text \<open>
  C2. Agreement: when a client and a server run the handshake over streams that deliver, the client
  succeeds exactly when both speak the same version and each one's expectation of the other's trust
  domain is met; then the server has succeeded too, and the two sessions mirror each other: same
  version, nonces and session id, the two domains swapped. The client's verdict is that of
  \<open>client_handshake\<close> as a whole.
\<close>

theorem handshake_agreement:
  assumes "exchange wr sent rd pending wr' sent' rd' pending' now now' hc ac ccfg scfg
      c w s v nonce c1 w1 sr s1 v1 cr c2"
  shows "client_handshake wr rd now hc ac ccfg c w = Some (cr, c2, w1) \<and>
    (case cr of
       Inr cs \<Rightarrow> cfg_version ccfg = cfg_version scfg
         \<and> domain_ok (expected_remote ccfg) (local_domain scfg)
         \<and> domain_ok (expected_remote scfg) (local_domain ccfg)
         \<and> session_local cs = local_domain ccfg \<and> session_version cs = cfg_version ccfg
         \<and> length (session_id cs) = 16 \<and> session_client_nonce cs = nonce
         \<and> sr = Inr (cs\<lparr>session_local := session_remote cs, session_remote := session_local cs\<rparr>)
     | Inl _ \<Rightarrow> \<not> (cfg_version ccfg = cfg_version scfg
         \<and> domain_ok (expected_remote ccfg) (local_domain scfg)
         \<and> domain_ok (expected_remote scfg) (local_domain ccfg)))" (is "_ \<and> ?verdict")
proof
  show "client_handshake wr rd now hc ac ccfg c w = Some (cr, c2, w1)"
    using assms by (simp add: exchange_def client_handshake_def)
  note verdict = exchange_verdicts [OF assms]
  have dom: "local_domain ccfg \<noteq> []" "local_domain scfg \<noteq> []" "length nonce = 16" using verdict by blast+
  obtain ack where cr: "cr = client_accept ccfg nonce ack"
    and sr: "case validate_peer_hello scfg (client_hello ccfg nonce) of
       Inr _ \<Rightarrow> \<exists>sn sid. length sn = 16 \<and> length sid = 16 \<and> ack = accepting_ack scfg nonce sn sid
         \<and> sr = Inr (session_of scfg (local_domain ccfg) nonce sn sid)
     | Inl e \<Rightarrow> ack = rejecting_ack scfg nonce e \<and> sr = Inl e"
    using verdict by blast
  show ?verdict
  proof (cases "cfg_version ccfg = cfg_version scfg \<and> domain_ok (expected_remote scfg) (local_domain ccfg)")
    case True
    then obtain sn sid where "length sn = 16" "length sid = 16" "ack = accepting_ack scfg nonce sn sid"
      "sr = Inr (session_of scfg (local_domain ccfg) nonce sn sid)"
      using sr by (auto simp: validate_peer_hello_client [OF dom(1)])
    then show ?thesis
      using True client_accepts_accepting [OF dom(2,3), of sn sid ccfg]
      by (simp add: cr session_of_def)
  next
    case False
    then have "\<exists>e'. cr = Inl e'"
      using sr client_refuses_rejecting [OF dom(1,2)] cr by (auto simp: validate_peer_hello_client [OF dom(1)] split: if_splits)
    then show ?thesis using False by auto
  qed
qed

theorem handshake_agreement_witness:
  "\<exists>cs c2 w1. client_handshake mem_write mem_read stopped_clock
      (one_codec (client_hello sample_client_cfg (token_of 1))) (one_codec sample_ack) sample_client_cfg
      (mem_quic (frame_bytes (control_message 10000))) (sample_world 1) = Some (Inr cs, c2, w1)
    \<and> session_local cs = ''client.example'' \<and> session_client_nonce cs = token_of 1 \<and> length (session_id cs) = 16"
proof -
  obtain c1 s1 w1 v1 sr cr c2 where ex: "exchange mem_write (\<lambda>w. w) mem_read (\<lambda>r. r) mem_write (\<lambda>w. w) mem_read (\<lambda>r. r)
     stopped_clock stopped_clock (one_codec (client_hello sample_client_cfg (token_of 1))) (one_codec sample_ack)
     sample_client_cfg sample_server_cfg
     (mem_quic (frame_bytes (control_message 10000))) (sample_world 1)
     (mem_quic (frame_bytes (control_message 10000))) (sample_world 7)
     (token_of 1) c1 w1 sr s1 v1 cr c2"
    using sample_exchange by blast
  show ?thesis
    using handshake_agreement [OF ex]
    by (cases cr) (auto simp: sample_client_cfg_def sample_server_cfg_def config_new_def domain_ok_def)
qed

text \<open>
  C33. Refusals are explained on both sides: different versions give both peers the unsupported
  version error, each naming its own version as expected; a server that refuses the client's domain
  reports the mismatch and the client reports the same one (or its own refusal of the server's
  domain, which it checks first); a client that refuses the server's domain reports its mismatch even
  when the server has accepted.
\<close>

theorem handshake_refusals:
  assumes "exchange wr sent rd pending wr' sent' rd' pending' now now' hc ac ccfg scfg
      c w s v nonce c1 w1 sr s1 v1 cr c2"
  shows "if cfg_version ccfg \<noteq> cfg_version scfg then
      sr = Inl (Protocol (UnsupportedHandshakeVersion (cfg_version scfg) (cfg_version ccfg)))
      \<and> cr = Inl (Protocol (UnsupportedHandshakeVersion (cfg_version ccfg) (cfg_version scfg)))
    else (if domain_ok (expected_remote scfg) (local_domain ccfg) then is_ok sr
          else sr = Inl (domain_mismatch (expected_remote scfg) (local_domain ccfg)))
      \<and> (if \<not> domain_ok (expected_remote ccfg) (local_domain scfg)
          then cr = Inl (domain_mismatch (expected_remote ccfg) (local_domain scfg))
          else if is_ok sr then is_ok cr
          else cr = sr)"
proof -
  note verdict = exchange_verdicts [OF assms]
  have dom: "local_domain ccfg \<noteq> []" "local_domain scfg \<noteq> []" "length nonce = 16" using verdict by blast+
  obtain ack where cr: "cr = client_accept ccfg nonce ack"
    and sr: "case validate_peer_hello scfg (client_hello ccfg nonce) of
       Inr _ \<Rightarrow> \<exists>sn sid. length sn = 16 \<and> length sid = 16 \<and> ack = accepting_ack scfg nonce sn sid
         \<and> sr = Inr (session_of scfg (local_domain ccfg) nonce sn sid)
     | Inl e \<Rightarrow> ack = rejecting_ack scfg nonce e \<and> sr = Inl e"
    using verdict by blast
  note rejects = client_rejects_rejecting [OF dom(2), of ccfg nonce]
  show ?thesis
  proof (cases "cfg_version ccfg = cfg_version scfg \<and> domain_ok (expected_remote scfg) (local_domain ccfg)")
    case True
    then obtain sn sid where "length sn = 16" "length sid = 16" "ack = accepting_ack scfg nonce sn sid"
      "is_ok sr" using sr by (auto simp: validate_peer_hello_client [OF dom(1)])
    then show ?thesis using True client_accepts_accepting [OF dom(2,3), of sn sid ccfg] cr by simp
  next
    case False
    then show ?thesis
      using sr rejects
      by (auto simp: validate_peer_hello_client [OF dom(1)] domain_mismatch_def cr split: if_splits)
  qed
qed

theorem handshake_refusals_witness:
  "\<exists>c1 s1 w1 v1 sr cr c2. exchange mem_write (\<lambda>w. w) mem_read (\<lambda>r. r) mem_write (\<lambda>w. w) mem_read (\<lambda>r. r)
     stopped_clock stopped_clock (one_codec (client_hello sample_client_cfg (token_of 1))) (one_codec sample_ack)
     sample_client_cfg sample_server_cfg
     (mem_quic (frame_bytes (control_message 10000))) (sample_world 1)
     (mem_quic (frame_bytes (control_message 10000))) (sample_world 7)
     (token_of 1) c1 w1 sr s1 v1 cr c2 \<and> is_ok sr \<and> is_ok cr"
proof -
  obtain c1 s1 w1 v1 sr cr c2 where ex: "exchange mem_write (\<lambda>w. w) mem_read (\<lambda>r. r) mem_write (\<lambda>w. w) mem_read (\<lambda>r. r)
     stopped_clock stopped_clock (one_codec (client_hello sample_client_cfg (token_of 1))) (one_codec sample_ack)
     sample_client_cfg sample_server_cfg
     (mem_quic (frame_bytes (control_message 10000))) (sample_world 1)
     (mem_quic (frame_bytes (control_message 10000))) (sample_world 7)
     (token_of 1) c1 w1 sr s1 v1 cr c2"
    using sample_exchange by blast
  have "is_ok sr \<and> is_ok cr"
    using handshake_refusals [OF ex]
    by (simp add: sample_client_cfg_def sample_server_cfg_def config_new_def domain_ok_def)
  then show ?thesis using ex by blast
qed

text \<open>
  C32. A client trusts nothing the server says: whatever acknowledgement it decodes, it concludes a
  session exactly when the version is its own, the domain is not empty and is the expected one, the
  acknowledgement is a success without rejection text, its own nonce is echoed and both tokens have
  16 bytes; the session then carries exactly these values.
\<close>

theorem client_accepts_iff:
  "client_accept cfg nonce ack = Inr s \<longleftrightarrow>
     unat (ack_version ack) = unat (cfg_version cfg) \<and> ack_domain ack \<noteq> []
     \<and> (case expected_remote cfg of None \<Rightarrow> True | Some d \<Rightarrow> ack_domain ack = d)
     \<and> rejection_code ack = 0 \<and> rejected_expected ack = None
     \<and> ack_client_nonce ack = nonce \<and> length nonce = 16
     \<and> length (ack_server_nonce ack) = 16 \<and> length (ack_session_id ack) = 16
     \<and> s = session_of cfg (ack_domain ack) nonce (ack_server_nonce ack) (ack_session_id ack)"
proof -
  have version: "validate_protocol_version (cfg_version cfg) (ack_version ack) = Inr () \<longleftrightarrow>
      unat (ack_version ack) = unat (cfg_version cfg)"
  proof (cases "unat (ack_version ack) < 2 ^ 16")
    case True
    then have "unat (ucast (ack_version ack) :: u16) = unat (ack_version ack)"
      by (simp add: unsigned_ucast_eq take_bit_nat_eq_self)
    then show ?thesis using True by (auto simp: validate_protocol_version_def word_unat_eq_iff)
  next
    case False
    then show ?thesis
      using unsigned_less [of "cfg_version cfg", where 'a = nat] by (auto simp: validate_protocol_version_def)
  qed
  have domain: "validate_expected_domain (expected_remote cfg) (ack_domain ack) = Inr () \<longleftrightarrow>
      (case expected_remote cfg of None \<Rightarrow> True | Some d \<Rightarrow> ack_domain ack = d)"
    by (auto simp: validate_expected_domain_def split: option.splits)
  have shape: "validate_ack_rejection cfg ack = Inr () \<longleftrightarrow> rejection_code ack = 0 \<and> rejected_expected ack = None
      \<and> length (ack_server_nonce ack) = 16 \<and> length (ack_session_id ack) = 16"
    by (auto simp: validate_ack_rejection_def validate_ack_shape_def try_bind_Inr_iff decode_token_Inr
        split: if_splits option.splits)
  show ?thesis
    using version domain shape
    by (auto simp: client_accept_def try_bind_Inr_iff decode_token_Inr session_of_def)
qed

text \<open>
  A rejection is a pure refusal: the acknowledgement a server sends for any error carries neither
  server nonce nor session id and a rejection code that is not the success code, has the shape clients
  require of rejections, and no client, whatever its configuration and nonce, makes a session of it.
\<close>

theorem rejection_carries_no_session:
  "ack_server_nonce (rejecting_ack scfg nonce e) = [] \<and> ack_session_id (rejecting_ack scfg nonce e) = []
   \<and> unat (rejection_code (rejecting_ack scfg nonce e)) = unat (as_u16 (laic_code e))
   \<and> rejection_code (rejecting_ack scfg nonce e) \<noteq> 0
   \<and> validate_ack_shape (rejecting_ack scfg nonce e) = Inr ()
   \<and> \<not> is_ok (client_accept ccfg nonce' (rejecting_ack scfg nonce e))"
proof -
  have layer: "as_u16 (laic_code e) AND 0xFF00 \<noteq> 0"
    using protocol_layer.code_layer transport_layer.code_layer codec_layer.code_layer flow_layer.code_layer
    by (cases e) simp_all
  then have nonzero: "as_u16 (laic_code e) \<noteq> 0" by auto
  have code_eq: "unat (rejection_code (rejecting_ack scfg nonce e)) = unat (as_u16 (laic_code e))"
    using unsigned_less [of "as_u16 (laic_code e)", where 'a = nat]
    by (simp add: rejecting_ack_def unsigned_ucast_eq take_bit_nat_eq_self)
  then have code: "rejection_code (rejecting_ack scfg nonce e) \<noteq> 0"
    using nonzero by (auto simp: unat_eq_0)
  moreover note code_eq
  moreover have "\<not> is_ok (client_accept ccfg nonce' (rejecting_ack scfg nonce e))"
    using code
    by (auto simp: is_ok_iff client_accept_def try_bind_Inr_iff decode_token_Inr rejecting_ack_def)
  ultimately show ?thesis
    by (simp add: validate_ack_shape_def) (simp add: rejecting_ack_def)
qed

text \<open>
  C34. Tokens do not repeat within a process as long as the wall clock shows less than \<open>2 ^ 64\<close>
  nanoseconds since the epoch (until the year 2554), even if it stands still, jumps or goes back: the first
  \<open>2 ^ 64\<close> nonces and session ids drawn from the shared counter are then pairwise different 16-byte
  values. Beyond that bound the clock reaches the counter's bits and two tokens can be equal
  (\<open>late_clock_tokens_collide\<close>).
\<close>

theorem handshake_tokens_distinct:
  assumes "\<And>v d. fst (now v) = Some d \<Longrightarrow> unat d < 2 ^ 64" and "n \<le> 2 ^ 64"
  shows "distinct (draw_tokens now n w)"
  using assms by (intro distinct_drawn_tokens) (auto simp: clock_64_def)

theorem handshake_tokens_distinct_witness:
  "draw_tokens stopped_clock 3 (sample_world 1) = [token_of 1, token_of 2, token_of 3]
   \<and> distinct [token_of 1, token_of 2, token_of 3]"
proof -
  have drawn: "draw_tokens stopped_clock 3 (sample_world 1) = [token_of 1, token_of 2, token_of 3]"
    by (simp add: numeral_3_eq_3 sample_token)
  have "distinct (draw_tokens stopped_clock 3 (sample_world 1))"
    by (rule handshake_tokens_distinct) (auto simp: stopped_clock_def)
  then show ?thesis using drawn by simp
qed

text \<open>
  The bound on the clock is needed: a clock that shows \<open>0\<close> nanoseconds for the first draw and
  \<open>3 * 2 ^ 64\<close> for the second gives the counter values 1 and 2 the same token.
\<close>

theorem late_clock_tokens_collide:
  "\<not> distinct (draw_tokens (\<lambda>late. (Some (if late then 3 * 2 ^ 64 else 0), True)) 2
     \<lparr>hs_counter = HANDSHAKE_COUNTER_INIT, hs_msg_id = 0, hs_wall = False\<rparr>)"
proof -
  have "push_bit 64 (1 :: u128) = 3 * 2 ^ 64 XOR push_bit 64 2" by code_simp
  then show ?thesis
    unfolding numeral_2_eq_2 by (simp add: next_handshake_token_def HANDSHAKE_COUNTER_INIT_def)
qed

text \<open>
  The envelope is checked before the payload: a control message is decoded exactly when its type is
  CONTROL, its format is Protobuf and its payload decodes; a wrong type is reported first, then a
  format that is unknown or not Protobuf, and only then the payload, whose failure is the handshake's
  own error.
\<close>

theorem control_envelope_verdict:
  "decode_control_message codec m =
     (if msg_type (header m) \<noteq> 0x0002
      then Inl (Protocol (UnexpectedMessageType 0x0002 (msg_type (header m))))
      else case payload_format (header m) of f \<Rightarrow>
        if f = 1 then
          (case proto_decode codec (payload m) of
             Inr x \<Rightarrow> Inr x
           | Inl d \<Rightarrow> Inl (Protocol (InvalidHandshakePayload (''handshake protobuf decode failed: ''
                       @ ''codec error: Protobuf decode failed: '' @ d))))
        else if f = 0 \<or> f = 2 then Inl (Protocol (UnexpectedPayloadFormat 1 f))
        else Inl (Protocol (InvalidPayloadFormat f)))"
  by (simp add: decode_control_message_def message_type_def CONTROL_def format_from_u8_def decode_proto_def
      invalid_payload_def split: sum.splits)

end
