(* ===== verification/Laicc_Text.thy ===== *)
theory Laicc_Text
  imports Prelude
begin

text \<open>
  The text functions of the schema compiler, \<open>crates/laicc/src/codegen/mod.rs\<close>. A Rust \<open>String\<close> is the
  list of its code points (\<open>text\<close>); \<open>lit\<close> turns an ASCII literal into one. \<open>rust_lex\<close> and \<open>script_lex\<close>
  are the reference lexers of one character of a string literal, in Rust and in Python/TypeScript,
  against which the escaping is verified.
\<close>

section \<open>Text\<close>

type_synonym "text" = "nat list"

definition lit :: "string \<Rightarrow> text" where
  "lit s = map of_char s"

lemma lit_eq_Nil [simp]: "lit s = [] \<longleftrightarrow> s = []"
  by (simp add: lit_def)

lemma lit_inject [simp]: "lit s = lit t \<longleftrightarrow> s = t"
  by (simp add: lit_def inj_map_eq_map [OF inj_of_char])

definition nl :: "text" where "nl = [10]"
definition sq :: "text" where "sq = [39]"
definition dq :: "text" where "dq = [34]"

definition quoted_text :: "text \<Rightarrow> text" where
  "quoted_text s = sq @ s @ sq"

definition decimal :: "nat \<Rightarrow> text" where
  "decimal n = lit (show_nat n)"

definition decimal_int :: "int \<Rightarrow> text" where
  "decimal_int i = (if i < 0 then 45 # decimal (nat (- i)) else decimal (nat i))"

section \<open>Templates\<close>

text \<open>
  The string literals of the code generators. In a template \<open>^\<close> stands for the double quote, \<open>~\<close> for
  the newline and \<open>%\<close> for the em dash, none of which the literals themselves contain; \<open>raw\<close> is a plain
  literal and \<open>fmt\<close> is \<open>format!\<close>: each \<open>{}\<close> takes the next argument, \<open>{{\<close> and \<open>}}\<close> are braces.
\<close>

definition template_char :: "nat \<Rightarrow> nat" where
  "template_char c = (if c = 94 then 34 else if c = 126 then 10 else if c = 37 then 8212 else c)"

definition raw :: "string \<Rightarrow> text" where
  "raw s = map template_char (lit s)"

fun fill :: "text \<Rightarrow> text list \<Rightarrow> text" where
  "fill (c # d # cs) args =
     (if c = 123 \<and> d = 123 then 123 # fill cs args
      else if c = 125 \<and> d = 125 then 125 # fill cs args
      else if c = 123 \<and> d = 125 then
        (case args of [] \<Rightarrow> fill cs [] | arg # rest \<Rightarrow> arg @ fill cs rest)
      else template_char c # fill (d # cs) args)"
| "fill cs args = map template_char cs"

definition fmt :: "string \<Rightarrow> text list \<Rightarrow> text" where
  "fmt s args = fill (lit s) args"

fun join :: "text \<Rightarrow> text list \<Rightarrow> text" where
  "join sep [] = []"
| "join sep [x] = x"
| "join sep (x # y # xs) = x @ sep @ join sep (y # xs)"

section \<open>Names\<close>

text \<open>
  \<open>to_pascal_case\<close> is only applied to identifiers, which the grammar restricts to ASCII letters, digits
  and underscores, so the case mapping is the ASCII one.
\<close>

definition to_upper :: "nat \<Rightarrow> nat" where
  "to_upper c = (if 97 \<le> c \<and> c \<le> 122 then c - 32 else c)"

definition to_lower :: "nat \<Rightarrow> nat" where
  "to_lower c = (if 65 \<le> c \<and> c \<le> 90 then c + 32 else c)"

fun split_on :: "nat \<Rightarrow> text \<Rightarrow> text list" where
  "split_on sep [] = [[]]"
| "split_on sep (c # cs) =
     (if c = sep then [] # split_on sep cs
      else case split_on sep cs of
        [] \<Rightarrow> [[c]]
      | part # parts \<Rightarrow> (c # part) # parts)"

lemma split_on_no_sep: "sep \<notin> set s \<Longrightarrow> split_on sep s = [s]"
  by (induction s) auto

lemma split_on_nonempty [simp]: "split_on sep s \<noteq> []"
  by (induction s) (auto split: list.splits)

lemma split_on_append_sep: "split_on sep (s @ sep # t) = split_on sep s @ split_on sep t"
  by (induction s) (auto split: list.splits)

lemma set_split_on: "c \<in> set (split_on sep s) \<Longrightarrow> sep \<notin> set c"
  by (induction s arbitrary: c) (auto split: list.splits if_splits)

definition to_pascal_case :: "text \<Rightarrow> text" where
  "to_pascal_case s =
     concat (map (\<lambda>part. case part of [] \<Rightarrow> [] | c # cs \<Rightarrow> to_upper c # map to_lower cs)
       (split_on 95 s))"

section \<open>Escaping\<close>

datatype string_literal_dialect = PythonLike | Rust

text \<open>\<open>char::is_control\<close>: the Unicode category Cc.\<close>

definition is_control :: "nat \<Rightarrow> bool" where
  "is_control c \<longleftrightarrow> c < 32 \<or> (127 \<le> c \<and> c < 160)"

definition escape_char :: "string_literal_dialect \<Rightarrow> nat \<Rightarrow> text" where
  "escape_char d c =
     (if c = 92 then [92, 92]
      else if c = 34 then [92, 34]
      else if c = 10 then [92, 110]
      else if c = 13 then [92, 114]
      else if c = 9 then [92, 116]
      else if c = 0 then (case d of PythonLike \<Rightarrow> 92 # lit ''x00'' | Rust \<Rightarrow> [92, 48])
      else if c = 0x2028 then (case d of PythonLike \<Rightarrow> 92 # lit ''u2028'' | Rust \<Rightarrow> 92 # lit ''u{2028}'')
      else if c = 0x2029 then (case d of PythonLike \<Rightarrow> 92 # lit ''u2029'' | Rust \<Rightarrow> 92 # lit ''u{2029}'')
      else if is_control c then
        (case d of
           PythonLike \<Rightarrow>
             if c \<le> 0xFF then 92 # lit (''x'' @ hex_upper 2 c)
             else if c \<le> 0xFFFF then 92 # lit (''u'' @ hex_upper 4 c)
             else 92 # lit (''U'' @ hex_upper 8 c)
         | Rust \<Rightarrow>
             if c \<le> 0xFF then 92 # lit (''x'' @ hex_upper 2 c)
             else 92 # lit (''u{'' @ hex_nat c @ ''}''))
      else [c])"

definition escape_string_literal_body :: "text \<Rightarrow> string_literal_dialect \<Rightarrow> text" where
  "escape_string_literal_body s d = concat (map (escape_char d) s)"

definition rust_string_literal :: "text \<Rightarrow> text" where
  "rust_string_literal s = 34 # escape_string_literal_body s Rust @ [34]"

definition python_string_literal :: "text \<Rightarrow> text" where
  "python_string_literal s = 34 # escape_string_literal_body s PythonLike @ [34]"

definition python_bytes_literal :: "text \<Rightarrow> text" where
  "python_bytes_literal s = python_string_literal s @ lit ''.encode('' @ [34] @ lit ''utf-8'' @ [34] @ lit '')''"

definition typescript_string_literal :: "text \<Rightarrow> text" where
  "typescript_string_literal s = python_string_literal s"

section \<open>Reference lexers\<close>

definition hex_value :: "nat \<Rightarrow> nat option" where
  "hex_value c =
     (if 48 \<le> c \<and> c \<le> 57 then Some (c - 48)
      else if 65 \<le> c \<and> c \<le> 70 then Some (c - 55)
      else if 97 \<le> c \<and> c \<le> 102 then Some (c - 87)
      else None)"

fun hex_digits :: "nat \<Rightarrow> text \<Rightarrow> nat option" where
  "hex_digits acc [] = Some acc"
| "hex_digits acc (c # cs) =
     (case hex_value c of None \<Rightarrow> None | Some v \<Rightarrow> hex_digits (16 * acc + v) cs)"

text \<open>A fixed number of hexadecimal digits.\<close>

definition lex_hex :: "nat \<Rightarrow> text \<Rightarrow> (nat \<times> text) option" where
  "lex_hex n s =
     (if n \<le> length s then map_option (\<lambda>v. (v, drop n s)) (hex_digits 0 (take n s)) else None)"

definition simple_escape :: "nat \<Rightarrow> nat option" where
  "simple_escape c =
     (if c = 92 then Some 92 else if c = 34 then Some 34 else if c = 110 then Some 10
      else if c = 114 then Some 13 else if c = 116 then Some 9 else None)"

text \<open>
  Rust: \<open>\x\<close> takes two digits up to \<open>7F\<close>, \<open>\u{...}\<close> one to six digits of a scalar value; a bare carriage
  return or quotation mark cannot occur in the body.
\<close>

definition is_scalar :: "nat \<Rightarrow> bool" where
  "is_scalar c \<longleftrightarrow> c < 0xD800 \<or> (0xE000 \<le> c \<and> c < 0x110000)"

definition rust_lex :: "text \<Rightarrow> (nat \<times> text) option" where
  "rust_lex s =
     (case s of
        [] \<Rightarrow> None
      | c # cs \<Rightarrow>
          if c = 34 \<or> c = 13 then None
          else if c \<noteq> 92 then Some (c, cs)
          else case cs of
            [] \<Rightarrow> None
          | d # ds \<Rightarrow>
              (case simple_escape d of
                 Some v \<Rightarrow> Some (v, ds)
               | None \<Rightarrow>
                   if d = 48 then Some (0, ds)
                   else if d = 120 then
                     (case lex_hex 2 ds of
                        Some (v, rest) \<Rightarrow> if v < 128 then Some (v, rest) else None
                      | None \<Rightarrow> None)
                   else if d = 117 then
                     (case ds of
                        [] \<Rightarrow> None
                      | e # es \<Rightarrow>
                          let digits = takeWhile (\<lambda>c. hex_value c \<noteq> None) es;
                              rest = drop (length digits) es
                          in if e = 123 \<and> 1 \<le> length digits \<and> length digits \<le> 6
                                \<and> rest \<noteq> [] \<and> hd rest = 125
                             then (case hex_digits 0 digits of
                                     Some v \<Rightarrow> if is_scalar v then Some (v, tl rest) else None
                                   | None \<Rightarrow> None)
                             else None)
                   else None))"

text \<open>
  Python and TypeScript agree on the forms used here: two digits after \<open>\x\<close>, four after \<open>\u\<close>, no bare
  line terminator or quotation mark. (A raw line separator, which TypeScript accepts only since
  2019, is refused, too.)
\<close>

definition script_lex :: "text \<Rightarrow> (nat \<times> text) option" where
  "script_lex s =
     (case s of
        [] \<Rightarrow> None
      | c # cs \<Rightarrow>
          if c \<in> {34, 10, 13, 0x2028, 0x2029} then None
          else if c \<noteq> 92 then Some (c, cs)
          else case cs of
            [] \<Rightarrow> None
          | d # ds \<Rightarrow>
              (case simple_escape d of
                 Some v \<Rightarrow> Some (v, ds)
               | None \<Rightarrow>
                   if d = 120 then lex_hex 2 ds else if d = 117 then lex_hex 4 ds else None))"

text \<open>Lexing a whole body, one character at a time; every character consumes at least one code point.\<close>

fun lex_body :: "(text \<Rightarrow> (nat \<times> text) option) \<Rightarrow> nat \<Rightarrow> text \<Rightarrow> text option" where
  "lex_body lx 0 s = (if s = [] then Some [] else None)"
| "lex_body lx (Suc n) s =
     (if s = [] then Some []
      else case lx s of
        None \<Rightarrow> None
      | Some (c, rest) \<Rightarrow> map_option ((#) c) (lex_body lx n rest))"

definition unescape :: "(text \<Rightarrow> (nat \<times> text) option) \<Rightarrow> text \<Rightarrow> text option" where
  "unescape lx s = lex_body lx (length s) s"

section \<open>Escaped characters lex back\<close>

definition hexc :: "nat \<Rightarrow> nat" where
  "hexc d = of_char (hex_digit d)"

lemma hexc_less: "d < 16 \<Longrightarrow> hexc d = (if d < 10 then 48 + d else 55 + d)"
  by (simp add: hexc_def hex_digit_def of_char_of take_bit_eq_mod)

lemma hex_value_hexc [simp]: "d < 16 \<Longrightarrow> hex_value (hexc d) = Some d"
  by (auto simp: hexc_less hex_value_def)

lemma hex_upper_2: "c < 256 \<Longrightarrow> lit (hex_upper 2 c) = [hexc (c div 16), hexc (c mod 16)]"
proof -
  assume c: "c < 256"
  show ?thesis
  proof (cases "c < 16")
    case True
    then have "hex_nat c = [hex_digit c]" by (subst hex_nat.simps) simp
    then show ?thesis using True by (simp add: hex_upper_def lit_def hexc_def hex_digit_def)
  next
    case False
    have "c div 16 < 16" using c by simp
    then have "hex_nat (c div 16) = [hex_digit (c div 16)]" by (subst hex_nat.simps) simp
    then have "hex_nat c = [hex_digit (c div 16), hex_digit (c mod 16)]"
      using False by (subst hex_nat.simps) simp
    then show ?thesis by (simp add: hex_upper_def lit_def hexc_def)
  qed
qed

lemma lit_append [simp]: "lit (s @ t) = lit s @ lit t"
  by (simp add: lit_def)

lemma lex_hex_2: "c < 256 \<Longrightarrow> lex_hex 2 (hexc (c div 16) # hexc (c mod 16) # rest) = Some (c, rest)"
  by (simp add: lex_hex_def)

text \<open>The control characters Rust's \<open>\x\<close> escape cannot denote.\<close>

definition c1_control :: "nat \<Rightarrow> bool" where
  "c1_control c \<longleftrightarrow> 128 \<le> c \<and> c < 160"

definition code_points :: "text \<Rightarrow> bool" where
  "code_points s \<longleftrightarrow> list_all is_scalar s"

lemma escape_char_control:
  assumes "is_control c" and "c \<notin> {0, 9, 10, 13}"
  shows "escape_char d c = [92, 120, hexc (c div 16), hexc (c mod 16)]"
proof -
  have "c < 256" "c \<noteq> 92" "c \<noteq> 34" "c \<noteq> 0x2028" "c \<noteq> 0x2029"
    using assms by (auto simp: is_control_def)
  moreover have "lit (CHR ''x'' # t) = 120 # lit t" for t by (simp add: lit_def)
  ultimately show ?thesis
    using assms hex_upper_2 [of c] by (simp add: escape_char_def split: string_literal_dialect.splits)
qed

lemma escape_char_plain:
  "\<not> is_control c \<Longrightarrow> c \<notin> {34, 92, 0x2028, 0x2029} \<Longrightarrow> escape_char d c = [c]"
  by (auto simp: escape_char_def is_control_def)

lemma script_lex_escape: "script_lex (escape_char PythonLike c @ rest) = Some (c, rest)"
proof -
  consider "c \<in> {0, 9, 10, 13, 34, 92, 0x2028, 0x2029}" | "is_control c" "c \<notin> {0, 9, 10, 13}"
    | "\<not> is_control c" "c \<notin> {34, 92, 0x2028, 0x2029}" by blast
  then show ?thesis
  proof cases
    case 1
    then show ?thesis
      by (auto simp: escape_char_def script_lex_def simple_escape_def lex_hex_def hex_value_def lit_def)
  next
    case 2
    then have "c < 256" by (auto simp: is_control_def)
    then show ?thesis
      using escape_char_control [OF 2] lex_hex_2 by (simp add: script_lex_def simple_escape_def)
  next
    case 3
    then have "c \<noteq> 10" "c \<noteq> 13" by (auto simp: is_control_def)
    then show ?thesis using escape_char_plain [OF 3] 3 by (simp add: script_lex_def)
  qed
qed

lemma rust_lex_escape:
  "rust_lex (escape_char Rust c @ rest) = (if c1_control c then None else Some (c, rest))"
proof -
  consider "c \<in> {0, 9, 10, 13, 34, 92, 0x2028, 0x2029}" | "is_control c" "c \<notin> {0, 9, 10, 13}"
    | "\<not> is_control c" "c \<notin> {34, 92, 0x2028, 0x2029}" by blast
  then show ?thesis
  proof cases
    case 1
    then show ?thesis
      by (auto simp: escape_char_def rust_lex_def simple_escape_def hex_value_def lit_def c1_control_def
          is_scalar_def)
  next
    case 2
    then have "c < 256" "c1_control c \<longleftrightarrow> \<not> c < 128" by (auto simp: is_control_def c1_control_def)
    then show ?thesis
      using escape_char_control [OF 2] lex_hex_2 by (simp add: rust_lex_def simple_escape_def)
  next
    case 3
    then have "c \<noteq> 13" "\<not> c1_control c" by (auto simp: is_control_def c1_control_def)
    then show ?thesis using escape_char_plain [OF 3] 3 by (simp add: rust_lex_def)
  qed
qed

lemma escape_char_nonempty [simp]: "escape_char d c \<noteq> []"
  by (auto simp: escape_char_def split: string_literal_dialect.splits)

text \<open>
  The contract between an escaper of characters and a lexer: what it escapes lexes back, except for
  the characters it cannot escape, on which the lexer fails.
\<close>

locale literal_syntax =
  fixes esc :: "nat \<Rightarrow> text" and lx :: "text \<Rightarrow> (nat \<times> text) option" and bad :: "nat \<Rightarrow> bool"
  assumes esc_nonempty: "esc c \<noteq> []"
    and lex_esc: "lx (esc c @ rest) = (if bad c then None else Some (c, rest))"
begin

lemma lex_body_escaped:
  "length s \<le> n \<Longrightarrow> lex_body lx n (concat (map esc s)) = (if list_ex bad s then None else Some s)"
proof (induction s arbitrary: n)
  case Nil
  then show ?case by (cases n) simp_all
next
  case (Cons c s)
  then obtain m where n: "n = Suc m" "length s \<le> m" by (cases n) auto
  show ?case using n Cons.IH [OF n(2)] esc_nonempty [of c] by (simp add: lex_esc)
qed

lemma length_escaped: "length s \<le> length (concat (map esc s))"
proof (induction s)
  case (Cons c s)
  have "1 \<le> length (esc c)" using esc_nonempty [of c] by (cases "esc c") auto
  then show ?case using Cons by simp
qed simp

lemma unescape_escaped: "unescape lx (concat (map esc s)) = (if list_ex bad s then None else Some s)"
  by (simp add: unescape_def lex_body_escaped length_escaped)

end

interpretation script_syntax: literal_syntax "escape_char PythonLike" script_lex "\<lambda>_. False"
  by unfold_locales (simp_all add: script_lex_escape)

interpretation rust_syntax: literal_syntax "escape_char Rust" rust_lex c1_control
  by unfold_locales (simp_all add: rust_lex_escape)

section \<open>Properties\<close>

text \<open>
  C29. String literals survive code generation in Python and TypeScript: for every text, the escaped body
  denotes exactly that text under the literal syntax the two share, without a bare quotation mark or
  line terminator.
\<close>

theorem script_escape_roundtrip:
  "unescape script_lex (escape_string_literal_body s PythonLike) = Some s"
  using script_syntax.unescape_escaped [of s]
  by (simp add: escape_string_literal_body_def list_ex_iff)

text \<open>
  C30. String literals in Rust: the escaped body denotes the text exactly when the text has no C1 control
  character (U+0080 to U+009F); with one, the body is not a Rust string literal at all, because
  the \<open>\x\<close> escape the generator emits for it stops at \<open>7F\<close>.
\<close>

theorem rust_escape_roundtrip:
  "unescape rust_lex (escape_string_literal_body s Rust) =
     (if list_ex (\<lambda>c. 0x80 \<le> c \<and> c \<le> 0x9F) s then None else Some s)"
proof -
  have "c1_control = (\<lambda>c. 0x80 \<le> c \<and> c \<le> 0x9F)" by (auto simp: c1_control_def fun_eq_iff)
  then show ?thesis
    using rust_syntax.unescape_escaped [of s] by (simp add: escape_string_literal_body_def)
qed

end
