(* ===== verification/Laicc_Ast.thy ===== *)
theory Laicc_Ast
  imports Laicc_Text
begin

text \<open>
  \<open>crates/laicc/src/ast.rs\<close> and \<open>error.rs\<close>: the syntax tree of a \<open>.laic\<close> file and the compiler's
  errors. Names and literals are texts, an integer literal (\<open>i64\<close>) is an \<open>int\<close> and a fixed dimension
  (\<open>usize\<close>) a \<open>nat\<close>, a float is its 64 bits.
\<close>

section \<open>The syntax tree\<close>

datatype tensor_element_type = TF32 | TF64 | TI8 | TI16 | TI32 | TI64 | TU8 | TBool

fun tensor_as_str :: "tensor_element_type \<Rightarrow> string" where
  "tensor_as_str TF32 = ''f32''"
| "tensor_as_str TF64 = ''f64''"
| "tensor_as_str TI8 = ''i8''"
| "tensor_as_str TI16 = ''i16''"
| "tensor_as_str TI32 = ''i32''"
| "tensor_as_str TI64 = ''i64''"
| "tensor_as_str TU8 = ''u8''"
| "tensor_as_str TBool = ''bool''"

datatype dimension = Fixed nat | Dynamic "text option"

datatype laic_type =
    LString | LBytes | LBool | LI8 | LI16 | LI32 | LI64 | LU8 | LF32 | LF64
  | LTensor tensor_element_type "dimension list"
  | LList laic_type
  | LOptional laic_type
  | LMap laic_type laic_type

datatype literal = StringLit "text" | IntegerLit int | FloatLit u64 | BoolLit bool

record field_def =
  field_name :: "text"
  field_ty :: laic_type
  field_default :: "literal option"

record struct_def =
  struct_name :: "text"
  struct_fields :: "field_def list"

record error_variant =
  variant_name :: "text"
  variant_code :: u16

record skill_def =
  skill_name :: "text"
  skill_id :: "text"
  skill_input :: struct_def
  skill_output :: struct_def
  skill_errors :: "error_variant list"

record laic_file =
  file_version :: "text"
  file_skills :: "skill_def list"

section \<open>Errors\<close>

datatype compile_error = ParseError "text" | ValidationError "text" | CodegenError "text" | IoError "text"

fun display_compile_error :: "compile_error \<Rightarrow> text" where
  "display_compile_error (ParseError msg) = lit ''parse error: '' @ msg"
| "display_compile_error (ValidationError msg) = lit ''validation error: '' @ msg"
| "display_compile_error (CodegenError msg) = lit ''codegen error: '' @ msg"
| "display_compile_error (IoError msg) = lit ''I/O error: '' @ msg"

section \<open>Debug output of types\<close>

text \<open>
  \<open>{ty:?}\<close>, the derived \<open>Debug\<close> of \<open>LaicType\<close>. A dimension name is an identifier, so quoting it needs no
  escapes.
\<close>

fun debug_tensor_element :: "tensor_element_type \<Rightarrow> string" where
  "debug_tensor_element TF32 = ''F32''"
| "debug_tensor_element TF64 = ''F64''"
| "debug_tensor_element TI8 = ''I8''"
| "debug_tensor_element TI16 = ''I16''"
| "debug_tensor_element TI32 = ''I32''"
| "debug_tensor_element TI64 = ''I64''"
| "debug_tensor_element TU8 = ''U8''"
| "debug_tensor_element TBool = ''Bool''"

fun debug_dimension :: "dimension \<Rightarrow> text" where
  "debug_dimension (Fixed n) = lit ''Fixed('' @ decimal n @ lit '')''"
| "debug_dimension (Dynamic None) = lit ''Dynamic(None)''"
| "debug_dimension (Dynamic (Some s)) = lit ''Dynamic(Some('' @ [34] @ s @ [34] @ lit ''))''"

fun debug_type :: "laic_type \<Rightarrow> text" where
  "debug_type LString = lit ''String''"
| "debug_type LBytes = lit ''Bytes''"
| "debug_type LBool = lit ''Bool''"
| "debug_type LI8 = lit ''I8''"
| "debug_type LI16 = lit ''I16''"
| "debug_type LI32 = lit ''I32''"
| "debug_type LI64 = lit ''I64''"
| "debug_type LU8 = lit ''U8''"
| "debug_type LF32 = lit ''F32''"
| "debug_type LF64 = lit ''F64''"
| "debug_type (LTensor dtype dims) =
     lit ''Tensor { dtype: '' @ lit (debug_tensor_element dtype) @ lit '', dims: [''
       @ join (lit '', '') (map debug_dimension dims) @ lit ''] }''"
| "debug_type (LList t) = lit ''List('' @ debug_type t @ lit '')''"
| "debug_type (LOptional t) = lit ''Optional('' @ debug_type t @ lit '')''"
| "debug_type (LMap k v) = lit ''Map('' @ debug_type k @ lit '', '' @ debug_type v @ lit '')''"

end
