(* ===== verification/Laicc_Validate.thy ===== *)
theory Laicc_Validate
  imports Laicc_Ast
begin

text \<open>
  \<open>crates/laicc/src/validate.rs\<close>: the semantic checks of a parsed file, every check in source order with
  its message. The hash sets of the code are the lists of what has been seen. \<open>valid_file\<close> says
  which files pass in terms of the tables of the code (the working form the generators' theories use);
  \<open>contract_file\<close> is the specification of the language, written without any definition of the
  validator, and \<open>validate_iff\<close> shows that the checks implement it.
\<close>

section \<open>Identifiers\<close>

definition RESERVED :: "string list" where
  "RESERVED =
    [''abstract'', ''as'', ''async'', ''await'', ''become'', ''box'', ''break'', ''const'',
     ''continue'', ''crate'', ''do'', ''dyn'', ''else'', ''enum'', ''extern'', ''false'',
     ''final'', ''fn'', ''for'', ''gen'', ''if'', ''impl'', ''in'', ''let'', ''loop'', ''macro'',
     ''match'', ''mod'', ''move'', ''mut'', ''override'', ''priv'', ''pub'', ''ref'', ''return'',
     ''Self'', ''self'', ''static'', ''struct'', ''super'', ''trait'', ''true'', ''try'', ''type'',
     ''typeof'', ''union'', ''unsafe'', ''unsized'', ''use'', ''virtual'', ''where'', ''while'',
     ''yield'', ''False'', ''None'', ''True'', ''and'', ''assert'', ''class'', ''def'', ''del'',
     ''elif'', ''except'', ''finally'', ''from'', ''global'', ''import'', ''is'', ''lambda'',
     ''nonlocal'', ''not'', ''or'', ''pass'', ''raise'', ''with'', ''any'', ''arguments'',
     ''boolean'', ''case'', ''catch'', ''constructor'', ''debugger'', ''declare'', ''default'',
     ''delete'', ''eval'', ''export'', ''extends'', ''function'', ''get'', ''implements'',
     ''infer'', ''instanceof'', ''interface'', ''keyof'', ''module'', ''namespace'', ''new'',
     ''never'', ''null'', ''number'', ''object'', ''of'', ''package'', ''private'', ''protected'',
     ''public'', ''readonly'', ''require'', ''set'', ''string'', ''switch'', ''symbol'', ''this'',
     ''throw'', ''undefined'', ''unique'', ''unknown'', ''var'', ''void'']"

definition is_reserved_codegen_identifier :: "text \<Rightarrow> bool" where
  "is_reserved_codegen_identifier identifier \<longleftrightarrow> identifier \<in> set (map lit RESERVED)"

definition skill_error :: "text \<Rightarrow> text \<Rightarrow> compile_error + unit" where
  "skill_error skill msg = Inl (ValidationError (lit ''skill '' @ quoted_text skill @ lit '': '' @ msg))"

definition field_error :: "text \<Rightarrow> text \<Rightarrow> text \<Rightarrow> compile_error + unit" where
  "field_error skill fld msg = skill_error skill (lit ''field '' @ quoted_text fld @ msg)"

definition validate_codegen_identifier :: "text \<Rightarrow> text \<Rightarrow> text \<Rightarrow> compile_error + unit" where
  "validate_codegen_identifier skill context identifier =
     (if is_reserved_codegen_identifier identifier
      then skill_error skill (context @ lit '' '' @ quoted_text identifier
             @ lit '' is a reserved codegen identifier'')
      else Inr ())"

section \<open>Types\<close>

text \<open>A leaf type is one the generators map to an Arrow array directly.\<close>

definition is_leaf_type :: "laic_type \<Rightarrow> bool" where
  "is_leaf_type t =
     (case t of LList _ \<Rightarrow> False | LOptional _ \<Rightarrow> False | LMap _ _ \<Rightarrow> False | _ \<Rightarrow> True)"

fun is_dynamic :: "dimension \<Rightarrow> bool" where
  "is_dynamic (Dynamic _) = True"
| "is_dynamic (Fixed _) = False"

definition dynamic_tensor :: "laic_type \<Rightarrow> bool" where
  "dynamic_tensor t = (case t of LTensor _ dims \<Rightarrow> list_ex is_dynamic dims | _ \<Rightarrow> False)"

definition validate_tensor_dimensions :: "text \<Rightarrow> text \<Rightarrow> dimension list \<Rightarrow> compile_error + unit" where
  "validate_tensor_dimensions skill fld dims =
     (if dims = []
      then skill_error skill (lit ''tensor field '' @ quoted_text fld
             @ lit '' must have at least one dimension'')
      else if list_ex (\<lambda>d. d = Fixed 0) dims
      then skill_error skill (lit ''tensor field '' @ quoted_text fld
             @ lit '' cannot use fixed dimension 0'')
      else Inr ())"

definition is_map_key :: "laic_type \<Rightarrow> bool" where
  "is_map_key t \<longleftrightarrow> t \<in> {LString, LBool, LI8, LI16, LI32, LI64, LU8}"

definition is_map_value :: "laic_type \<Rightarrow> bool" where
  "is_map_value t \<longleftrightarrow> t \<in> {LString, LBytes, LBool, LI8, LI16, LI32, LI64, LU8, LF32, LF64}"

definition validate_map_type_constraints ::
    "text \<Rightarrow> text \<Rightarrow> laic_type \<Rightarrow> laic_type \<Rightarrow> compile_error + unit" where
  "validate_map_type_constraints skill fld key val =
     (if \<not> is_map_key key
      then field_error skill fld (lit '': map key must be string, bool, or integer type'')
      else if \<not> is_map_value val
      then field_error skill fld (lit '': map value must be a scalar type'')
      else Inr ())"

fun is_list :: "laic_type \<Rightarrow> bool" where
  "is_list (LList _) = True"
| "is_list _ = False"

fun is_map :: "laic_type \<Rightarrow> bool" where
  "is_map (LMap _ _) = True"
| "is_map _ = False"

fun is_optional :: "laic_type \<Rightarrow> bool" where
  "is_optional (LOptional _) = True"
| "is_optional _ = False"

text \<open>The component of an \<open>optional\<close> or \<open>list\<close> is not a leaf.\<close>

definition optional_of_non_leaf :: "laic_type \<Rightarrow> bool" where
  "optional_of_non_leaf t = (case t of LOptional u \<Rightarrow> \<not> is_leaf_type u | _ \<Rightarrow> False)"

definition list_of_non_leaf :: "laic_type \<Rightarrow> bool" where
  "list_of_non_leaf t = (case t of LList u \<Rightarrow> \<not> is_leaf_type u | _ \<Rightarrow> False)"

function (sequential)
  validate_field_type :: "text \<Rightarrow> text \<Rightarrow> laic_type \<Rightarrow> compile_error + unit" and
  validate_list_type_constraints :: "text \<Rightarrow> text \<Rightarrow> laic_type \<Rightarrow> compile_error + unit" and
  validate_optional_type_constraints :: "text \<Rightarrow> text \<Rightarrow> laic_type \<Rightarrow> compile_error + unit" where
  "validate_field_type skill fld (LTensor _ dims) = validate_tensor_dimensions skill fld dims"
| "validate_field_type skill fld (LList inner) = validate_list_type_constraints skill fld inner"
| "validate_field_type skill fld (LOptional inner) = validate_optional_type_constraints skill fld inner"
| "validate_field_type skill fld (LMap key val) = validate_map_type_constraints skill fld key val"
| "validate_field_type skill fld _ = Inr ()"
| "validate_list_type_constraints skill fld inner =
     (if is_list inner
      then field_error skill fld (lit '': nested list<list<T>> is not supported'')
      else if dynamic_tensor inner
      then field_error skill fld (lit '': list<tensor<...>> with dynamic dimensions is not supported'')
      else if is_map inner
      then field_error skill fld (lit '': list<map<...>> is not supported'')
      else if optional_of_non_leaf inner
      then field_error skill fld
             (lit '': list<optional<T>> requires T to be a scalar, string, bytes, or tensor type'')
      else validate_field_type skill fld inner)"
| "validate_optional_type_constraints skill fld inner =
     (if is_optional inner
      then field_error skill fld (lit '': nested optional<optional<T>> is not supported'')
      else if dynamic_tensor inner
      then field_error skill fld (lit '': optional<tensor<...>> with dynamic dimensions is not supported'')
      else if is_map inner
      then field_error skill fld (lit '': optional<map<...>> is not supported'')
      else if list_of_non_leaf inner
      then field_error skill fld
             (lit '': optional<list<T>> requires T to be a scalar, string, bytes, or tensor type'')
      else validate_field_type skill fld inner)"
  by pat_completeness auto

termination
  by (relation "measure (\<lambda>x. case x of
      Inl (_, _, t) \<Rightarrow> 2 * size t
    | Inr (Inl (_, _, t)) \<Rightarrow> 2 * size t + 1
    | Inr (Inr (_, _, t)) \<Rightarrow> 2 * size t + 1)") auto

section \<open>Defaults, fields, structs\<close>

fun integer_default_bounds :: "laic_type \<Rightarrow> (string \<times> int \<times> int) option" where
  "integer_default_bounds LI8 = Some (''i8'', - 128, 127)"
| "integer_default_bounds LI16 = Some (''i16'', - 32768, 32767)"
| "integer_default_bounds LI32 = Some (''i32'', - 2147483648, 2147483647)"
| "integer_default_bounds LU8 = Some (''u8'', 0, 255)"
| "integer_default_bounds _ = None"

fun takes_default :: "laic_type \<Rightarrow> bool" where
  "takes_default (LTensor _ _) = False"
| "takes_default (LList _) = False"
| "takes_default (LOptional _) = False"
| "takes_default LBytes = False"
| "takes_default (LMap _ _) = False"
| "takes_default _ = True"

fun default_matches :: "laic_type \<Rightarrow> literal \<Rightarrow> bool" where
  "default_matches LString (StringLit _) = True"
| "default_matches LBool (BoolLit _) = True"
| "default_matches t (IntegerLit _) = (t \<in> {LI8, LI16, LI32, LI64, LU8, LF32, LF64})"
| "default_matches t (FloatLit _) = (t \<in> {LF32, LF64})"
| "default_matches _ _ = False"

definition validate_default_compat ::
    "text \<Rightarrow> text \<Rightarrow> laic_type \<Rightarrow> literal \<Rightarrow> compile_error + unit" where
  "validate_default_compat skill fld t dflt =
     (if \<not> takes_default t
      then field_error skill fld (lit '' of type '' @ debug_type t @ lit '' cannot have a default value'')
      else if \<not> default_matches t dflt
      then field_error skill fld (lit '' has incompatible default value type'')
      else case dflt of
        IntegerLit i \<Rightarrow>
          (case integer_default_bounds t of
             Some (type_name, lo, hi) \<Rightarrow>
               if i < lo \<or> i > hi
               then field_error skill fld (lit '' default value '' @ decimal_int i @ lit '' is out of range for ''
                      @ lit type_name @ lit '' ('' @ decimal_int lo @ lit ''..='' @ decimal_int hi @ lit '')'')
               else Inr ()
           | None \<Rightarrow> Inr ())
      | _ \<Rightarrow> Inr ())"

definition validate_field :: "text \<Rightarrow> field_def \<Rightarrow> compile_error + unit" where
  "validate_field skill f =
     try_bind (validate_codegen_identifier skill (lit ''field name'') (field_name f)) (\<lambda>_.
     try_bind (case field_default f of
                 Some dflt \<Rightarrow> validate_default_compat skill (field_name f) (field_ty f) dflt
               | None \<Rightarrow> Inr ()) (\<lambda>_.
     validate_field_type skill (field_name f) (field_ty f)))"

fun validate_fields ::
    "text \<Rightarrow> text \<Rightarrow> text \<Rightarrow> text list \<Rightarrow> field_def list \<Rightarrow> compile_error + unit" where
  "validate_fields skill direction def_name seen [] = Inr ()"
| "validate_fields skill direction def_name seen (f # fs) =
     (if field_name f \<in> set seen
      then skill_error skill (lit ''duplicate field '' @ quoted_text (field_name f) @ lit '' in ''
             @ direction @ lit '' struct '' @ quoted_text def_name)
      else try_bind (validate_field skill f) (\<lambda>_.
             validate_fields skill direction def_name (field_name f # seen) fs))"

definition validate_struct :: "text \<Rightarrow> text \<Rightarrow> struct_def \<Rightarrow> compile_error + unit" where
  "validate_struct skill direction d =
     (if struct_name d = []
      then skill_error skill (direction @ lit '' struct name must not be empty'')
      else if struct_fields d = []
      then skill_error skill (direction @ lit '' struct '' @ quoted_text (struct_name d)
             @ lit '' must have at least one field'')
      else try_bind (validate_codegen_identifier skill (direction @ lit '' struct name'') (struct_name d)) (\<lambda>_.
             validate_fields skill direction (struct_name d) [] (struct_fields d)))"

fun validate_error_variants ::
    "text \<Rightarrow> text list \<Rightarrow> u16 list \<Rightarrow> error_variant list \<Rightarrow> compile_error + unit" where
  "validate_error_variants skill names codes [] = Inr ()"
| "validate_error_variants skill names codes (v # vs) =
     try_bind (validate_codegen_identifier skill (lit ''error name'') (variant_name v)) (\<lambda>_.
     if variant_name v \<in> set names
     then skill_error skill (lit ''duplicate error name '' @ quoted_text (variant_name v))
     else if variant_code v = 0
     then skill_error skill (lit ''error code must be positive, got 0 for '' @ quoted_text (variant_name v))
     else if variant_code v \<in> set codes
     then skill_error skill (lit ''duplicate error code '' @ decimal (unat (variant_code v)) @ lit '' for ''
            @ quoted_text (variant_name v))
     else validate_error_variants skill (variant_name v # names) (variant_code v # codes) vs)"

definition validate_errors :: "text \<Rightarrow> error_variant list \<Rightarrow> compile_error + unit" where
  "validate_errors skill errors = validate_error_variants skill [] [] errors"

fun validate_skills :: "text list \<Rightarrow> text list \<Rightarrow> skill_def list \<Rightarrow> compile_error + unit" where
  "validate_skills names ids [] = Inr ()"
| "validate_skills names ids (s # ss) =
     (if skill_name s \<in> set names
      then Inl (ValidationError (lit ''duplicate skill name: '' @ quoted_text (skill_name s)))
      else if skill_id s \<in> set ids
      then Inl (ValidationError (lit ''duplicate skill id: '' @ quoted_text (skill_id s)))
      else if skill_id s = []
      then skill_error (skill_name s) (lit ''id must not be empty'')
      else try_bind (validate_codegen_identifier (skill_name s) (lit ''skill name'') (skill_name s)) (\<lambda>_.
           try_bind (validate_struct (skill_name s) (lit ''input'') (skill_input s)) (\<lambda>_.
           try_bind (validate_struct (skill_name s) (lit ''output'') (skill_output s)) (\<lambda>_.
           try_bind (validate_errors (skill_name s) (skill_errors s)) (\<lambda>_.
           validate_skills (skill_name s # names) (skill_id s # ids) ss)))))"

definition validate :: "laic_file \<Rightarrow> compile_error + unit" where
  "validate file =
     (if file_version file = []
      then Inl (ValidationError (lit ''version string must not be empty''))
      else if file_skills file = []
      then Inl (ValidationError (lit ''file must contain at least one skill definition''))
      else validate_skills [] [] (file_skills file))"

section \<open>The accepted files, in terms of the checks' tables\<close>

text \<open>
  The supported types have depth at most two: scalars, tensors with at least one and no zero
  dimension, lists and optionals of a leaf with static dimensions, the two mixed combinations
  \<open>list<optional<leaf>>\<close> and \<open>optional<list<leaf>>\<close>, and maps from keys to scalars.
\<close>

definition is_scalar_type :: "laic_type \<Rightarrow> bool" where
  "is_scalar_type t \<longleftrightarrow> is_map_value t"

definition tensor_dims_ok :: "dimension list \<Rightarrow> bool" where
  "tensor_dims_ok dims \<longleftrightarrow> dims \<noteq> [] \<and> Fixed 0 \<notin> set dims"

definition static_leaf :: "laic_type \<Rightarrow> bool" where
  "static_leaf t =
     (case t of
        LTensor _ dims \<Rightarrow> tensor_dims_ok dims \<and> \<not> list_ex is_dynamic dims
      | _ \<Rightarrow> is_scalar_type t)"

definition supported :: "laic_type \<Rightarrow> bool" where
  "supported t =
     (case t of
        LTensor _ dims \<Rightarrow> tensor_dims_ok dims
      | LList (LOptional u) \<Rightarrow> static_leaf u
      | LList u \<Rightarrow> static_leaf u
      | LOptional (LList u) \<Rightarrow> static_leaf u
      | LOptional u \<Rightarrow> static_leaf u
      | LMap k v \<Rightarrow> is_map_key k \<and> is_scalar_type v
      | _ \<Rightarrow> True)"

text \<open>A default is a literal of the field's scalar type, within its range.\<close>

definition default_ok :: "laic_type \<Rightarrow> literal option \<Rightarrow> bool" where
  "default_ok t d =
     (case d of
        None \<Rightarrow> True
      | Some l \<Rightarrow> takes_default t \<and> default_matches t l
          \<and> (case (l, integer_default_bounds t) of
               (IntegerLit i, Some (_, lo, hi)) \<Rightarrow> lo \<le> i \<and> i \<le> hi
             | _ \<Rightarrow> True))"

definition valid_field :: "field_def \<Rightarrow> bool" where
  "valid_field f \<longleftrightarrow> \<not> is_reserved_codegen_identifier (field_name f)
     \<and> default_ok (field_ty f) (field_default f) \<and> supported (field_ty f)"

definition valid_struct :: "struct_def \<Rightarrow> bool" where
  "valid_struct d \<longleftrightarrow> struct_name d \<noteq> [] \<and> \<not> is_reserved_codegen_identifier (struct_name d)
     \<and> struct_fields d \<noteq> [] \<and> distinct (map field_name (struct_fields d))
     \<and> list_all valid_field (struct_fields d)"

definition valid_errors :: "error_variant list \<Rightarrow> bool" where
  "valid_errors vs \<longleftrightarrow> distinct (map variant_name vs) \<and> distinct (map variant_code vs)
     \<and> list_all (\<lambda>v. variant_code v \<noteq> 0 \<and> \<not> is_reserved_codegen_identifier (variant_name v)) vs"

definition valid_skill :: "skill_def \<Rightarrow> bool" where
  "valid_skill s \<longleftrightarrow> skill_id s \<noteq> [] \<and> \<not> is_reserved_codegen_identifier (skill_name s)
     \<and> valid_struct (skill_input s) \<and> valid_struct (skill_output s) \<and> valid_errors (skill_errors s)"

definition valid_file :: "laic_file \<Rightarrow> bool" where
  "valid_file file \<longleftrightarrow> file_version file \<noteq> [] \<and> file_skills file \<noteq> []
     \<and> distinct (map skill_name (file_skills file)) \<and> distinct (map skill_id (file_skills file))
     \<and> list_all valid_skill (file_skills file)"

section \<open>The checks implement it\<close>

named_theorems validators "when a check of the validator accepts"

lemma not_ok_errors [simp]: "skill_error s m \<noteq> Inr u" "field_error s f m \<noteq> Inr u"
  by (simp_all add: skill_error_def field_error_def)

lemma identifier_ok [validators]:
  "validate_codegen_identifier s c i = Inr () \<longleftrightarrow> \<not> is_reserved_codegen_identifier i"
  by (simp add: validate_codegen_identifier_def)

lemma dimensions_ok [validators]: "validate_tensor_dimensions s f dims = Inr () \<longleftrightarrow> tensor_dims_ok dims"
  by (auto simp: validate_tensor_dimensions_def tensor_dims_ok_def list_ex_iff)

lemma map_ok [validators]:
  "validate_map_type_constraints s f k v = Inr () \<longleftrightarrow> is_map_key k \<and> is_scalar_type v"
  by (simp add: validate_map_type_constraints_def is_scalar_type_def)

lemma scalar_cases: "is_scalar_type t \<longleftrightarrow> is_leaf_type t \<and> (\<forall>dt dims. t \<noteq> LTensor dt dims)"
  by (cases t) (simp_all add: is_scalar_type_def is_map_value_def is_leaf_type_def)

lemma leaf_field_type [validators]:
  "is_leaf_type t \<Longrightarrow> validate_field_type s f t = Inr () \<longleftrightarrow>
     (case t of LTensor _ dims \<Rightarrow> tensor_dims_ok dims | _ \<Rightarrow> True)"
  by (cases t) (simp_all add: is_leaf_type_def dimensions_ok)

lemma leaf_static: "is_leaf_type t \<Longrightarrow> validate_field_type s f t = Inr () \<and> \<not> dynamic_tensor t \<longleftrightarrow> static_leaf t"
  by (cases t) (simp_all add: is_leaf_type_def dimensions_ok static_leaf_def dynamic_tensor_def
      is_scalar_type_def is_map_value_def)

lemma static_leaf_leaf: "static_leaf t \<Longrightarrow> is_leaf_type t \<and> \<not> is_list t \<and> \<not> is_map t \<and> \<not> is_optional t"
  by (cases t) (simp_all add: static_leaf_def is_leaf_type_def is_scalar_type_def is_map_value_def)

lemma list_leaf_ok:
  "\<not> is_optional t \<Longrightarrow> validate_list_type_constraints s f t = Inr () \<longleftrightarrow> static_leaf t"
  by (cases t) (simp_all add: dimensions_ok static_leaf_def dynamic_tensor_def optional_of_non_leaf_def
      is_scalar_type_def is_map_value_def)

lemma optional_leaf_ok:
  "\<not> is_list t \<Longrightarrow> validate_optional_type_constraints s f t = Inr () \<longleftrightarrow> static_leaf t"
  by (cases t) (simp_all add: dimensions_ok static_leaf_def dynamic_tensor_def list_of_non_leaf_def
      is_scalar_type_def is_map_value_def)

lemma field_type_ok [validators]: "validate_field_type s f t = Inr () \<longleftrightarrow> supported t"
proof (cases t)
  case (LList u)
  show ?thesis
  proof (cases u)
    case (LOptional v)
    have "validate_field_type s f t = Inr () \<longleftrightarrow> is_leaf_type v \<and> validate_optional_type_constraints s f v = Inr ()"
      using LList LOptional by (simp add: dynamic_tensor_def optional_of_non_leaf_def)
    then show ?thesis
      using LList LOptional optional_leaf_ok [of v s f] static_leaf_leaf [of v]
      by (cases v) (auto simp: supported_def is_leaf_type_def)
  qed (use LList list_leaf_ok [of u s f] in \<open>simp_all add: supported_def\<close>)
next
  case (LOptional u)
  show ?thesis
  proof (cases u)
    case (LList v)
    have "validate_field_type s f t = Inr () \<longleftrightarrow> is_leaf_type v \<and> validate_list_type_constraints s f v = Inr ()"
      using LOptional LList by (simp add: dynamic_tensor_def list_of_non_leaf_def)
    then show ?thesis
      using LOptional LList list_leaf_ok [of v s f] static_leaf_leaf [of v]
      by (cases v) (auto simp: supported_def is_leaf_type_def)
  qed (use LOptional optional_leaf_ok [of u s f] in \<open>simp_all add: supported_def\<close>)
qed (simp_all add: supported_def dimensions_ok map_ok)

lemma default_compat_ok [validators]:
  "(case d of Some l \<Rightarrow> validate_default_compat s f t l | None \<Rightarrow> Inr ()) = Inr () \<longleftrightarrow> default_ok t d"
  by (auto simp: validate_default_compat_def default_ok_def split: option.splits literal.splits if_splits)

lemma field_ok [validators]: "validate_field s f = Inr () \<longleftrightarrow> valid_field f"
  by (simp add: validate_field_def try_bind_Inr_iff validators valid_field_def)

lemma fields_ok:
  "validate_fields s d n seen fs = Inr () \<longleftrightarrow>
     distinct (map field_name fs) \<and> list_all valid_field fs \<and> set (map field_name fs) \<inter> set seen = {}"
  by (induction fs arbitrary: seen) (auto simp: try_bind_Inr_iff field_ok)

lemma struct_ok [validators]: "validate_struct s dir d = Inr () \<longleftrightarrow> valid_struct d"
  by (auto simp: validate_struct_def try_bind_Inr_iff identifier_ok fields_ok valid_struct_def)

lemma variants_ok:
  "validate_error_variants s names codes vs = Inr () \<longleftrightarrow>
     valid_errors vs \<and> set (map variant_name vs) \<inter> set names = {} \<and> set (map variant_code vs) \<inter> set codes = {}"
  by (induction vs arbitrary: names codes) (auto simp: try_bind_Inr_iff identifier_ok valid_errors_def)

lemma errors_ok [validators]: "validate_errors s vs = Inr () \<longleftrightarrow> valid_errors vs"
  by (simp add: validate_errors_def variants_ok)

lemma skills_ok:
  "validate_skills names ids ss = Inr () \<longleftrightarrow>
     distinct (map skill_name ss) \<and> distinct (map skill_id ss) \<and> list_all valid_skill ss
     \<and> set (map skill_name ss) \<inter> set names = {} \<and> set (map skill_id ss) \<inter> set ids = {}"
  by (induction ss arbitrary: names ids)
    (auto simp: try_bind_Inr_iff identifier_ok struct_ok errors_ok valid_skill_def)

lemma validate_ok: "validate file = Inr () \<longleftrightarrow> valid_file file"
  by (auto simp: validate_def skills_ok valid_file_def)

text \<open>Every rejection is a validation error.\<close>

definition only_validation_errors :: "compile_error + 'a \<Rightarrow> bool" where
  "only_validation_errors r = (case r of Inl (ValidationError _) \<Rightarrow> True | Inl _ \<Rightarrow> False | Inr _ \<Rightarrow> True)"

lemma validation_errors [simp]:
  "only_validation_errors (Inr x)" "only_validation_errors (Inl (ValidationError m))"
  "only_validation_errors (skill_error s m)" "only_validation_errors (field_error s f m)"
  by (simp_all add: only_validation_errors_def skill_error_def field_error_def)

lemma validation_errors_bind [intro]:
  "only_validation_errors r \<Longrightarrow> (\<And>x. only_validation_errors (k x)) \<Longrightarrow> only_validation_errors (try_bind r k)"
  by (cases r) (simp_all add: only_validation_errors_def)

lemma identifier_errors [simp]: "only_validation_errors (validate_codegen_identifier s c i)"
  by (simp add: validate_codegen_identifier_def)

lemma type_errors [simp]: "only_validation_errors (validate_field_type s f t)"
  by (induction s f t rule: validate_field_type_validate_list_type_constraints_validate_optional_type_constraints.induct(1)
      [where Q = "\<lambda>s f t. only_validation_errors (validate_list_type_constraints s f t)"
        and R = "\<lambda>s f t. only_validation_errors (validate_optional_type_constraints s f t)"])
    (simp_all add: validate_tensor_dimensions_def validate_map_type_constraints_def)

lemma field_errors [simp]: "only_validation_errors (validate_field s f)"
  unfolding validate_field_def
  by (intro validation_errors_bind)
    (simp_all add: validate_default_compat_def split: option.split literal.split prod.split)

lemma struct_errors [simp]: "only_validation_errors (validate_struct s dir d)"
proof -
  have "only_validation_errors (validate_fields s dir n seen fs)" for n seen fs
    by (induction fs arbitrary: seen) auto
  then show ?thesis by (auto simp: validate_struct_def)
qed

lemma variant_errors [simp]: "only_validation_errors (validate_errors s vs)"
proof -
  have "only_validation_errors (validate_error_variants s names codes vs)" for names codes
    by (induction vs arbitrary: names codes) auto
  then show ?thesis by (simp add: validate_errors_def)
qed

lemma validate_errors_only: "only_validation_errors (validate file)"
proof -
  have "only_validation_errors (validate_skills names ids ss)" for names ids ss
    by (induction ss arbitrary: names ids) (auto intro!: validation_errors_bind)
  then show ?thesis by (auto simp: validate_def)
qed

lemma validate_rejects: "\<not> valid_file file \<Longrightarrow> \<exists>m. validate file = Inl (ValidationError m)"
  using validate_errors_only [of "file"] validate_ok [of "file"]
  by (auto simp: only_validation_errors_def split: sum.splits compile_error.splits)

section \<open>The specification\<close>

text \<open>
  The rules of a contract, independent of the validator: nothing below uses its tables. The words that
  cannot be identifiers are listed per target language: Rust's strict and reserved keywords with
  \<open>union\<close>, Python's keywords, and for TypeScript the reserved words of ECMAScript, strict mode included,
  with the contextual and built-in type keywords.
\<close>

definition rust_keywords :: "string list" where
  "rust_keywords =
    [''as'', ''break'', ''const'', ''continue'', ''crate'', ''else'', ''enum'', ''extern'', ''false'', ''fn'',
     ''for'', ''if'', ''impl'', ''in'', ''let'', ''loop'', ''match'', ''mod'', ''move'', ''mut'', ''pub'', ''ref'',
     ''return'', ''self'', ''Self'', ''static'', ''struct'', ''super'', ''trait'', ''true'', ''type'', ''unsafe'',
     ''use'', ''where'', ''while'', ''async'', ''await'', ''dyn'',
     ''abstract'', ''become'', ''box'', ''do'', ''final'', ''gen'', ''macro'', ''override'', ''priv'', ''try'',
     ''typeof'', ''unsized'', ''virtual'', ''yield'', ''union'']"

definition python_keywords :: "string list" where
  "python_keywords =
    [''False'', ''None'', ''True'', ''and'', ''as'', ''assert'', ''async'', ''await'', ''break'', ''class'',
     ''continue'', ''def'', ''del'', ''elif'', ''else'', ''except'', ''finally'', ''for'', ''from'', ''global'',
     ''if'', ''import'', ''in'', ''is'', ''lambda'', ''nonlocal'', ''not'', ''or'', ''pass'', ''raise'', ''return'',
     ''try'', ''while'', ''with'', ''yield'']"

definition typescript_keywords :: "string list" where
  "typescript_keywords =
    [''break'', ''case'', ''catch'', ''class'', ''const'', ''continue'', ''debugger'', ''default'', ''delete'',
     ''do'', ''else'', ''enum'', ''export'', ''extends'', ''false'', ''finally'', ''for'', ''function'', ''if'',
     ''import'', ''in'', ''instanceof'', ''new'', ''null'', ''return'', ''super'', ''switch'', ''this'', ''throw'',
     ''true'', ''try'', ''typeof'', ''var'', ''void'', ''while'', ''with'',
     ''arguments'', ''eval'', ''implements'', ''interface'', ''let'', ''package'', ''private'', ''protected'',
     ''public'', ''static'', ''yield'',
     ''abstract'', ''any'', ''as'', ''async'', ''await'', ''boolean'', ''constructor'', ''declare'', ''from'',
     ''get'', ''global'', ''infer'', ''is'', ''keyof'', ''module'', ''namespace'', ''never'', ''number'',
     ''object'', ''of'', ''readonly'', ''require'', ''set'', ''string'', ''symbol'', ''type'', ''undefined'',
     ''unique'', ''unknown'']"

definition usable_name :: "text \<Rightarrow> bool" where
  "usable_name n \<longleftrightarrow> (\<forall>w \<in> set (rust_keywords @ python_keywords @ typescript_keywords). n \<noteq> lit w)"

text \<open>Types have depth at most two below a field; only a tensor field of its own may have named dimensions.\<close>

inductive scalar_type :: "laic_type \<Rightarrow> bool" where
  "scalar_type LString" | "scalar_type LBytes" | "scalar_type LBool"
| "scalar_type LI8" | "scalar_type LI16" | "scalar_type LI32" | "scalar_type LI64" | "scalar_type LU8"
| "scalar_type LF32" | "scalar_type LF64"

inductive key_type :: "laic_type \<Rightarrow> bool" where
  "key_type LString" | "key_type LBool"
| "key_type LI8" | "key_type LI16" | "key_type LI32" | "key_type LI64" | "key_type LU8"

inductive element_type :: "laic_type \<Rightarrow> bool" where
  "scalar_type t \<Longrightarrow> element_type t"
| "sizes \<noteq> [] \<Longrightarrow> \<forall>n \<in> set sizes. 0 < n \<Longrightarrow> element_type (LTensor dt (map Fixed sizes))"

inductive contract_type :: "laic_type \<Rightarrow> bool" where
  "scalar_type t \<Longrightarrow> contract_type t"
| "dims \<noteq> [] \<Longrightarrow> \<forall>d \<in> set dims. (\<exists>n. d = Fixed n \<and> 0 < n) \<or> (\<exists>x. d = Dynamic x) \<Longrightarrow>
     contract_type (LTensor dt dims)"
| "element_type t \<Longrightarrow> contract_type (LList t)"
| "element_type t \<Longrightarrow> contract_type (LOptional t)"
| "element_type t \<Longrightarrow> contract_type (LList (LOptional t))"
| "element_type t \<Longrightarrow> contract_type (LOptional (LList t))"
| "key_type k \<Longrightarrow> scalar_type v \<Longrightarrow> contract_type (LMap k v)"

text \<open>Which literals a type takes as its default: an integer must be a value of the integer type.\<close>

inductive contract_default :: "laic_type \<Rightarrow> literal \<Rightarrow> bool" where
  "contract_default LString (StringLit s)"
| "contract_default LBool (BoolLit b)"
| "- (2 ^ 7) \<le> i \<Longrightarrow> i < 2 ^ 7 \<Longrightarrow> contract_default LI8 (IntegerLit i)"
| "- (2 ^ 15) \<le> i \<Longrightarrow> i < 2 ^ 15 \<Longrightarrow> contract_default LI16 (IntegerLit i)"
| "- (2 ^ 31) \<le> i \<Longrightarrow> i < 2 ^ 31 \<Longrightarrow> contract_default LI32 (IntegerLit i)"
| "0 \<le> i \<Longrightarrow> i < 2 ^ 8 \<Longrightarrow> contract_default LU8 (IntegerLit i)"
| "contract_default LI64 (IntegerLit i)"
| "contract_default LF32 (IntegerLit i)"
| "contract_default LF64 (IntegerLit i)"
| "contract_default LF32 (FloatLit x)"
| "contract_default LF64 (FloatLit x)"

definition contract_field :: "field_def \<Rightarrow> bool" where
  "contract_field f \<longleftrightarrow> usable_name (field_name f) \<and> contract_type (field_ty f)
     \<and> (case field_default f of None \<Rightarrow> True | Some l \<Rightarrow> contract_default (field_ty f) l)"

definition contract_struct :: "struct_def \<Rightarrow> bool" where
  "contract_struct d \<longleftrightarrow> struct_name d \<noteq> [] \<and> usable_name (struct_name d)
     \<and> struct_fields d \<noteq> [] \<and> distinct (map field_name (struct_fields d))
     \<and> (\<forall>f \<in> set (struct_fields d). contract_field f)"

definition contract_errors :: "error_variant list \<Rightarrow> bool" where
  "contract_errors vs \<longleftrightarrow> distinct (map variant_name vs) \<and> distinct (map variant_code vs)
     \<and> (\<forall>v \<in> set vs. usable_name (variant_name v) \<and> 0 < variant_code v)"

definition contract_skill :: "skill_def \<Rightarrow> bool" where
  "contract_skill s \<longleftrightarrow> skill_id s \<noteq> [] \<and> usable_name (skill_name s)
     \<and> contract_struct (skill_input s) \<and> contract_struct (skill_output s) \<and> contract_errors (skill_errors s)"

definition contract_file :: "laic_file \<Rightarrow> bool" where
  "contract_file file \<longleftrightarrow> file_version file \<noteq> [] \<and> file_skills file \<noteq> []
     \<and> distinct (map skill_name (file_skills file)) \<and> distinct (map skill_id (file_skills file))
     \<and> (\<forall>s \<in> set (file_skills file). contract_skill s)"

section \<open>The tables of the validator are those of the specification\<close>

lemma rust_reserved: "set rust_keywords \<subseteq> set RESERVED"
  by (simp add: rust_keywords_def RESERVED_def)

lemma python_reserved: "set python_keywords \<subseteq> set RESERVED"
  by (simp add: python_keywords_def RESERVED_def)

lemma typescript_reserved: "set typescript_keywords \<subseteq> set RESERVED"
  by (simp add: typescript_keywords_def RESERVED_def)

lemma reserved_keywords: "set RESERVED \<subseteq> set (rust_keywords @ python_keywords @ typescript_keywords)"
  by (simp add: rust_keywords_def python_keywords_def typescript_keywords_def RESERVED_def)

lemma reserved_words: "set RESERVED = set (rust_keywords @ python_keywords @ typescript_keywords)"
  using rust_reserved python_reserved typescript_reserved reserved_keywords by auto

lemma usable_name_iff: "usable_name n \<longleftrightarrow> \<not> is_reserved_codegen_identifier n"
  unfolding usable_name_def is_reserved_codegen_identifier_def reserved_words [symmetric] by auto

lemma scalar_type_iff: "scalar_type t \<longleftrightarrow> is_scalar_type t"
  by (cases t) (simp_all add: scalar_type.simps is_scalar_type_def is_map_value_def)

lemma key_type_iff: "key_type t \<longleftrightarrow> is_map_key t"
  by (cases t) (simp_all add: key_type.simps is_map_key_def)

lemma fixed_dims_iff:
  "(\<exists>sizes. dims = map Fixed sizes \<and> sizes \<noteq> [] \<and> (\<forall>n \<in> set sizes. 0 < n)) \<longleftrightarrow>
     tensor_dims_ok dims \<and> \<not> list_ex is_dynamic dims"
proof
  assume r: "tensor_dims_ok dims \<and> \<not> list_ex is_dynamic dims"
  define size_of where "size_of d = (case d of Fixed n \<Rightarrow> n | Dynamic _ \<Rightarrow> 0)" for d
  have fixed: "d = Fixed (size_of d)" if "d \<in> set dims" for d
    using r that by (cases d) (auto simp: size_of_def list_ex_iff)
  have "map (\<lambda>d. Fixed (size_of d)) dims = dims"
    by (rule map_idI) (rule fixed [symmetric])
  then have "dims = map Fixed (map size_of dims)" by (simp add: comp_def)
  moreover have "0 < n" if "n \<in> set (map size_of dims)" for n
  proof -
    obtain d where d: "d \<in> set dims" "n = size_of d" using \<open>n \<in> set (map size_of dims)\<close> by auto
    then have "Fixed n \<in> set dims" using fixed [OF d(1)] by simp
    then show "0 < n" using r by (cases n) (simp_all add: tensor_dims_ok_def)
  qed
  moreover have "map size_of dims \<noteq> []" using r by (simp add: tensor_dims_ok_def)
  ultimately show "\<exists>sizes. dims = map Fixed sizes \<and> sizes \<noteq> [] \<and> (\<forall>n \<in> set sizes. 0 < n)" by blast
qed (auto simp: tensor_dims_ok_def list_ex_iff)

lemma element_type_iff: "element_type t \<longleftrightarrow> static_leaf t"
proof (cases t)
  case (LTensor dt dims)
  then show ?thesis
    using fixed_dims_iff [of dims]
    by (auto simp: element_type.simps [of "LTensor dt dims"] scalar_type.simps static_leaf_def)
qed (simp_all add: element_type.simps scalar_type_iff static_leaf_def)

lemma tensor_dims_iff:
  "dims \<noteq> [] \<and> (\<forall>d \<in> set dims. (\<exists>n. d = Fixed n \<and> 0 < n) \<or> (\<exists>x. d = Dynamic x)) \<longleftrightarrow> tensor_dims_ok dims"
proof -
  have "((\<exists>n. d = Fixed n \<and> 0 < n) \<or> (\<exists>x. d = Dynamic x)) \<longleftrightarrow> d \<noteq> Fixed 0" for d
    by (cases d) simp_all
  then show ?thesis by (auto simp: tensor_dims_ok_def)
qed

lemma contract_type_iff: "contract_type t \<longleftrightarrow> supported t"
proof (cases t)
  case (LList u)
  then show ?thesis
    by (cases u) (auto simp: contract_type.simps [of "LList _"] scalar_type.simps [of "LList _"] element_type_iff
        supported_def static_leaf_def is_scalar_type_def is_map_value_def)
next
  case (LOptional u)
  then show ?thesis
    by (cases u) (auto simp: contract_type.simps [of "LOptional _"] scalar_type.simps [of "LOptional _"]
        element_type_iff supported_def static_leaf_def is_scalar_type_def is_map_value_def)
next
  case (LTensor dt dims)
  then show ?thesis
    using tensor_dims_iff [of dims]
    by (auto simp: contract_type.simps [of "LTensor _ _"] scalar_type.simps [of "LTensor _ _"] supported_def)
next
  case (LMap k v)
  then show ?thesis
    by (simp add: contract_type.simps [of "LMap _ _"] scalar_type.simps [of "LMap _ _"] supported_def
        flip: key_type_iff scalar_type_iff)
qed (simp_all add: contract_type.simps scalar_type.simps supported_def)

lemma contract_default_iff:
  "(case d of None \<Rightarrow> True | Some l \<Rightarrow> contract_default t l) \<longleftrightarrow> default_ok t d"
proof (cases d)
  case (Some l)
  have "contract_default t l \<longleftrightarrow> default_ok t (Some l)"
    by (cases t; cases l) (auto simp: contract_default.simps default_ok_def)
  then show ?thesis using Some by simp
qed (simp add: default_ok_def)

lemma contract_field_iff: "contract_field f \<longleftrightarrow> valid_field f"
  by (auto simp: contract_field_def valid_field_def usable_name_iff contract_type_iff contract_default_iff)

lemma contract_struct_iff: "contract_struct d \<longleftrightarrow> valid_struct d"
  by (auto simp: contract_struct_def valid_struct_def usable_name_iff contract_field_iff list_all_iff)

lemma contract_errors_iff: "contract_errors vs \<longleftrightarrow> valid_errors vs"
  by (auto simp: contract_errors_def valid_errors_def usable_name_iff list_all_iff word_gt_0)

lemma contract_file_iff: "contract_file file \<longleftrightarrow> valid_file file"
  by (auto simp: contract_file_def valid_file_def contract_skill_def valid_skill_def list_all_iff
      usable_name_iff contract_struct_iff contract_errors_iff)

section \<open>Properties\<close>

text \<open>
  C27. The validator accepts exactly the contracts of the language, as specified without its tables: a
  version, at least one skill, distinct skill names and non-empty distinct ids; no identifier that is a
  keyword of Rust, Python or TypeScript; structs with at least one field and distinct field names, each of a
  type of the grammar \<open>contract_type\<close> and with a default, if any, that is a literal of the type within
  its range; error variants with distinct names and distinct positive codes. Every other file is
  refused with a validation error.
\<close>

theorem validate_iff:
  "(validate file = Inr () \<longleftrightarrow> contract_file file)
   \<and> (case validate file of Inr _ \<Rightarrow> True | Inl e \<Rightarrow> \<exists>m. e = ValidationError m)"
  using validate_ok [of "file"] contract_file_iff [of "file"] validate_errors_only [of "file"]
  by (auto simp: only_validation_errors_def split: sum.splits compile_error.splits)

text \<open>
  The types that pass validation, whatever their nesting: a scalar or string, a tensor with
  dimensions and none of them zero, a map from a key type to a scalar, or a list, an optional, a list
  of optionals or an optional list of a leaf with only fixed dimensions. Every other nesting is
  rejected, however deep.
\<close>

theorem field_type_supported:
  "validate_field_type skill fld t = Inr () \<longleftrightarrow>
     (case t of
        LTensor _ dims \<Rightarrow> tensor_dims_ok dims
      | LList (LOptional u) \<Rightarrow> static_leaf u
      | LList u \<Rightarrow> static_leaf u
      | LOptional (LList u) \<Rightarrow> static_leaf u
      | LOptional u \<Rightarrow> static_leaf u
      | LMap k v \<Rightarrow> k \<in> {LString, LBool, LI8, LI16, LI32, LI64, LU8} \<and> is_scalar_type v
      | _ \<Rightarrow> True)"
  unfolding field_type_ok supported_def is_map_key_def ..

end
