(* ===== verification/Laicc_Rust_Types.thy ===== *)
theory Laicc_Rust_Types
  imports Laicc_Validate "HOL-Library.Monad_Syntax"
begin

text \<open>
  \<open>crates/laicc/src/codegen/rust_types.rs\<close>: the mapping of schema types to Rust and Arrow types and of
  default literals to Rust. The \<open>unreachable!\<close> arms are \<open>None\<close>. The decimal rendering of a float by
  the standard library, \<open>show_f64\<close>, is an argument.
\<close>

fun rust_type :: "laic_type \<Rightarrow> text" where
  "rust_type LString = lit ''String''"
| "rust_type LBytes = lit ''Vec<u8>''"
| "rust_type LBool = lit ''bool''"
| "rust_type LI8 = lit ''i8''"
| "rust_type LI16 = lit ''i16''"
| "rust_type LI32 = lit ''i32''"
| "rust_type LI64 = lit ''i64''"
| "rust_type LU8 = lit ''u8''"
| "rust_type LF32 = lit ''f32''"
| "rust_type LF64 = lit ''f64''"
| "rust_type (LTensor _ _) = lit ''Vec<u8>''"
| "rust_type (LList inner) = lit ''Vec<'' @ rust_type inner @ lit ''>''"
| "rust_type (LOptional inner) = lit ''Option<'' @ rust_type inner @ lit ''>''"
| "rust_type (LMap k v) = lit ''HashMap<'' @ rust_type k @ lit '', '' @ rust_type v @ lit ''>''"

fun arrow_datatype :: "laic_type \<Rightarrow> text" where
  "arrow_datatype LString = lit ''DataType::Utf8''"
| "arrow_datatype LBytes = lit ''DataType::Binary''"
| "arrow_datatype LBool = lit ''DataType::Boolean''"
| "arrow_datatype LI8 = lit ''DataType::Int8''"
| "arrow_datatype LI16 = lit ''DataType::Int16''"
| "arrow_datatype LI32 = lit ''DataType::Int32''"
| "arrow_datatype LI64 = lit ''DataType::Int64''"
| "arrow_datatype LU8 = lit ''DataType::UInt8''"
| "arrow_datatype LF32 = lit ''DataType::Float32''"
| "arrow_datatype LF64 = lit ''DataType::Float64''"
| "arrow_datatype (LTensor _ _) = lit ''DataType::Binary''"
| "arrow_datatype (LList inner) =
     fmt ''DataType::List(Arc::new(Field::new(^item^, {}, true)))'' [arrow_datatype inner]"
| "arrow_datatype (LOptional inner) = arrow_datatype inner"
| "arrow_datatype (LMap k v) =
     fmt (''DataType::Map(Arc::new(Field::new(^entries^, DataType::Struct(Fields::from(vec!['' @
        ''Field::new(^keys^, {}, false), '' @
        ''Field::new(^values^, {}, true)'' @
        ''])), false)), false)'') [arrow_datatype k, arrow_datatype v]"

fun arrow_array_type :: "laic_type \<Rightarrow> text option" where
  "arrow_array_type LString = Some (lit ''StringArray'')"
| "arrow_array_type LBytes = Some (lit ''BinaryArray'')"
| "arrow_array_type (LTensor _ _) = Some (lit ''BinaryArray'')"
| "arrow_array_type LBool = Some (lit ''BooleanArray'')"
| "arrow_array_type LI8 = Some (lit ''Int8Array'')"
| "arrow_array_type LI16 = Some (lit ''Int16Array'')"
| "arrow_array_type LI32 = Some (lit ''Int32Array'')"
| "arrow_array_type LI64 = Some (lit ''Int64Array'')"
| "arrow_array_type LU8 = Some (lit ''UInt8Array'')"
| "arrow_array_type LF32 = Some (lit ''Float32Array'')"
| "arrow_array_type LF64 = Some (lit ''Float64Array'')"
| "arrow_array_type _ = None"

fun arrow_builder_type :: "laic_type \<Rightarrow> text option" where
  "arrow_builder_type LString = Some (lit ''StringBuilder'')"
| "arrow_builder_type LBytes = Some (lit ''BinaryBuilder'')"
| "arrow_builder_type (LTensor _ _) = Some (lit ''BinaryBuilder'')"
| "arrow_builder_type LBool = Some (lit ''BooleanBuilder'')"
| "arrow_builder_type LI8 = Some (lit ''Int8Builder'')"
| "arrow_builder_type LI16 = Some (lit ''Int16Builder'')"
| "arrow_builder_type LI32 = Some (lit ''Int32Builder'')"
| "arrow_builder_type LI64 = Some (lit ''Int64Builder'')"
| "arrow_builder_type LU8 = Some (lit ''UInt8Builder'')"
| "arrow_builder_type LF32 = Some (lit ''Float32Builder'')"
| "arrow_builder_type LF64 = Some (lit ''Float64Builder'')"
| "arrow_builder_type _ = None"

fun needs_deref :: "laic_type \<Rightarrow> bool" where
  "needs_deref LString = False"
| "needs_deref LBytes = False"
| "needs_deref (LTensor _ _) = False"
| "needs_deref _ = True"

type_synonym show_f64 = "u64 \<Rightarrow> text"

fun literal_to_rust :: "show_f64 \<Rightarrow> literal \<Rightarrow> text" where
  "literal_to_rust sf (StringLit s) = dq @ escape_string_literal_body s Rust @ dq @ lit ''.to_string()''"
| "literal_to_rust sf (IntegerLit i) = decimal_int i"
| "literal_to_rust sf (FloatLit f) = (let s = sf f in if 46 \<in> set s then s else s @ lit ''.0'')"
| "literal_to_rust sf (BoolLit b) = (if b then lit ''true'' else lit ''false'')"

text \<open>The two tables are defined on exactly the leaf types.\<close>

lemma arrow_array_type_None [simp]: "arrow_array_type t = None \<longleftrightarrow> \<not> is_leaf_type t"
  by (cases t) (simp_all add: is_leaf_type_def)

lemma arrow_builder_type_None [simp]: "arrow_builder_type t = None \<longleftrightarrow> \<not> is_leaf_type t"
  by (cases t) (simp_all add: is_leaf_type_def)

text \<open>A loop of an emitter that can panic.\<close>

primrec emit_each :: "('a \<Rightarrow> text option) \<Rightarrow> 'a list \<Rightarrow> text option" where
  "emit_each f [] = Some []"
| "emit_each f (x # xs) = do { a \<leftarrow> f x; b \<leftarrow> emit_each f xs; Some (a @ b) }"

lemma emit_each_None: "emit_each f xs = None \<longleftrightarrow> list_ex (\<lambda>x. f x = None) xs"
  by (induction xs) (auto simp: bind_eq_None_conv)

end
