(* ===== verification/Laicc_Rust_Serialize.thy ===== *)
theory Laicc_Rust_Serialize
  imports Laicc_Rust_Types
begin

text \<open>
  \<open>crates/laicc/src/codegen/rust_serialize.rs\<close>: the source of a struct's \<open>to_arrow_ipc\<close>. An emitter
  appends to the output buffer, so it is modelled by the text it appends; \<open>None\<close> is the panic of
  \<open>arrow_builder_type\<close>.
\<close>

definition format_dims_as_shape :: "dimension list \<Rightarrow> text" where
  "format_dims_as_shape dims =
     fmt ''[{}]'' [join (lit '','') (map (\<lambda>d. case d of Fixed n \<Rightarrow> decimal n | Dynamic _ \<Rightarrow> lit ''0'') dims)]"

definition emit_tensor_field_metadata :: "tensor_element_type \<Rightarrow> dimension list \<Rightarrow> text" where
  "emit_tensor_field_metadata dtype dims = concat
    [raw ''                    .with_metadata(HashMap::from([~'',
     fmt ''                        (^laic.tensor.dtype^.into(), ^{}^.into()),~'' [lit (tensor_as_str dtype)],
     fmt ''                        (^laic.tensor.shape^.into(), ^{}^.into()),~'' [format_dims_as_shape dims],
     raw ''                        (^laic.tensor.version^.into(), ^1^.into()),~'',
     raw ''                    ])),~'']"

definition emit_schema_field :: "field_def \<Rightarrow> text" where
  "emit_schema_field field =
     (case field_ty field of
        LTensor dtype dims \<Rightarrow>
          fmt ''                Field::new(^{}^, DataType::Binary, false)~'' [field_name field]
          @ emit_tensor_field_metadata dtype dims
      | LList (LTensor dtype dims) \<Rightarrow>
          fmt ''                Field::new(^{}^, DataType::List(Arc::new(Field::new(^item^, DataType::Binary, true))), false)~'' [field_name field]
          @ emit_tensor_field_metadata dtype dims
      | LOptional (LTensor dtype dims) \<Rightarrow>
          fmt ''                Field::new(^{}^, DataType::Binary, true)~'' [field_name field]
          @ emit_tensor_field_metadata dtype dims
      | _ \<Rightarrow>
          fmt ''                Field::new(^{}^, {}, {}),~'' [field_name field, arrow_datatype (field_ty field), lit (if is_optional (field_ty field) then ''true'' else ''false'')])"

section \<open>Columns\<close>

definition star :: "laic_type \<Rightarrow> text" where
  "star t = lit (if needs_deref t then ''*'' else '''')"

definition is_string_or_bytes :: "laic_type \<Rightarrow> bool" where
  "is_string_or_bytes t \<longleftrightarrow> t \<in> {LString, LBytes}"

definition emit_list_column :: "text \<Rightarrow> laic_type \<Rightarrow> text option" where
  "emit_list_column name inner =
     do {
       builder \<leftarrow> arrow_builder_type inner;
       case inner of
         LOptional opt_inner \<Rightarrow>
           do {
             inner_builder \<leftarrow> arrow_builder_type opt_inner;
             let opt_append =
               (if is_string_or_bytes opt_inner then lit ''values.append_value(v)''
                else fmt ''values.append_value({}v)'' [star opt_inner]);
             Some (concat
              [fmt ''{{~            let mut builder = ListBuilder::new({}::new());~'' [inner_builder],
               raw ''            let values = builder.values();~'',
               fmt ''            for item in &self.{} {{~'' [name],
               fmt ''                match item {{ Some(v) => {}, None => values.append_null() }};~'' [opt_append],
               raw ''            }~'',
               raw ''            builder.append(true);~'',
               raw ''            Arc::new(builder.finish())~'',
               raw ''        }''])
           }
       | _ \<Rightarrow>
           let append =
             (case inner of
                LString \<Rightarrow> lit ''values.append_value(item);''
              | LBytes \<Rightarrow> lit ''values.append_value(item);''
              | LTensor _ _ \<Rightarrow> lit ''values.append_value(item);''
              | _ \<Rightarrow> fmt ''values.append_value({}item);'' [star inner])
           in Some (concat
              [fmt ''{{~            let mut builder = ListBuilder::new({}::new());~'' [builder],
               raw ''            let values = builder.values();~'',
               fmt ''            for item in &self.{} {{~'' [name],
               fmt ''                {}~'' [append],
               raw ''            }~'',
               raw ''            builder.append(true);~'',
               raw ''            Arc::new(builder.finish())~'',
               raw ''        }''])
     }"

definition emit_optional_column :: "text \<Rightarrow> laic_type \<Rightarrow> text option" where
  "emit_optional_column name inner =
     (case inner of
        LString \<Rightarrow> Some (fmt ''Arc::new(StringArray::from(vec![self.{}.as_deref()]))'' [name])
      | LBytes \<Rightarrow> Some (fmt ''Arc::new(BinaryArray::from(vec![self.{}.as_deref()]))'' [name])
      | LBool \<Rightarrow> Some (fmt ''Arc::new(BooleanArray::from(vec![self.{}]))'' [name])
      | LTensor _ _ \<Rightarrow> Some (fmt ''Arc::new(BinaryArray::from(vec![self.{}.as_deref()]))'' [name])
      | LList list_inner \<Rightarrow>
          do {
            builder \<leftarrow> arrow_builder_type list_inner;
            let append =
              (if is_string_or_bytes list_inner then lit ''values.append_value(item);''
               else fmt ''values.append_value({}item);'' [star list_inner]);
            Some (concat
             [fmt ''{{~            let mut builder = ListBuilder::new({}::new());~'' [builder],
              fmt ''            match &self.{} {{~'' [name],
              raw ''                Some(list) => {~'',
              raw ''                    let values = builder.values();~'',
              raw ''                    for item in list {~'',
              fmt ''                        {}~'' [append],
              raw ''                    }~'',
              raw ''                    builder.append(true);~'',
              raw ''                }~'',
              raw ''                None => builder.append(false),~'',
              raw ''            }~'',
              raw ''            Arc::new(builder.finish())~'',
              raw ''        }''])
          }
      | _ \<Rightarrow>
          (let arr_type = lit
             (case inner of
                LI8 \<Rightarrow> ''Int8Array''
              | LI16 \<Rightarrow> ''Int16Array''
              | LI32 \<Rightarrow> ''Int32Array''
              | LI64 \<Rightarrow> ''Int64Array''
              | LU8 \<Rightarrow> ''UInt8Array''
              | LF32 \<Rightarrow> ''Float32Array''
              | LF64 \<Rightarrow> ''Float64Array''
              | _ \<Rightarrow> ''Int32Array'')
           in Some (fmt ''Arc::new({}::from(vec![self.{}]))'' [arr_type, name])))"

definition map_append_expr :: "laic_type \<Rightarrow> text \<Rightarrow> text" where
  "map_append_expr ty var =
     (case ty of
        LString \<Rightarrow> fmt ''append_value({})'' [var]
      | LBytes \<Rightarrow> fmt ''append_value({})'' [var]
      | _ \<Rightarrow> fmt ''append_value(*{})'' [var])"

definition emit_map_column :: "text \<Rightarrow> laic_type \<Rightarrow> laic_type \<Rightarrow> text option" where
  "emit_map_column name key val =
     do {
       key_builder \<leftarrow> arrow_builder_type key;
       val_builder \<leftarrow> arrow_builder_type val;
       let key_append = map_append_expr key (lit ''k'');
       let val_append = map_append_expr val (lit ''v'');
       Some (concat
        [fmt ''{{~            let mut builder = MapBuilder::new(None, {}::new(), {}::new());~'' [key_builder, val_builder],
         fmt ''            for (k, v) in &self.{} {{~'' [name],
         fmt ''                builder.keys().{};~'' [key_append],
         fmt ''                builder.values().{};~'' [val_append],
         raw ''            }~'',
         raw ''            builder.append(true).map_err(|e| Box::new(e) as Box<dyn std::error::Error>)?;~'',
         raw ''            Arc::new(builder.finish())~'',
         raw ''        }''])
     }"

definition emit_to_arrow_column :: "text \<Rightarrow> laic_type \<Rightarrow> text option" where
  "emit_to_arrow_column name ty =
     (case ty of
        LString \<Rightarrow> Some (fmt ''Arc::new(StringArray::from(vec![self.{}.as_str()]))'' [name])
      | LBytes \<Rightarrow> Some (fmt ''Arc::new(BinaryArray::from(vec![self.{}.as_slice()]))'' [name])
      | LBool \<Rightarrow> Some (fmt ''Arc::new(BooleanArray::from(vec![self.{}]))'' [name])
      | LI8 \<Rightarrow> Some (fmt ''Arc::new(Int8Array::from(vec![self.{}]))'' [name])
      | LI16 \<Rightarrow> Some (fmt ''Arc::new(Int16Array::from(vec![self.{}]))'' [name])
      | LI32 \<Rightarrow> Some (fmt ''Arc::new(Int32Array::from(vec![self.{}]))'' [name])
      | LI64 \<Rightarrow> Some (fmt ''Arc::new(Int64Array::from(vec![self.{}]))'' [name])
      | LU8 \<Rightarrow> Some (fmt ''Arc::new(UInt8Array::from(vec![self.{}]))'' [name])
      | LF32 \<Rightarrow> Some (fmt ''Arc::new(Float32Array::from(vec![self.{}]))'' [name])
      | LF64 \<Rightarrow> Some (fmt ''Arc::new(Float64Array::from(vec![self.{}]))'' [name])
      | LTensor _ _ \<Rightarrow> Some (fmt ''Arc::new(BinaryArray::from(vec![self.{}.as_slice()]))'' [name])
      | LList inner \<Rightarrow> emit_list_column name inner
      | LOptional inner \<Rightarrow> emit_optional_column name inner
      | LMap k v \<Rightarrow> emit_map_column name k v)"

section \<open>The method\<close>

definition generate_to_arrow_ipc :: "skill_def \<Rightarrow> struct_def \<Rightarrow> text \<Rightarrow> text \<Rightarrow> text option" where
  "generate_to_arrow_ipc skill d direction version =
     do {
       columns \<leftarrow> emit_each (\<lambda>field.
           do {
             column \<leftarrow> emit_to_arrow_column (field_name field) (field_ty field);
             Some (raw ''            '' @ column @ raw '',~'')
           }) (struct_fields d);
       Some (concat
        [raw ''    pub fn to_arrow_ipc(&self) -> Result<Vec<u8>, Box<dyn std::error::Error>> {~'',
         raw ''        let schema = Schema::new_with_metadata(~'',
         raw ''            vec![~'',
         concat (map emit_schema_field (struct_fields d)),
         raw ''            ],~'',
         raw ''            HashMap::from([~'',
         fmt ''                (^laic.skill_id^.into(), {}.into()),~'' [rust_string_literal (skill_id skill)],
         fmt ''                (^laic.version^.into(), {}.into()),~'' [rust_string_literal version],
         fmt ''                (^laic.direction^.into(), ^{}^.into()),~'' [direction],
         raw ''            ]),~'',
         raw ''        );~'',
         raw ''        let batch = RecordBatch::try_new(Arc::new(schema), vec![~'',
         columns,
         raw ''        ])?;~'',
         raw ''        let mut buf = Vec::new();~'',
         raw ''        {~'',
         raw ''            let mut writer = arrow_ipc::writer::StreamWriter::try_new(&mut buf, &batch.schema())?;~'',
         raw ''            writer.write(&batch)?;~'',
         raw ''            writer.finish()?;~'',
         raw ''        }~'',
         raw ''        Ok(buf)~'',
         raw ''    }~''])
     }"

section \<open>When it panics\<close>

text \<open>A field type whose column the serializer cannot write.\<close>

definition column_unsupported :: "laic_type \<Rightarrow> bool" where
  "column_unsupported t =
     (case t of
        LList u \<Rightarrow> \<not> is_leaf_type u
      | LOptional (LList u) \<Rightarrow> \<not> is_leaf_type u
      | LMap k v \<Rightarrow> \<not> is_leaf_type k \<or> \<not> is_leaf_type v
      | _ \<Rightarrow> False)"

lemma emit_list_column_None: "emit_list_column name t = None \<longleftrightarrow> \<not> is_leaf_type t"
  by (cases t) (simp_all add: emit_list_column_def is_leaf_type_def Let_def)

lemma emit_optional_column_None:
  "emit_optional_column name t = None \<longleftrightarrow> (\<exists>u. t = LList u \<and> \<not> is_leaf_type u)"
  by (cases t) (simp_all add: emit_optional_column_def bind_eq_None_conv Let_def)

lemma emit_map_column_None: "emit_map_column name k v = None \<longleftrightarrow> \<not> is_leaf_type k \<or> \<not> is_leaf_type v"
  by (auto simp: emit_map_column_def bind_eq_None_conv Let_def)

lemma emit_to_arrow_column_None: "emit_to_arrow_column name t = None \<longleftrightarrow> column_unsupported t"
  by (auto simp: emit_to_arrow_column_def column_unsupported_def emit_list_column_None
      emit_optional_column_None emit_map_column_None split: laic_type.splits)

lemma generate_to_arrow_ipc_None:
  "generate_to_arrow_ipc skill d direction version = None \<longleftrightarrow>
     list_ex (\<lambda>f. column_unsupported (field_ty f)) (struct_fields d)"
  by (simp add: generate_to_arrow_ipc_def bind_eq_None_conv emit_each_None emit_to_arrow_column_None)

end
