(* ===== verification/Laicc_Rust_Deserialize.thy ===== *)
theory Laicc_Rust_Deserialize
  imports Laicc_Rust_Types
begin

text \<open>
  \<open>crates/laicc/src/codegen/rust_deserialize_fields.rs\<close> and \<open>rust_deserialize.rs\<close>: the source of a
  struct's \<open>from_arrow_ipc\<close>, as the text each emitter appends; \<open>None\<close> is the panic of
  \<open>arrow_array_type\<close>.
\<close>

section \<open>Fields\<close>

fun primitive_value_expr :: "laic_type \<Rightarrow> text" where
  "primitive_value_expr LString = raw ''.value(0).to_string()''"
| "primitive_value_expr _ = raw ''.value(0)''"

definition emit_tensor_dtype_validation :: "text \<Rightarrow> tensor_element_type \<Rightarrow> text" where
  "emit_tensor_dtype_validation name dtype = concat
    [raw ''            let dtype_str = meta.get(^laic.tensor.dtype^)~'',
     fmt ''                .ok_or(^field '{}': missing tensor dtype metadata^)?;~'' [name],
     fmt ''            if dtype_str != ^{}^ {{~'' [lit (tensor_as_str dtype)],
     fmt ''                return Err(format!(^field '{}': expected dtype {}, got {{}}^, dtype_str).into());~'' [name, lit (tensor_as_str dtype)],
     raw ''            }~'']"

primrec emit_fixed_dims :: "text \<Rightarrow> nat \<Rightarrow> dimension list \<Rightarrow> text" where
  "emit_fixed_dims name i [] = []"
| "emit_fixed_dims name i (dim # dims) =
     (case dim of
        Fixed sz \<Rightarrow> concat
          [fmt ''            if shape[{}] != {} {{~'' [decimal i, decimal sz],
           fmt ''                return Err(format!(^field '{}': dim {} expected {}, got {{}}^, shape[{}]).into());~'' [name, decimal i, decimal sz, decimal i],
           raw ''            }~'']
      | Dynamic _ \<Rightarrow> [])
     @ emit_fixed_dims name (Suc i) dims"

definition emit_tensor_shape_validation :: "text \<Rightarrow> dimension list \<Rightarrow> text" where
  "emit_tensor_shape_validation name dims = concat
    [raw ''            let shape_str = meta.get(^laic.tensor.shape^)~'',
     fmt ''                .ok_or(^field '{}': missing tensor shape metadata^)?;~'' [name],
     raw ''            let shape: Vec<usize> = shape_str.trim_matches(|c| c == '[' || c == ']')~'',
     raw ''                .split(',')~'',
     raw ''                .filter(|s| !s.is_empty())~'',
     raw ''                .map(|s| s.trim().parse::<usize>())~'',
     raw ''                .collect::<Result<_, _>>()?;~'',
     fmt ''            if shape.len() != {} {{~'' [decimal (length dims)],
     fmt ''                return Err(format!(^field '{}': expected {} dimensions, got {{}}^, shape.len()).into());~'' [name, decimal (length dims)],
     raw ''            }~'',
     emit_fixed_dims name 0 dims]"

definition emit_tensor_metadata_validation :: "text \<Rightarrow> tensor_element_type \<Rightarrow> dimension list \<Rightarrow> text" where
  "emit_tensor_metadata_validation name dtype dims = concat
    [raw ''            let schema = batch.schema();~'',
     fmt ''            let field = schema.field_with_name(^{}^)~'' [name],
     fmt ''                .map_err(|_| ^missing '{}' field^.to_string())?;~'' [name],
     raw ''            let meta = field.metadata();~'',
     emit_tensor_dtype_validation name dtype,
     emit_tensor_shape_validation name dims]"

definition emit_tensor_extraction :: "text \<Rightarrow> tensor_element_type \<Rightarrow> dimension list \<Rightarrow> text" where
  "emit_tensor_extraction name dtype dims = concat
    [fmt ''        let {} = {{~'' [name],
     emit_tensor_metadata_validation name dtype dims,
     fmt ''            let col = batch.column_by_name(^{}^)~'' [name],
     raw ''                .and_then(|c| c.as_any().downcast_ref::<BinaryArray>())~'',
     fmt ''                .ok_or(^missing '{}' BinaryArray^)?;~'' [name],
     raw ''            col.value(0).to_vec()~'',
     raw ''        };~'']"

definition list_inner_value_expr :: "laic_type \<Rightarrow> text" where
  "list_inner_value_expr ty =
     (case ty of
        LString \<Rightarrow> raw ''typed.value(i).to_string()''
      | LBytes \<Rightarrow> raw ''typed.value(i).to_vec()''
      | _ \<Rightarrow> raw ''typed.value(i)'')"

definition list_items :: "text \<Rightarrow> laic_type \<Rightarrow> text option" where
  "list_items name inner =
     (case inner of
        LString \<Rightarrow> Some (concat
          [raw ''            let typed = inner_arr.as_any().downcast_ref::<StringArray>()~'',
           fmt ''                .ok_or(^field '{}': expected StringArray^)?;~'' [name],
           raw ''            (0..typed.len()).map(|i| typed.value(i).to_string()).collect::<Vec<_>>()~''])
      | LBytes \<Rightarrow> Some (concat
          [raw ''            let typed = inner_arr.as_any().downcast_ref::<BinaryArray>()~'',
           fmt ''                .ok_or(^field '{}': expected BinaryArray^)?;~'' [name],
           raw ''            (0..typed.len()).map(|i| typed.value(i).to_vec()).collect::<Vec<_>>()~''])
      | LBool \<Rightarrow> Some (concat
          [raw ''            let typed = inner_arr.as_any().downcast_ref::<BooleanArray>()~'',
           fmt ''                .ok_or(^field '{}': expected BooleanArray^)?;~'' [name],
           raw ''            (0..typed.len()).map(|i| typed.value(i)).collect::<Vec<_>>()~''])
      | LOptional opt_inner \<Rightarrow>
          do {
            arr_type \<leftarrow> arrow_array_type opt_inner;
            let val_expr = list_inner_value_expr opt_inner;
            Some (concat
             [fmt ''            let typed = inner_arr.as_any().downcast_ref::<{}>()~'' [arr_type],
              fmt ''                .ok_or(^field '{}': expected {}^)?;~'' [name, arr_type],
              fmt ''            (0..typed.len()).map(|i| if typed.is_null(i) {{ None }} else {{ Some({}) }}).collect::<Vec<_>>()~'' [val_expr]])
          }
      | LTensor dtype dims \<Rightarrow> Some (concat
          [emit_tensor_metadata_validation name dtype dims,
           raw ''            let typed = inner_arr.as_any().downcast_ref::<BinaryArray>()~'',
           fmt ''                .ok_or(^field '{}': expected BinaryArray^)?;~'' [name],
           raw ''            (0..typed.len()).map(|i| typed.value(i).to_vec()).collect::<Vec<_>>()~''])
      | _ \<Rightarrow>
          do {
            arr_type \<leftarrow> arrow_array_type inner;
            let val_expr = list_inner_value_expr inner;
            Some (concat
             [fmt ''            let typed = inner_arr.as_any().downcast_ref::<{}>()~'' [arr_type],
              fmt ''                .ok_or(^field '{}': expected {}^)?;~'' [name, arr_type],
              fmt ''            (0..typed.len()).map(|i| {}).collect::<Vec<_>>()~'' [val_expr]])
          })"

definition emit_list_extraction :: "text \<Rightarrow> laic_type \<Rightarrow> text option" where
  "emit_list_extraction name inner =
     do {
       items \<leftarrow> list_items name inner;
       Some (concat
        [fmt ''        let {} = {{~'' [name],
         fmt ''            let list_arr = batch.column_by_name(^{}^)~'' [name],
         raw ''                .and_then(|c| c.as_any().downcast_ref::<ListArray>())~'',
         fmt ''                .ok_or(^missing '{}' ListArray^)?;~'' [name],
         raw ''            let inner_arr = list_arr.value(0);~'',
         items,
         raw ''        };~''])
     }"

definition optional_value :: "text \<Rightarrow> laic_type \<Rightarrow> text option" where
  "optional_value name inner =
     (case inner of
        LString \<Rightarrow> Some (concat
          [raw ''                Some(col.as_any().downcast_ref::<StringArray>()~'',
           fmt ''                    .ok_or(^field '{}': expected StringArray^)?~'' [name],
           raw ''                    .value(0).to_string())~''])
      | LBytes \<Rightarrow> Some (concat
          [raw ''                Some(col.as_any().downcast_ref::<BinaryArray>()~'',
           fmt ''                    .ok_or(^field '{}': expected BinaryArray^)?~'' [name],
           raw ''                    .value(0).to_vec())~''])
      | LBool \<Rightarrow> Some (concat
          [raw ''                Some(col.as_any().downcast_ref::<BooleanArray>()~'',
           fmt ''                    .ok_or(^field '{}': expected BooleanArray^)?~'' [name],
           raw ''                    .value(0))~''])
      | LTensor _ _ \<Rightarrow> Some (concat
          [raw ''                Some(col.as_any().downcast_ref::<BinaryArray>()~'',
           fmt ''                    .ok_or(^field '{}': expected BinaryArray^)?~'' [name],
           raw ''                    .value(0).to_vec())~''])
      | LList list_inner \<Rightarrow>
          do {
            arr_type \<leftarrow> arrow_array_type list_inner;
            let val_expr = list_inner_value_expr list_inner;
            Some (concat
             [raw ''                let list_arr = col.as_any().downcast_ref::<ListArray>()~'',
              fmt ''                    .ok_or(^field '{}': expected ListArray^)?;~'' [name],
              raw ''                let inner_arr = list_arr.value(0);~'',
              fmt ''                let typed = inner_arr.as_any().downcast_ref::<{}>()~'' [arr_type],
              fmt ''                    .ok_or(^field '{}': expected {}^)?;~'' [name, arr_type],
              fmt ''                Some((0..typed.len()).map(|i| {}).collect::<Vec<_>>())~'' [val_expr]])
          }
      | _ \<Rightarrow>
          do {
            arr_type \<leftarrow> arrow_array_type inner;
            let val_expr = primitive_value_expr inner;
            Some (concat
             [fmt ''                Some(col.as_any().downcast_ref::<{}>()~'' [arr_type],
              fmt ''                    .ok_or(^field '{}': expected {}^)?~'' [name, arr_type],
              fmt ''                    {})~'' [val_expr]])
          })"

definition emit_optional_extraction :: "text \<Rightarrow> laic_type \<Rightarrow> text option" where
  "emit_optional_extraction name inner =
     do {
       val \<leftarrow> optional_value name inner;
       Some (concat
        [fmt ''        let {} = {{~'' [name],
         fmt ''            let col = batch.column_by_name(^{}^)~'' [name],
         fmt ''                .ok_or(^missing '{}' column^)?;~'' [name],
         (case inner of LTensor dtype dims \<Rightarrow> emit_tensor_metadata_validation name dtype dims | _ \<Rightarrow> []),
         raw ''            if col.is_null(0) {~'',
         raw ''                None~'',
         raw ''            } else {~'',
         val,
         raw ''            }~'',
         raw ''        };~''])
     }"

definition map_value_expr :: "laic_type \<Rightarrow> text \<Rightarrow> text" where
  "map_value_expr ty arr_var =
     (case ty of
        LString \<Rightarrow> fmt ''{}.value(i).to_string()'' [arr_var]
      | LBytes \<Rightarrow> fmt ''{}.value(i).to_vec()'' [arr_var]
      | _ \<Rightarrow> fmt ''{}.value(i)'' [arr_var])"

definition emit_map_extraction :: "text \<Rightarrow> laic_type \<Rightarrow> laic_type \<Rightarrow> text option" where
  "emit_map_extraction name key val =
     do {
       key_arr_type \<leftarrow> arrow_array_type key;
       val_arr_type \<leftarrow> arrow_array_type val;
       let key_expr = map_value_expr key (lit ''key_arr'');
       let val_expr = map_value_expr val (lit ''val_arr'');
       Some (concat
        [fmt ''        let {} = {{~'' [name],
         fmt ''            let map_arr = batch.column_by_name(^{}^)~'' [name],
         raw ''                .and_then(|c| c.as_any().downcast_ref::<MapArray>())~'',
         fmt ''                .ok_or(^missing '{}' MapArray^)?;~'' [name],
         raw ''            let entries = map_arr.value(0);~'',
         raw ''            let struct_arr = entries.as_any().downcast_ref::<StructArray>()~'',
         fmt ''                .ok_or(^field '{}': expected StructArray^)?;~'' [name],
         fmt ''            let key_arr = struct_arr.column(0).as_any().downcast_ref::<{}>()~'' [key_arr_type],
         fmt ''                .ok_or(^field '{}': expected {} for keys^)?;~'' [name, key_arr_type],
         fmt ''            let val_arr = struct_arr.column(1).as_any().downcast_ref::<{}>()~'' [val_arr_type],
         fmt ''                .ok_or(^field '{}': expected {} for values^)?;~'' [name, val_arr_type],
         raw ''            let mut map = HashMap::new();~'',
         raw ''            for i in 0..key_arr.len() {~'',
         fmt ''                let k = {};~'' [key_expr],
         fmt ''                let v = {};~'' [val_expr],
         raw ''                map.insert(k, v);~'',
         raw ''            }~'',
         raw ''            map~'',
         raw ''        };~''])
     }"

section \<open>The method\<close>

definition emit_metadata_check :: "text \<Rightarrow> text \<Rightarrow> text" where
  "emit_metadata_check key expected = concat
    [fmt ''        match meta.get(^{}^) {{~'' [key],
     fmt ''            None => return Err(^missing required metadata key '{}'^.into()),~'' [key],
     fmt ''            Some(v) if v != {} => return Err(format!(^metadata '{}' mismatch: expected {{:?}}, got '{{}}'^, {}, v).into()),~'' [rust_string_literal expected, key, rust_string_literal expected],
     raw ''            _ => {}~'',
     raw ''        }~'']"

definition emit_metadata_validation :: "text \<Rightarrow> text \<Rightarrow> text \<Rightarrow> text" where
  "emit_metadata_validation sid version direction = concat
    [raw ''        let schema = batch.schema();~'',
     raw ''        let meta = schema.metadata();~'',
     emit_metadata_check (lit ''laic.skill_id'') sid,
     emit_metadata_check (lit ''laic.version'') version,
     emit_metadata_check (lit ''laic.direction'') direction]"

definition emit_simple_extraction ::
  "show_f64 \<Rightarrow> text \<Rightarrow> text \<Rightarrow> text \<Rightarrow> text \<Rightarrow> literal option \<Rightarrow> text" where
  "emit_simple_extraction sf name array_type value_expr expected_type dflt =
     (case dflt of
        Some l \<Rightarrow>
          (let default_val = literal_to_rust sf l in concat
           [fmt ''        let {} = match batch.column_by_name(^{}^) {{~'' [name, name],
            raw ''            Some(column) => {~'',
            raw ''                let schema = batch.schema();~'',
            fmt ''                let field = schema.field_with_name(^{}^)~'' [name],
            fmt ''                    .map_err(|_| ^missing '{}' field^.to_string())?;~'' [name],
            fmt ''                if field.data_type() != &{} {{~'' [expected_type],
            fmt ''                    return Err(format!(^field '{}' expected {{:?}}, got {{:?}}^, {}, field.data_type()).into());~'' [name, expected_type],
            raw ''                }~'',
            fmt ''                column~                    .as_any()~                    .downcast_ref::<{}>()~'' [array_type],
            fmt ''                    .ok_or_else(|| ^field '{}' expected {}^.to_string())?~'' [name, array_type],
            fmt ''                    {}~'' [value_expr],
            raw ''            }~'',
            fmt ''            None => {},~'' [default_val],
            raw ''        };~''])
      | None \<Rightarrow> concat
          [fmt ''        let {} = match batch.column_by_name(^{}^) {{~'' [name, name],
           raw ''            Some(column) => {~'',
           raw ''                let schema = batch.schema();~'',
           fmt ''                let field = schema.field_with_name(^{}^)~'' [name],
           fmt ''                    .map_err(|_| ^missing '{}' field^.to_string())?;~'' [name],
           fmt ''                if field.data_type() != &{} {{~'' [expected_type],
           fmt ''                    return Err(format!(^field '{}' expected {{:?}}, got {{:?}}^, {}, field.data_type()).into());~'' [name, expected_type],
           raw ''                }~'',
           fmt ''                column~                    .as_any()~                    .downcast_ref::<{}>()~'' [array_type],
           fmt ''                    .ok_or_else(|| ^field '{}' expected {}^.to_string())?~'' [name, array_type],
           fmt ''                    {}~'' [value_expr],
           raw ''            }~'',
           fmt ''            None => return Err(^missing '{}' column^.into()),~'' [name],
           raw ''        };~''])"

definition emit_field_extraction :: "show_f64 \<Rightarrow> field_def \<Rightarrow> text option" where
  "emit_field_extraction sf field =
     (let name = field_name field in
      case field_ty field of
        LTensor dtype dims \<Rightarrow> Some (emit_tensor_extraction name dtype dims)
      | LBytes \<Rightarrow> Some (emit_simple_extraction sf name (lit ''BinaryArray'') (raw ''.value(0).to_vec()'')
          (arrow_datatype (field_ty field)) (field_default field))
      | LList inner \<Rightarrow> emit_list_extraction name inner
      | LOptional inner \<Rightarrow> emit_optional_extraction name inner
      | LMap k v \<Rightarrow> emit_map_extraction name k v
      | _ \<Rightarrow>
          do {
            arr_type \<leftarrow> arrow_array_type (field_ty field);
            Some (emit_simple_extraction sf name arr_type (primitive_value_expr (field_ty field))
              (arrow_datatype (field_ty field)) (field_default field))
          })"

definition generate_from_arrow_ipc ::
  "show_f64 \<Rightarrow> struct_def \<Rightarrow> text \<Rightarrow> text \<Rightarrow> text \<Rightarrow> text option" where
  "generate_from_arrow_ipc sf d sid version direction =
     do {
       extractions \<leftarrow> emit_each (emit_field_extraction sf) (struct_fields d);
       Some (concat
        [raw ''    pub fn from_arrow_ipc(bytes: &[u8]) -> Result<Self, Box<dyn std::error::Error>> {~'',
         raw ''        let cursor = std::io::Cursor::new(bytes);~'',
         raw ''        let mut reader = arrow_ipc::reader::StreamReader::try_new(cursor, None)?;~'',
         raw ''        let batch = reader.next()~'',
         raw ''            .ok_or(^empty IPC stream: no RecordBatch^)?~'',
         raw ''            ?;~'',
         raw ''        if batch.num_rows() == 0 {~'',
         raw ''            return Err(^cardinality error: RecordBatch has 0 rows, expected 1^.into());~'',
         raw ''        }~'',
         raw ''        if batch.num_rows() > 1 {~'',
         raw ''            return Err(format!(^cardinality error: RecordBatch has {} rows, expected 1^, batch.num_rows()).into());~'',
         raw ''        }~'',
         raw ''        match reader.next() {~'',
         raw ''            Some(Ok(_)) => return Err(^cardinality error: stream contains more than one RecordBatch^.into()),~'',
         raw ''            Some(Err(e)) => return Err(format!(^corrupt trailing data in IPC stream: {e}^).into()),~'',
         raw ''            None => {}~'',
         raw ''        }~'',
         emit_metadata_validation sid version direction,
         extractions,
         raw ''        Ok(Self {~'',
         concat (map (\<lambda>field. fmt ''            {},~'' [field_name field]) (struct_fields d)),
         raw ''        })~'',
         raw ''    }~''])
     }"

section \<open>When it panics\<close>

text \<open>A field type whose column the deserializer cannot read.\<close>

definition extraction_unsupported :: "laic_type \<Rightarrow> bool" where
  "extraction_unsupported t =
     (case t of
        LList (LOptional u) \<Rightarrow> \<not> is_leaf_type u
      | LList u \<Rightarrow> \<not> is_leaf_type u
      | LOptional (LList u) \<Rightarrow> \<not> is_leaf_type u
      | LOptional u \<Rightarrow> \<not> is_leaf_type u
      | LMap k v \<Rightarrow> \<not> is_leaf_type k \<or> \<not> is_leaf_type v
      | _ \<Rightarrow> False)"

lemma list_items_None:
  "list_items name t = None \<longleftrightarrow>
     (case t of LOptional u \<Rightarrow> \<not> is_leaf_type u | _ \<Rightarrow> \<not> is_leaf_type t)"
  by (cases t) (simp_all add: list_items_def is_leaf_type_def bind_eq_None_conv Let_def)

lemma optional_value_None:
  "optional_value name t = None \<longleftrightarrow>
     (case t of LList u \<Rightarrow> \<not> is_leaf_type u | _ \<Rightarrow> \<not> is_leaf_type t)"
  by (cases t) (simp_all add: optional_value_def is_leaf_type_def bind_eq_None_conv Let_def)

lemma emit_map_extraction_None:
  "emit_map_extraction name k v = None \<longleftrightarrow> \<not> is_leaf_type k \<or> \<not> is_leaf_type v"
  by (auto simp: emit_map_extraction_def bind_eq_None_conv Let_def)

lemma emit_field_extraction_None:
  "emit_field_extraction sf f = None \<longleftrightarrow> extraction_unsupported (field_ty f)"
  by (cases "field_ty f")
    (simp_all add: emit_field_extraction_def extraction_unsupported_def emit_list_extraction_def
      emit_optional_extraction_def emit_map_extraction_None list_items_None optional_value_None
      bind_eq_None_conv is_leaf_type_def Let_def split: laic_type.splits)

lemma generate_from_arrow_ipc_None:
  "generate_from_arrow_ipc sf d sid version direction = None \<longleftrightarrow>
     list_ex (\<lambda>f. extraction_unsupported (field_ty f)) (struct_fields d)"
  by (simp add: generate_from_arrow_ipc_def bind_eq_None_conv emit_each_None emit_field_extraction_None)

end
