(* ===== verification/Laicc_Rust_Contract.thy ===== *)
theory Laicc_Rust_Contract
  imports Laicc_Rust_Serialize Laicc_Rust_Deserialize
begin

text \<open>
  \<open>crates/laicc/src/codegen/rust_contract.rs\<close>: the Rust source generated for a file. Whether
  generation ends without a panic is decided by the field types alone.
\<close>

section \<open>The generator\<close>

definition generate_struct ::
  "show_f64 \<Rightarrow> skill_def \<Rightarrow> struct_def \<Rightarrow> text \<Rightarrow> text \<Rightarrow> text option" where
  "generate_struct sf skill d direction version =
     do {
       to_arrow \<leftarrow> generate_to_arrow_ipc skill d direction version;
       from_arrow \<leftarrow> generate_from_arrow_ipc sf d (skill_id skill) version direction;
       Some (concat
        [raw ''#[derive(Debug, Clone)]~'',
         fmt ''pub struct {} {{~'' [struct_name d],
         concat (map (\<lambda>field.
           fmt ''    pub {}: {},~'' [field_name field, rust_type (field_ty field)]) (struct_fields d)),
         raw ''}~~'',
         fmt ''impl {} {{~'' [struct_name d],
         fmt ''    /// Skill ID for this struct.~    pub fn skill_id() -> &'static str {{ {} }}~~'' [rust_string_literal (skill_id skill)],
         fmt ''    /// Contract version.~    pub fn version() -> &'static str {{ {} }}~~'' [rust_string_literal version],
         fmt ''    /// Direction (input or output).~    pub fn direction() -> &'static str {{ ^{}^ }}~~'' [direction],
         to_arrow,
         nl,
         from_arrow,
         raw ''}~''])
     }"

definition generate_error_enum :: "skill_def \<Rightarrow> text" where
  "generate_error_enum skill =
     (let enum_name = fmt ''{}Error'' [to_pascal_case (skill_name skill)] in concat
      [raw ''#[derive(Debug, Clone, Copy, PartialEq, Eq)]~'',
       raw ''#[repr(u16)]~'',
       fmt ''pub enum {} {{~'' [enum_name],
       concat (map (\<lambda>variant.
         fmt ''    {} = {},~'' [to_pascal_case (variant_name variant), decimal (unat (variant_code variant))]) (skill_errors skill)),
       raw ''}~~'',
       fmt ''impl {} {{~'' [enum_name],
       raw ''    pub fn from_code(code: u16) -> Option<Self> {~'',
       raw ''        match code {~'',
       concat (map (\<lambda>variant.
         fmt ''            {} => Some(Self::{}),~'' [decimal (unat (variant_code variant)), to_pascal_case (variant_name variant)]) (skill_errors skill)),
       raw ''            _ => None,~'',
       raw ''        }~'',
       raw ''    }~~'',
       raw ''    pub fn code(&self) -> u16 {~'',
       raw ''        *self as u16~'',
       raw ''    }~~'',
       raw ''    pub fn name(&self) -> &'static str {~'',
       raw ''        match self {~'',
       concat (map (\<lambda>variant.
         fmt ''            Self::{} => ^{}^,~'' [to_pascal_case (variant_name variant), variant_name variant]) (skill_errors skill)),
       raw ''        }~'',
       raw ''    }~'',
       raw ''}~''])"

definition generate_skill :: "show_f64 \<Rightarrow> text \<Rightarrow> skill_def \<Rightarrow> text option" where
  "generate_skill sf version skill =
     do {
       input \<leftarrow> generate_struct sf skill (skill_input skill) (lit ''input'') version;
       output \<leftarrow> generate_struct sf skill (skill_output skill) (lit ''output'') version;
       Some (input @ nl @ output @ nl
         @ (if skill_errors skill \<noteq> [] then generate_error_enum skill @ nl else []))
     }"

definition generate_rust :: "show_f64 \<Rightarrow> laic_file \<Rightarrow> text option" where
  "generate_rust sf file =
     do {
       skills \<leftarrow> emit_each (generate_skill sf (file_version file)) (file_skills file);
       Some (concat
        [raw ''// Generated by laicc % DO NOT EDIT.~'',
         raw ''//~'',
         raw ''// Dependencies required in your Cargo.toml:~'',
         raw ''//   arrow-array, arrow-schema, arrow-ipc~~'',
         raw ''use arrow_array::*;~'',
         raw ''use arrow_array::builder::*;~'',
         raw ''use arrow_schema::*;~'',
         raw ''use std::collections::HashMap;~'',
         raw ''use std::sync::Arc;~~'',
         skills])
     }"

section \<open>When it panics\<close>

definition file_fields :: "laic_file \<Rightarrow> field_def list" where
  "file_fields file =
     concat (map (\<lambda>s. struct_fields (skill_input s) @ struct_fields (skill_output s)) (file_skills file))"

fun list_of_optional :: "laic_type \<Rightarrow> bool" where
  "list_of_optional (LList (LOptional _)) = True"
| "list_of_optional _ = False"

lemma generate_struct_None:
  "generate_struct sf skill d direction version = None \<longleftrightarrow>
     list_ex (\<lambda>f. column_unsupported (field_ty f) \<or> extraction_unsupported (field_ty f)) (struct_fields d)"
  by (auto simp: generate_struct_def bind_eq_None_conv generate_to_arrow_ipc_None
      generate_from_arrow_ipc_None list_ex_iff)

lemma generate_rust_None:
  "generate_rust sf file = None \<longleftrightarrow>
     list_ex (\<lambda>f. column_unsupported (field_ty f) \<or> extraction_unsupported (field_ty f)) (file_fields file)"
  by (auto simp: generate_rust_def generate_skill_def bind_eq_None_conv emit_each_None
      generate_struct_None file_fields_def list_ex_iff)

lemma supported_panics:
  "supported t \<Longrightarrow> column_unsupported t \<or> extraction_unsupported t \<longleftrightarrow> list_of_optional t"
  by (cases t rule: list_of_optional.cases)
    (auto simp: supported_def column_unsupported_def extraction_unsupported_def is_map_key_def
      is_scalar_type_def is_map_value_def is_leaf_type_def static_leaf_leaf
      dest: static_leaf_leaf split: laic_type.splits)

lemma valid_file_supported: "valid_file file \<Longrightarrow> f \<in> set (file_fields file) \<Longrightarrow> supported (field_ty f)"
  by (auto simp: valid_file_def list_all_iff valid_skill_def valid_struct_def valid_field_def file_fields_def)

section \<open>Properties\<close>

text \<open>A file with one skill, whose input and output have one field \<open>items\<close> of the given type.\<close>

definition echo_with :: "laic_type \<Rightarrow> laic_file" where
  "echo_with t =
     (let fld = \<lparr>field_name = lit ''items'', field_ty = t, field_default = None\<rparr> in
      \<lparr>file_version = lit ''1.0.0'',
       file_skills = [\<lparr>skill_name = lit ''echo'', skill_id = lit ''com.example.echo'',
         skill_input = \<lparr>struct_name = lit ''EchoInput'', struct_fields = [fld]\<rparr>,
         skill_output = \<lparr>struct_name = lit ''EchoOutput'', struct_fields = [fld]\<rparr>,
         skill_errors = []\<rparr>]\<rparr>)"

lemma not_reserved:
  "\<not> is_reserved_codegen_identifier (lit ''items'')" "\<not> is_reserved_codegen_identifier (lit ''echo'')"
  "\<not> is_reserved_codegen_identifier (lit ''EchoInput'')" "\<not> is_reserved_codegen_identifier (lit ''EchoOutput'')"
  by (simp_all add: is_reserved_codegen_identifier_def RESERVED_def)

lemma echo_with_valid: "supported t \<Longrightarrow> validate (echo_with t) = Inr ()"
  by (simp add: validate_ok echo_with_def valid_file_def valid_skill_def valid_struct_def Let_def
      valid_field_def valid_errors_def default_ok_def not_reserved)

lemma echo_with_fields:
  "set (file_fields (echo_with t)) = {\<lparr>field_name = lit ''items'', field_ty = t, field_default = None\<rparr>}"
  by (simp add: echo_with_def file_fields_def Let_def)

text \<open>
  C28. The Rust generator never panics on a validated file, except when it has a \<open>list<optional<T>>\<close>
  field, and then it always does: the validator accepts that type and the deserializer has code for
  it, but \<open>emit_list_column\<close> asks for the builder of \<open>optional<T>\<close> first, which is \<open>unreachable!\<close>.
\<close>

theorem generate_rust_panics_iff:
  assumes "validate file = Inr ()"
  shows "generate_rust sf file = None \<longleftrightarrow> (\<exists>f \<in> set (file_fields file). list_of_optional (field_ty f))"
proof -
  from assms have "valid_file file"
    by (simp add: validate_ok)
  then show ?thesis
    using supported_panics valid_file_supported [of "file"]
    by (auto simp: generate_rust_None list_ex_iff)
qed

theorem generate_rust_panics_iff_witness:
  "validate (echo_with (LList (LOptional LString))) = Inr ()
   \<and> generate_rust (\<lambda>_. lit ''0'') (echo_with (LList (LOptional LString))) = None
   \<and> generate_rust (\<lambda>_. lit ''0'') (echo_with (LOptional (LList LString))) \<noteq> None"
proof -
  have supp: "supported (LList (LOptional LString))" "supported (LOptional (LList LString))"
    by (simp_all add: supported_def static_leaf_def is_scalar_type_def is_map_value_def)
  show ?thesis
    using generate_rust_panics_iff [OF echo_with_valid [OF supp(1)]]
      generate_rust_panics_iff [OF echo_with_valid [OF supp(2)]] echo_with_valid [OF supp(1)]
    by (simp add: echo_with_fields)
qed

end
