(* ===== verification/Laicc_Python.thy ===== *)
theory Laicc_Python
  imports Laicc_Rust_Types
begin

text \<open>
  \<open>crates/laicc/src/codegen/python_types.rs\<close>, \<open>python_serialize.rs\<close>, \<open>python_deserialize.rs\<close> and
  \<open>python_contract.rs\<close>: the Python module generated for a file, as the text each emitter appends.
  No arm of this generator can panic, so every emitter is total. Names that the Rust generator also
  uses carry the suffix \<open>_py\<close>.
\<close>

section \<open>Types and literals\<close>

fun python_type :: "laic_type \<Rightarrow> text" where
  "python_type LString = lit ''str''"
| "python_type LBytes = lit ''bytes''"
| "python_type LBool = lit ''bool''"
| "python_type LI8 = lit ''int''"
| "python_type LI16 = lit ''int''"
| "python_type LI32 = lit ''int''"
| "python_type LI64 = lit ''int''"
| "python_type LU8 = lit ''int''"
| "python_type LF32 = lit ''float''"
| "python_type LF64 = lit ''float''"
| "python_type (LTensor _ _) = lit ''bytes''"
| "python_type (LList inner) = fmt ''list[{}]'' [python_type inner]"
| "python_type (LOptional inner) = fmt ''{} | None'' [python_type inner]"
| "python_type (LMap k v) = fmt ''dict[{}, {}]'' [python_type k, python_type v]"

fun pyarrow_type :: "laic_type \<Rightarrow> text" where
  "pyarrow_type LString = lit ''pa.string()''"
| "pyarrow_type LBytes = lit ''pa.binary()''"
| "pyarrow_type LBool = lit ''pa.bool_()''"
| "pyarrow_type LI8 = lit ''pa.int8()''"
| "pyarrow_type LI16 = lit ''pa.int16()''"
| "pyarrow_type LI32 = lit ''pa.int32()''"
| "pyarrow_type LI64 = lit ''pa.int64()''"
| "pyarrow_type LU8 = lit ''pa.uint8()''"
| "pyarrow_type LF32 = lit ''pa.float32()''"
| "pyarrow_type LF64 = lit ''pa.float64()''"
| "pyarrow_type (LTensor _ _) = lit ''pa.binary()''"
| "pyarrow_type (LList inner) = fmt ''pa.list_({})'' [pyarrow_type inner]"
| "pyarrow_type (LOptional inner) = pyarrow_type inner"
| "pyarrow_type (LMap k v) = fmt ''pa.map_({}, {})'' [pyarrow_type k, pyarrow_type v]"

fun literal_to_python :: "show_f64 \<Rightarrow> literal \<Rightarrow> text" where
  "literal_to_python sf (StringLit s) = fmt ''^{}^'' [escape_string_literal_body s PythonLike]"
| "literal_to_python sf (IntegerLit i) = decimal_int i"
| "literal_to_python sf (FloatLit f) = (let s = sf f in if 46 \<in> set s then s else fmt ''{}.0'' [s])"
| "literal_to_python sf (BoolLit b) = (if b then lit ''True'' else lit ''False'')"

section \<open>Serialization\<close>

definition format_dims_as_shape_py :: "dimension list \<Rightarrow> text" where
  "format_dims_as_shape_py dims =
     fmt ''[{}]'' [join (lit '','') (map (\<lambda>d. case d of Fixed n \<Rightarrow> decimal n | Dynamic _ \<Rightarrow> lit ''0'') dims)]"

definition emit_tensor_metadata_py :: "tensor_element_type \<Rightarrow> dimension list \<Rightarrow> text" where
  "emit_tensor_metadata_py dtype dims = concat
    [fmt ''                b^laic.tensor.dtype^: b^{}^,~'' [lit (tensor_as_str dtype)],
     fmt ''                b^laic.tensor.shape^: b^{}^,~'' [format_dims_as_shape_py dims],
     raw ''                b^laic.tensor.version^: b^1^,~'']"

definition emit_schema_field_py :: "field_def \<Rightarrow> text" where
  "emit_schema_field_py field =
     (let name = field_name field in
      case field_ty field of
        LTensor dtype dims \<Rightarrow> concat
          [fmt ''            pa.field(^{}^, pa.binary(), nullable=False, metadata={{~'' [name],
           emit_tensor_metadata_py dtype dims,
           raw ''            }),~'']
      | LOptional (LTensor dtype dims) \<Rightarrow> concat
          [fmt ''            pa.field(^{}^, pa.binary(), nullable=True, metadata={{~'' [name],
           emit_tensor_metadata_py dtype dims,
           raw ''            }),~'']
      | LList (LTensor dtype dims) \<Rightarrow> concat
          [fmt ''            pa.field(^{}^, pa.list_(pa.binary()), nullable=False, metadata={{~'' [name],
           emit_tensor_metadata_py dtype dims,
           raw ''            }),~'']
      | _ \<Rightarrow>
          fmt ''            pa.field(^{}^, {}, nullable={}),~'' [name, pyarrow_type (field_ty field), lit (if is_optional (field_ty field) then ''True'' else ''False'')])"

definition emit_pydict_value :: "text \<Rightarrow> laic_type \<Rightarrow> text" where
  "emit_pydict_value name ty =
     (case ty of
        LMap _ _ \<Rightarrow> fmt ''            ^{}^: [list(self.{}.items())],~'' [name, name]
      | _ \<Rightarrow> fmt ''            ^{}^: [self.{}],~'' [name, name])"

definition generate_to_ipc_py :: "skill_def \<Rightarrow> struct_def \<Rightarrow> text \<Rightarrow> text \<Rightarrow> text" where
  "generate_to_ipc_py skill d direction version = concat
    [raw ''    def to_ipc(self) -> bytes:~'',
     raw ''        ^^^Serialize to Arrow IPC stream format.^^^~'',
     raw ''        schema = pa.schema([~'',
     concat (map emit_schema_field_py (struct_fields d)),
     raw ''        ], metadata={~'',
     fmt ''            b^laic.skill_id^: {},~'' [python_bytes_literal (skill_id skill)],
     fmt ''            b^laic.version^: {},~'' [python_bytes_literal version],
     fmt ''            b^laic.direction^: b^{}^,~'' [direction],
     raw ''        })~'',
     raw ''        batch = pa.RecordBatch.from_pydict({~'',
     concat (map (\<lambda>field. emit_pydict_value (field_name field) (field_ty field)) (struct_fields d)),
     raw ''        }, schema=schema)~'',
     raw ''        sink = pa.BufferOutputStream()~'',
     raw ''        writer = ipc.new_stream(sink, schema)~'',
     raw ''        writer.write_batch(batch)~'',
     raw ''        writer.close()~'',
     raw ''        return sink.getvalue().to_pybytes()~'',
     nl]"

section \<open>Deserialization\<close>

primrec emit_fixed_dims_py :: "text \<Rightarrow> nat \<Rightarrow> dimension list \<Rightarrow> text" where
  "emit_fixed_dims_py name i [] = []"
| "emit_fixed_dims_py name i (dim # dims) =
     (case dim of
        Fixed sz \<Rightarrow> concat
          [fmt ''        if _shape[{}] != {}:~'' [decimal i, decimal sz],
           fmt ''            raise ValueError(f^field '{}': dim {} expected {}, got {{_shape[{}]}}^)~'' [name, decimal i, decimal sz, decimal i]]
      | Dynamic _ \<Rightarrow> [])
     @ emit_fixed_dims_py name (Suc i) dims"

definition emit_tensor_metadata_validation_py :: "text \<Rightarrow> tensor_element_type \<Rightarrow> dimension list \<Rightarrow> text" where
  "emit_tensor_metadata_validation_py name dtype dims = concat
    [fmt ''        _field = batch.schema.field(^{}^)~'' [name],
     raw ''        _fmeta = _field.metadata or {}~'',
     raw ''        _dtype = _fmeta.get(b^laic.tensor.dtype^)~'',
     fmt ''        if _dtype is None:~            raise ValueError(^field '{}': missing tensor dtype metadata^)~'' [name],
     fmt ''        if _dtype != b^{}^:~'' [lit (tensor_as_str dtype)],
     fmt ''            raise ValueError(f^field '{}': expected dtype {}, got {{_dtype.decode()}}^)~'' [name, lit (tensor_as_str dtype)],
     raw ''        _shape_str = _fmeta.get(b^laic.tensor.shape^)~'',
     fmt ''        if _shape_str is None:~            raise ValueError(^field '{}': missing tensor shape metadata^)~'' [name],
     raw ''        _shape = [int(x) for x in _shape_str.decode().strip(^[]^).split(^,^) if x]~'',
     fmt ''        if len(_shape) != {}:~'' [decimal (length dims)],
     fmt ''            raise ValueError(f^field '{}': expected {} dimensions, got {{len(_shape)}}^)~'' [name, decimal (length dims)],
     emit_fixed_dims_py name 0 dims]"

definition emit_metadata_check_py :: "text \<Rightarrow> text \<Rightarrow> text" where
  "emit_metadata_check_py key expected = concat
    [fmt ''        _v = meta.get(b^{}^)~'' [key],
     raw ''        if _v is None:~'',
     fmt ''            raise ValueError(^missing required metadata key '{}'^)~'' [key],
     fmt ''        if _v != {}:~'' [python_bytes_literal expected],
     fmt ''            raise ValueError(f^metadata '{}' mismatch: got '{{_v.decode()}}'^)~'' [key]]"

definition emit_metadata_validation_py :: "text \<Rightarrow> text \<Rightarrow> text \<Rightarrow> text" where
  "emit_metadata_validation_py sid version direction = concat
    [raw ''        meta = batch.schema.metadata or {}~'',
     emit_metadata_check_py (lit ''laic.skill_id'') sid,
     emit_metadata_check_py (lit ''laic.version'') version,
     emit_metadata_check_py (lit ''laic.direction'') direction]"

definition emit_scalar_extraction_py ::
  "show_f64 \<Rightarrow> text \<Rightarrow> laic_type \<Rightarrow> literal option \<Rightarrow> text" where
  "emit_scalar_extraction_py sf name ty dflt =
     (let expected_type = pyarrow_type ty in
      case dflt of
        Some l \<Rightarrow>
          (let default_val = literal_to_python sf l in concat
           [fmt ''        _col = batch.column(^{}^) if ^{}^ in batch.schema.names else None~'' [name, name],
            raw ''        if _col is not None:~'',
            fmt ''            _field = batch.schema.field(^{}^)~'' [name],
            fmt ''            if _field.type != {}:~'' [expected_type],
            fmt ''                raise ValueError(f^field '{}': expected {}, got {{_field.type}}^)~'' [name, expected_type],
            fmt ''            {} = _col[0].as_py()~'' [name],
            raw ''        else:~'',
            fmt ''            {} = {}~'' [name, default_val]])
      | None \<Rightarrow> concat
          [fmt ''        _col = batch.column(^{}^)~'' [name],
           fmt ''        _field = batch.schema.field(^{}^)~'' [name],
           fmt ''        if _field.type != {}:~'' [expected_type],
           fmt ''            raise ValueError(f^field '{}': expected {}, got {{_field.type}}^)~'' [name, expected_type],
           fmt ''        {} = _col[0].as_py()~'' [name]])"

definition emit_tensor_extraction_py :: "text \<Rightarrow> tensor_element_type \<Rightarrow> dimension list \<Rightarrow> text" where
  "emit_tensor_extraction_py name dtype dims =
     fmt ''        {} = batch.column(^{}^)[0].as_py()~'' [name, name]
     @ emit_tensor_metadata_validation_py name dtype dims"

definition emit_list_extraction_py :: "text \<Rightarrow> laic_type \<Rightarrow> text" where
  "emit_list_extraction_py name inner =
     (case inner of
        LTensor dtype dims \<Rightarrow>
          emit_tensor_metadata_validation_py name dtype dims
          @ fmt ''        {} = [v.as_py() for v in batch.column(^{}^)[0].values]~'' [name, name]
      | _ \<Rightarrow> fmt ''        {} = batch.column(^{}^)[0].as_py()~'' [name, name])"

definition emit_optional_extraction_py :: "text \<Rightarrow> laic_type \<Rightarrow> text" where
  "emit_optional_extraction_py name inner =
     (case inner of
        LTensor dtype dims \<Rightarrow> concat
          [emit_tensor_metadata_validation_py name dtype dims,
           fmt ''        _val = batch.column(^{}^)[0]~'' [name],
           fmt ''        {} = None if not _val.is_valid else _val.as_py()~'' [name]]
      | _ \<Rightarrow> concat
          [fmt ''        _val = batch.column(^{}^)[0]~'' [name],
           fmt ''        {} = None if not _val.is_valid else _val.as_py()~'' [name]])"

definition emit_map_extraction_py :: "text \<Rightarrow> text" where
  "emit_map_extraction_py name = concat
    [fmt ''        _map_val = batch.column(^{}^)[0].as_py()~'' [name],
     fmt ''        {} = dict(_map_val) if _map_val is not None else {{}}~'' [name]]"

definition emit_field_extraction_py :: "show_f64 \<Rightarrow> field_def \<Rightarrow> text" where
  "emit_field_extraction_py sf field =
     (let name = field_name field in
      case field_ty field of
        LTensor dtype dims \<Rightarrow> emit_tensor_extraction_py name dtype dims
      | LList inner \<Rightarrow> emit_list_extraction_py name inner
      | LOptional inner \<Rightarrow> emit_optional_extraction_py name inner
      | LMap k v \<Rightarrow> emit_map_extraction_py name
      | _ \<Rightarrow> emit_scalar_extraction_py sf name (field_ty field) (field_default field))"

definition generate_from_ipc_py ::
  "show_f64 \<Rightarrow> struct_def \<Rightarrow> text \<Rightarrow> text \<Rightarrow> text \<Rightarrow> text" where
  "generate_from_ipc_py sf d sid version direction = concat
    [raw ''    @classmethod~'',
     fmt ''    def from_ipc(cls, data: bytes) -> {}:~'' [struct_name d],
     raw ''        ^^^Deserialize from Arrow IPC stream format.^^^~'',
     raw ''        reader = ipc.open_stream(data)~'',
     raw ''        batch = reader.read_next_batch()~'',
     raw ''        if batch.num_rows == 0:~'',
     raw ''            raise ValueError(^cardinality error: RecordBatch has 0 rows, expected 1^)~'',
     raw ''        if batch.num_rows > 1:~'',
     raw ''            raise ValueError(~'',
     raw ''                f^cardinality error: RecordBatch has {batch.num_rows} rows, expected 1^~'',
     raw ''            )~'',
     raw ''        try:~'',
     raw ''            reader.read_next_batch()~'',
     raw ''            raise ValueError(^cardinality error: stream contains more than one RecordBatch^)~'',
     raw ''        except StopIteration:~'',
     raw ''            pass~'',
     emit_metadata_validation_py sid version direction,
     concat (map (emit_field_extraction_py sf) (struct_fields d)),
     raw ''        return cls(~'',
     concat (map (\<lambda>field. fmt ''            {}={},~'' [field_name field, field_name field]) (struct_fields d)),
     raw ''        )~'',
     nl]"

section \<open>The module\<close>

definition generate_dataclass ::
  "show_f64 \<Rightarrow> skill_def \<Rightarrow> struct_def \<Rightarrow> text \<Rightarrow> text \<Rightarrow> text" where
  "generate_dataclass sf skill d direction version =
     (let (no_default, has_default) = partition (\<lambda>f. field_default f = None) (struct_fields d) in concat
      [raw ''@dataclasses.dataclass~'',
       fmt ''class {}:~'' [struct_name d],
       fmt ''    ^^^LAIC contract: skill={}, direction='{}'.^^^~~'' [python_string_literal (skill_id skill), direction],
       fmt ''    SKILL_ID: ClassVar[str] = {}~'' [python_string_literal (skill_id skill)],
       fmt ''    VERSION: ClassVar[str] = {}~'' [python_string_literal version],
       fmt ''    DIRECTION: ClassVar[str] = ^{}^~~'' [direction],
       concat (map (\<lambda>field. fmt ''    {}: {}~'' [field_name field, python_type (field_ty field)]) no_default),
       concat (map (\<lambda>field. case field_default field of
           Some l \<Rightarrow> fmt ''    {}: {} = {}~'' [field_name field, python_type (field_ty field), literal_to_python sf l]
         | None \<Rightarrow> []) has_default),
       nl,
       generate_to_ipc_py skill d direction version,
       generate_from_ipc_py sf d (skill_id skill) version direction])"

definition generate_error_enum_py :: "skill_def \<Rightarrow> text" where
  "generate_error_enum_py skill =
     (let enum_name = fmt ''{}Error'' [to_pascal_case (skill_name skill)] in concat
      [fmt ''class {}(enum.IntEnum):~'' [enum_name],
       fmt ''    ^^^Error codes for skill {}.^^^~~'' [python_string_literal (skill_id skill)],
       concat (map (\<lambda>variant. fmt ''    {} = {}~'' [variant_name variant, decimal (unat (variant_code variant))]) (skill_errors skill)),
       nl])"

definition generate_python :: "show_f64 \<Rightarrow> laic_file \<Rightarrow> text" where
  "generate_python sf file = concat
    [raw ''# Generated by laicc % DO NOT EDIT.~'',
     raw ''from __future__ import annotations~~'',
     raw ''import dataclasses~'',
     raw ''import enum~'',
     raw ''from typing import ClassVar~~'',
     raw ''import pyarrow as pa~'',
     raw ''import pyarrow.ipc as ipc~~'',
     concat (map (\<lambda>skill.
       generate_dataclass sf skill (skill_input skill) (lit ''input'') (file_version file) @ nl
       @ generate_dataclass sf skill (skill_output skill) (lit ''output'') (file_version file) @ nl
       @ (if skill_errors skill \<noteq> [] then generate_error_enum_py skill @ nl else []))
      (file_skills file))]"

end
