(* ===== verification/Laicc_Typescript.thy ===== *)
theory Laicc_Typescript
  imports Laicc_Rust_Types
begin

text \<open>
  \<open>crates/laicc/src/codegen/typescript_types.rs\<close>, \<open>typescript_serialize.rs\<close>,
  \<open>typescript_deserialize.rs\<close> and \<open>typescript_contract.rs\<close>: the TypeScript module generated for a file,
  as the text each emitter appends. No arm can panic. Names that another generator also uses carry
  the suffix \<open>_ts\<close>.
\<close>

section \<open>Types and literals\<close>

fun ts_type :: "laic_type \<Rightarrow> text" where
  "ts_type LString = lit ''string''"
| "ts_type LBytes = lit ''Uint8Array''"
| "ts_type (LTensor _ _) = lit ''Uint8Array''"
| "ts_type LBool = lit ''boolean''"
| "ts_type LI8 = lit ''number''"
| "ts_type LI16 = lit ''number''"
| "ts_type LI32 = lit ''number''"
| "ts_type LU8 = lit ''number''"
| "ts_type LF32 = lit ''number''"
| "ts_type LF64 = lit ''number''"
| "ts_type LI64 = lit ''bigint''"
| "ts_type (LList inner) =
     (let s = ts_type inner in
      if 124 \<in> set s \<or> 60 \<in> set s then fmt ''Array<{}>'' [s] else fmt ''{}[]'' [s])"
| "ts_type (LOptional inner) = fmt ''{} | null'' [ts_type inner]"
| "ts_type (LMap k v) = fmt ''Map<{}, {}>'' [ts_type k, ts_type v]"

definition bool_text :: "bool \<Rightarrow> text" where
  "bool_text b = lit (if b then ''true'' else ''false'')"

fun ts_arrow_datatype :: "laic_type \<Rightarrow> text" where
  "ts_arrow_datatype LString = lit ''new arrow.Utf8()''"
| "ts_arrow_datatype LBytes = lit ''new arrow.Binary()''"
| "ts_arrow_datatype (LTensor _ _) = lit ''new arrow.Binary()''"
| "ts_arrow_datatype LBool = lit ''new arrow.Bool()''"
| "ts_arrow_datatype LI8 = lit ''new arrow.Int8()''"
| "ts_arrow_datatype LI16 = lit ''new arrow.Int16()''"
| "ts_arrow_datatype LI32 = lit ''new arrow.Int32()''"
| "ts_arrow_datatype LI64 = lit ''new arrow.Int64()''"
| "ts_arrow_datatype LU8 = lit ''new arrow.Uint8()''"
| "ts_arrow_datatype LF32 = lit ''new arrow.Float32()''"
| "ts_arrow_datatype LF64 = lit ''new arrow.Float64()''"
| "ts_arrow_datatype (LList inner) =
     fmt ''new arrow.List(new arrow.Field(^item^, {}, {}))'' [ts_arrow_datatype inner, bool_text (is_optional inner)]"
| "ts_arrow_datatype (LOptional inner) = ts_arrow_datatype inner"
| "ts_arrow_datatype (LMap k v) =
     fmt (''new arrow.Map_(new arrow.Field(^entries^, new arrow.Struct([new arrow.Field(^key^, {}, false) as any, '' @
          ''new arrow.Field(^value^, {}, false) as any]) as any, false), false) as any'')
       [ts_arrow_datatype k, ts_arrow_datatype v]"

fun literal_to_ts :: "show_f64 \<Rightarrow> literal \<Rightarrow> laic_type \<Rightarrow> text" where
  "literal_to_ts sf (IntegerLit i) ty = (if ty = LI64 then fmt ''{}n'' [decimal_int i] else decimal_int i)"
| "literal_to_ts sf (StringLit s) ty = fmt ''^{}^'' [escape_string_literal_body s PythonLike]"
| "literal_to_ts sf (FloatLit f) ty = (let s = sf f in if 46 \<in> set s then s else fmt ''{}.0'' [s])"
| "literal_to_ts sf (BoolLit b) ty = bool_text b"

definition format_ts_dims :: "dimension list \<Rightarrow> text" where
  "format_ts_dims dims =
     fmt ''[{}]'' [join (lit '','') (map (\<lambda>d. case d of Fixed n \<Rightarrow> decimal n | Dynamic _ \<Rightarrow> lit ''0'') dims)]"

section \<open>Serialization\<close>

definition emit_tensor_schema_field ::
  "text \<Rightarrow> text \<Rightarrow> bool \<Rightarrow> tensor_element_type \<Rightarrow> dimension list \<Rightarrow> text" where
  "emit_tensor_schema_field name arrow_type nullable dtype dims = concat
    [fmt ''      new arrow.Field(^{}^, {}, {}, new Map([~'' [name, arrow_type, bool_text nullable],
     fmt ''        [^laic.tensor.dtype^, ^{}^],~'' [lit (tensor_as_str dtype)],
     fmt ''        [^laic.tensor.shape^, ^{}^],~'' [format_ts_dims dims],
     raw ''        [^laic.tensor.version^, ^1^],~'',
     raw ''      ])),~'']"

definition emit_schema_field_ts :: "field_def \<Rightarrow> text" where
  "emit_schema_field_ts field =
     (case field_ty field of
        LTensor dtype dims \<Rightarrow>
          emit_tensor_schema_field (field_name field) (raw ''new arrow.Binary()'') False dtype dims
      | LList (LTensor dtype dims) \<Rightarrow>
          emit_tensor_schema_field (field_name field)
            (raw ''new arrow.List(new arrow.Field(^item^, new arrow.Binary(), false))'') False dtype dims
      | LOptional (LTensor dtype dims) \<Rightarrow>
          emit_tensor_schema_field (field_name field) (raw ''new arrow.Binary()'') True dtype dims
      | _ \<Rightarrow>
          fmt ''      new arrow.Field(^{}^, {}, {}),~'' [field_name field, ts_arrow_datatype (field_ty field), bool_text (is_optional (field_ty field))])"

definition generate_to_ipc_ts :: "skill_def \<Rightarrow> struct_def \<Rightarrow> text \<Rightarrow> text \<Rightarrow> text" where
  "generate_to_ipc_ts skill d direction version = concat
    [raw ''  toIpc(): Uint8Array {~'',
     raw ''    const schema = new arrow.Schema([~'',
     concat (map emit_schema_field_ts (struct_fields d)),
     raw ''    ], new Map([~'',
     fmt ''      [^laic.skill_id^, {}],~'' [typescript_string_literal (skill_id skill)],
     fmt ''      [^laic.version^, {}],~'' [typescript_string_literal version],
     fmt ''      [^laic.direction^, ^{}^],~'' [direction],
     raw ''    ]));~~'',
     raw ''    const data: Record<string, unknown[]> = {~'',
     concat (map (\<lambda>field. fmt ''      ^{}^: [this.{}],~'' [field_name field, field_name field]) (struct_fields d)),
     raw ''    };~~'',
     raw ''    const columns: Record<string, arrow.Vector> = {};~'',
     raw ''    for (const field of schema.fields) {~'',
     raw ''      columns[field.name] = arrow.vectorFromArray(data[field.name], field.type);~'',
     raw ''    }~'',
     raw ''    const table = new arrow.Table(schema, columns as any);~'',
     raw ''    return arrow.tableToIPC(table);~'',
     raw ''  }~~'']"

section \<open>Deserialization\<close>

definition emit_tensor_metadata_assertion :: "text \<Rightarrow> tensor_element_type \<Rightarrow> dimension list \<Rightarrow> text" where
  "emit_tensor_metadata_assertion name dtype dims = concat
    [fmt ''    const {}_field = table.schema.fields.find((candidate) => candidate.name === ^{}^)!;~'' [name, name],
     fmt ''    laicAssertTensorMetadata({}_field, ^{}^, ^{}^, {});~'' [name, name, lit (tensor_as_str dtype), format_ts_dims dims]]"

definition emit_scalar_extraction_ts :: "show_f64 \<Rightarrow> field_def \<Rightarrow> text" where
  "emit_scalar_extraction_ts sf field =
     (let name = field_name field; ty = ts_type (field_ty field); expected_type = ts_arrow_datatype (field_ty field) in
      case field_default field of
        Some l \<Rightarrow> concat
          [fmt ''    const {}_column = batch.getChild(^{}^);~'' [name, name],
           fmt ''    let {}: {};~'' [name, ty],
           fmt ''    if ({}_column === null) {{~'' [name],
           fmt ''      {} = {};~'' [name, literal_to_ts sf l (field_ty field)],
           raw ''    } else {~'',
           fmt ''      const {}_field = table.schema.fields.find((candidate) => candidate.name === ^{}^)!;~'' [name, name],
           fmt ''      laicAssertFieldType({}_field, ^{}^, {});~'' [name, name, expected_type],
           fmt ''      {} = {}_column.get(0) as {};~'' [name, name, ty],
           raw ''    }~'']
      | None \<Rightarrow> concat
          [fmt ''    const {}_column = batch.getChild(^{}^);~'' [name, name],
           fmt ''    if ({}_column === null) {{~'' [name],
           fmt ''      throw new Error(^missing '{}' column^);~'' [name],
           raw ''    }~'',
           fmt ''    const {}_field = table.schema.fields.find((candidate) => candidate.name === ^{}^)!;~'' [name, name],
           fmt ''    laicAssertFieldType({}_field, ^{}^, {});~'' [name, name, expected_type],
           fmt ''    const {} = {}_column.get(0) as {};~'' [name, name, ty]])"

definition emit_field_extraction_ts :: "show_f64 \<Rightarrow> field_def \<Rightarrow> text" where
  "emit_field_extraction_ts sf field =
     (let name = field_name field in
      case field_ty field of
        LTensor dtype dims \<Rightarrow>
          emit_tensor_metadata_assertion name dtype dims
          @ fmt ''    const {} = batch.getChild(^{}^)!.get(0) as Uint8Array;~'' [name, name]
      | LList inner \<Rightarrow>
          (case inner of
             LTensor dtype dims \<Rightarrow>
               emit_tensor_metadata_assertion name dtype dims
               @ fmt ''    const {} = Array.from(batch.getChild(^{}^)!.get(0) as Iterable<Uint8Array>);~'' [name, name]
           | _ \<Rightarrow> fmt ''    const {} = Array.from(batch.getChild(^{}^)!.get(0) as Iterable<{}>);~'' [name, name, ts_type inner])
      | LOptional inner \<Rightarrow>
          (case inner of
             LTensor dtype dims \<Rightarrow> concat
               [emit_tensor_metadata_assertion name dtype dims,
                fmt ''    const {}_column = batch.getChild(^{}^)!;~'' [name, name],
                fmt ''    const {} = {}_column.isValid(0) ? ({}_column.get(0) as Uint8Array) : null;~'' [name, name, name]]
           | _ \<Rightarrow> concat
               [fmt ''    const {}_column = batch.getChild(^{}^)!;~'' [name, name],
                fmt ''    const {} = {}_column.isValid(0) ? ({}_column.get(0) as {}) : null;~'' [name, name, name, ts_type inner]])
      | LMap key val \<Rightarrow> fmt ''    const {} = batch.getChild(^{}^)!.get(0) as Map<{}, {}>;~'' [name, name, ts_type key, ts_type val]
      | _ \<Rightarrow> emit_scalar_extraction_ts sf field)"

definition generate_from_ipc_ts ::
  "show_f64 \<Rightarrow> struct_def \<Rightarrow> text \<Rightarrow> text \<Rightarrow> text \<Rightarrow> text" where
  "generate_from_ipc_ts sf d sid version direction = concat
    [fmt ''  static fromIpc(data: Uint8Array): {} {{~'' [struct_name d],
     raw ''    const table = arrow.tableFromIPC(data);~'',
     raw ''    if (table.numRows === 0) {~'',
     raw ''      throw new Error(^cardinality error: RecordBatch has 0 rows, expected 1^);~'',
     raw ''    }~'',
     raw ''    if (table.numRows > 1) {~'',
     raw ''      throw new Error(`cardinality error: RecordBatch has ${table.numRows} rows, expected 1`);~'',
     raw ''    }~'',
     raw ''    if (table.batches.length > 1) {~'',
     raw ''      throw new Error(^cardinality error: stream contains more than one RecordBatch^);~'',
     raw ''    }~'',
     raw ''    const batch = table.batches[0]!;~'',
     raw ''    const schemaMetadata = laicSchemaMetadata(table.schema);~'',
     fmt ''    laicAssertMetadata(schemaMetadata, ^laic.skill_id^, {});~'' [typescript_string_literal sid],
     fmt ''    laicAssertMetadata(schemaMetadata, ^laic.version^, {});~'' [typescript_string_literal version],
     fmt ''    laicAssertMetadata(schemaMetadata, ^laic.direction^, ^{}^);~~'' [direction],
     concat (map (emit_field_extraction_ts sf) (struct_fields d)),
     fmt ''    return new {}(~'' [struct_name d],
     concat (map (\<lambda>field. fmt ''      {},~'' [field_name field]) (struct_fields d)),
     raw ''    );~'',
     raw ''  }~'']"

section \<open>The module\<close>

definition append_file_helpers :: "text" where
  "append_file_helpers = concat
    [raw ''function laicSchemaMetadata(schema: any): Map<string, string> {~'',
     raw ''  return (schema.metadata ?? new Map()) as Map<string, string>;~'',
     raw ''}~~'',
     raw ''function laicFieldMetadata(field: any): Map<string, string> {~'',
     raw ''  return (field.metadata ?? new Map()) as Map<string, string>;~'',
     raw ''}~~'',
     raw ''function laicAssertMetadata(metadata: Map<string, string>, key: string, expected: string): void {~'',
     raw ''  const actual = metadata.get(key);~'',
     raw ''  if (actual === undefined) {~'',
     raw ''    throw new Error(`missing required metadata key '${key}'`);~'',
     raw ''  }~'',
     raw ''  if (actual !== expected) {~'',
     raw ''    throw new Error(`metadata '${key}' mismatch: expected '${expected}', got '${actual}'`);~'',
     raw ''  }~'',
     raw ''}~~'',
     raw ''function laicAssertFieldType(field: any, fieldName: string, expectedType: any): void {~'',
     raw ''  const actual = field.type.toString();~'',
     raw ''  const expected = expectedType.toString();~'',
     raw ''  if (actual !== expected) {~'',
     raw ''    throw new Error(`field '${fieldName}': expected type ${expected}, got ${actual}`);~'',
     raw ''  }~'',
     raw ''}~~'',
     raw ''function laicParseTensorShape(fieldName: string, metadata: Map<string, string>): number[] {~'',
     raw ''  const raw = metadata.get(^laic.tensor.shape^);~'',
     raw ''  if (raw === undefined) {~'',
     raw ''    throw new Error(`field '${fieldName}': missing tensor shape metadata`);~'',
     raw ''  }~'',
     raw ''  const body = raw.trim().slice(1, -1).trim();~'',
     raw ''  if (body.length === 0) {~'',
     raw ''    return [];~'',
     raw ''  }~'',
     raw ''  return body.split(^,^).map((part) => {~'',
     raw ''    const value = Number.parseInt(part.trim(), 10);~'',
     raw ''    if (Number.isNaN(value)) {~'',
     raw ''      throw new Error(`field '${fieldName}': invalid tensor shape metadata '${raw}'`);~'',
     raw ''    }~'',
     raw ''    return value;~'',
     raw ''  });~'',
     raw ''}~~'',
     raw ''function laicAssertTensorMetadata(field: any, fieldName: string, expectedDtype: string, expectedShape: number[]): void {~'',
     raw ''  const metadata = laicFieldMetadata(field);~'',
     raw ''  laicAssertMetadata(metadata, ^laic.tensor.dtype^, expectedDtype);~'',
     raw ''  const actualShape = laicParseTensorShape(fieldName, metadata);~'',
     raw ''  if (actualShape.length !== expectedShape.length) {~'',
     raw ''    throw new Error(`field '${fieldName}': expected ${expectedShape.length} dimensions, got ${actualShape.length}`);~'',
     raw ''  }~'',
     raw ''  for (let index = 0; index < expectedShape.length; index += 1) {~'',
     raw ''    const expectedDim = expectedShape[index]!;~'',
     raw ''    if (expectedDim !== 0 && actualShape[index] !== expectedDim) {~'',
     raw ''      throw new Error(`field '${fieldName}': dim ${index} expected ${expectedDim}, got ${actualShape[index]}`);~'',
     raw ''    }~'',
     raw ''  }~'',
     raw ''}~~'']"

definition generate_class ::
  "show_f64 \<Rightarrow> skill_def \<Rightarrow> struct_def \<Rightarrow> text \<Rightarrow> text \<Rightarrow> text" where
  "generate_class sf skill d direction version = concat
    [fmt ''export class {} {{~'' [struct_name d],
     fmt ''  static readonly SKILL_ID = {};~'' [typescript_string_literal (skill_id skill)],
     fmt ''  static readonly VERSION = {};~'' [typescript_string_literal version],
     fmt ''  static readonly DIRECTION = ^{}^;~~'' [direction],
     raw ''  constructor(~'',
     concat (map (\<lambda>field. case field_default field of
         Some l \<Rightarrow> fmt ''    public readonly {}: {} = {},~'' [field_name field, ts_type (field_ty field), literal_to_ts sf l (field_ty field)]
       | None \<Rightarrow> fmt ''    public readonly {}: {},~'' [field_name field, ts_type (field_ty field)]) (struct_fields d)),
     raw ''  ) {}~~'',
     generate_to_ipc_ts skill d direction version,
     generate_from_ipc_ts sf d (skill_id skill) version direction,
     raw ''}~'']"

definition generate_error_enum_ts :: "skill_def \<Rightarrow> text" where
  "generate_error_enum_ts skill =
     (let enum_name = fmt ''{}Error'' [to_pascal_case (skill_name skill)] in concat
      [fmt ''export enum {} {{~'' [enum_name],
       concat (map (\<lambda>variant. fmt ''  {} = {},~'' [variant_name variant, decimal (unat (variant_code variant))]) (skill_errors skill)),
       raw ''}~''])"

definition generate_typescript :: "show_f64 \<Rightarrow> laic_file \<Rightarrow> text" where
  "generate_typescript sf file = concat
    [raw ''// Generated by laicc - DO NOT EDIT.~~'',
     raw ''import * as arrow from ^apache-arrow^;~~'',
     append_file_helpers,
     concat (map (\<lambda>skill.
       generate_class sf skill (skill_input skill) (lit ''input'') (file_version file) @ nl
       @ generate_class sf skill (skill_output skill) (lit ''output'') (file_version file) @ nl
       @ (if skill_errors skill \<noteq> [] then generate_error_enum_ts skill @ nl else []))
      (file_skills file))]"

end
