(* ===== verification/Laicc_Inspect.thy ===== *)
theory Laicc_Inspect
  imports Laicc_Rust_Serialize Laicc_Python Laicc_Typescript
begin

text \<open>
  The schema inspection of \<open>crates/laicc/src/main.rs\<close> (\<open>laicc inspect-schema\<close>): a diagnostic text that
  restates what the generators put into the Arrow schema. The theory also compares the four
  independent descriptions of a field's schema: the inspection and the three generators.
\<close>

section \<open>The inspection\<close>

definition is_nullable :: "laic_type \<Rightarrow> bool" where
  "is_nullable ty = is_optional ty"

definition tensor_metadata :: "laic_type \<Rightarrow> (tensor_element_type \<times> dimension list) option" where
  "tensor_metadata ty =
     (case ty of
        LTensor dtype dims \<Rightarrow> Some (dtype, dims)
      | LList (LTensor dtype dims) \<Rightarrow> Some (dtype, dims)
      | LOptional (LTensor dtype dims) \<Rightarrow> Some (dtype, dims)
      | _ \<Rightarrow> None)"

definition is_container_tensor :: "laic_type \<Rightarrow> bool" where
  "is_container_tensor ty =
     (case ty of
        LList (LTensor _ _) \<Rightarrow> True
      | LOptional (LTensor _ _) \<Rightarrow> True
      | _ \<Rightarrow> False)"

definition format_laic_dims :: "dimension list \<Rightarrow> text" where
  "format_laic_dims dims =
     fmt ''[{}]'' [join (lit '','') (map (\<lambda>dim. case dim of
         Fixed sz \<Rightarrow> decimal sz
       | Dynamic (Some name) \<Rightarrow> name
       | Dynamic None \<Rightarrow> lit ''_'') dims)]"

definition format_tensor_shape_metadata :: "dimension list \<Rightarrow> text" where
  "format_tensor_shape_metadata dims =
     fmt ''[{}]'' [join (lit '','') (map (\<lambda>dim. case dim of
         Fixed sz \<Rightarrow> decimal sz
       | Dynamic _ \<Rightarrow> lit ''0'') dims)]"

fun format_laic_type :: "laic_type \<Rightarrow> text" where
  "format_laic_type LString = lit ''string''"
| "format_laic_type LBytes = lit ''bytes''"
| "format_laic_type LBool = lit ''bool''"
| "format_laic_type LI8 = lit ''i8''"
| "format_laic_type LI16 = lit ''i16''"
| "format_laic_type LI32 = lit ''i32''"
| "format_laic_type LI64 = lit ''i64''"
| "format_laic_type LU8 = lit ''u8''"
| "format_laic_type LF32 = lit ''f32''"
| "format_laic_type LF64 = lit ''f64''"
| "format_laic_type (LTensor dtype dims) = fmt ''tensor<{}>{}'' [lit (tensor_as_str dtype), format_laic_dims dims]"
| "format_laic_type (LList inner) = fmt ''list<{}>'' [format_laic_type inner]"
| "format_laic_type (LOptional inner) = fmt ''optional<{}>'' [format_laic_type inner]"
| "format_laic_type (LMap k v) = fmt ''map<{}, {}>'' [format_laic_type k, format_laic_type v]"

fun format_arrow_type :: "laic_type \<Rightarrow> text" where
  "format_arrow_type LString = lit ''DataType::Utf8''"
| "format_arrow_type LBytes = lit ''DataType::Binary''"
| "format_arrow_type (LTensor _ _) = lit ''DataType::Binary''"
| "format_arrow_type LBool = lit ''DataType::Boolean''"
| "format_arrow_type LI8 = lit ''DataType::Int8''"
| "format_arrow_type LI16 = lit ''DataType::Int16''"
| "format_arrow_type LI32 = lit ''DataType::Int32''"
| "format_arrow_type LI64 = lit ''DataType::Int64''"
| "format_arrow_type LU8 = lit ''DataType::UInt8''"
| "format_arrow_type LF32 = lit ''DataType::Float32''"
| "format_arrow_type LF64 = lit ''DataType::Float64''"
| "format_arrow_type (LList inner) = fmt ''DataType::List(item: {})'' [format_arrow_type inner]"
| "format_arrow_type (LOptional inner) = format_arrow_type inner"
| "format_arrow_type (LMap k v) =
     fmt ''DataType::Map(keys: {}, values: {})'' [format_arrow_type k, format_arrow_type v]"

definition inspect_field :: "field_def \<Rightarrow> text" where
  "inspect_field field = concat
    [fmt ''    Field: {}~'' [field_name field],
     fmt ''      LAIC type: {}~'' [format_laic_type (field_ty field)],
     fmt ''      Arrow type: {}~'' [format_arrow_type (field_ty field)],
     fmt ''      Nullable: {}~'' [bool_text (is_nullable (field_ty field))],
     (case tensor_metadata (field_ty field) of
        None \<Rightarrow> []
      | Some (dtype, dims) \<Rightarrow> concat
         [raw ''      Metadata:~'',
          fmt ''        laic.tensor.dtype = {}~'' [lit (tensor_as_str dtype)],
          fmt ''        laic.tensor.shape = {}~'' [format_tensor_shape_metadata dims],
          (if list_ex is_dynamic dims
           then raw ''        Note: 0 marks dynamic dimensions in tensor shape metadata.~'' else []),
          (if is_container_tensor (field_ty field)
           then raw ''        Note: tensor metadata is stored on the outer field.~'' else []),
          raw ''        laic.tensor.version = 1~''])]"

definition inspect_struct :: "struct_def \<Rightarrow> text \<Rightarrow> text" where
  "inspect_struct d direction = concat
    [fmt ''  Message: {}~'' [struct_name d],
     fmt ''    laic.direction = {}~'' [direction],
     concat (map inspect_field (struct_fields d))]"

definition inspect_skill :: "skill_def \<Rightarrow> text \<Rightarrow> text" where
  "inspect_skill skill version = concat
    [fmt ''~Skill: {}~'' [skill_name skill],
     raw ''  Schema metadata:~'',
     fmt ''    laic.skill_id = {}~'' [skill_id skill],
     fmt ''    laic.version = {}~'' [version],
     inspect_struct (skill_input skill) (lit ''input''),
     inspect_struct (skill_output skill) (lit ''output'')]"

definition inspect_schema :: "text \<Rightarrow> laic_file \<Rightarrow> text" where
  "inspect_schema input file = concat
    [raw ''LAIC schema inspection~'',
     raw ''Format: human-readable diagnostic only; exact wording is not stable.~'',
     fmt ''Contract: {}~'' [input],
     fmt ''Version: {}~'' [file_version file],
     concat (map (\<lambda>skill. inspect_skill skill (file_version file)) (file_skills file))]"

section \<open>The schema of a field, four times\<close>

lemma fmt_simps:
  "fmt s args = fill (map of_char s) args"
  by (simp add: fmt_def lit_def)

lemma tensor_metadata_cases:
  assumes "tensor_metadata ty = Some m"
  obtains (plain) dtype dims where "ty = LTensor dtype dims"
    | (items) dtype dims where "ty = LList (LTensor dtype dims)"
    | (nullable) dtype dims where "ty = LOptional (LTensor dtype dims)"
  using assms by (auto simp: tensor_metadata_def split: laic_type.splits)

lemmas entry_simps = tensor_metadata_def is_nullable_def bool_text_def

lemma schema_rust:
  "emit_schema_field f =
     (let args = [field_name f, arrow_datatype (field_ty f), bool_text (is_nullable (field_ty f))] in
      case tensor_metadata (field_ty f) of
        Some (dtype, dims) \<Rightarrow>
          fmt ''                Field::new(^{}^, {}, {})~'' args @ emit_tensor_field_metadata dtype dims
      | None \<Rightarrow> fmt ''                Field::new(^{}^, {}, {}),~'' args)"
proof (cases "tensor_metadata (field_ty f)")
  case None
  then show ?thesis
    by (simp add: emit_schema_field_def entry_simps split: laic_type.splits)
next
  case (Some m)
  then show ?thesis
    by (cases rule: tensor_metadata_cases)
      (simp_all add: emit_schema_field_def entry_simps fmt_simps template_char_def lit_def)
qed

lemma schema_py:
  "emit_schema_field_py f =
     (let args = [field_name f, pyarrow_type (field_ty f), lit (if is_nullable (field_ty f) then ''True'' else ''False'')] in
      case tensor_metadata (field_ty f) of
        Some (dtype, dims) \<Rightarrow>
          fmt ''            pa.field(^{}^, {}, nullable={}, metadata={{~'' args
          @ emit_tensor_metadata_py dtype dims @ raw ''            }),~''
      | None \<Rightarrow> fmt ''            pa.field(^{}^, {}, nullable={}),~'' args)"
proof (cases "tensor_metadata (field_ty f)")
  case None
  then show ?thesis
    by (simp add: emit_schema_field_py_def entry_simps split: laic_type.splits)
next
  case (Some m)
  then show ?thesis
    by (cases rule: tensor_metadata_cases)
      (simp_all add: emit_schema_field_py_def entry_simps fmt_simps template_char_def lit_def)
qed

lemma schema_ts:
  "emit_schema_field_ts f =
     (case tensor_metadata (field_ty f) of
        Some (dtype, dims) \<Rightarrow>
          emit_tensor_schema_field (field_name f) (ts_arrow_datatype (field_ty f)) (is_nullable (field_ty f)) dtype dims
      | None \<Rightarrow>
          fmt ''      new arrow.Field(^{}^, {}, {}),~''
            [field_name f, ts_arrow_datatype (field_ty f), bool_text (is_nullable (field_ty f))])"
proof (cases "tensor_metadata (field_ty f)")
  case None
  then show ?thesis
    by (simp add: emit_schema_field_ts_def entry_simps split: laic_type.splits)
next
  case (Some m)
  then show ?thesis
    by (cases rule: tensor_metadata_cases)
      (simp_all add: emit_schema_field_ts_def entry_simps raw_def fmt_simps template_char_def lit_def)
qed

lemma shape_strings:
  "format_dims_as_shape dims = format_tensor_shape_metadata dims"
  "format_dims_as_shape_py dims = format_tensor_shape_metadata dims"
  "format_ts_dims dims = format_tensor_shape_metadata dims"
  by (simp_all add: format_dims_as_shape_def format_dims_as_shape_py_def format_ts_dims_def
      format_tensor_shape_metadata_def)

section \<open>Properties\<close>

text \<open>
  The schema entry each generator writes for a field is the one the inspection reports: its name,
  the target's Arrow type of the whole field type, nullable exactly for optionals, and tensor metadata
  exactly for tensors, lists of tensors and optional tensors, with one shape string for all targets.
  The special cases of the three generators agree with this uniform rule.
\<close>

theorem schema_entries_agree:
  "emit_schema_field f =
     (let args = [field_name f, arrow_datatype (field_ty f), bool_text (is_nullable (field_ty f))] in
      case tensor_metadata (field_ty f) of
        Some (dtype, dims) \<Rightarrow>
          fmt ''                Field::new(^{}^, {}, {})~'' args @ emit_tensor_field_metadata dtype dims
      | None \<Rightarrow> fmt ''                Field::new(^{}^, {}, {}),~'' args)
   \<and> emit_schema_field_py f =
     (let args = [field_name f, pyarrow_type (field_ty f), lit (if is_nullable (field_ty f) then ''True'' else ''False'')] in
      case tensor_metadata (field_ty f) of
        Some (dtype, dims) \<Rightarrow>
          fmt ''            pa.field(^{}^, {}, nullable={}, metadata={{~'' args
          @ emit_tensor_metadata_py dtype dims @ raw ''            }),~''
      | None \<Rightarrow> fmt ''            pa.field(^{}^, {}, nullable={}),~'' args)
   \<and> emit_schema_field_ts f =
     (case tensor_metadata (field_ty f) of
        Some (dtype, dims) \<Rightarrow>
          emit_tensor_schema_field (field_name f) (ts_arrow_datatype (field_ty f)) (is_nullable (field_ty f)) dtype dims
      | None \<Rightarrow>
          fmt ''      new arrow.Field(^{}^, {}, {}),~''
            [field_name f, ts_arrow_datatype (field_ty f), bool_text (is_nullable (field_ty f))])
   \<and> (case tensor_metadata (field_ty f) of
        None \<Rightarrow> True
      | Some (_, dims) \<Rightarrow>
          format_dims_as_shape dims = format_tensor_shape_metadata dims
          \<and> format_dims_as_shape_py dims = format_tensor_shape_metadata dims
          \<and> format_ts_dims dims = format_tensor_shape_metadata dims)"
  using schema_rust [of f] schema_py [of f] schema_ts [of f]
  by (simp add: shape_strings split: option.split)

end
