(* ===== verification/Laicc_Numbers.thy ===== *)
theory Laicc_Numbers
  imports Laicc_Text
begin

text \<open>
  Reading decimal integers, as \<open>str::parse\<close> of the standard library does it for the integer types the
  compiler reads (\<open>usize\<close> dimensions, \<open>u16\<close> error codes, \<open>i64\<close> literals) and as the generated code does
  it for tensor shapes. The lemmas relate it to \<open>decimal\<close>, the \<open>{}\<close> of a number.
\<close>

section \<open>Reading\<close>

definition is_digit :: "nat \<Rightarrow> bool" where
  "is_digit c \<longleftrightarrow> 48 \<le> c \<and> c \<le> 57"

definition all_digits :: "text \<Rightarrow> bool" where
  "all_digits s \<longleftrightarrow> s \<noteq> [] \<and> list_all is_digit s"

definition digit_value :: "nat \<Rightarrow> nat" where
  "digit_value c = c - 48"

text \<open>The number a digit string denotes.\<close>

definition digits_value :: "text \<Rightarrow> nat" where
  "digits_value s = foldl (\<lambda>acc c. 10 * acc + digit_value c) 0 s"

datatype int_error = EmptyInt | InvalidDigit | PosOverflow | NegOverflow

fun display_int_error :: "int_error \<Rightarrow> text" where
  "display_int_error EmptyInt = lit ''cannot parse integer from empty string''"
| "display_int_error InvalidDigit = lit ''invalid digit found in string''"
| "display_int_error PosOverflow = lit ''number too large to fit in target type''"
| "display_int_error NegOverflow = lit ''number too small to fit in target type''"

text \<open>
  The digit loop: a character that is no digit is reported before the overflow of the product; the
  accumulator is checked after the product and after adding (or, for a negative number, subtracting)
  the digit.
\<close>

fun read_digits :: "bool \<Rightarrow> int \<Rightarrow> int \<Rightarrow> int \<Rightarrow> text \<Rightarrow> int_error + int" where
  "read_digits neg lo hi acc [] = Inr acc"
| "read_digits neg lo hi acc (c # cs) =
     (let overflow = (if neg then NegOverflow else PosOverflow);
          product = 10 * acc;
          sum = (if neg then product - int (digit_value c) else product + int (digit_value c))
      in if \<not> is_digit c then Inl InvalidDigit
         else if product < lo \<or> hi < product then Inl overflow
         else if sum < lo \<or> hi < sum then Inl overflow
         else read_digits neg lo hi sum cs)"

text \<open>\<open>parse_int lo hi\<close> is \<open>s.parse()\<close> for the integer type with range \<open>lo\<close> to \<open>hi\<close>, signed when \<open>lo\<close> is negative.\<close>

definition parse_int :: "int \<Rightarrow> int \<Rightarrow> text \<Rightarrow> int_error + int" where
  "parse_int lo hi s =
     (if s = [] then Inl EmptyInt
      else if s = [43] \<or> s = [45] then Inl InvalidDigit
      else if hd s = 43 then read_digits False lo hi 0 (tl s)
      else if hd s = 45 \<and> lo < 0 then read_digits True lo hi 0 (tl s)
      else read_digits False lo hi 0 s)"

definition parse_usize :: "text \<Rightarrow> int_error + int" where "parse_usize = parse_int 0 (2 ^ 64 - 1)"
definition parse_u16 :: "text \<Rightarrow> int_error + int" where "parse_u16 = parse_int 0 (2 ^ 16 - 1)"
definition parse_i64 :: "text \<Rightarrow> int_error + int" where "parse_i64 = parse_int (- (2 ^ 63)) (2 ^ 63 - 1)"

section \<open>Digit strings\<close>

lemma digits_value_snoc: "digits_value (s @ [c]) = 10 * digits_value s + digit_value c"
  by (simp add: digits_value_def)

lemma foldl_digits_ge: "acc \<le> foldl (\<lambda>acc c. 10 * acc + digit_value c) acc s"
proof (induction s arbitrary: acc)
  case (Cons c s)
  have "acc \<le> 10 * acc + digit_value c" by simp
  also have "\<dots> \<le> foldl (\<lambda>acc c. 10 * acc + digit_value c) (10 * acc + digit_value c) s" by (rule Cons.IH)
  finally show ?case by simp
qed simp

lemma read_digits_pos:
  assumes "list_all is_digit s" and "lo \<le> 0" and "int acc \<le> hi"
  shows "read_digits False lo hi (int acc) s =
    (let v = foldl (\<lambda>acc c. 10 * acc + digit_value c) acc s in if int v \<le> hi then Inr (int v) else Inl PosOverflow)"
  using assms
proof (induction s arbitrary: acc)
  case (Cons c s)
  let ?next = "10 * acc + digit_value c"
  have ge: "?next \<le> foldl (\<lambda>acc c. 10 * acc + digit_value c) ?next s" by (rule foldl_digits_ge)
  show ?case
  proof (cases "int ?next \<le> hi")
    case True
    then have "read_digits False lo hi (int acc) (c # s) = read_digits False lo hi (int ?next) s"
      using Cons.prems by (simp add: Let_def)
    then show ?thesis using Cons.IH [of ?next] Cons.prems True by simp
  next
    case False
    then have "\<not> int (foldl (\<lambda>acc c. 10 * acc + digit_value c) ?next s) \<le> hi"
      using ge by linarith
    with False show ?thesis using Cons.prems by (simp add: Let_def)
  qed
qed (simp add: Let_def)

lemma read_digits_neg:
  assumes "list_all is_digit s" and "0 \<le> hi" and "lo \<le> - int acc"
  shows "read_digits True lo hi (- int acc) s =
    (let v = foldl (\<lambda>acc c. 10 * acc + digit_value c) acc s in if lo \<le> - int v then Inr (- int v) else Inl NegOverflow)"
  using assms
proof (induction s arbitrary: acc)
  case (Cons c s)
  let ?next = "10 * acc + digit_value c"
  have ge: "?next \<le> foldl (\<lambda>acc c. 10 * acc + digit_value c) ?next s" by (rule foldl_digits_ge)
  show ?case
  proof (cases "lo \<le> - int ?next")
    case True
    then have "read_digits True lo hi (- int acc) (c # s) = read_digits True lo hi (- int ?next) s"
      using Cons.prems by (simp add: Let_def)
    then show ?thesis using Cons.IH [of ?next] Cons.prems True by simp
  next
    case False
    then have "\<not> lo \<le> - int (foldl (\<lambda>acc c. 10 * acc + digit_value c) ?next s)"
      using ge by linarith
    with False show ?thesis using Cons.prems by (simp add: Let_def)
  qed
qed (simp add: Let_def)

text \<open>What the integer types read from a digit string, with and without a sign.\<close>

lemma hd_digit: "all_digits s \<Longrightarrow> is_digit (hd s) \<and> hd s \<noteq> 43 \<and> hd s \<noteq> 45"
  by (cases s) (auto simp: all_digits_def is_digit_def)

lemma parse_int_digits:
  assumes "all_digits s" and "lo \<le> 0" and "0 \<le> hi"
  shows "parse_int lo hi s = (if int (digits_value s) \<le> hi then Inr (int (digits_value s)) else Inl PosOverflow)"
  using assms read_digits_pos [of s lo 0 hi] hd_digit [OF assms(1)]
  by (auto simp: parse_int_def all_digits_def digits_value_def Let_def)

lemma parse_int_minus:
  assumes "all_digits s" and "lo < 0" and "0 \<le> hi"
  shows "parse_int lo hi (45 # s) =
    (if lo \<le> - int (digits_value s) then Inr (- int (digits_value s)) else Inl NegOverflow)"
  using assms read_digits_neg [of s hi lo 0]
  by (auto simp: parse_int_def all_digits_def digits_value_def Let_def)

lemma usize_digits:
  "all_digits s \<Longrightarrow> parse_usize s = (if digits_value s < 2 ^ 64 then Inr (int (digits_value s)) else Inl PosOverflow)"
  by (simp add: parse_usize_def parse_int_digits)

lemma u16_digits:
  "all_digits s \<Longrightarrow> parse_u16 s = (if digits_value s < 2 ^ 16 then Inr (int (digits_value s)) else Inl PosOverflow)"
  by (simp add: parse_u16_def parse_int_digits)

section \<open>Decimal output\<close>

lemma decimal_step:
  "decimal n = (if n < 10 then [48 + n] else decimal (n div 10) @ [48 + n mod 10])"
  by (subst decimal_def, subst show_nat.simps) (simp add: decimal_def lit_def)

lemma decimal_digits: "all_digits (decimal n)"
proof (induction n rule: less_induct)
  case (less n)
  show ?case
  proof (cases "n < 10")
    case True
    then show ?thesis by (subst decimal_step) (simp add: all_digits_def is_digit_def)
  next
    case False
    then have "all_digits (decimal (n div 10))" using less by simp
    then show ?thesis using False by (subst decimal_step) (simp add: all_digits_def is_digit_def)
  qed
qed

lemma digits_value_decimal [simp]: "digits_value (decimal n) = n"
proof (induction n rule: less_induct)
  case (less n)
  show ?case
  proof (cases "n < 10")
    case True
    then show ?thesis by (subst decimal_step) (simp add: digits_value_def digit_value_def)
  next
    case False
    then have "digits_value (decimal (n div 10)) = n div 10" using less by simp
    then show ?thesis using False by (subst decimal_step) (simp add: digits_value_snoc digit_value_def)
  qed
qed

lemma decimal_not_Nil [simp]: "decimal n \<noteq> []"
  using decimal_digits [of n] by (simp add: all_digits_def)

lemma decimal_is_digit: "c \<in> set (decimal n) \<Longrightarrow> is_digit c"
  using decimal_digits [of n] by (simp add: all_digits_def list_all_iff)

end
