(* ===== verification/Laicc_Parser.thy ===== *)
theory Laicc_Parser
  imports Laicc_Validate Laicc_Numbers
begin

text \<open>
  \<open>crates/laicc/src/parser.rs\<close>: from the parse tree to the AST, and \<open>lib.rs\<close>: \<open>compile\<close>. The parse tree
  is a rule, the matched text and the inner pairs; the rules are those of \<open>laic.pest\<close>. The parser that
  pest generates from the grammar and the float parser of the standard library are arguments.
\<close>

section \<open>Parse trees\<close>

datatype rule =
    R_file | R_version_decl | R_skill_def | R_id_decl | R_input_def | R_output_def | R_field_def
  | R_default_value | R_laic_type | R_map_type | R_list_type | R_optional_type | R_tensor_type
  | R_tensor_dtype | R_dim_list | R_dimension | R_error_def | R_error_variant | R_ident | R_literal
  | R_string_literal | R_float_literal | R_integer_literal | R_bool_literal | R_integer | R_EOI

datatype pair = Pair (as_rule: rule) (as_str: "text") (into_inner: "pair list")

text \<open>\<open>{:?}\<close> of a rule.\<close>

fun debug_rule :: "rule \<Rightarrow> text" where
  "debug_rule R_file = lit ''file''"
| "debug_rule R_version_decl = lit ''version_decl''"
| "debug_rule R_skill_def = lit ''skill_def''"
| "debug_rule R_id_decl = lit ''id_decl''"
| "debug_rule R_input_def = lit ''input_def''"
| "debug_rule R_output_def = lit ''output_def''"
| "debug_rule R_field_def = lit ''field_def''"
| "debug_rule R_default_value = lit ''default_value''"
| "debug_rule R_laic_type = lit ''laic_type''"
| "debug_rule R_map_type = lit ''map_type''"
| "debug_rule R_list_type = lit ''list_type''"
| "debug_rule R_optional_type = lit ''optional_type''"
| "debug_rule R_tensor_type = lit ''tensor_type''"
| "debug_rule R_tensor_dtype = lit ''tensor_dtype''"
| "debug_rule R_dim_list = lit ''dim_list''"
| "debug_rule R_dimension = lit ''dimension''"
| "debug_rule R_error_def = lit ''error_def''"
| "debug_rule R_error_variant = lit ''error_variant''"
| "debug_rule R_ident = lit ''ident''"
| "debug_rule R_literal = lit ''literal''"
| "debug_rule R_string_literal = lit ''string_literal''"
| "debug_rule R_float_literal = lit ''float_literal''"
| "debug_rule R_integer_literal = lit ''integer_literal''"
| "debug_rule R_bool_literal = lit ''bool_literal''"
| "debug_rule R_integer = lit ''integer''"
| "debug_rule R_EOI = lit ''EOI''"

section \<open>Helpers\<close>

definition parse_error :: "text \<Rightarrow> compile_error + 'a" where
  "parse_error msg = Inl (ParseError msg)"

definition require_next :: "pair list \<Rightarrow> string \<Rightarrow> compile_error + pair \<times> pair list" where
  "require_next iter ctxt = (case iter of [] \<Rightarrow> parse_error (fmt ''expected {}'' [lit ctxt]) | p # ps \<Rightarrow> Inr (p, ps))"

definition trim_both :: "(nat \<Rightarrow> bool) \<Rightarrow> text \<Rightarrow> text" where
  "trim_both drop_it s = rev (dropWhile drop_it (rev (dropWhile drop_it s)))"

lemma dropWhile_hd: "s \<noteq> [] \<Longrightarrow> \<not> d (hd s) \<Longrightarrow> dropWhile d s = s"
  by (cases s) auto

lemma trim_both_id: "s \<noteq> [] \<Longrightarrow> \<not> d (hd s) \<Longrightarrow> \<not> d (last s) \<Longrightarrow> trim_both d s = s"
  by (simp add: trim_both_def dropWhile_hd hd_rev)

definition strip_quotes :: "text \<Rightarrow> text" where
  "strip_quotes s = trim_both (\<lambda>c. c = 34) s"

text \<open>\<open>str::trim\<close>: the code points with the property \<open>White_Space\<close>.\<close>

definition is_whitespace :: "nat \<Rightarrow> bool" where
  "is_whitespace c \<longleftrightarrow> (9 \<le> c \<and> c \<le> 13) \<or> c = 32 \<or> c = 0x85 \<or> c = 0xA0 \<or> c = 0x1680 \<or> (0x2000 \<le> c \<and> c \<le> 0x200A)
     \<or> c = 0x2028 \<or> c = 0x2029 \<or> c = 0x202F \<or> c = 0x205F \<or> c = 0x3000"

definition trim :: "text \<Rightarrow> text" where
  "trim s = trim_both is_whitespace s"

fun replace_crlf :: "text \<Rightarrow> text" where
  "replace_crlf (c # d # cs) = (if c = 13 \<and> d = 10 then 10 # replace_crlf cs else c # replace_crlf (d # cs))"
| "replace_crlf cs = cs"

definition normalize_string_literal_newlines :: "text \<Rightarrow> text" where
  "normalize_string_literal_newlines s = map (\<lambda>c. if c = 13 then 10 else c) (replace_crlf s)"

section \<open>Types\<close>

text \<open>A match of a text against string literals.\<close>

definition keyword :: "(string \<times> 'a) list \<Rightarrow> text \<Rightarrow> 'a option" where
  "keyword table s = map_of (map (\<lambda>(k, v). (lit k, v)) table) s"

definition scalar_keywords :: "(string \<times> laic_type) list" where
  "scalar_keywords =
     [(''string'', LString), (''bytes'', LBytes), (''bool'', LBool), (''i8'', LI8), (''i16'', LI16),
      (''i32'', LI32), (''i64'', LI64), (''u8'', LU8), (''f32'', LF32), (''f64'', LF64)]"

definition dtype_keywords :: "(string \<times> tensor_element_type) list" where
  "dtype_keywords =
     [(''f32'', TF32), (''f64'', TF64), (''i8'', TI8), (''i16'', TI16), (''i32'', TI32), (''i64'', TI64),
      (''u8'', TU8), (''bool'', TBool)]"

definition parse_tensor_dtype :: "pair \<Rightarrow> compile_error + tensor_element_type" where
  "parse_tensor_dtype p =
     (let s = trim (as_str p) in
      case keyword dtype_keywords s of
        Some t \<Rightarrow> Inr t
      | None \<Rightarrow> parse_error (lit ''unknown tensor dtype: '' @ quoted_text s))"

definition parse_dimension :: "pair \<Rightarrow> compile_error + dimension" where
  "parse_dimension p =
     (let s = trim (as_str p) in
      if s = lit ''_'' then Inr (Dynamic None)
      else case into_inner p of
        child # _ \<Rightarrow>
          (case as_rule child of
             R_integer \<Rightarrow>
               (case parse_usize (as_str child) of
                  Inl e \<Rightarrow> parse_error (fmt ''invalid dimension integer: {}'' [display_int_error e])
                | Inr n \<Rightarrow> Inr (Fixed (nat n)))
           | R_ident \<Rightarrow> Inr (Dynamic (Some (as_str child)))
           | r \<Rightarrow> parse_error (fmt ''unexpected dimension rule: {}'' [debug_rule r]))
      | [] \<Rightarrow> parse_error (lit ''could not parse dimension: '' @ quoted_text s))"

text \<open>A loop that parses the inner pairs of one rule and skips the others.\<close>

primrec parse_each :: "rule \<Rightarrow> (pair \<Rightarrow> compile_error + 'a) \<Rightarrow> pair list \<Rightarrow> compile_error + 'a list" where
  "parse_each r f [] = Inr []"
| "parse_each r f (p # ps) =
     (if as_rule p = r then try_bind (f p) (\<lambda>x. try_bind (parse_each r f ps) (\<lambda>xs. Inr (x # xs)))
      else parse_each r f ps)"

definition parse_dim_list :: "pair \<Rightarrow> compile_error + dimension list" where
  "parse_dim_list p = parse_each R_dimension parse_dimension (into_inner p)"

definition parse_tensor_type :: "pair \<Rightarrow> compile_error + laic_type" where
  "parse_tensor_type p =
     try_bind (require_next (into_inner p) ''tensor dtype'') (\<lambda>(dtype_pair, inner).
     try_bind (parse_tensor_dtype dtype_pair) (\<lambda>dtype.
     try_bind (require_next inner ''tensor dimensions'') (\<lambda>(dim_list, inner).
     try_bind (parse_dim_list dim_list) (\<lambda>dims.
     Inr (LTensor dtype dims)))))"

lemma try_bind_cong [fundef_cong]:
  "r = r' \<Longrightarrow> (\<And>x. r' = Inr x \<Longrightarrow> k x = k' x) \<Longrightarrow> try_bind r k = try_bind r' k'"
  by (cases r') simp_all

lemma require_next_Inr: "require_next ps ctxt = Inr (p, rest) \<longleftrightarrow> ps = p # rest"
  by (auto simp: require_next_def parse_error_def split: list.splits)

lemma size_inner:
  "into_inner p = q # qs \<Longrightarrow> size q < size p"
  "into_inner p = q # q' # qs \<Longrightarrow> size q' < size p"
  by (cases p; simp)+

function
  parse_laic_type :: "pair \<Rightarrow> compile_error + laic_type" and
  parse_map_type :: "pair \<Rightarrow> compile_error + laic_type" and
  parse_list_type :: "pair \<Rightarrow> compile_error + laic_type" and
  parse_optional_type :: "pair \<Rightarrow> compile_error + laic_type" where
  "parse_laic_type p =
     (let s = trim (as_str p) in
      case into_inner p of
        child # _ \<Rightarrow>
          (case as_rule child of
             R_map_type \<Rightarrow> parse_map_type child
           | R_list_type \<Rightarrow> parse_list_type child
           | R_optional_type \<Rightarrow> parse_optional_type child
           | R_tensor_type \<Rightarrow> parse_tensor_type child
           | r \<Rightarrow> parse_error (fmt ''unexpected type rule: {}'' [debug_rule r]))
      | [] \<Rightarrow>
          (case keyword scalar_keywords s of
             Some t \<Rightarrow> Inr t
           | None \<Rightarrow> parse_error (lit ''unknown type: '' @ quoted_text s)))"
| "parse_map_type p =
     try_bind (require_next (into_inner p) ''map key type'') (\<lambda>(key_pair, inner).
     try_bind (parse_laic_type key_pair) (\<lambda>key.
     try_bind (require_next inner ''map value type'') (\<lambda>(value_pair, inner).
     try_bind (parse_laic_type value_pair) (\<lambda>val.
     Inr (LMap key val)))))"
| "parse_list_type p =
     try_bind (require_next (into_inner p) ''list element type'') (\<lambda>(elem_pair, inner).
     try_bind (parse_laic_type elem_pair) (\<lambda>elem.
     Inr (LList elem)))"
| "parse_optional_type p =
     try_bind (require_next (into_inner p) ''optional inner type'') (\<lambda>(elem_pair, inner).
     try_bind (parse_laic_type elem_pair) (\<lambda>elem.
     Inr (LOptional elem)))"
  by pat_completeness auto

termination
  by (relation "measure (\<lambda>x. case x of
      Inl (Inl p) \<Rightarrow> size p | Inl (Inr p) \<Rightarrow> size p | Inr (Inl p) \<Rightarrow> size p | Inr (Inr p) \<Rightarrow> size p)")
    (auto simp: require_next_Inr dest: size_inner)

declare parse_laic_type.simps [simp del] parse_map_type.simps [simp del]
  parse_list_type.simps [simp del] parse_optional_type.simps [simp del]

section \<open>Literals, fields, structs\<close>

text \<open>\<open>str::parse::<f64>\<close>: the displayed error, or the bits of the number.\<close>

type_synonym parse_f64 = "text \<Rightarrow> text + u64"

definition parse_literal :: "parse_f64 \<Rightarrow> pair \<Rightarrow> compile_error + literal" where
  "parse_literal pf p =
     try_bind (require_next (into_inner p) ''literal value'') (\<lambda>(child, _).
     case as_rule child of
       R_string_literal \<Rightarrow>
         Inr (StringLit (normalize_string_literal_newlines (strip_quotes (as_str child))))
     | R_float_literal \<Rightarrow>
         (case pf (as_str child) of
            Inl e \<Rightarrow> parse_error (fmt ''invalid float literal: {}'' [e])
          | Inr v \<Rightarrow> Inr (FloatLit v))
     | R_integer_literal \<Rightarrow>
         (case parse_i64 (as_str child) of
            Inl e \<Rightarrow> parse_error (fmt ''invalid integer literal: {}'' [display_int_error e])
          | Inr v \<Rightarrow> Inr (IntegerLit v))
     | R_bool_literal \<Rightarrow>
         (if as_str child = lit ''true'' then Inr (BoolLit True)
          else if as_str child = lit ''false'' then Inr (BoolLit False)
          else parse_error (lit ''invalid bool literal: '' @ quoted_text (as_str child)))
     | r \<Rightarrow> parse_error (fmt ''unexpected literal rule: {}'' [debug_rule r]))"

definition parse_field_def :: "parse_f64 \<Rightarrow> pair \<Rightarrow> compile_error + field_def" where
  "parse_field_def pf p =
     try_bind (require_next (into_inner p) ''field name'') (\<lambda>(name_pair, inner).
     try_bind (require_next inner ''field type'') (\<lambda>(type_pair, inner).
     try_bind (parse_laic_type type_pair) (\<lambda>ty.
     try_bind
       (case inner of
          q # _ \<Rightarrow>
            if as_rule q = R_default_value
            then try_bind (require_next (into_inner q) ''default literal'') (\<lambda>(lit_pair, _).
                 try_bind (parse_literal pf lit_pair) (\<lambda>l. Inr (Some l)))
            else Inr None
        | [] \<Rightarrow> Inr None) (\<lambda>dflt.
     Inr \<lparr>field_name = as_str name_pair, field_ty = ty, field_default = dflt\<rparr>))))"

definition parse_struct_def :: "parse_f64 \<Rightarrow> pair \<Rightarrow> compile_error + struct_def" where
  "parse_struct_def pf p =
     try_bind (require_next (into_inner p) ''struct name'') (\<lambda>(name_pair, inner).
     try_bind (parse_each R_field_def (parse_field_def pf) inner) (\<lambda>fields.
     Inr \<lparr>struct_name = as_str name_pair, struct_fields = fields\<rparr>))"

section \<open>Error variants, skills, files\<close>

definition parse_error_variant :: "pair \<Rightarrow> compile_error + error_variant" where
  "parse_error_variant p =
     try_bind (require_next (into_inner p) ''error variant name'') (\<lambda>(name_pair, inner).
     try_bind (require_next inner ''error variant code'') (\<lambda>(code_pair, _).
     case parse_u16 (as_str code_pair) of
       Inl e \<Rightarrow> parse_error (lit ''invalid error code '' @ quoted_text (as_str code_pair)
                  @ fmt '': {}'' [display_int_error e])
     | Inr code \<Rightarrow> Inr \<lparr>variant_name = as_str name_pair, variant_code = word_of_int code\<rparr>))"

definition parse_error_def :: "pair \<Rightarrow> compile_error + error_variant list" where
  "parse_error_def p = parse_each R_error_variant parse_error_variant (into_inner p)"

definition parse_id_decl :: "pair \<Rightarrow> compile_error + text" where
  "parse_id_decl p =
     try_bind (require_next (into_inner p) ''id string literal'') (\<lambda>(inner, _). Inr (strip_quotes (as_str inner)))"

definition parse_version_decl :: "pair \<Rightarrow> compile_error + text" where
  "parse_version_decl p =
     try_bind (require_next (into_inner p) ''version string literal'') (\<lambda>(inner, _). Inr (strip_quotes (as_str inner)))"

definition parse_skill_def :: "parse_f64 \<Rightarrow> pair \<Rightarrow> compile_error + skill_def" where
  "parse_skill_def pf p =
     try_bind (require_next (into_inner p) ''skill name'') (\<lambda>(name_pair, inner).
     try_bind (require_next inner ''id declaration'') (\<lambda>(id_pair, inner).
     try_bind (parse_id_decl id_pair) (\<lambda>sid.
     try_bind (require_next inner ''input definition'') (\<lambda>(input_pair, inner).
     try_bind (parse_struct_def pf input_pair) (\<lambda>input.
     try_bind (require_next inner ''output definition'') (\<lambda>(output_pair, inner).
     try_bind (parse_struct_def pf output_pair) (\<lambda>output.
     try_bind
       (case inner of
          q # _ \<Rightarrow> if as_rule q = R_error_def then parse_error_def q else Inr []
        | [] \<Rightarrow> Inr []) (\<lambda>errors.
     Inr \<lparr>skill_name = as_str name_pair, skill_id = sid, skill_input = input, skill_output = output,
       skill_errors = errors\<rparr>))))))))"

primrec parse_items :: "parse_f64 \<Rightarrow> pair list \<Rightarrow> text \<Rightarrow> skill_def list \<Rightarrow> compile_error + laic_file" where
  "parse_items pf [] version skills = Inr \<lparr>file_version = version, file_skills = skills\<rparr>"
| "parse_items pf (p # ps) version skills =
     (if as_rule p = R_version_decl
      then try_bind (parse_version_decl p) (\<lambda>v. parse_items pf ps v skills)
      else if as_rule p = R_skill_def
      then try_bind (parse_skill_def pf p) (\<lambda>s. parse_items pf ps version (skills @ [s]))
      else parse_items pf ps version skills)"

definition parse_file :: "parse_f64 \<Rightarrow> pair \<Rightarrow> compile_error + laic_file" where
  "parse_file pf p = parse_items pf (into_inner p) [] []"

text \<open>\<open>LaicParser::parse(Rule::file, source)\<close>: the displayed error, or the pairs.\<close>

type_synonym pest_parse = "text \<Rightarrow> text + pair list"

definition parse :: "pest_parse \<Rightarrow> parse_f64 \<Rightarrow> text \<Rightarrow> compile_error + laic_file" where
  "parse pest pf source =
     (case pest source of
        Inl e \<Rightarrow> parse_error e
      | Inr [] \<Rightarrow> parse_error (lit ''empty parse result'')
      | Inr (file_pair # _) \<Rightarrow> parse_file pf file_pair)"

definition compile :: "pest_parse \<Rightarrow> parse_f64 \<Rightarrow> text \<Rightarrow> compile_error + laic_file" where
  "compile pest pf source =
     try_bind (parse pest pf source) (\<lambda>file. try_bind (validate file) (\<lambda>_. Inr file))"

end
