(* ===== verification/Laicc_Grammar.thy ===== *)
theory Laicc_Grammar
  imports Laicc_Parser Laicc_Inspect
begin

text \<open>
  The grammar \<open>crates/laicc/src/laic.pest\<close> as a predicate on parse trees (\<open>conforms\<close>): which inner pairs
  a rule has, and what the text of an atomic rule looks like. This is what the parser generated by
  pest promises about the trees it returns. Against it the AST construction is verified: it fails only
  on numbers out of range, and the ASTs it builds are exactly the well-formed ones.
\<close>

section \<open>The grammar\<close>

definition is_alpha :: "nat \<Rightarrow> bool" where
  "is_alpha c \<longleftrightarrow> (65 \<le> c \<and> c \<le> 90) \<or> (97 \<le> c \<and> c \<le> 122)"

definition is_ident :: "text \<Rightarrow> bool" where
  "is_ident s \<longleftrightarrow> s \<noteq> [] \<and> is_alpha (hd s) \<and> list_all (\<lambda>c. is_alpha c \<or> is_digit c \<or> c = 95) (tl s)"

definition unsigned_part :: "text \<Rightarrow> text" where
  "unsigned_part s = (if s \<noteq> [] \<and> hd s = 45 then tl s else s)"

definition is_integer_text :: "text \<Rightarrow> bool" where
  "is_integer_text s \<longleftrightarrow> all_digits (unsigned_part s)"

definition is_float_text :: "text \<Rightarrow> bool" where
  "is_float_text s \<longleftrightarrow>
     (let t = unsigned_part s in
      all_digits (takeWhile is_digit t)
      \<and> (case dropWhile is_digit t of c # frac \<Rightarrow> c = 46 \<and> all_digits frac | [] \<Rightarrow> False))"

definition is_string_text :: "text \<Rightarrow> bool" where
  "is_string_text s \<longleftrightarrow> (length s \<ge> 2 \<and> hd s = 34 \<and> last s = 34 \<and> 34 \<notin> set (butlast (tl s)))"

definition is_keyword :: "(string \<times> 'a) list \<Rightarrow> text \<Rightarrow> bool" where
  "is_keyword table s \<longleftrightarrow> s \<in> set (map (\<lambda>(k, _). lit k) table)"

definition all_rule :: "rule \<Rightarrow> pair list \<Rightarrow> bool" where
  "all_rule r ps \<longleftrightarrow> list_all (\<lambda>p. as_rule p = r) ps"

fun well_shaped :: "rule \<Rightarrow> text \<Rightarrow> pair list \<Rightarrow> bool" where
  "well_shaped R_file s ps =
     (length ps \<ge> 3 \<and> as_rule (hd ps) = R_version_decl \<and> as_rule (last ps) = R_EOI
      \<and> all_rule R_skill_def (butlast (tl ps)))"
| "well_shaped R_version_decl s ps = (map as_rule ps = [R_string_literal])"
| "well_shaped R_skill_def s ps =
     (map as_rule ps = [R_ident, R_id_decl, R_input_def, R_output_def]
      \<or> map as_rule ps = [R_ident, R_id_decl, R_input_def, R_output_def, R_error_def])"
| "well_shaped R_id_decl s ps = (map as_rule ps = [R_string_literal])"
| "well_shaped R_input_def s ps = (ps \<noteq> [] \<and> as_rule (hd ps) = R_ident \<and> all_rule R_field_def (tl ps))"
| "well_shaped R_output_def s ps = (ps \<noteq> [] \<and> as_rule (hd ps) = R_ident \<and> all_rule R_field_def (tl ps))"
| "well_shaped R_field_def s ps =
     (map as_rule ps = [R_ident, R_laic_type] \<or> map as_rule ps = [R_ident, R_laic_type, R_default_value])"
| "well_shaped R_default_value s ps = (map as_rule ps = [R_literal])"
| "well_shaped R_laic_type s ps =
     ((ps = [] \<and> is_keyword scalar_keywords s)
      \<or> map as_rule ps \<in> {[R_map_type], [R_list_type], [R_optional_type], [R_tensor_type]})"
| "well_shaped R_map_type s ps = (map as_rule ps = [R_laic_type, R_laic_type])"
| "well_shaped R_list_type s ps = (map as_rule ps = [R_laic_type])"
| "well_shaped R_optional_type s ps = (map as_rule ps = [R_laic_type])"
| "well_shaped R_tensor_type s ps = (map as_rule ps = [R_tensor_dtype, R_dim_list])"
| "well_shaped R_tensor_dtype s ps = (ps = [] \<and> is_keyword dtype_keywords s)"
| "well_shaped R_dim_list s ps = (ps \<noteq> [] \<and> all_rule R_dimension ps)"
| "well_shaped R_dimension s ps =
     ((ps = [] \<and> s = lit ''_'')
      \<or> (map as_rule ps \<in> {[R_integer], [R_ident]} \<and> s = as_str (hd ps)))"
| "well_shaped R_error_def s ps = (ps \<noteq> [] \<and> all_rule R_error_variant ps)"
| "well_shaped R_error_variant s ps = (map as_rule ps = [R_ident, R_integer])"
| "well_shaped R_ident s ps = (ps = [] \<and> is_ident s)"
| "well_shaped R_literal s ps =
     (map as_rule ps \<in> {[R_string_literal], [R_float_literal], [R_integer_literal], [R_bool_literal]})"
| "well_shaped R_string_literal s ps = (ps = [] \<and> is_string_text s)"
| "well_shaped R_float_literal s ps = (ps = [] \<and> is_float_text s)"
| "well_shaped R_integer_literal s ps = (ps = [] \<and> is_integer_text s)"
| "well_shaped R_bool_literal s ps = (ps = [] \<and> (s = lit ''true'' \<or> s = lit ''false''))"
| "well_shaped R_integer s ps = (ps = [] \<and> all_digits s)"
| "well_shaped R_EOI s ps = (ps = [] \<and> s = [])"

fun conforms :: "pair \<Rightarrow> bool" where
  "conforms (Pair r s ps) \<longleftrightarrow> (\<forall>p \<in> set ps. conforms p) \<and> well_shaped r s ps"

section \<open>Numbers in range\<close>

definition integer_value :: "text \<Rightarrow> int" where
  "integer_value s = (if s \<noteq> [] \<and> hd s = 45 then - int (digits_value (tl s)) else int (digits_value s))"

definition number_fits :: "parse_f64 \<Rightarrow> pair \<Rightarrow> bool" where
  "number_fits pf p \<longleftrightarrow>
     (case as_rule p of
        R_dimension \<Rightarrow> (\<forall>q \<in> set (into_inner p). as_rule q = R_integer \<longrightarrow> digits_value (as_str q) < 2 ^ 64)
      | R_error_variant \<Rightarrow> (\<forall>q \<in> set (into_inner p). as_rule q = R_integer \<longrightarrow> digits_value (as_str q) < 2 ^ 16)
      | R_integer_literal \<Rightarrow> - (2 ^ 63) \<le> integer_value (as_str p) \<and> integer_value (as_str p) < 2 ^ 63
      | R_float_literal \<Rightarrow> is_ok (pf (as_str p))
      | _ \<Rightarrow> True)"

fun numbers_fit :: "parse_f64 \<Rightarrow> pair \<Rightarrow> bool" where
  "numbers_fit pf (Pair r s ps) \<longleftrightarrow> (\<forall>p \<in> set ps. numbers_fit pf p) \<and> number_fits pf (Pair r s ps)"

section \<open>Well-formed ASTs\<close>

fun wf_dimension :: "dimension \<Rightarrow> bool" where
  "wf_dimension (Fixed n) \<longleftrightarrow> n < 2 ^ 64"
| "wf_dimension (Dynamic None) \<longleftrightarrow> True"
| "wf_dimension (Dynamic (Some s)) \<longleftrightarrow> is_ident s"

fun wf_type :: "laic_type \<Rightarrow> bool" where
  "wf_type (LTensor _ dims) \<longleftrightarrow> dims \<noteq> [] \<and> list_all wf_dimension dims"
| "wf_type (LList t) \<longleftrightarrow> wf_type t"
| "wf_type (LOptional t) \<longleftrightarrow> wf_type t"
| "wf_type (LMap k v) \<longleftrightarrow> wf_type k \<and> wf_type v"
| "wf_type _ \<longleftrightarrow> True"

fun wf_literal :: "parse_f64 \<Rightarrow> literal \<Rightarrow> bool" where
  "wf_literal pf (StringLit s) \<longleftrightarrow> 34 \<notin> set s \<and> 13 \<notin> set s"
| "wf_literal pf (IntegerLit i) \<longleftrightarrow> - (2 ^ 63) \<le> i \<and> i < 2 ^ 63"
| "wf_literal pf (FloatLit v) \<longleftrightarrow> (\<exists>s. is_float_text s \<and> pf s = Inr v)"
| "wf_literal pf (BoolLit b) \<longleftrightarrow> True"

definition wf_field :: "parse_f64 \<Rightarrow> field_def \<Rightarrow> bool" where
  "wf_field pf f \<longleftrightarrow> is_ident (field_name f) \<and> wf_type (field_ty f) \<and> pred_option (wf_literal pf) (field_default f)"

definition wf_struct :: "parse_f64 \<Rightarrow> struct_def \<Rightarrow> bool" where
  "wf_struct pf d \<longleftrightarrow> is_ident (struct_name d) \<and> list_all (wf_field pf) (struct_fields d)"

definition wf_variant :: "error_variant \<Rightarrow> bool" where
  "wf_variant v \<longleftrightarrow> is_ident (variant_name v)"

definition wf_skill :: "parse_f64 \<Rightarrow> skill_def \<Rightarrow> bool" where
  "wf_skill pf s \<longleftrightarrow> is_ident (skill_name s) \<and> 34 \<notin> set (skill_id s) \<and> wf_struct pf (skill_input s)
     \<and> wf_struct pf (skill_output s) \<and> list_all wf_variant (skill_errors s)"

definition wf_file :: "parse_f64 \<Rightarrow> laic_file \<Rightarrow> bool" where
  "wf_file pf file \<longleftrightarrow> 34 \<notin> set (file_version file) \<and> file_skills file \<noteq> [] \<and> list_all (wf_skill pf) (file_skills file)"

section \<open>Verdicts of the parser functions\<close>

text \<open>
  \<open>verdict b P r\<close>: the result \<open>r\<close> is a value exactly if \<open>b\<close>, the value satisfies \<open>P\<close>, and an error is a
  parse error. Verdicts compose along the question-mark operator.
\<close>

definition verdict :: "bool \<Rightarrow> ('v \<Rightarrow> bool) \<Rightarrow> compile_error + 'v \<Rightarrow> bool" where
  "verdict b P r = (case r of Inl e \<Rightarrow> \<not> b \<and> (\<exists>m. e = ParseError m) | Inr v \<Rightarrow> b \<and> P v)"

lemma verdict_Inr [simp]: "verdict b P (Inr v) \<longleftrightarrow> b \<and> P v"
  by (simp add: verdict_def)

lemma verdict_Inl [simp]: "verdict b P (Inl e) \<longleftrightarrow> \<not> b \<and> (\<exists>m. e = ParseError m)"
  by (simp add: verdict_def)

lemma verdict_error [simp]: "verdict b P (parse_error msg) \<longleftrightarrow> \<not> b"
  by (simp add: parse_error_def)

lemma verdict_bind:
  assumes "verdict b P r" and "\<And>v. P v \<Longrightarrow> verdict c Q (k v)"
  shows "verdict (b \<and> c) Q (try_bind r k)"
  using assms by (cases r) (auto simp: verdict_def split: sum.splits)

lemma verdict_is_ok: "verdict b P r \<Longrightarrow> is_ok r \<longleftrightarrow> b"
  by (auto simp: verdict_def split: sum.splits)

lemma verdict_value: "verdict b P r \<Longrightarrow> r = Inr v \<Longrightarrow> P v"
  by (simp add: verdict_def)

lemma require_next_Cons [simp]: "require_next (p # ps) ctxt = Inr (p, ps)"
  by (simp add: require_next_def)

lemma verdict_each:
  assumes "all_rule r ps" and "\<And>p. p \<in> set ps \<Longrightarrow> verdict (fit p) P (f p)"
  shows "verdict (\<forall>p \<in> set ps. fit p) (\<lambda>xs. list_all P xs \<and> length xs = length ps) (parse_each r f ps)"
  using assms
proof (induction ps)
  case (Cons p ps)
  have "verdict (fit p \<and> (\<forall>p \<in> set ps. fit p)) (\<lambda>xs. list_all P xs \<and> length xs = Suc (length ps))
      (try_bind (f p) (\<lambda>x. try_bind (parse_each r f ps) (\<lambda>xs. Inr (x # xs))))"
  proof (rule verdict_bind)
    show "verdict (fit p) P (f p)" using Cons.prems by simp
    fix x assume x: "P x"
    have "verdict ((\<forall>p \<in> set ps. fit p) \<and> True) (\<lambda>xs. list_all P xs \<and> length xs = Suc (length ps))
        (try_bind (parse_each r f ps) (\<lambda>xs. Inr (x # xs)))"
      by (rule verdict_bind [where P = "\<lambda>xs. list_all P xs \<and> length xs = length ps"])
        (use Cons x in \<open>auto simp: all_rule_def\<close>)
    then show "verdict (\<forall>p \<in> set ps. fit p) (\<lambda>xs. list_all P xs \<and> length xs = Suc (length ps))
        (try_bind (parse_each r f ps) (\<lambda>xs. Inr (x # xs)))" by simp
  qed
  then show ?case using Cons.prems(1) by (simp add: all_rule_def)
qed simp

section \<open>Atomic rules\<close>

lemma map_rules_1: "map as_rule ps = [r] \<longleftrightarrow> (\<exists>p. ps = [p] \<and> as_rule p = r)"
  by (auto simp: map_eq_Cons_conv)

lemma map_rules_2: "map as_rule ps = [r, r'] \<longleftrightarrow> (\<exists>p q. ps = [p, q] \<and> as_rule p = r \<and> as_rule q = r')"
  by (auto simp: map_eq_Cons_conv)

lemmas map_rules = map_rules_1 map_rules_2 map_eq_Cons_conv

lemma conforms_inner: "conforms p \<Longrightarrow> q \<in> set (into_inner p) \<Longrightarrow> conforms q"
  by (cases p) simp

lemma inner_size: "q \<in> set (into_inner p) \<Longrightarrow> size q < size p"
  by (cases p) (auto simp: less_Suc_eq_le intro: size_list_estimation')

lemma conforms_shape: "conforms p \<Longrightarrow> well_shaped (as_rule p) (as_str p) (into_inner p)"
  by (cases p) simp

lemma numbers_fit_inner: "numbers_fit pf p \<longleftrightarrow> (\<forall>q \<in> set (into_inner p). numbers_fit pf q) \<and> number_fits pf p"
  by (cases p) simp

definition printable :: "text \<Rightarrow> bool" where
  "printable s \<longleftrightarrow> s \<noteq> [] \<and> (\<forall>c \<in> set s. 33 \<le> c \<and> c \<le> 126)"

lemma trim_printable:
  assumes "printable s"
  shows "trim s = s"
proof -
  have "33 \<le> hd s" "hd s \<le> 126" "33 \<le> last s" "last s \<le> 126" and ne: "s \<noteq> []"
    using assms hd_in_set [of s] last_in_set [of s] by (auto simp: printable_def)
  then have "\<not> is_whitespace (hd s)" "\<not> is_whitespace (last s)"
    by (auto simp: is_whitespace_def)
  with ne show ?thesis unfolding trim_def by (rule trim_both_id)
qed

lemma ident_printable: "is_ident s \<Longrightarrow> printable s"
  by (cases s) (force simp: is_ident_def printable_def list_all_iff is_alpha_def is_digit_def)+

lemma digits_printable: "all_digits s \<Longrightarrow> printable s"
  by (force simp: all_digits_def printable_def list_all_iff is_digit_def)

lemma keyword_printable:
  "is_keyword scalar_keywords s \<Longrightarrow> printable s" "is_keyword dtype_keywords s \<Longrightarrow> printable s"
  by (auto simp: is_keyword_def scalar_keywords_def dtype_keywords_def printable_def lit_def)

lemma keyword_found: "is_keyword table s \<longleftrightarrow> (\<exists>t. keyword table s = Some t)"
  by (induction table) (auto simp: is_keyword_def keyword_def)

lemma string_text_iff: "is_string_text s \<longleftrightarrow> (\<exists>t. s = 34 # t @ [34] \<and> 34 \<notin> set t)"
proof
  assume s: "is_string_text s"
  then obtain c t where ct: "s = c # t" and t: "t \<noteq> []"
    by (cases s) (auto simp: is_string_text_def Suc_le_length_iff numeral_2_eq_2)
  then have "s = 34 # t" "last t = 34" "34 \<notin> set (butlast t)"
    using s by (simp_all add: is_string_text_def)
  moreover have "t = butlast t @ [last t]" using t by simp
  ultimately have "s = 34 # butlast t @ [34]" "34 \<notin> set (butlast t)" by simp_all
  then show "\<exists>t. s = 34 # t @ [34] \<and> 34 \<notin> set t" by blast
qed (auto simp: is_string_text_def)

lemma strip_quotes_string:
  assumes "34 \<notin> set t"
  shows "strip_quotes (34 # t @ [34]) = t"
proof (cases "t = []")
  case False
  then have ends: "hd t \<noteq> 34" "last t \<noteq> 34" using assms by (metis hd_in_set, metis last_in_set)
  then have "dropWhile (\<lambda>c. c = 34) (t @ [34]) = t @ [34]" "dropWhile (\<lambda>c. c = 34) (rev t) = rev t"
    using False by (simp_all add: dropWhile_hd hd_rev)
  then show ?thesis by (simp add: strip_quotes_def trim_both_def)
qed (simp add: strip_quotes_def trim_both_def)

section \<open>Types\<close>

lemma dtype_verdict:
  assumes "conforms p" and "as_rule p = R_tensor_dtype"
  shows "verdict True (\<lambda>_. True) (parse_tensor_dtype p)"
proof -
  have "is_keyword dtype_keywords (as_str p)" using conforms_shape [OF assms(1)] assms(2) by simp
  then show ?thesis
    using keyword_printable(2) [of "as_str p"] keyword_found [of dtype_keywords "as_str p"]
    by (auto simp: parse_tensor_dtype_def trim_printable Let_def)
qed

lemma ident_not_underscore: "is_ident s \<Longrightarrow> s \<noteq> lit ''_''"
  by (auto simp: is_ident_def lit_def is_alpha_def)

lemma digits_not_underscore: "all_digits s \<Longrightarrow> s \<noteq> lit ''_''"
  by (auto simp: all_digits_def lit_def is_digit_def)

lemma dimension_verdict:
  assumes "conforms p" and "as_rule p = R_dimension"
  shows "verdict (numbers_fit pf p) wf_dimension (parse_dimension p)"
proof -
  consider (wild) "into_inner p = []" "as_str p = lit ''_''"
    | (fixed) q where "into_inner p = [q]" "as_rule q = R_integer" "as_str p = as_str q"
    | (named) q where "into_inner p = [q]" "as_rule q = R_ident" "as_str p = as_str q"
    using conforms_shape [OF assms(1)] assms(2) by (auto simp: map_rules)
  then show ?thesis
  proof cases
    case wild
    have "trim (lit ''_'') = lit ''_''" by (rule trim_printable) (simp add: printable_def lit_def)
    then show ?thesis using wild assms(2)
      by (simp add: parse_dimension_def numbers_fit_inner [of pf p] number_fits_def)
  next
    case fixed
    then have "conforms q" using conforms_inner [OF assms(1), of q] by simp
    then have "all_digits (as_str q)" "into_inner q = []" using conforms_shape [of q] fixed by auto
    then show ?thesis using fixed assms(2)
      by (auto simp: parse_dimension_def numbers_fit_inner [of pf p] numbers_fit_inner [of pf q] number_fits_def usize_digits Let_def
          trim_printable [OF digits_printable] digits_not_underscore)
  next
    case named
    then have "conforms q" using conforms_inner [OF assms(1), of q] by simp
    then have "is_ident (as_str q)" "into_inner q = []" using conforms_shape [of q] named by auto
    then show ?thesis using named assms(2)
      by (auto simp: parse_dimension_def numbers_fit_inner [of pf p] numbers_fit_inner [of pf q] number_fits_def Let_def
          trim_printable [OF ident_printable] ident_not_underscore)
  qed
qed

lemma dim_list_verdict:
  assumes "conforms p" and "as_rule p = R_dim_list"
  shows "verdict (numbers_fit pf p) (\<lambda>dims. dims \<noteq> [] \<and> list_all wf_dimension dims) (parse_dim_list p)"
proof -
  have ps: "into_inner p \<noteq> []" "all_rule R_dimension (into_inner p)"
    using conforms_shape [OF assms(1)] assms(2) by simp_all
  have "verdict (\<forall>q \<in> set (into_inner p). numbers_fit pf q)
      (\<lambda>dims. list_all wf_dimension dims \<and> length dims = length (into_inner p)) (parse_dim_list p)"
    unfolding parse_dim_list_def
  proof (rule verdict_each [OF ps(2)])
    fix q assume q: "q \<in> set (into_inner p)"
    then have "as_rule q = R_dimension" using ps(2) by (simp add: all_rule_def list_all_iff)
    then show "verdict (numbers_fit pf q) wf_dimension (parse_dimension q)"
      using dimension_verdict conforms_inner [OF assms(1) q] by blast
  qed
  then show ?thesis using ps(1) assms(2)
    by (auto simp: verdict_def numbers_fit_inner [of _ p] number_fits_def split: sum.splits)
qed

lemma tensor_verdict:
  assumes "conforms p" and "as_rule p = R_tensor_type"
  shows "verdict (numbers_fit pf p) wf_type (parse_tensor_type p)"
proof -
  obtain q r where ps: "into_inner p = [q, r]" and rules: "as_rule q = R_tensor_dtype" "as_rule r = R_dim_list"
    using conforms_shape [OF assms(1)] assms(2) by (auto simp: map_rules)
  have cq: "conforms q" and cr: "conforms r" using conforms_inner [OF assms(1)] ps by simp_all
  have "into_inner q = []" using conforms_shape [OF cq] rules by simp
  then have fits: "numbers_fit pf p = (True \<and> numbers_fit pf r)"
    using ps assms(2) rules numbers_fit_inner [of pf p] numbers_fit_inner [of pf q] by (simp add: number_fits_def)
  obtain t where t: "parse_tensor_dtype q = Inr t"
    using dtype_verdict [OF cq rules(1)] by (auto simp: verdict_def split: sum.splits)
  show ?thesis
    using dim_list_verdict [OF cr rules(2), of pf]
    by (auto simp: parse_tensor_type_def ps t fits verdict_def split: sum.splits)
qed

lemma scalar_keyword_wf: "keyword scalar_keywords s = Some t \<Longrightarrow> wf_type t"
  by (auto simp: keyword_def scalar_keywords_def split: if_splits)

lemma fits_wrapper:
  assumes "into_inner p = [q]" and "as_rule p \<in> {R_laic_type, R_list_type, R_optional_type, R_default_value, R_literal}"
  shows "numbers_fit pf p = numbers_fit pf q"
  using assms numbers_fit_inner [of pf p] by (auto simp: number_fits_def)

lemma type_verdict:
  "conforms p \<Longrightarrow> as_rule p = R_laic_type \<Longrightarrow> verdict (numbers_fit pf p) wf_type (parse_laic_type p)"
proof (induction p rule: measure_induct_rule [where f = size])
  case (less p)
  have sub: "verdict (numbers_fit pf q) wf_type (parse_laic_type q)"
    if "c \<in> set (into_inner p)" "q \<in> set (into_inner c)" "as_rule q = R_laic_type" for c q
  proof (rule less.IH)
    show "size q < size p" using inner_size [OF that(1)] inner_size [OF that(2)] by simp
    show "conforms q" using conforms_inner that less.prems(1) by blast
  qed fact
  consider (scalar) "into_inner p = []" "is_keyword scalar_keywords (as_str p)"
    | (compound) c where "into_inner p = [c]" "as_rule c \<in> {R_map_type, R_list_type, R_optional_type, R_tensor_type}"
    using conforms_shape [OF less.prems(1)] less.prems(2) by (auto simp: map_rules)
  then show ?case
  proof cases
    case scalar
    then obtain t where "keyword scalar_keywords (as_str p) = Some t"
      using keyword_found [of scalar_keywords "as_str p"] by blast
    then show ?thesis
      using scalar scalar_keyword_wf trim_printable [OF keyword_printable(1) [OF scalar(2)]] less.prems(2)
        numbers_fit_inner [of pf p]
      by (simp add: parse_laic_type.simps number_fits_def)
  next
    case (compound c)
    have c: "conforms c" using conforms_inner [OF less.prems(1), of c] compound by simp
    have fit: "numbers_fit pf p = numbers_fit pf c" using fits_wrapper compound less.prems(2) by simp
    from compound(2) consider "as_rule c = R_map_type" | "as_rule c = R_list_type"
      | "as_rule c = R_optional_type" | "as_rule c = R_tensor_type" by auto
    then show ?thesis
    proof cases
      case 1
      then obtain k v where kv: "into_inner c = [k, v]" "as_rule k = R_laic_type" "as_rule v = R_laic_type"
        using conforms_shape [OF c] by (auto simp: map_rules)
      have fits: "numbers_fit pf c = (numbers_fit pf k \<and> numbers_fit pf v)"
        using kv 1 numbers_fit_inner [of pf c] by (simp add: number_fits_def)
      show ?thesis
        using sub [of c k] sub [of c v] kv compound 1
        by (auto simp: parse_laic_type.simps [of p] parse_map_type.simps fit fits verdict_def split: sum.splits)
    next
      case 2
      then obtain e where e: "into_inner c = [e]" "as_rule e = R_laic_type"
        using conforms_shape [OF c] by (auto simp: map_rules)
      show ?thesis
        using sub [of c e] e compound 2 fits_wrapper [OF e(1)]
        by (auto simp: parse_laic_type.simps [of p] parse_list_type.simps fit verdict_def split: sum.splits)
    next
      case 3
      then obtain e where e: "into_inner c = [e]" "as_rule e = R_laic_type"
        using conforms_shape [OF c] by (auto simp: map_rules)
      show ?thesis
        using sub [of c e] e compound 3 fits_wrapper [OF e(1)]
        by (auto simp: parse_laic_type.simps [of p] parse_optional_type.simps fit verdict_def split: sum.splits)
    next
      case 4
      then show ?thesis
        using tensor_verdict [OF c, of pf] compound by (simp add: parse_laic_type.simps [of p] fit)
    qed
  qed
qed

section \<open>Literals, fields, structs\<close>

lemma replace_crlf_id: "13 \<notin> set s \<Longrightarrow> replace_crlf s = s"
  by (induction s rule: replace_crlf.induct) auto

lemma set_replace_crlf: "set (replace_crlf s) \<subseteq> set s"
  by (induction s rule: replace_crlf.induct) auto

lemma normalized_newlines:
  "13 \<notin> set (normalize_string_literal_newlines s)"
  "34 \<notin> set s \<Longrightarrow> 34 \<notin> set (normalize_string_literal_newlines s)"
  "13 \<notin> set s \<Longrightarrow> normalize_string_literal_newlines s = s"
proof -
  show "13 \<notin> set s \<Longrightarrow> normalize_string_literal_newlines s = s"
    unfolding normalize_string_literal_newlines_def by (simp add: replace_crlf_id) (rule map_idI, auto)
qed (use set_replace_crlf [of s] in \<open>auto simp: normalize_string_literal_newlines_def\<close>)

lemma i64_text:
  assumes "is_integer_text s"
  shows "case parse_i64 s of
      Inl _ \<Rightarrow> \<not> (- (2 ^ 63) \<le> integer_value s \<and> integer_value s < 2 ^ 63)
    | Inr i \<Rightarrow> - (2 ^ 63) \<le> i \<and> i < 2 ^ 63 \<and> i = integer_value s"
proof (cases "s \<noteq> [] \<and> hd s = 45")
  case True
  then obtain t where s: "s = 45 # t" by (cases s) auto
  then have "all_digits t" using assms by (simp add: is_integer_text_def unsigned_part_def)
  then show ?thesis by (auto simp: s parse_i64_def parse_int_minus integer_value_def)
next
  case False
  then have "all_digits s" using assms by (simp add: is_integer_text_def unsigned_part_def split: if_splits)
  then show ?thesis using False by (auto simp: parse_i64_def parse_int_digits integer_value_def)
qed

lemma literal_verdict:
  assumes "conforms p" and "as_rule p = R_literal"
  shows "verdict (numbers_fit pf p) (wf_literal pf) (parse_literal pf p)"
proof -
  obtain q where q: "into_inner p = [q]"
    and "as_rule q \<in> {R_string_literal, R_float_literal, R_integer_literal, R_bool_literal}"
    using conforms_shape [OF assms(1)] assms(2) by (auto simp: map_rules)
  then consider "as_rule q = R_string_literal" | "as_rule q = R_float_literal"
    | "as_rule q = R_integer_literal" | "as_rule q = R_bool_literal" by auto
  note rules = this
  have c: "conforms q" using conforms_inner [OF assms(1), of q] q by simp
  have fit: "numbers_fit pf p = numbers_fit pf q" using fits_wrapper q assms(2) by simp
  from rules show ?thesis
  proof cases
    case 1
    then obtain t where "as_str q = 34 # t @ [34]" "34 \<notin> set t" "into_inner q = []"
      using conforms_shape [OF c] by (auto simp: string_text_iff)
    then show ?thesis using q 1 normalized_newlines [of t] numbers_fit_inner [of pf q]
      by (simp add: parse_literal_def strip_quotes_string fit number_fits_def)
  next
    case 2
    then have "is_float_text (as_str q)" "into_inner q = []" using conforms_shape [OF c] by simp_all
    then show ?thesis using q 2 numbers_fit_inner [of pf q]
      by (auto simp: parse_literal_def parse_error_def fit number_fits_def verdict_def is_ok_def split: sum.splits)
  next
    case 3
    then have "is_integer_text (as_str q)" "into_inner q = []" using conforms_shape [OF c] by simp_all
    then show ?thesis using q 3 numbers_fit_inner [of pf q] i64_text [of "as_str q"]
      by (auto simp: parse_literal_def parse_error_def fit number_fits_def verdict_def split: sum.splits)
  next
    case 4
    then have "as_str q = lit ''true'' \<or> as_str q = lit ''false''" "into_inner q = []"
      using conforms_shape [OF c] by simp_all
    then show ?thesis using q 4 numbers_fit_inner [of pf q]
      by (auto simp: parse_literal_def fit number_fits_def)
  qed
qed

lemma wrapped_fit:
  assumes "as_rule p \<in> {R_field_def, R_input_def, R_output_def, R_skill_def, R_file, R_error_def, R_id_decl, R_version_decl}"
  shows "numbers_fit pf p = (\<forall>q \<in> set (into_inner p). numbers_fit pf q)"
  using assms numbers_fit_inner [of pf p] by (auto simp: number_fits_def)

lemma atom_fit:
  assumes "conforms p" and "as_rule p \<in> {R_ident, R_string_literal, R_integer, R_EOI}"
  shows "numbers_fit pf p"
  using conforms_shape [OF assms(1)] assms(2) numbers_fit_inner [of pf p] by (auto simp: number_fits_def)

lemma ident_str: "conforms p \<Longrightarrow> as_rule p = R_ident \<Longrightarrow> is_ident (as_str p)"
  using conforms_shape [of p] by simp

lemma field_verdict:
  assumes "conforms p" and "as_rule p = R_field_def"
  shows "verdict (numbers_fit pf p) (wf_field pf) (parse_field_def pf p)"
proof -
  consider (plain) n t where "into_inner p = [n, t]" "as_rule n = R_ident" "as_rule t = R_laic_type"
    | (default) n t d where "into_inner p = [n, t, d]" "as_rule n = R_ident" "as_rule t = R_laic_type"
        "as_rule d = R_default_value"
    using conforms_shape [OF assms(1)] assms(2) by (auto simp: map_rules)
  then show ?thesis
  proof cases
    case plain
    then have c: "conforms n" "conforms t" using conforms_inner [OF assms(1)] by simp_all
    have fit: "numbers_fit pf p = numbers_fit pf t"
      using plain wrapped_fit [of p] assms(2) atom_fit [OF c(1)] by simp
    show ?thesis using type_verdict [OF c(2), of pf] plain ident_str [OF c(1)]
      by (auto simp: parse_field_def_def fit wf_field_def verdict_def split: sum.splits)
  next
    case default
    then have c: "conforms n" "conforms t" "conforms d" using conforms_inner [OF assms(1)] by simp_all
    obtain l where l: "into_inner d = [l]" "as_rule l = R_literal"
      using conforms_shape [OF c(3)] default by (auto simp: map_rules)
    have cl: "conforms l" using conforms_inner [OF c(3), of l] l by simp
    have fit: "numbers_fit pf p = (numbers_fit pf t \<and> numbers_fit pf l)"
      using default wrapped_fit [of p] assms(2) atom_fit [OF c(1)] fits_wrapper [OF l(1)] by simp
    show ?thesis using type_verdict [OF c(2), of pf] literal_verdict [OF cl l(2), of pf] default ident_str [OF c(1)] l
      by (auto simp: parse_field_def_def fit wf_field_def verdict_def split: sum.splits)
  qed
qed

lemma each_verdict:
  assumes "conforms p" and "set ps \<subseteq> set (into_inner p)" and "all_rule r ps"
    and "\<And>q. conforms q \<Longrightarrow> as_rule q = r \<Longrightarrow> verdict (numbers_fit pf q) P (f q)"
  shows "verdict (\<forall>q \<in> set ps. numbers_fit pf q) (\<lambda>xs. list_all P xs \<and> length xs = length ps) (parse_each r f ps)"
proof (rule verdict_each [OF assms(3)])
  fix q assume "q \<in> set ps"
  then show "verdict (numbers_fit pf q) P (f q)"
    using assms conforms_inner [OF assms(1)] by (auto simp: all_rule_def list_all_iff)
qed

lemma struct_verdict:
  assumes "conforms p" and "as_rule p \<in> {R_input_def, R_output_def}"
  shows "verdict (numbers_fit pf p) (wf_struct pf) (parse_struct_def pf p)"
proof -
  obtain n ps where ps: "into_inner p = n # ps" "as_rule n = R_ident" "all_rule R_field_def ps"
    using conforms_shape [OF assms(1)] assms(2) by (cases "into_inner p") auto
  have c: "conforms n" using conforms_inner [OF assms(1)] ps by simp
  have fit: "numbers_fit pf p = (\<forall>q \<in> set ps. numbers_fit pf q)"
    using ps wrapped_fit [of p] assms(2) atom_fit [OF c] by auto
  have "verdict (\<forall>q \<in> set ps. numbers_fit pf q) (\<lambda>xs. list_all (wf_field pf) xs \<and> length xs = length ps)
      (parse_each R_field_def (parse_field_def pf) ps)"
    using ps by (intro each_verdict [OF assms(1)] field_verdict) auto
  then show ?thesis using ps ident_str [OF c]
    by (auto simp: parse_struct_def_def fit wf_struct_def verdict_def split: sum.splits)
qed

section \<open>Variants, skills, files\<close>

lemma variant_verdict:
  assumes "conforms p" and "as_rule p = R_error_variant"
  shows "verdict (numbers_fit pf p) wf_variant (parse_error_variant p)"
proof -
  obtain n i where ps: "into_inner p = [n, i]" "as_rule n = R_ident" "as_rule i = R_integer"
    using conforms_shape [OF assms(1)] assms(2) by (auto simp: map_rules)
  then have c: "conforms n" "conforms i" using conforms_inner [OF assms(1)] by simp_all
  have digits: "all_digits (as_str i)" using conforms_shape [OF c(2)] ps by simp
  have fit: "numbers_fit pf p = (digits_value (as_str i) < 2 ^ 16)"
    using ps assms(2) atom_fit [OF c(1)] atom_fit [OF c(2)] numbers_fit_inner [of pf p]
    by (simp add: number_fits_def)
  show ?thesis using ps ident_str [OF c(1)] digits
    by (simp add: parse_error_variant_def u16_digits fit wf_variant_def)
qed

lemma errors_verdict:
  assumes "conforms p" and "as_rule p = R_error_def"
  shows "verdict (numbers_fit pf p) (list_all wf_variant) (parse_error_def p)"
proof -
  have "all_rule R_error_variant (into_inner p)" using conforms_shape [OF assms(1)] assms(2) by simp
  then have "verdict (\<forall>q \<in> set (into_inner p). numbers_fit pf q)
      (\<lambda>xs. list_all wf_variant xs \<and> length xs = length (into_inner p)) (parse_error_def p)"
    unfolding parse_error_def_def by (intro each_verdict [OF assms(1)] variant_verdict) auto
  then show ?thesis using wrapped_fit [of p] assms(2) by (auto simp: verdict_def split: sum.splits)
qed

lemma string_decl_verdict:
  assumes "conforms p" and "as_rule p \<in> {R_id_decl, R_version_decl}"
  shows "\<exists>s. 34 \<notin> set s \<and> parse_id_decl p = Inr s \<and> parse_version_decl p = Inr s" and "numbers_fit pf p"
proof -
  obtain q where q: "into_inner p = [q]" "as_rule q = R_string_literal"
    using conforms_shape [OF assms(1)] assms(2) by (auto simp: map_rules)
  have c: "conforms q" using conforms_inner [OF assms(1), of q] q by simp
  then obtain t where "as_str q = 34 # t @ [34]" "34 \<notin> set t"
    using conforms_shape [OF c] q by (auto simp: string_text_iff)
  then show "\<exists>s. 34 \<notin> set s \<and> parse_id_decl p = Inr s \<and> parse_version_decl p = Inr s"
    using q by (auto simp: parse_id_decl_def parse_version_decl_def strip_quotes_string)
  show "numbers_fit pf p" using wrapped_fit [of p] assms(2) q atom_fit [OF c] by simp
qed

lemma skill_verdict:
  assumes "conforms p" and "as_rule p = R_skill_def"
  shows "verdict (numbers_fit pf p) (wf_skill pf) (parse_skill_def pf p)"
proof -
  obtain n d i out es where ps: "into_inner p = n # d # i # out # es" "as_rule n = R_ident"
      "as_rule d = R_id_decl" "as_rule i = R_input_def" "as_rule out = R_output_def"
    and es: "es = [] \<or> (\<exists>e. es = [e] \<and> as_rule e = R_error_def)"
    using conforms_shape [OF assms(1)] assms(2) by (auto simp: map_rules)
  then have c: "conforms n" "conforms d" "conforms i" "conforms out" "\<And>e. e \<in> set es \<Longrightarrow> conforms e"
    using conforms_inner [OF assms(1)] by simp_all
  obtain sid where sid: "parse_id_decl d = Inr sid" "34 \<notin> set sid" "numbers_fit pf d"
    using string_decl_verdict(1) [OF c(2)] string_decl_verdict(2) [OF c(2), of pf] ps by auto
  have fit: "numbers_fit pf p = (numbers_fit pf i \<and> numbers_fit pf out \<and> (\<forall>e \<in> set es. numbers_fit pf e))"
    using ps wrapped_fit [of p] assms(2) atom_fit [OF c(1)] sid by auto
  have structs: "verdict (numbers_fit pf i) (wf_struct pf) (parse_struct_def pf i)"
    "verdict (numbers_fit pf out) (wf_struct pf) (parse_struct_def pf out)"
    using struct_verdict [OF c(3)] struct_verdict [OF c(4)] ps by simp_all
  from es show ?thesis
  proof
    assume "es = []"
    then show ?thesis using ps ident_str [OF c(1)] sid structs
      by (auto simp: parse_skill_def_def fit wf_skill_def verdict_def split: sum.splits)
  next
    assume "\<exists>e. es = [e] \<and> as_rule e = R_error_def"
    then obtain e where e: "es = [e]" "as_rule e = R_error_def" by blast
    have "verdict (numbers_fit pf e) (list_all wf_variant) (parse_error_def e)"
      using errors_verdict [OF c(5)] e by simp
    then show ?thesis using ps ident_str [OF c(1)] sid structs e
      by (auto simp: parse_skill_def_def fit wf_skill_def verdict_def split: sum.splits)
  qed
qed

lemma items_verdict:
  assumes "\<And>p. p \<in> set ss \<Longrightarrow> conforms p \<and> as_rule p = R_skill_def" and "as_rule e = R_EOI"
    and "list_all (wf_skill pf) acc"
  shows "verdict (\<forall>p \<in> set ss. numbers_fit pf p)
    (\<lambda>f. file_version f = v \<and> list_all (wf_skill pf) (file_skills f)
      \<and> length (file_skills f) = length acc + length ss) (parse_items pf (ss @ [e]) v acc)"
  using assms
proof (induction ss arbitrary: acc)
  case (Cons p ss)
  have p: "verdict (numbers_fit pf p) (wf_skill pf) (parse_skill_def pf p)"
    using skill_verdict Cons.prems by simp
  have "verdict (numbers_fit pf p \<and> (\<forall>p \<in> set ss. numbers_fit pf p))
    (\<lambda>f. file_version f = v \<and> list_all (wf_skill pf) (file_skills f)
      \<and> length (file_skills f) = length acc + length (p # ss))
    (try_bind (parse_skill_def pf p) (\<lambda>s. parse_items pf (ss @ [e]) v (acc @ [s])))"
  proof (rule verdict_bind [OF p])
    fix s assume "wf_skill pf s"
    then show "verdict (\<forall>p \<in> set ss. numbers_fit pf p)
      (\<lambda>f. file_version f = v \<and> list_all (wf_skill pf) (file_skills f)
        \<and> length (file_skills f) = length acc + length (p # ss)) (parse_items pf (ss @ [e]) v (acc @ [s]))"
      using Cons.IH [of "acc @ [s]"] Cons.prems by simp
  qed
  then show ?case using Cons.prems by simp
qed simp

lemma file_verdict:
  assumes "conforms p" and "as_rule p = R_file"
  shows "verdict (numbers_fit pf p) (wf_file pf) (parse_file pf p)"
proof -
  have shape: "length (into_inner p) \<ge> 3" "as_rule (hd (into_inner p)) = R_version_decl"
      "as_rule (last (into_inner p)) = R_EOI" "all_rule R_skill_def (butlast (tl (into_inner p)))"
    using conforms_shape [OF assms(1)] assms(2) by simp_all
  obtain v rest where v: "into_inner p = v # rest" using shape(1) by (cases "into_inner p") auto
  then have "rest \<noteq> []" using shape(1) by auto
  then obtain ss e where ss: "rest = ss @ [e]" by (metis append_butlast_last_id)
  have rules: "as_rule v = R_version_decl" "as_rule e = R_EOI" "all_rule R_skill_def ss" and ne: "ss \<noteq> []"
    using shape v ss by auto
  have c: "conforms v" "conforms e" "\<And>q. q \<in> set ss \<Longrightarrow> conforms q"
    using conforms_inner [OF assms(1)] v ss by auto
  obtain vs where vs: "parse_version_decl v = Inr vs" "34 \<notin> set vs" "numbers_fit pf v"
    using string_decl_verdict(1) [OF c(1)] string_decl_verdict(2) [OF c(1), of pf] rules by auto
  have fit: "numbers_fit pf p = (\<forall>q \<in> set ss. numbers_fit pf q)"
    using v ss wrapped_fit [of p] assms(2) atom_fit [OF c(2)] rules vs by auto
  have "verdict (\<forall>q \<in> set ss. numbers_fit pf q)
    (\<lambda>f. file_version f = vs \<and> list_all (wf_skill pf) (file_skills f)
      \<and> length (file_skills f) = length ([] :: skill_def list) + length ss) (parse_items pf (ss @ [e]) vs [])"
    using c rules by (intro items_verdict) (auto simp: all_rule_def list_all_iff)
  then show ?thesis
    using vs rules ne by (auto simp: parse_file_def v ss fit wf_file_def verdict_def split: sum.splits)
qed

end
