(* ===== verification/Laicc_Roundtrip.thy ===== *)
theory Laicc_Roundtrip
  imports Laicc_Grammar
begin

text \<open>
  The parse tree of an AST (\<open>file_tree\<close>), with the source text of every node, and the properties of the
  parser: it rebuilds the AST of such a tree, accepts a tree of the grammar exactly when its numbers are
  in range, and yields exactly the well-formed ASTs.
\<close>

section \<open>Trees\<close>

definition ident_tree :: "text \<Rightarrow> pair" where
  "ident_tree s = Pair R_ident s []"

definition string_tree :: "text \<Rightarrow> pair" where
  "string_tree s = Pair R_string_literal (fmt ''^{}^'' [s]) []"

fun dimension_tree :: "dimension \<Rightarrow> pair" where
  "dimension_tree (Fixed n) = Pair R_dimension (decimal n) [Pair R_integer (decimal n) []]"
| "dimension_tree (Dynamic None) = Pair R_dimension (lit ''_'') []"
| "dimension_tree (Dynamic (Some s)) = Pair R_dimension s [ident_tree s]"

definition dim_list_tree :: "dimension list \<Rightarrow> pair" where
  "dim_list_tree dims = Pair R_dim_list (join (lit '','') (map (as_str \<circ> dimension_tree) dims)) (map dimension_tree dims)"

fun type_tree :: "laic_type \<Rightarrow> pair" where
  "type_tree (LTensor dtype dims) =
     (let s = format_laic_type (LTensor dtype dims) in
      Pair R_laic_type s [Pair R_tensor_type s
        [Pair R_tensor_dtype (lit (tensor_as_str dtype)) [], dim_list_tree dims]])"
| "type_tree (LList t) =
     (let s = format_laic_type (LList t) in Pair R_laic_type s [Pair R_list_type s [type_tree t]])"
| "type_tree (LOptional t) =
     (let s = format_laic_type (LOptional t) in Pair R_laic_type s [Pair R_optional_type s [type_tree t]])"
| "type_tree (LMap k v) =
     (let s = format_laic_type (LMap k v) in Pair R_laic_type s [Pair R_map_type s [type_tree k, type_tree v]])"
| "type_tree t = Pair R_laic_type (format_laic_type t) []"

fun literal_tree :: "show_f64 \<Rightarrow> literal \<Rightarrow> pair" where
  "literal_tree sf (StringLit s) = Pair R_literal (fmt ''^{}^'' [s]) [string_tree s]"
| "literal_tree sf (IntegerLit i) = Pair R_literal (decimal_int i) [Pair R_integer_literal (decimal_int i) []]"
| "literal_tree sf (FloatLit v) = Pair R_literal (sf v) [Pair R_float_literal (sf v) []]"
| "literal_tree sf (BoolLit b) = Pair R_literal (bool_text b) [Pair R_bool_literal (bool_text b) []]"

definition default_tree :: "show_f64 \<Rightarrow> literal \<Rightarrow> pair" where
  "default_tree sf l = Pair R_default_value (fmt ''= {}'' [as_str (literal_tree sf l)]) [literal_tree sf l]"

definition field_tree :: "show_f64 \<Rightarrow> field_def \<Rightarrow> pair" where
  "field_tree sf f =
     (let default_text = (case field_default f of None \<Rightarrow> [] | Some l \<Rightarrow> fmt '' {}'' [as_str (default_tree sf l)]) in
      Pair R_field_def (fmt ''{}: {}{};'' [field_name f, format_laic_type (field_ty f), default_text])
        ([ident_tree (field_name f), type_tree (field_ty f)]
         @ (case field_default f of None \<Rightarrow> [] | Some l \<Rightarrow> [default_tree sf l])))"

definition struct_tree :: "show_f64 \<Rightarrow> rule \<Rightarrow> string \<Rightarrow> struct_def \<Rightarrow> pair" where
  "struct_tree sf r kind d =
     Pair r (fmt ''{} {} {{ {} }}'' [lit kind, struct_name d, join (lit '' '') (map (as_str \<circ> field_tree sf) (struct_fields d))])
       (ident_tree (struct_name d) # map (field_tree sf) (struct_fields d))"

definition variant_tree :: "error_variant \<Rightarrow> pair" where
  "variant_tree v =
     (let code = decimal (unat (variant_code v)) in
      Pair R_error_variant (fmt ''{} = {};'' [variant_name v, code]) [ident_tree (variant_name v), Pair R_integer code []])"

definition error_tree :: "error_variant list \<Rightarrow> pair" where
  "error_tree vs =
     Pair R_error_def (fmt ''error {{ {} }}'' [join (lit '' '') (map (as_str \<circ> variant_tree) vs)]) (map variant_tree vs)"

definition skill_tree :: "show_f64 \<Rightarrow> skill_def \<Rightarrow> pair" where
  "skill_tree sf s =
     (let parts = [Pair R_id_decl (fmt ''id = ^{}^;'' [skill_id s]) [string_tree (skill_id s)],
                   struct_tree sf R_input_def ''input'' (skill_input s),
                   struct_tree sf R_output_def ''output'' (skill_output s)]
                  @ (if skill_errors s = [] then [] else [error_tree (skill_errors s)]) in
      Pair R_skill_def (fmt ''skill {} {{ {} }}'' [skill_name s, join (lit '' '') (map as_str parts)])
        (ident_tree (skill_name s) # parts))"

definition file_tree :: "show_f64 \<Rightarrow> laic_file \<Rightarrow> pair" where
  "file_tree sf f =
     (let parts = Pair R_version_decl (fmt ''version ^{}^;'' [file_version f]) [string_tree (file_version f)]
                  # map (skill_tree sf) (file_skills f) in
      Pair R_file (join nl (map as_str parts)) (parts @ [Pair R_EOI [] []]))"

text \<open>A rendering of floats that the float parser reads back.\<close>

definition float_law :: "show_f64 \<Rightarrow> parse_f64 \<Rightarrow> bool" where
  "float_law sf pf \<longleftrightarrow> (\<forall>v. wf_literal pf (FloatLit v) \<longrightarrow> is_float_text (sf v) \<and> pf (sf v) = Inr v)"

section \<open>The trees conform and parse to the AST\<close>

lemma quoted_string: "fmt ''^{}^'' [s] = 34 # s @ [34]"
  by (simp add: fmt_def lit_def template_char_def)

lemma ident_tree_simps [simp]:
  "as_rule (ident_tree s) = R_ident" "as_str (ident_tree s) = s" "conforms (ident_tree s) = is_ident s"
  by (simp_all add: ident_tree_def)

lemma string_tree_simps [simp]:
  "as_rule (string_tree s) = R_string_literal" "34 \<notin> set s \<Longrightarrow> conforms (string_tree s)"
  "34 \<notin> set s \<Longrightarrow> strip_quotes (as_str (string_tree s)) = s"
  by (simp_all add: string_tree_def quoted_string strip_quotes_string string_text_iff)

lemma dimension_tree_ok:
  assumes "wf_dimension d"
  shows "conforms (dimension_tree d) \<and> as_rule (dimension_tree d) = R_dimension
    \<and> parse_dimension (dimension_tree d) = Inr d"
proof (cases d)
  case (Fixed n)
  then show ?thesis using assms decimal_digits [of n]
    by (simp add: parse_dimension_def trim_printable [OF digits_printable] digits_not_underscore usize_digits)
next
  case (Dynamic o')
  then show ?thesis
  proof (cases o')
    case None
    have "trim (lit ''_'') = lit ''_''" by (rule trim_printable) (simp add: printable_def lit_def)
    then show ?thesis using Dynamic None by (simp add: parse_dimension_def)
  next
    case (Some s)
    then show ?thesis using Dynamic assms
      by (simp add: parse_dimension_def trim_printable [OF ident_printable] ident_not_underscore)
  qed
qed

lemma each_tree:
  assumes "\<And>x. x \<in> set xs \<Longrightarrow> as_rule (t x) = r \<and> f (t x) = Inr x"
  shows "parse_each r f (map t xs) = Inr xs"
  using assms by (induction xs) auto

lemma dim_list_ok:
  assumes "dims \<noteq> []" and "list_all wf_dimension dims"
  shows "conforms (dim_list_tree dims) \<and> as_rule (dim_list_tree dims) = R_dim_list
    \<and> parse_dim_list (dim_list_tree dims) = Inr dims"
  using assms dimension_tree_ok each_tree [of dims dimension_tree R_dimension parse_dimension]
  by (auto simp: dim_list_tree_def parse_dim_list_def list_all_iff all_rule_def)

lemma dtype_ok:
  "is_keyword dtype_keywords (lit (tensor_as_str dtype))
   \<and> parse_tensor_dtype (Pair R_tensor_dtype (lit (tensor_as_str dtype)) []) = Inr dtype"
proof -
  have kw: "keyword dtype_keywords (lit (tensor_as_str dtype)) = Some dtype"
    by (cases dtype) (simp_all add: keyword_def dtype_keywords_def lit_def)
  then have is_kw: "is_keyword dtype_keywords (lit (tensor_as_str dtype))"
    using keyword_found [of dtype_keywords "lit (tensor_as_str dtype)"] by simp
  then have "trim (lit (tensor_as_str dtype)) = lit (tensor_as_str dtype)"
    by (intro trim_printable keyword_printable)
  then show ?thesis using kw is_kw by (simp add: parse_tensor_dtype_def)
qed

lemma type_tree_rule [simp]: "as_rule (type_tree t) = R_laic_type"
  by (cases t) (simp_all add: Let_def)

lemma scalar_tree_ok:
  assumes "is_scalar_type t"
  shows "type_tree t = Pair R_laic_type (format_laic_type t) []"
    and "keyword scalar_keywords (format_laic_type t) = Some t"
  using assms by (auto simp: is_scalar_type_def is_map_value_def keyword_def scalar_keywords_def lit_def)

lemma scalar_type_tree_ok:
  assumes "is_scalar_type t"
  shows "conforms (type_tree t) \<and> parse_laic_type (type_tree t) = Inr t"
proof -
  note kw = scalar_tree_ok(2) [OF assms]
  then have is_kw: "is_keyword scalar_keywords (format_laic_type t)"
    using keyword_found [of scalar_keywords "format_laic_type t"] by simp
  then have "trim (format_laic_type t) = format_laic_type t" by (intro trim_printable keyword_printable)
  then show ?thesis using kw is_kw by (simp add: scalar_tree_ok(1) [OF assms] parse_laic_type.simps)
qed

lemma type_tree_ok:
  "wf_type t \<Longrightarrow> conforms (type_tree t) \<and> parse_laic_type (type_tree t) = Inr t"
proof (induction t)
  case (LTensor dtype dims)
  then show ?case using dim_list_ok [of dims] dtype_ok [of dtype]
    by (simp add: parse_laic_type.simps parse_tensor_type_def Let_def)
next
  case (LList t)
  then show ?case by (simp add: parse_laic_type.simps [of "Pair _ _ _"] parse_list_type.simps Let_def)
next
  case (LOptional t)
  then show ?case by (simp add: parse_laic_type.simps [of "Pair _ _ _"] parse_optional_type.simps Let_def)
next
  case (LMap k v)
  then show ?case by (simp add: parse_laic_type.simps [of "Pair _ _ _"] parse_map_type.simps Let_def)
qed (rule scalar_type_tree_ok, simp add: is_scalar_type_def is_map_value_def)+

lemma int_text:
  "- (2 ^ 63) \<le> i \<Longrightarrow> i < 2 ^ 63 \<Longrightarrow> is_integer_text (decimal_int i) \<and> parse_i64 (decimal_int i) = Inr i"
  using decimal_digits [of "nat (- i)"] decimal_digits [of "nat i"] hd_digit [OF decimal_digits [of "nat i"]]
  by (auto simp: decimal_int_def is_integer_text_def unsigned_part_def parse_i64_def parse_int_minus parse_int_digits)

lemma literal_tree_ok:
  assumes "float_law sf pf" and "wf_literal pf l"
  shows "conforms (literal_tree sf l) \<and> as_rule (literal_tree sf l) = R_literal
    \<and> parse_literal pf (literal_tree sf l) = Inr l"
proof (cases l)
  case (StringLit s)
  then show ?thesis using assms(2) by (simp add: parse_literal_def normalized_newlines)
next
  case (IntegerLit i)
  then show ?thesis using assms(2) int_text [of i] by (simp add: parse_literal_def)
next
  case (FloatLit v)
  then show ?thesis using assms unfolding float_law_def by (auto simp: parse_literal_def)
next
  case (BoolLit b)
  then show ?thesis by (simp add: parse_literal_def bool_text_def lit_def)
qed

lemma field_tree_ok:
  assumes "float_law sf pf" and "wf_field pf f"
  shows "conforms (field_tree sf f) \<and> as_rule (field_tree sf f) = R_field_def
    \<and> parse_field_def pf (field_tree sf f) = Inr f"
proof (cases "field_default f")
  case None
  then show ?thesis using assms(2) type_tree_ok [of "field_ty f"]
    by (simp add: field_tree_def parse_field_def_def wf_field_def)
next
  case (Some l)
  then show ?thesis using assms literal_tree_ok [of sf pf l] type_tree_ok [of "field_ty f"]
    by (simp add: field_tree_def parse_field_def_def wf_field_def default_tree_def)
qed

lemma struct_tree_ok:
  assumes "float_law sf pf" and "wf_struct pf d" and "r \<in> {R_input_def, R_output_def}"
  shows "conforms (struct_tree sf r kind d) \<and> as_rule (struct_tree sf r kind d) = r
    \<and> parse_struct_def pf (struct_tree sf r kind d) = Inr d"
proof -
  have fields: "f \<in> set (struct_fields d) \<Longrightarrow> conforms (field_tree sf f) \<and> as_rule (field_tree sf f) = R_field_def
    \<and> parse_field_def pf (field_tree sf f) = Inr f" for f
    using assms by (intro field_tree_ok) (auto simp: wf_struct_def list_all_iff)
  then have "parse_each R_field_def (parse_field_def pf) (map (field_tree sf) (struct_fields d)) = Inr (struct_fields d)"
    by (intro each_tree) simp
  then show ?thesis using assms fields
    by (auto simp: struct_tree_def parse_struct_def_def wf_struct_def all_rule_def list_all_iff)
qed

lemma variant_tree_ok:
  assumes "wf_variant v"
  shows "conforms (variant_tree v) \<and> as_rule (variant_tree v) = R_error_variant
    \<and> parse_error_variant (variant_tree v) = Inr v"
proof -
  have "unat (variant_code v) < 2 ^ LENGTH(16)" by (rule unsigned_less)
  then show ?thesis using assms decimal_digits [of "unat (variant_code v)"]
    by (simp add: variant_tree_def parse_error_variant_def wf_variant_def u16_digits Let_def)
qed

lemma error_tree_ok:
  assumes "vs \<noteq> []" and "list_all wf_variant vs"
  shows "conforms (error_tree vs) \<and> as_rule (error_tree vs) = R_error_def \<and> parse_error_def (error_tree vs) = Inr vs"
  using assms variant_tree_ok each_tree [of vs variant_tree R_error_variant parse_error_variant]
  by (auto simp: error_tree_def parse_error_def_def list_all_iff all_rule_def)

lemma skill_tree_ok:
  assumes "float_law sf pf" and "wf_skill pf s"
  shows "conforms (skill_tree sf s) \<and> as_rule (skill_tree sf s) = R_skill_def
    \<and> parse_skill_def pf (skill_tree sf s) = Inr s"
proof -
  note structs = struct_tree_ok [OF assms(1), of "skill_input s" R_input_def "''input''"]
    struct_tree_ok [OF assms(1), of "skill_output s" R_output_def "''output''"]
  show ?thesis
  proof (cases "skill_errors s = []")
    case True
    then show ?thesis using assms(2) structs
      by (simp add: skill_tree_def parse_skill_def_def parse_id_decl_def wf_skill_def Let_def)
  next
    case False
    then show ?thesis using assms(2) structs error_tree_ok [OF False]
      by (simp add: skill_tree_def parse_skill_def_def parse_id_decl_def wf_skill_def Let_def)
  qed
qed

lemma items_tree:
  assumes "\<And>s. s \<in> set ss \<Longrightarrow> as_rule (skill_tree sf s) = R_skill_def \<and> parse_skill_def pf (skill_tree sf s) = Inr s"
    and "as_rule e = R_EOI"
  shows "parse_items pf (map (skill_tree sf) ss @ [e]) v acc = Inr \<lparr>file_version = v, file_skills = acc @ ss\<rparr>"
  using assms(1) by (induction ss arbitrary: acc) (auto simp: assms(2))

lemma file_tree_ok:
  assumes "float_law sf pf" and "wf_file pf f"
  shows "conforms (file_tree sf f) \<and> as_rule (file_tree sf f) = R_file \<and> parse_file pf (file_tree sf f) = Inr f"
proof -
  have skills: "s \<in> set (file_skills f) \<Longrightarrow> conforms (skill_tree sf s) \<and> as_rule (skill_tree sf s) = R_skill_def
    \<and> parse_skill_def pf (skill_tree sf s) = Inr s" for s
    using assms by (intro skill_tree_ok) (auto simp: wf_file_def list_all_iff)
  have "length (file_skills f) \<ge> 1" using assms(2) by (cases "file_skills f") (auto simp: wf_file_def)
  then show ?thesis
    using assms(2) skills items_tree [of "file_skills f" sf pf "Pair R_EOI [] []" "file_version f" "[]"]
    by (auto simp: file_tree_def parse_file_def parse_version_decl_def wf_file_def all_rule_def list_all_iff Let_def)
qed

section \<open>Properties\<close>

text \<open>What the generated parser promises: one pair, for the rule \<open>file\<close>, that conforms to the grammar.\<close>

definition pest_law :: "pest_parse \<Rightarrow> bool" where
  "pest_law pest \<longleftrightarrow>
     (\<forall>source ps. pest source = Inr ps \<longrightarrow> (\<exists>p. ps = [p] \<and> as_rule p = R_file \<and> conforms p))"

text \<open>
  C20. Parse round trip: the parse tree of a well-formed AST conforms to the grammar and the parser
  rebuilds exactly that AST from it, defaults, nested types, dimensions and error codes included.
\<close>

theorem parse_tree_roundtrip:
  assumes "float_law sf pf" and "wf_file pf f"
  shows "conforms (file_tree sf f) \<and> parse_file pf (file_tree sf f) = Inr f"
  using file_tree_ok [OF assms] by simp

text \<open>
  C21. The ASTs the parser can produce from trees of the grammar are exactly the well-formed ones: every
  name an ASCII identifier, no quote in any string, no carriage return in a default, tensors with at
  least one dimension, dimensions below \<open>2 ^ 64\<close>, integer defaults within \<open>i64\<close>.
\<close>

theorem parser_range:
  "(\<exists>p. as_rule p = R_file \<and> conforms p \<and> parse_file pf p = Inr f) \<longleftrightarrow> wf_file pf f"
proof
  assume "\<exists>p. as_rule p = R_file \<and> conforms p \<and> parse_file pf p = Inr f"
  then obtain p where p: "conforms p" "as_rule p = R_file" "parse_file pf p = Inr f" by blast
  show "wf_file pf f" by (rule verdict_value [OF file_verdict [OF p(1,2)] p(3)])
next
  assume wf: "wf_file pf f"
  define sf where "sf v = (SOME s. is_float_text s \<and> pf s = Inr v)" for v
  have "float_law sf pf"
    unfolding float_law_def
  proof (intro allI impI)
    fix v assume "wf_literal pf (FloatLit v)"
    then have "\<exists>s. is_float_text s \<and> pf s = Inr v" by simp
    then show "is_float_text (sf v) \<and> pf (sf v) = Inr v" unfolding sf_def by (rule someI_ex)
  qed
  from file_tree_ok [OF this wf]
  show "\<exists>p. as_rule p = R_file \<and> conforms p \<and> parse_file pf p = Inr f" by blast
qed

text \<open>
  C19. The outcome of \<open>compile\<close> for every source: a syntax error is a parse error with pest's message; a
  number out of range is a parse error; otherwise the AST is well-formed and is returned if it is
  valid, and refused with a validation error if not. No other error is possible.
\<close>

theorem compile_outcome:
  assumes "pest_law pest"
  shows "case pest source of
      Inl e \<Rightarrow> compile pest pf source = Inl (ParseError e)
    | Inr ps \<Rightarrow>
        if numbers_fit pf (hd ps)
        then \<exists>f. parse_file pf (hd ps) = Inr f \<and> wf_file pf f
          \<and> (if valid_file f then compile pest pf source = Inr f
             else \<exists>m. compile pest pf source = Inl (ValidationError m))
        else \<exists>m. compile pest pf source = Inl (ParseError m)"
proof (cases "pest source")
  case (Inl e)
  then show ?thesis by (simp add: compile_def parse_def parse_error_def)
next
  case (Inr ps)
  then obtain p where p: "ps = [p]" "as_rule p = R_file" "conforms p"
    using assms unfolding pest_law_def by blast
  note v = file_verdict [OF p(3,2), of pf]
  show ?thesis
  proof (cases "parse_file pf p")
    case (Inl e)
    then show ?thesis using v Inr p by (auto simp: compile_def parse_def)
  next
    case (Inr f)
    then show ?thesis
      using v \<open>pest source = Inr ps\<close> p validate_ok [of f] validate_rejects [of f]
      by (cases "valid_file f") (auto simp: compile_def parse_def)
  qed
qed

section \<open>Witnesses\<close>

definition half_or_fail :: parse_f64 where
  "half_or_fail s = (if s = lit ''0.5'' then Inr 0x3FE0000000000000 else Inl (lit ''invalid float literal''))"

definition sample_field :: "string \<Rightarrow> laic_type \<Rightarrow> literal option \<Rightarrow> field_def" where
  "sample_field n t d = \<lparr>field_name = lit n, field_ty = t, field_default = d\<rparr>"

definition sample_file :: laic_file where
  "sample_file =
     \<lparr>file_version = lit ''1.0.0'',
      file_skills = [\<lparr>skill_name = lit ''embed'', skill_id = lit ''com.example.embed'',
        skill_input = \<lparr>struct_name = lit ''EmbedInput'',
          struct_fields =
            [sample_field ''words'' (LList LString) None,
             sample_field ''scale'' LF32 (Some (FloatLit 0x3FE0000000000000)),
             sample_field ''retries'' LI8 (Some (IntegerLit (- 1)))]\<rparr>,
        skill_output = \<lparr>struct_name = lit ''EmbedOutput'',
          struct_fields =
            [sample_field ''vectors'' (LTensor TF32 [Dynamic (Some (lit ''batch'')), Fixed 768]) None,
             sample_field ''labels'' (LMap LString LI64) None]\<rparr>,
        skill_errors = [\<lparr>variant_name = lit ''TOO_LONG'', variant_code = 100\<rparr>]\<rparr>]\<rparr>"

lemma half_law: "float_law (\<lambda>_. lit ''0.5'') half_or_fail"
  by (auto simp: float_law_def half_or_fail_def is_float_text_def unsigned_part_def all_digits_def is_digit_def
      lit_def split: if_splits)

lemma sample_wf: "wf_file half_or_fail sample_file"
proof -
  have "wf_literal half_or_fail (FloatLit 0x3FE0000000000000)"
    by (auto simp: half_or_fail_def is_float_text_def unsigned_part_def all_digits_def is_digit_def lit_def
        intro!: exI [of _ "lit ''0.5''"])
  then show ?thesis
    by (simp add: sample_file_def sample_field_def wf_file_def wf_skill_def wf_struct_def wf_field_def
        wf_variant_def is_ident_def is_alpha_def is_digit_def lit_def del: wf_literal.simps(3))
qed

lemma sample_names:
  "\<not> is_reserved_codegen_identifier (lit ''embed'')" "\<not> is_reserved_codegen_identifier (lit ''EmbedInput'')"
  "\<not> is_reserved_codegen_identifier (lit ''EmbedOutput'')" "\<not> is_reserved_codegen_identifier (lit ''words'')"
  "\<not> is_reserved_codegen_identifier (lit ''scale'')" "\<not> is_reserved_codegen_identifier (lit ''retries'')"
  "\<not> is_reserved_codegen_identifier (lit ''vectors'')" "\<not> is_reserved_codegen_identifier (lit ''labels'')"
  "\<not> is_reserved_codegen_identifier (lit ''TOO_LONG'')"
  by (simp_all add: is_reserved_codegen_identifier_def RESERVED_def)

lemma sample_valid: "valid_file sample_file"
  by (simp add: sample_file_def sample_field_def valid_file_def valid_skill_def valid_struct_def valid_field_def
      valid_errors_def default_ok_def supported_def static_leaf_def tensor_dims_ok_def is_scalar_type_def
      is_map_key_def is_map_value_def sample_names)

theorem parse_tree_roundtrip_witness:
  "parse_file half_or_fail (file_tree (\<lambda>_. lit ''0.5'') sample_file) = Inr sample_file"
  using parse_tree_roundtrip [OF half_law sample_wf] by simp

definition sample_pest :: pest_parse where
  "sample_pest source =
     (if source = lit ''sample'' then Inr [file_tree (\<lambda>_. lit ''0.5'') sample_file] else Inl (lit ''expected file''))"

lemma sample_compile: "compile sample_pest half_or_fail (lit ''sample'') = Inr sample_file"
  using file_tree_ok [OF half_law sample_wf] sample_valid
  by (simp add: compile_def parse_def sample_pest_def validate_ok [of sample_file, THEN iffD2])

theorem compile_outcome_witness:
  "compile sample_pest half_or_fail (lit ''sample'') = Inr sample_file
   \<and> compile sample_pest half_or_fail [] = Inl (ParseError (lit ''expected file''))"
proof -
  have law: "pest_law sample_pest"
    using file_tree_ok [OF half_law sample_wf] by (auto simp: pest_law_def sample_pest_def split: if_splits)
  have "numbers_fit half_or_fail (file_tree (\<lambda>_. lit ''0.5'') sample_file)"
    using file_verdict [of "file_tree (\<lambda>_. lit ''0.5'') sample_file" half_or_fail]
      file_tree_ok [OF half_law sample_wf] by simp
  then show ?thesis
    using compile_outcome [OF law, where source = "lit ''sample''" and pf = half_or_fail]
      compile_outcome [OF law, where source = "[]" and pf = half_or_fail]
      file_tree_ok [OF half_law sample_wf] sample_valid
    by (simp add: sample_pest_def lit_def)
qed

end
