(* ===== verification/Laicc_Cli.thy ===== *)
theory Laicc_Cli
  imports Laicc_Roundtrip Laicc_Rust_Contract
begin

text \<open>
  The compiler binary, \<open>crates/laicc/src/main.rs\<close>: reading the contract, generating the bindings of one
  target and writing them, or printing the inspection. The file system is an argument (its operations
  and, for the properties, their laws), the arguments of the command line arrive parsed. A path is its
  text, with the Unix rules of \<open>std::path\<close>.
\<close>

section \<open>Paths\<close>

definition path_components :: "text \<Rightarrow> text list" where
  "path_components p = filter (\<lambda>c. c \<noteq> [] \<and> c \<noteq> lit ''.'') (split_on 47 p)"

definition path_file_name :: "text \<Rightarrow> text option" where
  "path_file_name p =
     (let cs = path_components p in
      if cs = [] \<or> last cs = lit ''..'' then None else Some (last cs))"

text \<open>The file name before its last dot; a leading dot does not start an extension.\<close>

definition before_last_dot :: "text \<Rightarrow> text" where
  "before_last_dot name =
     (let before = rev (tl (dropWhile (\<lambda>c. c \<noteq> 46) (rev name))) in
      if 46 \<notin> set name \<or> before = [] then name else before)"

definition path_file_stem :: "text \<Rightarrow> text option" where
  "path_file_stem p = map_option before_last_dot (path_file_name p)"

definition path_join :: "text \<Rightarrow> text \<Rightarrow> text" where
  "path_join dir name =
     (if name \<noteq> [] \<and> hd name = 47 then name
      else if dir = [] \<or> last dir = 47 then dir @ name
      else dir @ [47] @ name)"

section \<open>The world\<close>

record 'w fs =
  read_to_string :: "text \<Rightarrow> 'w \<Rightarrow> text + text"
  create_dir_all :: "text \<Rightarrow> 'w \<Rightarrow> (text + unit) \<times> 'w"
  write_file :: "text \<Rightarrow> text \<Rightarrow> 'w \<Rightarrow> (text + unit) \<times> 'w"

record 'w world =
  disk :: 'w
  stdout :: "text"
  stderr :: "text"

datatype target_language = ToRust | ToPython | ToTypeScript

record cli =
  cli_input :: "text option"
  cli_command :: "text option"
  cli_lang :: target_language
  cli_output :: "text"

text \<open>The third-party and library functions the compiler is linked with.\<close>

record 'w tools =
  tool_fs :: "'w fs"
  tool_pest :: pest_parse
  tool_parse_f64 :: parse_f64
  tool_show_f64 :: show_f64

section \<open>Commands\<close>

definition read_contract :: "'w tools \<Rightarrow> text \<Rightarrow> 'w world \<Rightarrow> text + laic_file" where
  "read_contract tools input w =
     try_bind (map_err (\<lambda>err. lit ''failed to read input file '' @ quoted_text input @ fmt '': {}'' [err])
       (read_to_string (tool_fs tools) input (disk w))) (\<lambda>source.
     map_err display_compile_error (compile (tool_pest tools) (tool_parse_f64 tools) source))"

definition generate_code :: "'w tools \<Rightarrow> target_language \<Rightarrow> laic_file \<Rightarrow> (text \<times> text) option" where
  "generate_code tools lang file =
     (case lang of
        ToRust \<Rightarrow> map_option (\<lambda>code. (code, lit ''rs'')) (generate_rust (tool_show_f64 tools) file)
      | ToPython \<Rightarrow> Some (generate_python (tool_show_f64 tools) file, lit ''py'')
      | ToTypeScript \<Rightarrow> Some (generate_typescript (tool_show_f64 tools) file, lit ''ts''))"

definition output_path :: "text \<Rightarrow> text \<Rightarrow> text \<Rightarrow> text" where
  "output_path input output ext =
     (let stem = (case path_file_stem input of Some s \<Rightarrow> s | None \<Rightarrow> lit ''output'') in
      path_join output (fmt ''{}_laic.{}'' [stem, ext]))"

definition generate_bindings :: "'w tools \<Rightarrow> cli \<Rightarrow> 'w world \<Rightarrow> ((text + unit) \<times> 'w world) option" where
  "generate_bindings tools args w =
     (case cli_input args of
        None \<Rightarrow> Some (Inl (raw ''missing input `.laic` file''), w)
      | Some input \<Rightarrow>
          (case read_contract tools input w of
             Inl e \<Rightarrow> Some (Inl e, w)
           | Inr file \<Rightarrow>
               (case generate_code tools (cli_lang args) file of
                  None \<Rightarrow> None
                | Some (code, ext) \<Rightarrow>
                    (let out_path = output_path input (cli_output args) ext in
                     case create_dir_all (tool_fs tools) (cli_output args) (disk w) of
                       (Inl err, d) \<Rightarrow>
                         Some (Inl (lit ''failed to create output directory '' @ quoted_text (cli_output args)
                           @ fmt '': {}'' [err]), w\<lparr>disk := d\<rparr>)
                     | (Inr _, d) \<Rightarrow>
                         (case write_file (tool_fs tools) out_path code d of
                            (Inl err, d) \<Rightarrow>
                              Some (Inl (lit ''failed to write output file '' @ quoted_text out_path
                                @ fmt '': {}'' [err]), w\<lparr>disk := d\<rparr>)
                          | (Inr _, d) \<Rightarrow>
                              Some (Inr (), w\<lparr>disk := d, stderr := stderr w @ fmt ''wrote {}~'' [out_path]\<rparr>))))))"

definition run :: "'w tools \<Rightarrow> cli \<Rightarrow> 'w world \<Rightarrow> ((text + unit) \<times> 'w world) option" where
  "run tools args w =
     (case cli_command args of
        Some input \<Rightarrow>
          (case read_contract tools input w of
             Inl e \<Rightarrow> Some (Inl e, w)
           | Inr file \<Rightarrow> Some (Inr (), w\<lparr>stdout := stdout w @ fmt ''{}~'' [inspect_schema input file]\<rparr>))
      | None \<Rightarrow> generate_bindings tools args w)"

text \<open>\<open>main\<close> with the exit code; \<open>None\<close> is a panic.\<close>

definition laicc_main :: "'w tools \<Rightarrow> cli \<Rightarrow> 'w world \<Rightarrow> (nat \<times> 'w world) option" where
  "laicc_main tools args w =
     (case run tools args w of
        None \<Rightarrow> None
      | Some (Inr _, w) \<Rightarrow> Some (0, w)
      | Some (Inl e, w) \<Rightarrow> Some (1, w\<lparr>stderr := stderr w @ fmt ''laicc: {}~'' [e]\<rparr>))"

section \<open>Where the output goes\<close>

lemma split_on_last:
  "sep \<notin> set name \<Longrightarrow> name \<noteq> [] \<Longrightarrow> dir = [] \<or> last dir = sep \<Longrightarrow>
    \<exists>cs. split_on sep (dir @ name) = cs @ [name]"
  by (cases dir rule: rev_cases) (auto simp: split_on_no_sep split_on_append_sep)

lemma join_components:
  assumes "47 \<notin> set name" and "name \<noteq> []" and "name \<noteq> lit ''.''"
  shows "\<exists>cs. path_components (path_join dir name) = cs @ [name]"
proof -
  have "hd name \<noteq> 47" using assms by (cases name) auto
  then have "\<exists>cs. split_on 47 (path_join dir name) = cs @ [name]"
    using split_on_last [OF assms(1,2), of dir] split_on_append_sep [of 47 dir name] split_on_no_sep [OF assms(1)]
    by (auto simp: path_join_def)
  then show ?thesis using assms by (auto simp: path_components_def)
qed

lemma join_file_name:
  assumes "47 \<notin> set name" and "name \<noteq> []" and "name \<noteq> lit ''.''" and "name \<noteq> lit ''..''"
  shows "path_file_name (path_join dir name) = Some name"
  using join_components [OF assms(1-3), of dir] assms(4) by (auto simp: path_file_name_def)

lemma before_last_dot_suffix:
  "46 \<notin> set ext \<Longrightarrow> stem \<noteq> [] \<Longrightarrow> before_last_dot (stem @ 46 # ext) = stem"
proof -
  assume "46 \<notin> set ext" "stem \<noteq> []"
  then have "dropWhile (\<lambda>c. c \<noteq> 46) (rev ext @ 46 # rev stem) = 46 # rev stem"
    by (subst dropWhile_append2) auto
  with \<open>stem \<noteq> []\<close> show ?thesis by (simp add: before_last_dot_def)
qed

lemma set_before_last_dot: "c \<in> set (before_last_dot name) \<Longrightarrow> c \<in> set name"
  using set_dropWhileD [of c "\<lambda>c. c \<noteq> 46" "rev name"]
    list.set_sel(2) [of "dropWhile (\<lambda>c. c \<noteq> 46) (rev name)" c]
  by (cases "dropWhile (\<lambda>c. c \<noteq> 46) (rev name)") (auto simp: before_last_dot_def Let_def split: if_splits)

lemma before_last_dot_nonempty [simp]: "name \<noteq> [] \<Longrightarrow> before_last_dot name \<noteq> []"
  by (simp add: before_last_dot_def Let_def)

lemma file_stem_plain: "path_file_stem p = Some stem \<Longrightarrow> stem \<noteq> [] \<and> 47 \<notin> set stem"
proof -
  assume "path_file_stem p = Some stem"
  then obtain name where name: "path_file_name p = Some name" "stem = before_last_dot name"
    by (auto simp: path_file_stem_def)
  then have "name \<in> set (path_components p)"
    by (auto simp: path_file_name_def Let_def split: if_splits)
  then have "name \<noteq> []" "47 \<notin> set name"
    using set_split_on by (auto simp: path_components_def)
  then show ?thesis using name(2) set_before_last_dot by auto
qed

definition extensions :: "text list" where
  "extensions = [lit ''rs'', lit ''py'', lit ''ts'']"

lemma fmt_output: "fmt ''{}_laic.{}'' [stem, ext] = stem @ lit ''_laic'' @ 46 # ext"
  by (simp add: fmt_def lit_def template_char_def)

lemma output_file_stem:
  assumes "stem \<noteq> []" and "47 \<notin> set stem" and "ext \<in> set extensions"
  shows "path_file_stem (path_join dir (fmt ''{}_laic.{}'' [stem, ext])) = Some (stem @ lit ''_laic'')"
proof -
  let ?name = "stem @ lit ''_laic'' @ 46 # ext"
  have ext: "46 \<notin> set ext" "47 \<notin> set ext" "length ext = 2" using assms(3) by (auto simp: extensions_def lit_def)
  have len: "length ?name > 2" by (simp add: lit_def)
  have "path_file_name (path_join dir ?name) = Some ?name"
    by (rule join_file_name) (use assms ext len in \<open>auto simp: lit_def\<close>)
  then show ?thesis
    using before_last_dot_suffix [OF ext(1), of "stem @ lit ''_laic''"] assms(1)
    by (simp add: path_file_stem_def fmt_output)
qed

text \<open>The output path of an input never is that input.\<close>

lemma output_path_not_input:
  assumes "ext \<in> set extensions"
  shows "output_path input dir ext \<noteq> input"
proof
  assume same: "output_path input dir ext = input"
  show False
  proof (cases "path_file_stem input")
    case None
    have "path_file_stem (output_path input dir ext) \<noteq> None"
      using output_file_stem [of "lit ''output''" ext dir] assms None by (simp add: output_path_def lit_def)
    then show False using same None by simp
  next
    case (Some stem)
    then have "path_file_stem (output_path input dir ext) = Some (stem @ lit ''_laic'')"
      using output_file_stem [of stem ext dir] file_stem_plain [OF Some] assms by (simp add: output_path_def)
    then show False using same Some by (simp add: lit_def)
  qed
qed

section \<open>File systems\<close>

text \<open>
  What the compiler relies on: seen as a map from paths to contents, creating directories changes no
  file, writing a file changes no other, and after a successful write it has the written contents. A
  file is identified with its path: symbolic and hard links, through which a write reaches a file under
  another path, are outside the law.
\<close>

definition fs_law :: "'w fs \<Rightarrow> ('w \<Rightarrow> text \<Rightarrow> text option) \<Rightarrow> bool" where
  "fs_law ops files \<longleftrightarrow>
     (\<forall>p w. files (snd (create_dir_all ops p w)) = files w)
     \<and> (\<forall>p c w. (\<forall>q. q \<noteq> p \<longrightarrow> files (snd (write_file ops p c w)) q = files w q)
          \<and> (fst (write_file ops p c w) = Inr () \<longrightarrow> files (snd (write_file ops p c w)) p = Some c))
     \<and> (\<forall>p w c. read_to_string ops p w = Inr c \<longrightarrow> files w p = Some c)"

lemma generated_extension:
  "generate_code tools lang file = Some (code, ext) \<Longrightarrow> ext \<in> set extensions"
  by (auto simp: generate_code_def extensions_def split: target_language.splits)

lemma read_contract_valid: "read_contract tools input w = Inr file \<Longrightarrow> valid_file file"
  by (auto simp: read_contract_def try_bind_Inr_iff compile_def validate_ok [symmetric])

text \<open>The three ways generation can leave the disk: untouched, with the directory, with the file.\<close>

definition made_dir :: "'w tools \<Rightarrow> cli \<Rightarrow> 'w world \<Rightarrow> 'w" where
  "made_dir tools args w = snd (create_dir_all (tool_fs tools) (cli_output args) (disk w))"

lemma generate_bindings_cases:
  assumes "generate_bindings tools args w = Some (r, w')"
  obtains (untouched) e where "r = Inl e" "disk w' = disk w"
    | (directory) e where "r = Inl e" "disk w' = made_dir tools args w"
    | (written) input f src ext where "cli_input args = Some input" "read_contract tools input w = Inr f"
        "generate_code tools (cli_lang args) f = Some (src, ext)"
        "disk w' = snd (write_file (tool_fs tools) (output_path input (cli_output args) ext) src (made_dir tools args w))"
        "r = Inr () \<longrightarrow>
           fst (write_file (tool_fs tools) (output_path input (cli_output args) ext) src (made_dir tools args w)) = Inr ()"
  using assms
  by (auto simp: generate_bindings_def made_dir_def Let_def split: option.splits sum.splits prod.splits)

lemma generate_bindings_files:
  assumes law: "fs_law (tool_fs tools) files" and run: "generate_bindings tools args w = Some (r, w')"
  shows "\<forall>input p. cli_input args = Some input \<and> (\<forall>ext \<in> set extensions. p \<noteq> output_path input (cli_output args) ext)
            \<longrightarrow> files (disk w') p = files (disk w) p"
    and "cli_input args = None \<Longrightarrow> disk w' = disk w"
    and "r = Inr () \<Longrightarrow> \<exists>input file src ext. cli_input args = Some input \<and> valid_file file
          \<and> read_contract tools input w = Inr file
          \<and> generate_code tools (cli_lang args) file = Some (src, ext)
          \<and> files (disk w') (output_path input (cli_output args) ext) = Some src"
proof -
  have dir: "files (made_dir tools args w) = files (disk w)"
    using law by (simp add: fs_law_def made_dir_def)
  show "\<forall>input p. cli_input args = Some input \<and> (\<forall>ext \<in> set extensions. p \<noteq> output_path input (cli_output args) ext)
            \<longrightarrow> files (disk w') p = files (disk w) p"
    using run
  proof (cases rule: generate_bindings_cases)
    case (written input f src ext)
    then show ?thesis
      using law dir generated_extension [OF written(3)] by (auto simp: fs_law_def)
  qed (simp_all add: dir)
  show "disk w' = disk w" if "cli_input args = None"
    using run that by (simp add: generate_bindings_def)
  show "\<exists>input file src ext. cli_input args = Some input \<and> valid_file file
          \<and> read_contract tools input w = Inr file
          \<and> generate_code tools (cli_lang args) file = Some (src, ext)
          \<and> files (disk w') (output_path input (cli_output args) ext) = Some src" if "r = Inr ()"
    using run
  proof (cases rule: generate_bindings_cases)
    case (written input f src ext)
    then have "files (disk w') (output_path input (cli_output args) ext) = Some src"
      using law that by (simp add: fs_law_def)
    then show ?thesis using written read_contract_valid [OF written(2)] by blast
  qed (use that in simp_all)
qed

section \<open>Properties\<close>

text \<open>
  C23. What a run of the compiler changes: it prints nothing and touches no file but the output file
  (inspection touches none), never the contract it reads; a zero exit code of a generation run means
  that the contract is valid and the output file holds exactly the code generated for it. Files are paths here
  (\<open>fs_law\<close>), so links are not considered.
\<close>

theorem compiler_effects:
  assumes "fs_law (tool_fs tools) files" and "laicc_main tools args w = Some (code, w')"
  shows "(\<forall>input p. cli_input args = Some input \<and> (\<forall>ext \<in> set extensions. p \<noteq> output_path input (cli_output args) ext)
            \<longrightarrow> files (disk w') p = files (disk w) p)
    \<and> (\<forall>input. cli_input args = Some input \<longrightarrow> files (disk w') input = files (disk w) input)
    \<and> (cli_command args \<noteq> None \<or> cli_input args = None \<longrightarrow> disk w' = disk w)
    \<and> (cli_command args = None \<and> code = 0 \<longrightarrow>
        (\<exists>input file src ext. cli_input args = Some input \<and> valid_file file
          \<and> read_contract tools input w = Inr file
          \<and> generate_code tools (cli_lang args) file = Some (src, ext)
          \<and> files (disk w') (output_path input (cli_output args) ext) = Some src))"
proof (cases "cli_command args")
  case None
  then obtain r v where run: "generate_bindings tools args w = Some (r, v)"
    and w': "disk w' = disk v" "code = 0 \<longrightarrow> r = Inr ()"
    using assms(2) by (auto simp: laicc_main_def run_def split: option.splits sum.splits)
  note effects = generate_bindings_files [OF assms(1) run]
  have "\<forall>input. cli_input args = Some input \<longrightarrow> files (disk w') input = files (disk w) input"
    using effects(1) output_path_not_input w'(1) by metis
  then show ?thesis using effects None w' by auto
next
  case (Some input)
  then have "disk w' = disk w"
    using assms(2) by (auto simp: laicc_main_def run_def split: option.splits sum.splits)
  then show ?thesis using Some by simp
qed

definition memory_fs :: "(text \<Rightarrow> text option) fs" where
  "memory_fs =
     \<lparr>read_to_string = (\<lambda>p w. case w p of Some c \<Rightarrow> Inr c | None \<Rightarrow> Inl (lit ''not found'')),
      create_dir_all = (\<lambda>p w. (Inr (), w)),
      write_file = (\<lambda>p c w. (Inr (), w(p \<mapsto> c)))\<rparr>"

definition sample_tools :: "(text \<Rightarrow> text option) tools" where
  "sample_tools = \<lparr>tool_fs = memory_fs, tool_pest = sample_pest, tool_parse_f64 = half_or_fail,
     tool_show_f64 = (\<lambda>_. lit ''0.5'')\<rparr>"

definition sample_args :: cli where
  "sample_args = \<lparr>cli_input = Some (lit ''embed.laic''), cli_command = None, cli_lang = ToPython,
     cli_output = lit ''out''\<rparr>"

definition sample_world :: "(text \<Rightarrow> text option) world" where
  "sample_world = \<lparr>disk = [lit ''embed.laic'' \<mapsto> lit ''sample''], stdout = [], stderr = []\<rparr>"

lemma sample_output: "output_path (lit ''embed.laic'') (lit ''out'') (lit ''py'') = lit ''out/embed_laic.py''"
  by code_simp

theorem compiler_effects_witness:
  "\<exists>w'. laicc_main sample_tools sample_args sample_world = Some (0, w')
    \<and> disk w' (lit ''embed.laic'') = Some (lit ''sample'')
    \<and> disk w' (lit ''out/embed_laic.py'') = Some (generate_python (\<lambda>_. lit ''0.5'') sample_file)"
proof -
  have law: "fs_law (tool_fs sample_tools) (\<lambda>w. w)"
    by (auto simp: fs_law_def sample_tools_def memory_fs_def split: option.splits)
  have contract: "read_contract sample_tools (lit ''embed.laic'') sample_world = Inr sample_file"
    by (simp add: read_contract_def sample_tools_def memory_fs_def sample_world_def sample_compile)
  then obtain w' where w': "laicc_main sample_tools sample_args sample_world = Some (0, w')"
    by (simp add: laicc_main_def run_def sample_args_def generate_bindings_def generate_code_def
        sample_tools_def memory_fs_def Let_def)
  show ?thesis
    using compiler_effects [OF law w'] w' contract
    by (auto simp: sample_args_def generate_code_def sample_output sample_tools_def) (simp add: sample_world_def)
qed

end
