(* ===== verification/Laicc_Shape.thy ===== *)
theory Laicc_Shape
  imports Laicc_Parser Laicc_Inspect
begin

text \<open>
  What the generated bindings do with tensor metadata at run time: the checks that the Rust, Python and
  TypeScript generators emit (the code is in their templates), run on the metadata that a generated
  serializer writes. The three checks are written independently in three languages; the property is
  that they give the same verdict. JavaScript numbers are an argument, exact up to \<open>2 ^ 53\<close>.
\<close>

section \<open>Metadata and errors\<close>

type_synonym metadata = "text \<Rightarrow> text option"

definition dtype_key :: "text" where "dtype_key = lit ''laic.tensor.dtype''"
definition shape_key :: "text" where "shape_key = lit ''laic.tensor.shape''"

text \<open>The field metadata of a serialized tensor field.\<close>

definition emitted_metadata :: "tensor_element_type \<Rightarrow> text \<Rightarrow> metadata" where
  "emitted_metadata dtype shape =
     [dtype_key \<mapsto> lit (tensor_as_str dtype), shape_key \<mapsto> shape, lit ''laic.tensor.version'' \<mapsto> lit ''1'']"

datatype tensor_error =
  MissingDtype | WrongDtype | MissingShape | BadShape | WrongRank | WrongDim nat

text \<open>The loop over the dimensions, which reports the first that differs.\<close>

fun check_dims :: "('d \<Rightarrow> 'n \<Rightarrow> bool) \<Rightarrow> nat \<Rightarrow> 'd list \<Rightarrow> 'n list \<Rightarrow> tensor_error + unit" where
  "check_dims differs i (d # ds) (v # vs) =
     (if differs d v then Inl (WrongDim i) else check_dims differs (Suc i) ds vs)"
| "check_dims differs i _ _ = Inr ()"

fun collect :: "('e + 'a) list \<Rightarrow> 'e + 'a list" where
  "collect [] = Inr []"
| "collect (r # rs) = try_bind r (\<lambda>x. try_bind (collect rs) (\<lambda>xs. Inr (x # xs)))"

section \<open>Rust\<close>

definition is_bracket :: "nat \<Rightarrow> bool" where
  "is_bracket c \<longleftrightarrow> c = 91 \<or> c = 93"

definition rust_parse_shape :: "text \<Rightarrow> int_error + int list" where
  "rust_parse_shape s =
     collect (map (\<lambda>part. parse_usize (trim part)) (filter (\<lambda>part. part \<noteq> []) (split_on 44 (trim_both is_bracket s))))"

fun differs_fixed :: "dimension \<Rightarrow> int \<Rightarrow> bool" where
  "differs_fixed (Fixed n) v \<longleftrightarrow> v \<noteq> int n"
| "differs_fixed (Dynamic _) v \<longleftrightarrow> False"

definition rust_check_tensor :: "tensor_element_type \<Rightarrow> dimension list \<Rightarrow> metadata \<Rightarrow> tensor_error + unit" where
  "rust_check_tensor dtype dims meta =
     (case meta dtype_key of
        None \<Rightarrow> Inl MissingDtype
      | Some dtype_str \<Rightarrow>
          if dtype_str \<noteq> lit (tensor_as_str dtype) then Inl WrongDtype
          else case meta shape_key of
            None \<Rightarrow> Inl MissingShape
          | Some shape_str \<Rightarrow>
              (case rust_parse_shape shape_str of
                 Inl _ \<Rightarrow> Inl BadShape
               | Inr shape \<Rightarrow>
                   if length shape \<noteq> length dims then Inl WrongRank
                   else check_dims differs_fixed 0 dims shape))"

section \<open>Python\<close>

text \<open>
  \<open>int(x)\<close> for ASCII digits: surrounding white space, a sign, and single underscores between digits are
  allowed, and there is no upper bound.
\<close>

definition is_python_space :: "nat \<Rightarrow> bool" where
  "is_python_space c \<longleftrightarrow> is_whitespace c \<or> (28 \<le> c \<and> c \<le> 31)"

definition python_int :: "text \<Rightarrow> int option" where
  "python_int s =
     (let t = trim_both is_python_space s;
          body = (if t \<noteq> [] \<and> (hd t = 43 \<or> hd t = 45) then tl t else t);
          groups = split_on 95 body
      in if list_all all_digits groups
         then Some (if t \<noteq> [] \<and> hd t = 45 then - int (digits_value (concat groups)) else int (digits_value (concat groups)))
         else None)"

fun collect_option :: "'a option list \<Rightarrow> 'a list option" where
  "collect_option [] = Some []"
| "collect_option (None # rs) = None"
| "collect_option (Some x # rs) = map_option ((#) x) (collect_option rs)"

definition python_parse_shape :: "text \<Rightarrow> int list option" where
  "python_parse_shape s =
     collect_option (map python_int (filter (\<lambda>part. part \<noteq> []) (split_on 44 (trim_both is_bracket s))))"

definition python_check_tensor :: "tensor_element_type \<Rightarrow> dimension list \<Rightarrow> metadata \<Rightarrow> tensor_error + unit" where
  "python_check_tensor dtype dims meta =
     (case meta dtype_key of
        None \<Rightarrow> Inl MissingDtype
      | Some dtype_str \<Rightarrow>
          if dtype_str \<noteq> lit (tensor_as_str dtype) then Inl WrongDtype
          else case meta shape_key of
            None \<Rightarrow> Inl MissingShape
          | Some shape_str \<Rightarrow>
              (case python_parse_shape shape_str of
                 None \<Rightarrow> Inl BadShape
               | Some shape \<Rightarrow>
                   if length shape \<noteq> length dims then Inl WrongRank
                   else check_dims differs_fixed 0 dims shape))"

section \<open>TypeScript\<close>

definition is_js_space :: "nat \<Rightarrow> bool" where
  "is_js_space c \<longleftrightarrow> (is_whitespace c \<and> c \<noteq> 0x85) \<or> c = 0xFEFF"

definition js_trim :: "text \<Rightarrow> text" where
  "js_trim s = trim_both is_js_space s"

text \<open>\<open>Number.parseInt(s, 10)\<close>: the longest digit prefix after white space and a sign; \<open>None\<close> is \<open>NaN\<close>.\<close>

definition js_parse_int :: "text \<Rightarrow> int option" where
  "js_parse_int s =
     (let t = dropWhile is_js_space s;
          body = (if t \<noteq> [] \<and> (hd t = 43 \<or> hd t = 45) then tl t else t);
          digits = takeWhile is_digit body
      in if digits = [] then None
         else Some (if t \<noteq> [] \<and> hd t = 45 then - int (digits_value digits) else int (digits_value digits)))"

definition laicParseTensorShape :: "(int \<Rightarrow> 'n) \<Rightarrow> text \<Rightarrow> 'n list option" where
  "laicParseTensorShape js raw_shape =
     (let body = js_trim (butlast (tl (js_trim raw_shape))) in
      if body = [] then Some []
      else collect_option (map (\<lambda>part. map_option js (js_parse_int (js_trim part))) (split_on 44 body)))"

definition laicAssertTensorMetadata ::
    "(int \<Rightarrow> 'n) \<Rightarrow> text \<Rightarrow> 'n list \<Rightarrow> metadata \<Rightarrow> tensor_error + unit" where
  "laicAssertTensorMetadata js expected_dtype expected_shape meta =
     (case meta dtype_key of
        None \<Rightarrow> Inl MissingDtype
      | Some actual \<Rightarrow>
          if actual \<noteq> expected_dtype then Inl WrongDtype
          else case meta shape_key of
            None \<Rightarrow> Inl MissingShape
          | Some raw_shape \<Rightarrow>
              (case laicParseTensorShape js raw_shape of
                 None \<Rightarrow> Inl BadShape
               | Some actual_shape \<Rightarrow>
                   if length actual_shape \<noteq> length expected_shape then Inl WrongRank
                   else check_dims (\<lambda>expected actual. expected \<noteq> js 0 \<and> actual \<noteq> expected) 0
                          expected_shape actual_shape))"

text \<open>The number a dimension is written as; the generated call passes these as an array literal.\<close>

fun dim_value :: "dimension \<Rightarrow> nat" where
  "dim_value (Fixed n) = n"
| "dim_value (Dynamic _) = 0"

definition ts_check_tensor ::
    "(int \<Rightarrow> 'n) \<Rightarrow> tensor_element_type \<Rightarrow> dimension list \<Rightarrow> metadata \<Rightarrow> tensor_error + unit" where
  "ts_check_tensor js dtype dims meta =
     laicAssertTensorMetadata js (lit (tensor_as_str dtype)) (map (\<lambda>d. js (int (dim_value d))) dims) meta"

section \<open>Reading back a shape\<close>

definition shape_parts :: "dimension list \<Rightarrow> text list" where
  "shape_parts dims = map (\<lambda>d. decimal (dim_value d)) dims"

lemma shape_text: "format_tensor_shape_metadata dims = 91 # join [44] (shape_parts dims) @ [93]"
proof -
  have "(case d of Fixed n \<Rightarrow> decimal n | Dynamic _ \<Rightarrow> lit ''0'') = decimal (dim_value d)" for d
    by (cases d) (simp_all add: decimal_step lit_def)
  then show ?thesis
    by (simp add: format_tensor_shape_metadata_def shape_parts_def fmt_def lit_def template_char_def)
qed

lemma split_join:
  assumes "ps \<noteq> []" and "\<And>p. p \<in> set ps \<Longrightarrow> 44 \<notin> set p"
  shows "split_on 44 (join [44] ps) = ps"
  using assms
  by (induction ps rule: induct_list012) (simp_all add: split_on_no_sep split_on_append_sep)

lemma join_ends:
  assumes "ps \<noteq> []" and "\<And>p. p \<in> set ps \<Longrightarrow> all_digits p"
  shows "join [44] ps \<noteq> [] \<and> is_digit (hd (join [44] ps)) \<and> is_digit (last (join [44] ps))"
  using assms
proof (induction ps rule: induct_list012)
  case (2 p)
  then have "all_digits p" by simp
  then show ?case using hd_digit [of p] last_in_set [of p] by (auto simp: all_digits_def list_all_iff)
next
  case (3 p q ps)
  then have "all_digits p" by simp
  then show ?case using 3 hd_digit [of p] by (auto simp: all_digits_def)
qed simp

lemma digits_not_space: "is_digit c \<Longrightarrow> \<not> is_whitespace c \<and> \<not> is_python_space c \<and> \<not> is_js_space c \<and> \<not> is_bracket c"
  by (auto simp: is_digit_def is_whitespace_def is_python_space_def is_js_space_def is_bracket_def)

lemma trim_both_digits:
  assumes "all_digits s" and "\<And>c. is_digit c \<Longrightarrow> \<not> d c"
  shows "trim_both d s = s"
  using assms hd_in_set [of s] last_in_set [of s]
  by (intro trim_both_id) (auto simp: all_digits_def list_all_iff simp del: hd_in_set last_in_set)

lemma bracketed_trim:
  assumes "s \<noteq> []" and "\<not> d (hd s)" and "\<not> d (last s)" and "d a" and "d b"
  shows "trim_both d (a # s @ [b]) = s"
  using assms by (simp add: trim_both_def dropWhile_hd hd_rev)

lemma collect_map: "(\<And>x. x \<in> set xs \<Longrightarrow> f x = Inr (g x)) \<Longrightarrow> collect (map f xs) = Inr (map g xs)"
  by (induction xs) auto

lemma collect_option_map: "(\<And>x. x \<in> set xs \<Longrightarrow> f x = Some (g x)) \<Longrightarrow> collect_option (map f xs) = Some (map g xs)"
  by (induction xs) auto

text \<open>The shape text of a tensor, for each reader.\<close>


lemma part_digits: "p \<in> set (shape_parts dims) \<Longrightarrow> all_digits p"
  using decimal_digits by (auto simp: shape_parts_def)

lemma parts_split:
  assumes "dims \<noteq> []"
  shows "split_on 44 (join [44] (shape_parts dims)) = shape_parts dims"
    and "filter (\<lambda>part. part \<noteq> []) (shape_parts dims) = shape_parts dims"
proof -
  have "44 \<notin> set p" if "p \<in> set (shape_parts dims)" for p
    using part_digits [OF that] by (force simp: all_digits_def list_all_iff is_digit_def)
  then show "split_on 44 (join [44] (shape_parts dims)) = shape_parts dims"
    using assms by (intro split_join) (auto simp: shape_parts_def)
  show "filter (\<lambda>part. part \<noteq> []) (shape_parts dims) = shape_parts dims"
    by (simp add: filter_id_conv shape_parts_def)
qed

lemma body_ends:
  "dims \<noteq> [] \<Longrightarrow> join [44] (shape_parts dims) \<noteq> [] \<and> is_digit (hd (join [44] (shape_parts dims)))
    \<and> is_digit (last (join [44] (shape_parts dims)))"
  by (intro join_ends part_digits) (auto simp: shape_parts_def)

lemma brackets_trimmed:
  "dims \<noteq> [] \<Longrightarrow> trim_both is_bracket (format_tensor_shape_metadata dims) = join [44] (shape_parts dims)"
  unfolding shape_text using body_ends [of dims] digits_not_space
  by (intro bracketed_trim) (auto simp: is_bracket_def)

lemma rust_reads_shape:
  assumes "dims \<noteq> []" and "\<forall>d \<in> set dims. dim_value d < 2 ^ 64"
  shows "rust_parse_shape (format_tensor_shape_metadata dims) = Inr (map (\<lambda>d. int (dim_value d)) dims)"
proof -
  have "collect (map (\<lambda>part. parse_usize (trim part)) (shape_parts dims)) = Inr (map (\<lambda>d. int (dim_value d)) dims)"
    unfolding shape_parts_def map_map comp_def
    using assms decimal_digits
    by (intro collect_map) (auto simp: trim_def trim_both_digits digits_not_space usize_digits)
  then show ?thesis
    using parts_split [OF assms(1)] by (simp add: rust_parse_shape_def brackets_trimmed assms(1))
qed

lemma python_int_decimal: "python_int (decimal n) = Some (int n)"
proof -
  have "95 \<notin> set (decimal n)" using decimal_is_digit [of 95 n] by (auto simp: is_digit_def)
  then have "split_on 95 (decimal n) = [decimal n]" by (rule split_on_no_sep)
  then show ?thesis
    using hd_digit [OF decimal_digits [of n]] decimal_digits [of n]
    by (simp add: python_int_def trim_both_digits digits_not_space Let_def)
qed

lemma python_reads_shape:
  assumes "dims \<noteq> []"
  shows "python_parse_shape (format_tensor_shape_metadata dims) = Some (map (\<lambda>d. int (dim_value d)) dims)"
proof -
  have "collect_option (map python_int (shape_parts dims)) = Some (map (\<lambda>d. int (dim_value d)) dims)"
    unfolding shape_parts_def map_map comp_def by (intro collect_option_map python_int_decimal)
  then show ?thesis
    using parts_split [OF assms] by (simp add: python_parse_shape_def brackets_trimmed assms)
qed

lemma js_parse_decimal: "js_parse_int (js_trim (decimal n)) = Some (int n)"
proof -
  have digits: "takeWhile is_digit (decimal n) = decimal n"
    using decimal_is_digit by (auto simp: takeWhile_eq_all_conv)
  then show ?thesis
    using hd_digit [OF decimal_digits [of n]] decimal_digits [of n]
    by (simp add: js_parse_int_def js_trim_def trim_both_digits digits_not_space dropWhile_hd digits Let_def)
qed

lemma ts_reads_shape:
  assumes "dims \<noteq> []"
  shows "laicParseTensorShape js (format_tensor_shape_metadata dims) = Some (map (\<lambda>d. js (int (dim_value d))) dims)"
proof -
  let ?body = "join [44] (shape_parts dims)"
  have ends: "?body \<noteq> []" "is_digit (hd ?body)" "is_digit (last ?body)" using body_ends [OF assms] by simp_all
  have outer: "js_trim (91 # ?body @ [93]) = 91 # ?body @ [93]"
    unfolding js_trim_def by (rule trim_both_id) (auto simp: is_js_space_def is_whitespace_def)
  have inner: "js_trim ?body = ?body"
    unfolding js_trim_def using ends digits_not_space by (intro trim_both_id) auto
  have "collect_option (map (\<lambda>part. map_option js (js_parse_int (js_trim part))) (shape_parts dims))
      = Some (map (\<lambda>d. js (int (dim_value d))) dims)"
    unfolding shape_parts_def map_map comp_def by (intro collect_option_map) (simp add: js_parse_decimal)
  then show ?thesis
    using parts_split [OF assms] ends outer inner
    by (simp add: laicParseTensorShape_def shape_text butlast_append)
qed

section \<open>The three checks agree\<close>

text \<open>The contract: same element type, same rank, and every fixed dimension as declared.\<close>

fun first_mismatch :: "nat \<Rightarrow> dimension list \<Rightarrow> dimension list \<Rightarrow> nat option" where
  "first_mismatch i (Fixed n # ds) (d # ds') = (if dim_value d \<noteq> n then Some i else first_mismatch (Suc i) ds ds')"
| "first_mismatch i (Dynamic _ # ds) (d # ds') = first_mismatch (Suc i) ds ds'"
| "first_mismatch i _ _ = None"

definition tensor_verdict ::
    "tensor_element_type \<Rightarrow> dimension list \<Rightarrow> tensor_element_type \<Rightarrow> dimension list \<Rightarrow> tensor_error + unit" where
  "tensor_verdict dtype dims written_dtype written_dims =
     (if written_dtype \<noteq> dtype then Inl WrongDtype
      else if length written_dims \<noteq> length dims then Inl WrongRank
      else case first_mismatch 0 dims written_dims of Some i \<Rightarrow> Inl (WrongDim i) | None \<Rightarrow> Inr ())"

lemma tensor_as_str_inject: "tensor_as_str a = tensor_as_str b \<longleftrightarrow> a = b"
  by (cases a; cases b) simp_all

lemma emitted_keys [simp]:
  "emitted_metadata dtype shape dtype_key = Some (lit (tensor_as_str dtype))"
  "emitted_metadata dtype shape shape_key = Some shape"
  by (simp_all add: emitted_metadata_def dtype_key_def shape_key_def)

lemma first_mismatch_self: "first_mismatch i ds ds = None"
proof (induction ds arbitrary: i)
  case (Cons d ds)
  then show ?case by (cases d) auto
qed simp

definition js_exact :: "(int \<Rightarrow> 'n) \<Rightarrow> bool" where
  "js_exact js \<longleftrightarrow> inj_on js {0..2 ^ 53}"

definition safe_dims :: "dimension list \<Rightarrow> bool" where
  "safe_dims dims \<longleftrightarrow> tensor_dims_ok dims \<and> (\<forall>d \<in> set dims. dim_value d \<le> 2 ^ 53)"

definition sized_dims :: "dimension list \<Rightarrow> bool" where
  "sized_dims dims \<longleftrightarrow> tensor_dims_ok dims \<and> (\<forall>d \<in> set dims. dim_value d < 2 ^ 64)"

lemma safe_small: "safe_dims dims \<Longrightarrow> \<forall>d \<in> set dims. dim_value d < 2 ^ 64"
  by (auto simp: safe_dims_def dest!: bspec intro: le_less_trans)

lemma safe_sized: "safe_dims dims \<Longrightarrow> sized_dims dims"
  using safe_small by (auto simp: sized_dims_def safe_dims_def)

text \<open>
  The interface the three languages implement: a reader of shape texts that yields the number of every
  dimension, and a comparison that tells a fixed dimension from every other size.
\<close>

definition tensor_check ::
    "(text \<Rightarrow> 'n list option) \<Rightarrow> (dimension \<Rightarrow> 'n \<Rightarrow> bool) \<Rightarrow>
     tensor_element_type \<Rightarrow> dimension list \<Rightarrow> metadata \<Rightarrow> tensor_error + unit" where
  "tensor_check read differs dtype dims meta =
     (case meta dtype_key of
        None \<Rightarrow> Inl MissingDtype
      | Some dtype_str \<Rightarrow>
          if dtype_str \<noteq> lit (tensor_as_str dtype) then Inl WrongDtype
          else case meta shape_key of
            None \<Rightarrow> Inl MissingShape
          | Some shape_str \<Rightarrow>
              (case read shape_str of
                 None \<Rightarrow> Inl BadShape
               | Some shape \<Rightarrow>
                   if length shape \<noteq> length dims then Inl WrongRank else check_dims differs 0 dims shape))"

locale tensor_binding =
  fixes check :: "tensor_element_type \<Rightarrow> dimension list \<Rightarrow> metadata \<Rightarrow> tensor_error + unit"
    and reader :: "text \<Rightarrow> 'n list option"
    and number :: "nat \<Rightarrow> 'n"
    and differs :: "dimension \<Rightarrow> 'n \<Rightarrow> bool"
    and usable :: "dimension list \<Rightarrow> bool"
  assumes checks: "check dtype dims meta = tensor_check reader differs dtype dims meta"
    and reads: "usable dims \<Longrightarrow>
      reader (format_tensor_shape_metadata dims) = Some (map (\<lambda>d. number (dim_value d)) dims)"
    and fixed: "usable ds \<Longrightarrow> usable es \<Longrightarrow> Fixed n \<in> set ds \<Longrightarrow> e \<in> set es \<Longrightarrow>
      differs (Fixed n) (number (dim_value e)) \<longleftrightarrow> dim_value e \<noteq> n"
    and dynamic: "\<not> differs (Dynamic s) v"
begin

lemma dims_verdict:
  assumes "usable ds'" and "usable es'"
  shows "length es = length ds \<Longrightarrow> set ds \<subseteq> set ds' \<Longrightarrow> set es \<subseteq> set es' \<Longrightarrow>
    check_dims differs i ds (map (\<lambda>d. number (dim_value d)) es) =
      (case first_mismatch i ds es of Some k \<Rightarrow> Inl (WrongDim k) | None \<Rightarrow> Inr ())"
proof (induction ds arbitrary: i es)
  case (Cons d ds)
  then obtain e es' where e: "es = e # es'" "length es' = length ds" by (cases es) auto
  show ?case
    using Cons.IH [of es' "Suc i"] Cons.prems e fixed [OF assms] dynamic by (cases d) auto
qed simp

lemma verdict:
  assumes "usable dims" and "usable written"
  shows "check dtype dims (emitted_metadata dtype' (format_tensor_shape_metadata written)) =
    tensor_verdict dtype dims dtype' written"
  using reads [OF assms(2)] dims_verdict [OF assms]
  by (simp add: checks tensor_check_def tensor_verdict_def tensor_as_str_inject)

end

definition to_option :: "'e + 'a \<Rightarrow> 'a option" where
  "to_option r = (case r of Inl _ \<Rightarrow> None | Inr x \<Rightarrow> Some x)"

interpretation rust_binding: tensor_binding rust_check_tensor "\<lambda>s. to_option (rust_parse_shape s)" int differs_fixed sized_dims
proof
  show "rust_check_tensor dtype dims meta = tensor_check (\<lambda>s. to_option (rust_parse_shape s)) differs_fixed dtype dims meta"
    for dtype dims meta
    by (auto simp: rust_check_tensor_def tensor_check_def to_option_def split: option.splits sum.splits)
qed (use rust_reads_shape in \<open>auto simp: to_option_def sized_dims_def tensor_dims_ok_def\<close>)

interpretation python_binding: tensor_binding python_check_tensor python_parse_shape int differs_fixed tensor_dims_ok
proof
  show "python_check_tensor dtype dims meta = tensor_check python_parse_shape differs_fixed dtype dims meta"
    for dtype dims meta
    by (simp add: python_check_tensor_def tensor_check_def)
qed (use python_reads_shape in \<open>auto simp: tensor_dims_ok_def\<close>)

lemma check_dims_map: "check_dims differs i (map f ds) vs = check_dims (\<lambda>d v. differs (f d) v) i ds vs"
  by (induction differs i "map f ds" vs arbitrary: ds rule: check_dims.induct) auto

definition differs_js :: "(int \<Rightarrow> 'n) \<Rightarrow> dimension \<Rightarrow> 'n \<Rightarrow> bool" where
  "differs_js js d v \<longleftrightarrow> js (int (dim_value d)) \<noteq> js 0 \<and> v \<noteq> js (int (dim_value d))"

lemma js_same:
  assumes "js_exact js" and "a \<le> 2 ^ 53" and "b \<le> 2 ^ 53"
  shows "js (int a) = js (int b) \<longleftrightarrow> a = b"
proof -
  have "int a \<in> {0..2 ^ 53}" "int b \<in> {0..2 ^ 53}" using assms by auto
  then show ?thesis using assms(1) unfolding js_exact_def inj_on_def by fastforce
qed

interpretation ts_binding: tensor_binding "ts_check_tensor js" "laicParseTensorShape js" "\<lambda>n. js (int n)"
    "differs_js js" "\<lambda>dims. js_exact js \<and> safe_dims dims" for js :: "int \<Rightarrow> 'n"
proof
  show "ts_check_tensor js dtype dims meta = tensor_check (laicParseTensorShape js) (differs_js js) dtype dims meta"
    for dtype dims meta
    by (simp add: ts_check_tensor_def laicAssertTensorMetadata_def tensor_check_def check_dims_map differs_js_def [abs_def]
        split: option.split)
  show "differs_js js (Fixed n) (js (int (dim_value e))) \<longleftrightarrow> dim_value e \<noteq> n"
    if "js_exact js \<and> safe_dims ds" "js_exact js \<and> safe_dims es" "Fixed n \<in> set ds" "e \<in> set es" for n e ds es
  proof -
    have "dim_value (Fixed n) \<le> 2 ^ 53" "dim_value e \<le> 2 ^ 53"
      using that unfolding safe_dims_def by blast+
    moreover have "n \<noteq> 0"
      using that(1,3) unfolding safe_dims_def tensor_dims_ok_def by (metis (no_types))
    ultimately have "n \<le> 2 ^ 53" "n \<noteq> 0" "dim_value e \<le> 2 ^ 53" by simp_all
    then show ?thesis
      using js_same [of js n 0] js_same [of js "dim_value e" n] that(1) by (auto simp: differs_js_def)
  qed
qed (use ts_reads_shape in \<open>auto simp: safe_dims_def tensor_dims_ok_def differs_js_def\<close>)

section \<open>Properties\<close>

text \<open>
  C22. Cross-language agreement on tensor contracts: on the metadata that any generated serializer
  writes for a tensor, the checks generated for Rust, Python and TypeScript give the same verdict, the
  one the contract asks for: element type, rank, and the first fixed dimension that differs, while a
  dynamic dimension accepts every size. A contract accepts its own metadata. Fixed dimensions are at
  most \<open>2 ^ 53\<close> (\<open>safe_dims\<close>), where JavaScript numbers are exact.
\<close>

theorem tensor_checks_agree:
  assumes "js_exact js" and "safe_dims dims" and "safe_dims written"
    and "shape \<in> {format_dims_as_shape written, format_dims_as_shape_py written, format_ts_dims written}"
  shows "rust_check_tensor dtype dims (emitted_metadata dtype' shape) = tensor_verdict dtype dims dtype' written
    \<and> python_check_tensor dtype dims (emitted_metadata dtype' shape) = tensor_verdict dtype dims dtype' written
    \<and> ts_check_tensor js dtype dims (emitted_metadata dtype' shape) = tensor_verdict dtype dims dtype' written
    \<and> tensor_verdict dtype dims dtype dims = Inr ()"
proof -
  have shape: "shape = format_tensor_shape_metadata written" using assms(4) by (auto simp: shape_strings)
  show ?thesis
    unfolding shape
    using rust_binding.verdict [OF safe_sized [OF assms(2)] safe_sized [OF assms(3)]]
      python_binding.verdict [of dims written] assms(2,3)
      ts_binding.verdict [OF conjI [OF assms(1,2)] conjI [OF assms(1,3)]] first_mismatch_self [of 0 dims]
    by (simp add: tensor_verdict_def safe_dims_def)
qed

theorem tensor_checks_agree_witness:
  "rust_check_tensor TF32 [Dynamic None, Fixed 768] (emitted_metadata TF32 (format_ts_dims [Fixed 2, Fixed 512]))
     = Inl (WrongDim 1)
   \<and> python_check_tensor TF32 [Dynamic None, Fixed 768] (emitted_metadata TF32 (format_ts_dims [Fixed 2, Fixed 512]))
     = Inl (WrongDim 1)
   \<and> ts_check_tensor (\<lambda>n. n) TF32 [Dynamic None, Fixed 768] (emitted_metadata TF32 (format_ts_dims [Fixed 2, Fixed 512]))
     = Inl (WrongDim 1)"
proof -
  have "js_exact (\<lambda>n. n)" by (simp add: js_exact_def)
  moreover have "safe_dims [Dynamic None, Fixed 768]" "safe_dims [Fixed 2, Fixed 512]"
    by (simp_all add: safe_dims_def tensor_dims_ok_def)
  ultimately show ?thesis
    using tensor_checks_agree [of "\<lambda>n. n" "[Dynamic None, Fixed 768]" "[Fixed 2, Fixed 512]"
        "format_ts_dims [Fixed 2, Fixed 512]" TF32 TF32]
    by (simp add: tensor_verdict_def)
qed

end
