(* ===== verification/Laicc_Names.thy ===== *)
theory Laicc_Names
  imports Laicc_Grammar
begin

text \<open>
  The names of generated error variants: \<open>to_pascal_case\<close> of \<open>crates/laicc/src/codegen/mod.rs\<close> as the Rust
  enum uses it, against the distinctness that the validator checks on the schema names.
\<close>

section \<open>Case conversion\<close>

lemma to_lower_underscore [simp]: "to_lower c = 95 \<longleftrightarrow> c = 95"
  by (auto simp: to_lower_def)

lemma to_upper_lower: "to_upper (to_lower c) = to_upper c"
  by (simp add: to_upper_def to_lower_def)

lemma to_lower_idem [simp]: "to_lower (to_lower c) = to_lower c"
  by (simp add: to_lower_def)

lemma split_on_lower: "split_on 95 (map to_lower s) = map (map to_lower) (split_on 95 s)"
  by (induction s) (auto split: list.splits)

definition pascal_word :: "text \<Rightarrow> text" where
  "pascal_word part = (case part of [] \<Rightarrow> [] | c # cs \<Rightarrow> to_upper c # map to_lower cs)"

lemma pascal_words: "to_pascal_case s = concat (map pascal_word (split_on 95 s))"
  by (simp add: to_pascal_case_def pascal_word_def [abs_def])

lemma pascal_word_lower: "pascal_word (map to_lower part) = pascal_word part"
  by (cases part) (simp_all add: pascal_word_def to_upper_lower comp_def)

lemma pascal_lower: "to_pascal_case (map to_lower s) = to_pascal_case s"
  by (simp add: pascal_words split_on_lower pascal_word_lower comp_def)

text \<open>The conversion as one pass over the characters; \<open>start\<close> says that a word starts here.\<close>

fun camel :: "bool \<Rightarrow> text \<Rightarrow> text" where
  "camel start [] = []"
| "camel start (c # cs) =
     (if c = 95 then camel True cs else (if start then to_upper c else to_lower c) # camel False cs)"

lemma camel_split:
  "camel False s = map to_lower (hd (split_on 95 s)) @ concat (map pascal_word (tl (split_on 95 s)))"
  "camel True s = concat (map pascal_word (split_on 95 s))"
proof (induction s)
  case (Cons c s)
  case 1
  show ?case using Cons by (cases "split_on 95 s") auto
  case 2
  show ?case using Cons by (cases "split_on 95 s") (auto simp: pascal_word_def)
qed (simp_all add: pascal_word_def)

lemma pascal_camel: "to_pascal_case s = camel True s"
  by (simp add: pascal_words camel_split)

section \<open>What the conversion keeps of a name\<close>

text \<open>
  The conversion keeps the letters and digits up to case, and an underscore only through the capital of
  the letter after it. \<open>name_key\<close> is exactly that: the name in lower case with an underscore in front, without
  the underscores that stand before a digit, another underscore or the end.
\<close>

fun marks :: "text \<Rightarrow> text" where
  "marks [] = []"
| "marks (c # cs) = (if c = 95 \<and> (cs = [] \<or> \<not> is_alpha (hd cs)) then marks cs else c # marks cs)"

definition name_key :: "text \<Rightarrow> text" where
  "name_key s = marks (95 # map to_lower s)"

definition snake :: "text \<Rightarrow> text" where
  "snake s = concat (map (\<lambda>c. if 65 \<le> c \<and> c \<le> 90 then [95, c + 32] else [c]) s)"

lemma snake_simps [simp]:
  "snake [] = []"
  "snake (c # s) = (if 65 \<le> c \<and> c \<le> 90 then [95, c + 32] else [c]) @ snake s"
  by (simp_all add: snake_def)

lemma camel_start: "cs = [] \<or> \<not> is_alpha (hd cs) \<Longrightarrow> camel start cs = camel True cs"
  by (cases cs) (auto simp: is_alpha_def to_upper_def to_lower_def)

lemma camel_marks: "camel start (marks s) = camel start s"
proof (induction s arbitrary: start)
  case (Cons c s)
  then show ?case using camel_start [of s start] by simp
qed simp

lemma snake_camel:
  "list_all (\<lambda>c. to_lower c = c) s \<Longrightarrow>
     snake (camel start s) = (if start \<and> s \<noteq> [] \<and> is_alpha (hd s) then [95] else []) @ marks s"
proof (induction s arbitrary: start)
  case (Cons c s)
  then show ?case
    by (cases "is_alpha c") (auto simp: is_alpha_def to_upper_def to_lower_def split: if_splits)
qed simp

lemma snake_pascal: "snake (to_pascal_case s) = name_key s"
proof -
  have "snake (camel True (map to_lower s)) = name_key s"
    using snake_camel [of "map to_lower s" True] by (auto simp: list_all_iff name_key_def)
  then show ?thesis using pascal_lower [of s] by (simp add: pascal_camel)
qed

lemma pascal_name_key: "to_pascal_case s = camel True (name_key s)"
  unfolding name_key_def camel_marks using pascal_lower [of s] by (simp add: pascal_camel)

lemma pascal_eq_iff: "to_pascal_case s = to_pascal_case t \<longleftrightarrow> name_key s = name_key t"
  by (metis snake_pascal pascal_name_key)

text \<open>
  Names whose words, between underscores, start with a letter (the names the convention asks for)
  keep all their underscores, so their keys differ exactly when they differ by more than case.
\<close>

fun word_name :: "text \<Rightarrow> bool" where
  "word_name [] \<longleftrightarrow> True"
| "word_name (c # cs) \<longleftrightarrow> (if c = 95 then cs \<noteq> [] \<and> is_alpha (hd cs) else True) \<and> word_name cs"

lemma is_alpha_lower [simp]: "is_alpha (to_lower c) \<longleftrightarrow> is_alpha c"
  by (auto simp: is_alpha_def to_lower_def)

lemma marks_word_name: "word_name s \<Longrightarrow> marks (map to_lower s) = map to_lower s"
  by (induction s) (auto simp: hd_map)

lemma name_key_words: "is_ident s \<Longrightarrow> word_name s \<Longrightarrow> name_key s = 95 # map to_lower s"
  using marks_word_name [of s] by (cases s) (auto simp: name_key_def is_ident_def)

lemma words_up_to_case:
  assumes "list_all (\<lambda>s. is_ident s \<and> word_name s) names"
  shows "distinct (map name_key names) \<longleftrightarrow> distinct (map (map to_lower) names)"
  using assms by (induction names) (auto simp: name_key_words image_iff list_all_iff)

section \<open>Properties\<close>

text \<open>
  C31. The variants of a generated Rust error enum have distinct names exactly when the schema names
  differ by more than letter case and underscores that do not stand before a letter (\<open>name_key\<close>); for
  names whose words all start with a letter, exactly when they differ by more than case. The
  validator compares the names themselves, so it accepts schemas whose Rust enum has two variants of one name:
  \<open>TIMEOUT\<close> and \<open>Timeout\<close>, which differ by case only, and \<open>A_1\<close> and \<open>A1\<close>, which do not.
\<close>

theorem enum_variants_distinct:
  "(distinct (map (\<lambda>v. to_pascal_case (variant_name v)) vs) \<longleftrightarrow>
      distinct (map (\<lambda>v. name_key (variant_name v)) vs))
   \<and> (if list_all (\<lambda>v. is_ident (variant_name v) \<and> word_name (variant_name v)) vs
      then distinct (map (\<lambda>v. to_pascal_case (variant_name v)) vs) \<longleftrightarrow>
        distinct (map (\<lambda>v. map to_lower (variant_name v)) vs)
      else True)"
proof -
  have "distinct (map (\<lambda>v. to_pascal_case (variant_name v)) vs) \<longleftrightarrow>
      distinct (map (\<lambda>v. name_key (variant_name v)) vs)"
    by (induction vs) (auto simp: pascal_eq_iff image_iff)
  then show ?thesis
    using words_up_to_case [of "map variant_name vs"] by (simp add: comp_def list_all_iff)
qed

theorem enum_variants_distinct_witness:
  "(\<exists>vs. map variant_name vs = [lit ''TIMEOUT'', lit ''Timeout''] \<and> valid_errors vs
     \<and> list_all wf_variant vs \<and> \<not> distinct (map (\<lambda>v. to_pascal_case (variant_name v)) vs))
   \<and> (\<exists>vs. map variant_name vs = [lit ''A_1'', lit ''A1''] \<and> valid_errors vs
     \<and> list_all wf_variant vs \<and> \<not> distinct (map (\<lambda>v. to_pascal_case (variant_name v)) vs))"
proof -
  define variants where "variants s t = [\<lparr>variant_name = lit s, variant_code = 1\<rparr>,
    \<lparr>variant_name = lit t, variant_code = 2\<rparr>]" for s t
  have names: "map variant_name (variants s t) = [lit s, lit t]" for s t
    by (simp add: variants_def)
  have valid: "valid_errors (variants ''TIMEOUT'' ''Timeout'')" "valid_errors (variants ''A_1'' ''A1'')"
    by (simp_all add: variants_def valid_errors_def is_reserved_codegen_identifier_def RESERVED_def)
  have wf: "list_all wf_variant (variants ''TIMEOUT'' ''Timeout'')" "list_all wf_variant (variants ''A_1'' ''A1'')"
    by (simp_all add: variants_def wf_variant_def is_ident_def is_alpha_def is_digit_def lit_def)
  have keys: "name_key (lit ''TIMEOUT'') = name_key (lit ''Timeout'')" "name_key (lit ''A_1'') = name_key (lit ''A1'')"
    by (simp_all add: name_key_def to_lower_def lit_def is_alpha_def)
  have "\<not> distinct (map (\<lambda>v. to_pascal_case (variant_name v)) (variants ''TIMEOUT'' ''Timeout''))"
    "\<not> distinct (map (\<lambda>v. to_pascal_case (variant_name v)) (variants ''A_1'' ''A1''))"
    using enum_variants_distinct [of "variants ''TIMEOUT'' ''Timeout''"]
      enum_variants_distinct [of "variants ''A_1'' ''A1''"] keys
    by (simp_all add: variants_def)
  then show ?thesis using names valid wf by blast
qed

end
