(* ===== verification/Laic_Duplex.thy ===== *)
theory Laic_Duplex
  imports Laic_Ipc Laic_Emergency "HOL-Library.Sublist"
begin

text \<open>
  Two endpoints of one name at work: the client and the server of an IPC connection, or of an
  emergency channel, send, receive, wait and close in any interleaving. Each direction is one
  shared-memory service, so a port's state is shared with the peer's port on the same service. The
  step relation performs the endpoint's own operations; the ghost fields record what was accepted,
  delivered and overwritten. Locale \<open>lossy_endpoint\<close> is what an endpoint promises about one service;
  both channels interpret it, and the invariant of the interleaving is proved once inside it.
\<close>

section \<open>The step relation\<close>

datatype side = ClientSide | ServerSide

fun peer :: "side \<Rightarrow> side" where
  "peer ClientSide = ServerSide"
| "peer ServerSide = ClientSide"

lemma peer_simps [simp]: "peer (peer a) = a" "peer a \<noteq> a" "a \<noteq> peer a" "peer a = peer b \<longleftrightarrow> a = b"
  by (cases a; cases b; simp)+

lemma peer_cases: "b = a \<or> b = peer a"
  by (cases a; cases b) simp_all

lemma peer_eq: "peer a = b \<longleftrightarrow> a = peer b"
  by auto

text \<open>The operations of an endpoint, its two ports, and the messages the API can build.\<close>

record ('k, 'c, 'm, 'w) endpoint_ops =
  ep_valid :: "'m \<Rightarrow> bool"
  ep_send :: "'m \<Rightarrow> 'k \<Rightarrow> (laic_error + unit) \<times> 'k"
  ep_receive :: "'k \<Rightarrow> 'w \<Rightarrow> ((laic_error + 'm) \<times> 'k \<times> 'w) option"
  ep_idle :: "'k \<Rightarrow> 'k option"
  ep_close :: "'k \<Rightarrow> (laic_error + unit) \<times> 'k"
  ep_tx :: "'k \<Rightarrow> 'c"
  ep_rx :: "'k \<Rightarrow> 'c"
  ep_put_tx :: "'c \<Rightarrow> 'k \<Rightarrow> 'k"
  ep_put_rx :: "'c \<Rightarrow> 'k \<Rightarrow> 'k"

record ('k, 'm) duplex =
  ends :: "side \<Rightarrow> 'k"
  accepted :: "side \<Rightarrow> 'm list"
  delivered :: "side \<Rightarrow> 'm list"
  dropped :: "side \<Rightarrow> nat"

text \<open>
  An operation of side \<open>a\<close> leaves its endpoint as \<open>k\<close>; the peer sees the services' new states through
  its own ports.
\<close>

definition moved :: "('k, 'c, 'm, 'w) endpoint_ops \<Rightarrow> side \<Rightarrow> 'k \<Rightarrow> (side \<Rightarrow> 'k) \<Rightarrow> side \<Rightarrow> 'k" where
  "moved ops a k es = es(a := k,
     peer a := ep_put_tx ops (ep_rx ops k) (ep_put_rx ops (ep_tx ops k) (es (peer a))))"

inductive duplex_step ::
    "('k, 'c, 'm, 'w) endpoint_ops \<Rightarrow> ('c \<Rightarrow> 'f list) \<Rightarrow> nat \<Rightarrow> ('k, 'm) duplex \<Rightarrow> ('k, 'm) duplex \<Rightarrow> bool"
  for ops queue cap where
  step_sent: "ep_valid ops m \<Longrightarrow> ep_send ops m (ends s a) = (Inr (), k) \<Longrightarrow>
    duplex_step ops queue cap s
      (s\<lparr>ends := moved ops a k (ends s), accepted := (accepted s)(a := accepted s a @ [m]),
         dropped := (dropped s)(a := dropped s a
           + (if length (queue (ep_tx ops (ends s a))) < cap then 0 else 1))\<rparr>)"
| step_refused: "ep_valid ops m \<Longrightarrow> ep_send ops m (ends s a) = (Inl e, k) \<Longrightarrow>
    duplex_step ops queue cap s (s\<lparr>ends := moved ops a k (ends s)\<rparr>)"
| step_received: "ep_receive ops (ends s a) w = Some (Inr m, k, w') \<Longrightarrow>
    duplex_step ops queue cap s
      (s\<lparr>ends := moved ops a k (ends s), delivered := (delivered s)(a := delivered s a @ [m])\<rparr>)"
| step_failed: "ep_receive ops (ends s a) w = Some (Inl e, k, w') \<Longrightarrow>
    duplex_step ops queue cap s (s\<lparr>ends := moved ops a k (ends s)\<rparr>)"
| step_idle: "ep_idle ops (ends s a) = Some k \<Longrightarrow>
    duplex_step ops queue cap s (s\<lparr>ends := moved ops a k (ends s)\<rparr>)"
| step_closed: "ep_close ops (ends s a) = (r, k) \<Longrightarrow>
    duplex_step ops queue cap s (s\<lparr>ends := moved ops a k (ends s)\<rparr>)"

inductive reachable ::
    "('k, 'c, 'm, 'w) endpoint_ops \<Rightarrow> ('c \<Rightarrow> 'f list) \<Rightarrow> nat \<Rightarrow> ('k, 'm) duplex \<Rightarrow> bool"
  for ops queue cap where
  reachable_start: "ep_tx ops (es ClientSide) = ep_rx ops (es ServerSide) \<Longrightarrow>
    ep_tx ops (es ServerSide) = ep_rx ops (es ClientSide) \<Longrightarrow>
    queue (ep_tx ops (es ClientSide)) = [] \<Longrightarrow> queue (ep_tx ops (es ServerSide)) = [] \<Longrightarrow>
    reachable ops queue cap
      \<lparr>ends = es, accepted = (\<lambda>_. []), delivered = (\<lambda>_. []), dropped = (\<lambda>_. 0)\<rparr>"
| reachable_step: "reachable ops queue cap s \<Longrightarrow> duplex_step ops queue cap s t \<Longrightarrow>
    reachable ops queue cap t"

section \<open>The invariant\<close>

text \<open>
  What side \<open>a\<close> sent is what is gone from the service and what is still in it; what the peer got is,
  in order, part of what is gone, and the rest of that was overwritten.
\<close>

definition history :: "('m \<Rightarrow> 'f) \<Rightarrow> ('m \<Rightarrow> bool) \<Rightarrow> nat \<Rightarrow> 'f list \<Rightarrow> 'm list \<Rightarrow> 'm list \<Rightarrow> nat \<Rightarrow> bool" where
  "history frame fits cap q sent got lost \<longleftrightarrow>
     (\<exists>gone pending. sent = gone @ pending \<and> list_all fits pending \<and> q = map frame pending
        \<and> length pending \<le> cap \<and> subseq got gone \<and> length gone = length got + lost)"

lemma history_start [simp]: "history frame fits cap [] [] [] 0"
  by (simp add: history_def)

lemma history_push:
  assumes "history frame fits cap q sent got lost" and "fits m" and "0 < cap"
  shows "history frame fits cap (overflow_push cap q (frame m)) (sent @ [m]) got
    (lost + (if length q < cap then 0 else 1))"
proof -
  obtain gone pending where g: "sent = gone @ pending" "list_all fits pending" "q = map frame pending"
    "length pending \<le> cap" "subseq got gone" "length gone = length got + lost"
    using assms(1) by (auto simp: history_def)
  show ?thesis
  proof (cases "length pending < cap")
    case True
    then show ?thesis
      using g assms(2) unfolding history_def
      by (intro exI [of _ gone] exI [of _ "pending @ [m]"]) (simp add: overflow_push_def)
  next
    case False
    then obtain p ps where p: "pending = p # ps" using assms(3) g(4) by (cases pending) auto
    have "subseq got (gone @ [p])" using g(5) by (rule subseq_rev_drop_many)
    then show ?thesis
      using g assms(2) p False unfolding history_def
      by (intro exI [of _ "gone @ [p]"] exI [of _ "ps @ [m]"]) (simp add: overflow_push_def)
  qed
qed

lemma history_pop:
  assumes "history frame fits cap q sent got lost"
  obtains pending where "q = map frame pending" and "list_all fits pending"
    and "\<And>m ms. pending = m # ms \<Longrightarrow> history frame fits cap (map frame ms) sent (got @ [m]) lost"
proof -
  obtain gone pending where g: "sent = gone @ pending" "list_all fits pending" "q = map frame pending"
    "length pending \<le> cap" "subseq got gone" "length gone = length got + lost"
    using assms(1) by (auto simp: history_def)
  have "history frame fits cap (map frame ms) sent (got @ [m]) lost" if "pending = m # ms" for m ms
    unfolding history_def using g that
    by (intro exI [of _ "gone @ [m]"] exI [of _ ms]) (simp add: list_emb_append_mono)
  then show thesis using that g by blast
qed

definition link_inv ::
    "('k, 'c, 'm, 'w) endpoint_ops \<Rightarrow> ('c \<Rightarrow> 'f list) \<Rightarrow> nat \<Rightarrow> ('m \<Rightarrow> 'f) \<Rightarrow> ('m \<Rightarrow> bool)
     \<Rightarrow> ('k, 'm) duplex \<Rightarrow> side \<Rightarrow> bool" where
  "link_inv ops queue cap frame fits s a \<longleftrightarrow>
     ep_tx ops (ends s a) = ep_rx ops (ends s (peer a)) \<and>
     history frame fits cap (queue (ep_tx ops (ends s a))) (accepted s a) (delivered s (peer a)) (dropped s a)"

locale lossy_endpoint =
  fixes ops :: "('k, 'c, 'm, 'w) endpoint_ops" and queue :: "'c \<Rightarrow> 'f list" and cap :: nat
    and frame :: "'m \<Rightarrow> 'f" and fits :: "'m \<Rightarrow> bool"
  assumes cap_pos: "0 < cap"
    and ports [simp]: "ep_tx ops (ep_put_tx ops c k) = c" "ep_rx ops (ep_put_tx ops c k) = ep_rx ops k"
      "ep_rx ops (ep_put_rx ops c k) = c" "ep_tx ops (ep_put_rx ops c k) = ep_tx ops k"
    and send_accepted: "ep_valid ops m \<Longrightarrow> ep_send ops m k = (Inr (), k') \<Longrightarrow> ep_rx ops k' = ep_rx ops k \<and> fits m
      \<and> queue (ep_tx ops k') = overflow_push cap (queue (ep_tx ops k)) (frame m)"
    and send_refused: "ep_valid ops m \<Longrightarrow> ep_send ops m k = (Inl e, k') \<Longrightarrow> ep_rx ops k' = ep_rx ops k
      \<and> queue (ep_tx ops k') = queue (ep_tx ops k)"
    and receive_message: "queue (ep_rx ops k) = map frame ms \<Longrightarrow> list_all fits ms \<Longrightarrow>
      ep_receive ops k w = Some (Inr m, k', w') \<Longrightarrow>
      ep_tx ops k' = ep_tx ops k \<and> (\<exists>ms'. ms = m # ms' \<and> queue (ep_rx ops k') = map frame ms')"
    and receive_failed: "queue (ep_rx ops k) = map frame ms \<Longrightarrow> list_all fits ms \<Longrightarrow>
      ep_receive ops k w = Some (Inl e, k', w') \<Longrightarrow>
      ep_tx ops k' = ep_tx ops k \<and> queue (ep_rx ops k') = queue (ep_rx ops k)"
    and idle_keeps: "ep_idle ops k = Some k' \<Longrightarrow>
      ep_tx ops k' = ep_tx ops k \<and> queue (ep_rx ops k') = queue (ep_rx ops k)"
    and close_keeps: "ep_close ops k = (r, k') \<Longrightarrow> ep_tx ops k' = ep_tx ops k \<and> ep_rx ops k' = ep_rx ops k"
begin

abbreviation inv_at where "inv_at \<equiv> link_inv ops queue cap frame fits"

lemma moved_ports [simp]:
  "ep_tx ops (moved ops a k es a) = ep_tx ops k" "ep_rx ops (moved ops a k es a) = ep_rx ops k"
  "ep_tx ops (moved ops a k es (peer a)) = ep_rx ops k" "ep_rx ops (moved ops a k es (peer a)) = ep_tx ops k"
  by (simp_all add: moved_def)

text \<open>Side \<open>a\<close> moves: the invariant of both directions from what became of the two queues.\<close>

lemma step_inv:
  assumes "history frame fits cap (queue (ep_tx ops k)) (accepted t a) (delivered t (peer a)) (dropped t a)"
    and "history frame fits cap (queue (ep_rx ops k)) (accepted t (peer a)) (delivered t a) (dropped t (peer a))"
    and "ends t = moved ops a k es"
  shows "inv_at t b"
  using peer_cases [of b a] assms by (auto simp: link_inv_def)

lemma histories:
  assumes "\<And>b. inv_at s b"
  shows "history frame fits cap (queue (ep_tx ops (ends s a))) (accepted s a) (delivered s (peer a)) (dropped s a)"
    and "history frame fits cap (queue (ep_rx ops (ends s a))) (accepted s (peer a)) (delivered s a) (dropped s (peer a))"
  using assms [of a] assms [of "peer a"] unfolding link_inv_def by (metis peer_simps(1))+

lemma step_keeps:
  assumes "duplex_step ops queue cap s t" and inv: "\<And>b. inv_at s b"
  shows "inv_at t b"
  using assms(1)
proof cases
  case (step_sent m a k)
  note out = histories(1) [OF inv, of a] and inbound = histories(2) [OF inv, of a]
  show ?thesis
    by (rule step_inv [of k t a "ends s"])
      (use history_push [OF out _ cap_pos] send_accepted [OF step_sent(2,3)] inbound in \<open>simp_all add: step_sent(1)\<close>)
next
  case (step_received a w m k w')
  note out = histories(1) [OF inv, of a] and inbound = histories(2) [OF inv, of a]
  from inbound obtain pending where p: "queue (ep_rx ops (ends s a)) = map frame pending" "list_all fits pending"
    and pop: "\<And>m ms. pending = m # ms \<Longrightarrow>
      history frame fits cap (map frame ms) (accepted s (peer a)) (delivered s a @ [m]) (dropped s (peer a))"
    by (rule history_pop) blast
  obtain ms where "pending = m # ms" "queue (ep_rx ops k) = map frame ms" "ep_tx ops k = ep_tx ops (ends s a)"
    using receive_message [OF p step_received(2)] by blast
  then show ?thesis
    by (intro step_inv [of k t a "ends s"]) (use pop out in \<open>simp_all add: step_received(1)\<close>)
next
  case (step_refused m a e k)
  then show ?thesis
    using histories [OF inv, of a] send_refused [OF step_refused(2,3)]
    by (intro step_inv [of k t a "ends s"]) simp_all
next
  case (step_failed a w e k w')
  note out = histories(1) [OF inv, of a] and inbound = histories(2) [OF inv, of a]
  from inbound obtain pending where "queue (ep_rx ops (ends s a)) = map frame pending" "list_all fits pending"
    by (rule history_pop) blast
  from receive_failed [OF this step_failed(2)] show ?thesis
    using out inbound by (intro step_inv [of k t a "ends s"]) (simp_all add: step_failed(1))
next
  case (step_idle a k)
  then show ?thesis
    using histories [OF inv, of a] idle_keeps [OF step_idle(2)]
    by (intro step_inv [of k t a "ends s"]) simp_all
next
  case (step_closed a r k)
  then show ?thesis
    using histories [OF inv, of a] close_keeps [OF step_closed(2)]
    by (intro step_inv [of k t a "ends s"]) simp_all
qed

lemma reachable_inv: "reachable ops queue cap s \<Longrightarrow> inv_at s a"
proof (induction arbitrary: a rule: reachable.induct)
  case (reachable_start es a)
  then show ?case by (cases a) (simp_all add: link_inv_def)
next
  case (reachable_step s t)
  then show ?case using step_keeps by blast
qed

text \<open>
  What was accepted splits into what is gone and what waits; the peer has a subsequence of what is
  gone, all of it when nothing was overwritten.
\<close>

lemma delivery:
  assumes "reachable ops queue cap s"
  shows "\<exists>gone pending. accepted s a = gone @ pending \<and> queue (ep_rx ops (ends s (peer a))) = map frame pending
    \<and> length pending \<le> cap \<and> subseq (delivered s (peer a)) gone
    \<and> length gone = length (delivered s (peer a)) + dropped s a
    \<and> (dropped s a = 0 \<longrightarrow> delivered s (peer a) = gone)"
  using reachable_inv [OF assms, of a]
  by (auto simp: link_inv_def history_def) (metis add.right_neutral subseq_same_length)

end

section \<open>IPC endpoints\<close>

definition ipc_idle :: "(ipc_frame, 's) poll \<Rightarrow> ('n, 'p, 's) ipc_connection \<Rightarrow> ('n, 'p, 's) ipc_connection option" where
  "ipc_idle poll c =
     (case poll (ipc_subscriber c) of
        (Inr None, s) \<Rightarrow> if ipc_closed c then None else Some (c\<lparr>ipc_subscriber := s\<rparr>)
      | _ \<Rightarrow> None)"

definition ipc_endpoint where
  "ipc_endpoint pub poll clk =
     \<lparr>ep_valid = message_inv, ep_send = ipc_send pub, ep_receive = ipc_receive poll clk,
      ep_idle = ipc_idle poll, ep_close = ipc_close, ep_tx = ipc_publisher, ep_rx = ipc_subscriber,
      ep_put_tx = (\<lambda>p c. c\<lparr>ipc_publisher := p\<rparr>), ep_put_rx = (\<lambda>s c. c\<lparr>ipc_subscriber := s\<rparr>)\<rparr>"

text \<open>A poll that ends a wait takes the oldest frame, or fails and takes nothing.\<close>

lemma polled_queue:
  assumes "shm_law cap pub poll queue" and "polled poll n s x s'"
  shows "case x of Inr f \<Rightarrow> queue s = f # queue s' | Inl e \<Rightarrow> queue s' = queue s"
  using assms(2)
proof (induction rule: polled.induct)
  case (polled_error s e s')
  then show ?case using assms(1) unfolding shm_law_def by (auto dest!: spec [of _ s])
next
  case (polled_empty s s1 n x s')
  then show ?case using shm_law_poll(2) [OF assms(1), of s] by (cases x) auto
qed (use shm_law_poll(1) [OF assms(1)] in auto)

lemma polled_pending:
  assumes "shm_law cap pub poll queue" and "polled poll n s x s'" and "queue s = map frame ms"
  shows "case x of Inr f \<Rightarrow> \<exists>m ms'. ms = m # ms' \<and> f = frame m \<and> queue s' = map frame ms' | Inl e \<Rightarrow> queue s' = queue s"
  using polled_queue [OF assms(1,2)] assms(3) by (cases x; cases ms) auto

lemma ipc_send_ports:
  assumes "shm_law cap pub poll queue" and "message_inv m" and "ipc_send pub m c = (r, c')"
  shows "ipc_subscriber c' = ipc_subscriber c \<and>
    (case r of
       Inr _ \<Rightarrow> fits_ipc m \<and> queue (ipc_publisher c') = overflow_push cap (queue (ipc_publisher c)) (message_frame m)
     | Inl _ \<Rightarrow> queue (ipc_publisher c') = queue (ipc_publisher c))"
  using ipc_send_cases [OF assms] by (cases r; cases c; cases c') (simp_all add: is_ok_def)

lemma ipc_receive_ports:
  assumes law: "shm_law cap pub poll queue" and q: "queue (ipc_subscriber c) = map message_frame ms"
    and ms: "list_all (\<lambda>m. message_inv m \<and> fits_ipc m) ms"
    and ret: "ipc_receive poll clk c w = Some (r, c', w')"
  shows "ipc_publisher c' = ipc_publisher c \<and>
    (case r of
       Inr m \<Rightarrow> \<exists>ms'. ms = m # ms' \<and> queue (ipc_subscriber c') = map message_frame ms'
     | Inl _ \<Rightarrow> queue (ipc_subscriber c') = map message_frame ms)"
proof (cases "ipc_closed c")
  case True
  then show ?thesis using ret q by (auto simp: ipc_receive_def)
next
  case False
  then obtain n x s' where x: "polled poll n (ipc_subscriber c) x s'" "r = ipc_verdict x" "c' = c\<lparr>ipc_subscriber := s'\<rparr>"
    using ipc_receive_returns [OF ret] by blast
  then show ?thesis
    using polled_pending [OF law x(1) q] q ms unpack_message_frame
    by (cases x) (auto simp: ipc_verdict_def)
qed

lemma ipc_idle_ports:
  assumes "shm_law cap pub poll queue" and "ipc_idle poll c = Some c'"
  shows "ipc_publisher c' = ipc_publisher c \<and> queue (ipc_subscriber c') = queue (ipc_subscriber c)"
  using assms(2) shm_law_poll(2) [OF assms(1), of "ipc_subscriber c"]
  by (auto simp: ipc_idle_def split: prod.splits sum.splits option.splits if_splits)

lemma ipc_lossy_endpoint:
  assumes law: "shm_law cap pub poll queue" and "0 < cap"
  shows "lossy_endpoint (ipc_endpoint pub poll clk) queue cap message_frame (\<lambda>m. message_inv m \<and> fits_ipc m)"
  by unfold_locales
    (auto simp: ipc_endpoint_def ipc_close_def assms(2)
      dest: ipc_send_ports [OF law] ipc_receive_ports [OF law] ipc_idle_ports [OF law])

interpretation ipc_mem: lossy_endpoint "ipc_endpoint (mem_pub SUBSCRIBER_BUFFER_SIZE) mem_poll clk" "\<lambda>q. q"
    SUBSCRIBER_BUFFER_SIZE message_frame "\<lambda>m. message_inv m \<and> fits_ipc m" for clk
  by (rule ipc_lossy_endpoint [OF mem_shm_law]) (simp add: SUBSCRIBER_BUFFER_SIZE_def)

section \<open>Emergency endpoints\<close>

definition emergency_idle ::
    "(emergency_frame, 's) poll \<Rightarrow> ('n, 'p, 's) emergency_channel \<Rightarrow> ('n, 'p, 's) emergency_channel option" where
  "emergency_idle poll c =
     (case poll (em_subscriber c) of
        (Inr None, s) \<Rightarrow> if em_closed c then None else Some (c\<lparr>em_subscriber := s\<rparr>)
      | _ \<Rightarrow> None)"

definition emergency_endpoint where
  "emergency_endpoint pub poll clk =
     \<lparr>ep_valid = (\<lambda>p. True), ep_send = emergency_send pub, ep_receive = emergency_receive poll clk,
      ep_idle = emergency_idle poll, ep_close = emergency_close, ep_tx = em_publisher, ep_rx = em_subscriber,
      ep_put_tx = (\<lambda>p c. c\<lparr>em_publisher := p\<rparr>), ep_put_rx = (\<lambda>s c. c\<lparr>em_subscriber := s\<rparr>)\<rparr>"

lemma emergency_send_ports:
  assumes "shm_law cap pub poll queue" and "emergency_send pub p c = (r, c')"
  shows "em_subscriber c' = em_subscriber c \<and>
    (case r of
       Inr _ \<Rightarrow> length p \<le> 168 \<and> queue (em_publisher c') = overflow_push cap (queue (em_publisher c)) (pack_emergency p)
     | Inl _ \<Rightarrow> queue (em_publisher c') = queue (em_publisher c))"
  using emergency_send_cases [OF assms] by (cases r; cases c; cases c') (simp_all add: is_ok_def)

lemma emergency_receive_ports:
  assumes law: "shm_law cap pub poll queue" and q: "queue (em_subscriber c) = map pack_emergency ps"
    and ps: "list_all (\<lambda>p. length p \<le> 168) ps"
    and ret: "emergency_receive poll clk c t = Some (r, c', t')"
  shows "em_publisher c' = em_publisher c \<and>
    (case r of
       Inr p \<Rightarrow> \<exists>ps'. ps = p # ps' \<and> queue (em_subscriber c') = map pack_emergency ps'
     | Inl _ \<Rightarrow> queue (em_subscriber c') = map pack_emergency ps)"
proof (cases "em_closed c")
  case True
  then show ?thesis using ret q by (auto simp: emergency_receive_def)
next
  case False
  then obtain n x s' where x: "polled poll n (em_subscriber c) x s'"
    using emergency_receive_returns [OF ret] by blast
  from emergency_receive_polled [OF False x, of clk t] ret
  have "r = emergency_verdict x" "c' = c\<lparr>em_subscriber := s'\<rparr>" by simp_all
  then show ?thesis
    using polled_pending [OF law x q] q ps unpack_pack_emergency
    by (cases x) (auto simp: emergency_verdict_def)
qed

lemma emergency_idle_ports:
  assumes "shm_law cap pub poll queue" and "emergency_idle poll c = Some c'"
  shows "em_publisher c' = em_publisher c \<and> queue (em_subscriber c') = queue (em_subscriber c)"
  using assms(2) shm_law_poll(2) [OF assms(1), of "em_subscriber c"]
  by (auto simp: emergency_idle_def split: prod.splits sum.splits option.splits if_splits)

lemma emergency_lossy_endpoint:
  assumes law: "shm_law cap pub poll queue" and "0 < cap"
  shows "lossy_endpoint (emergency_endpoint pub poll clk) queue cap pack_emergency (\<lambda>p. length p \<le> 168)"
  by unfold_locales
    (auto simp: emergency_endpoint_def emergency_close_def assms(2)
      dest: emergency_send_ports [OF law] emergency_receive_ports [OF law] emergency_idle_ports [OF law])

interpretation emergency_mem: lossy_endpoint "emergency_endpoint (mem_pub EMERGENCY_BUFFER_SIZE) mem_poll clk" "\<lambda>q. q"
    EMERGENCY_BUFFER_SIZE pack_emergency "\<lambda>p. length p \<le> 168" for clk
  by (rule emergency_lossy_endpoint [OF mem_shm_law]) (simp add: EMERGENCY_BUFFER_SIZE_def)

section \<open>Properties\<close>

text \<open>
  C9. IPC under any interleaving: whatever the two ends of a connection do and in whatever order
  (send, wait, receive, fail, close), what a side had accepted is what is gone from its service
  followed by at most 16 waiting messages; the peer has received a subsequence of what is gone, each
  message once, intact and in order; exactly the messages sent into a full buffer cost one older
  message each, and without such a send nothing is lost.
\<close>

theorem ipc_duplex_delivery:
  assumes "shm_law SUBSCRIBER_BUFFER_SIZE pub poll queue"
    and "reachable (ipc_endpoint pub poll clk) queue SUBSCRIBER_BUFFER_SIZE s"
  shows "\<exists>gone pending. accepted s a = gone @ pending
    \<and> queue (ipc_subscriber (ends s (peer a))) = map message_frame pending \<and> length pending \<le> 16
    \<and> subseq (delivered s (peer a)) gone
    \<and> length gone = length (delivered s (peer a)) + dropped s a
    \<and> (dropped s a = 0 \<longrightarrow> delivered s (peer a) = gone)"
proof -
  have "0 < SUBSCRIBER_BUFFER_SIZE" by (simp add: SUBSCRIBER_BUFFER_SIZE_def)
  from lossy_endpoint.delivery [OF ipc_lossy_endpoint [OF assms(1) this] assms(2), of a]
  show ?thesis by (simp add: ipc_endpoint_def SUBSCRIBER_BUFFER_SIZE_def)
qed

text \<open>The client sends, the server waits in vain, then receives.\<close>

definition sample_duplex :: "((unit, ipc_frame list, ipc_frame list) ipc_connection, message) duplex" where
  "sample_duplex =
     \<lparr>ends = (\<lambda>_. mem_conn []), accepted = (\<lambda>a. if a = ClientSide then [sample_message] else []),
      delivered = (\<lambda>a. if a = ServerSide then [sample_message] else []), dropped = (\<lambda>_. 0)\<rparr>"

lemma sample_duplex_reachable:
  "reachable (ipc_endpoint (mem_pub SUBSCRIBER_BUFFER_SIZE) mem_poll still_clock) (\<lambda>q. q) SUBSCRIBER_BUFFER_SIZE sample_duplex"
proof -
  let ?ops = "ipc_endpoint (mem_pub SUBSCRIBER_BUFFER_SIZE) mem_poll still_clock"
  let ?f = "message_frame sample_message"
  let ?s0 = "\<lparr>ends = (\<lambda>_. mem_conn []), accepted = (\<lambda>_. []), delivered = (\<lambda>_. []), dropped = (\<lambda>_. 0)\<rparr>
    :: ((unit, ipc_frame list, ipc_frame list) ipc_connection, message) duplex"
  let ?k = "(mem_conn [])\<lparr>ipc_publisher := [?f]\<rparr>"
  let ?s1 = "\<lparr>ends = moved ?ops ClientSide ?k (\<lambda>_. mem_conn []),
    accepted = (\<lambda>a. if a = ClientSide then [sample_message] else []), delivered = (\<lambda>_. []), dropped = (\<lambda>_. 0)\<rparr>"
  have r0: "reachable ?ops (\<lambda>q. q) SUBSCRIBER_BUFFER_SIZE ?s0"
    by (rule reachable_start) (simp_all add: ipc_endpoint_def mem_conn_def)
  have send: "ep_send ?ops sample_message (ends ?s0 ClientSide) = (Inr (), ?k)"
    using mem_ipc_send [OF sample_message_inv sample_message_fits, of SUBSCRIBER_BUFFER_SIZE "[]"]
    by (simp add: ipc_endpoint_def overflow_push_def SUBSCRIBER_BUFFER_SIZE_def)
  have "duplex_step ?ops (\<lambda>q. q) SUBSCRIBER_BUFFER_SIZE ?s0
    (?s0\<lparr>ends := moved ?ops ClientSide ?k (ends ?s0), accepted := (accepted ?s0)(ClientSide := accepted ?s0 ClientSide @ [sample_message]),
      dropped := (dropped ?s0)(ClientSide := dropped ?s0 ClientSide
        + (if length (ep_tx ?ops (ends ?s0 ClientSide)) < SUBSCRIBER_BUFFER_SIZE then 0 else 1))\<rparr>)"
    by (rule step_sent [OF _ send]) (simp add: ipc_endpoint_def sample_message_inv)
  then have "duplex_step ?ops (\<lambda>q. q) SUBSCRIBER_BUFFER_SIZE ?s0 ?s1"
    by (simp add: ipc_endpoint_def mem_conn_def SUBSCRIBER_BUFFER_SIZE_def fun_upd_def)
  with r0 have r1: "reachable ?ops (\<lambda>q. q) SUBSCRIBER_BUFFER_SIZE ?s1" by (rule reachable_step)
  have server: "ends ?s1 ServerSide = (mem_conn [])\<lparr>ipc_subscriber := [?f]\<rparr>"
    by (simp add: moved_def ipc_endpoint_def mem_conn_def)
  have "polled mem_poll 0 (ipc_subscriber ((mem_conn [])\<lparr>ipc_subscriber := [?f]\<rparr>)) (Inr ?f) []"
    by (simp add: mem_poll_def)
  from ipc_receive_polled [OF _ this, of still_clock quiet_world]
  obtain w' where "ep_receive ?ops (ends ?s1 ServerSide) quiet_world = Some (Inr sample_message, mem_conn [], w')"
    unfolding server using unpack_message_frame [OF sample_message_inv sample_message_fits]
    by (auto simp: ipc_endpoint_def mem_conn_def ipc_verdict_def)
  from reachable_step [OF r1 step_received [OF this]]
  have "reachable ?ops (\<lambda>q. q) SUBSCRIBER_BUFFER_SIZE
    (?s1\<lparr>ends := moved ?ops ServerSide (mem_conn []) (ends ?s1),
      delivered := (delivered ?s1)(ServerSide := delivered ?s1 ServerSide @ [sample_message])\<rparr>)" .
  moreover have "moved ?ops ServerSide (mem_conn []) (ends ?s1) = (\<lambda>_. mem_conn [])"
  proof
    show "moved ?ops ServerSide (mem_conn []) (ends ?s1) a = mem_conn []" for a
      by (cases a) (simp_all add: moved_def ipc_endpoint_def mem_conn_def)
  qed
  ultimately show ?thesis
    by (simp add: sample_duplex_def fun_upd_def)
qed

theorem ipc_duplex_delivery_witness:
  "\<exists>gone pending. accepted sample_duplex ClientSide = gone @ pending
    \<and> subseq (delivered sample_duplex ServerSide) gone \<and> delivered sample_duplex ServerSide = [sample_message]"
  using ipc_duplex_delivery [OF mem_shm_law sample_duplex_reachable, of ClientSide]
  by (auto simp: sample_duplex_def)

text \<open>
  The emergency channel under any interleaving: the same delivery contract for byte strings over
  its buffer of eight.
\<close>

theorem emergency_duplex_delivery:
  assumes "shm_law EMERGENCY_BUFFER_SIZE pub poll queue"
    and "reachable (emergency_endpoint pub poll clk) queue EMERGENCY_BUFFER_SIZE s"
  shows "\<exists>gone pending. accepted s a = gone @ pending
    \<and> queue (em_subscriber (ends s (peer a))) = map pack_emergency pending \<and> length pending \<le> 8
    \<and> subseq (delivered s (peer a)) gone
    \<and> length gone = length (delivered s (peer a)) + dropped s a
    \<and> (dropped s a = 0 \<longrightarrow> delivered s (peer a) = gone)"
proof -
  have "0 < EMERGENCY_BUFFER_SIZE" by (simp add: EMERGENCY_BUFFER_SIZE_def)
  from lossy_endpoint.delivery [OF emergency_lossy_endpoint [OF assms(1) this] assms(2), of a]
  show ?thesis by (simp add: emergency_endpoint_def EMERGENCY_BUFFER_SIZE_def)
qed

text \<open>The server raises an alarm of one byte that the client has not read yet.\<close>

definition alarm_duplex :: "((unit, emergency_frame list, emergency_frame list) emergency_channel, bytes) duplex" where
  "alarm_duplex =
     \<lparr>ends = moved (emergency_endpoint (mem_pub EMERGENCY_BUFFER_SIZE) mem_poll still_clock) ServerSide
        ((mem_channel [])\<lparr>em_publisher := [pack_emergency [1]]\<rparr>) (\<lambda>_. mem_channel []),
      accepted = (\<lambda>_. [])(ServerSide := [[1]]), delivered = (\<lambda>_. []), dropped = (\<lambda>_. 0)\<rparr>"

lemma alarm_duplex_reachable:
  "reachable (emergency_endpoint (mem_pub EMERGENCY_BUFFER_SIZE) mem_poll still_clock) (\<lambda>q. q) EMERGENCY_BUFFER_SIZE alarm_duplex"
proof -
  let ?ops = "emergency_endpoint (mem_pub EMERGENCY_BUFFER_SIZE) mem_poll still_clock"
  let ?s0 = "\<lparr>ends = (\<lambda>_. mem_channel []), accepted = (\<lambda>_. []), delivered = (\<lambda>_. []), dropped = (\<lambda>_. 0)\<rparr>
    :: ((unit, emergency_frame list, emergency_frame list) emergency_channel, bytes) duplex"
  have r0: "reachable ?ops (\<lambda>q. q) EMERGENCY_BUFFER_SIZE ?s0"
    by (rule reachable_start) (simp_all add: emergency_endpoint_def mem_channel_def)
  have send: "ep_send ?ops [1] (ends ?s0 ServerSide) = (Inr (), (mem_channel [])\<lparr>em_publisher := [pack_emergency [1]]\<rparr>)"
    by (simp add: emergency_endpoint_def emergency_send_def mem_channel_def mem_pub_def overflow_push_def
        EMERGENCY_BUFFER_SIZE_def MAX_EMERGENCY_PAYLOAD_LEN_def)
  have valid: "ep_valid ?ops [1]" by (simp add: emergency_endpoint_def)
  have nothing_lost: "length (ep_tx ?ops (mem_channel [])) < EMERGENCY_BUFFER_SIZE"
    by (simp add: emergency_endpoint_def mem_channel_def EMERGENCY_BUFFER_SIZE_def)
  from reachable_step [OF r0 step_sent [OF valid send]] show ?thesis
    by (simp add: alarm_duplex_def nothing_lost fun_upd_def cong: if_cong)
qed

theorem emergency_duplex_delivery_witness:
  "\<exists>gone pending. [[1]] = gone @ pending
    \<and> em_subscriber (ends alarm_duplex ClientSide) = map pack_emergency pending \<and> gone = []"
  using emergency_duplex_delivery [OF mem_shm_law alarm_duplex_reachable, of ServerSide]
  by (simp add: alarm_duplex_def)

end
