(* ===== verification/Laicc_Arrow.thy ===== *)
theory Laicc_Arrow
  imports Laicc_Shape Laicc_Rust_Contract "HOL-Library.Countable"
begin

text \<open>
  What the generated bindings exchange: an Arrow IPC stream with one record batch of one row. Arrow
  types, schema fields and the cells of a column are data; the Arrow libraries (arrow-rs, pyarrow,
  arrow-js) are third-party and are an argument, \<open>arrow_lib\<close>: building a batch from a schema and the
  cells given to the array builders, writing and opening a stream, and observing a batch. What the
  generated code relies on is \<open>builds\<close>, \<open>writes\<close> and \<open>carries\<close>. \<open>contract\<close> is the batch a contract asks for;
  the locales \<open>binding_writer\<close> and \<open>binding_reader\<close> say what the two halves of a generated binding
  promise about it, whatever the language.
\<close>

section \<open>Arrow data\<close>

datatype arrow_type =
    Utf8 | Binary | Boolean | Int8 | Int16 | Int32 | Int64 | UInt8 | Float32 | Float64
  | ListType arrow_type bool
  | MapType "text" arrow_type "text" arrow_type bool

text \<open>A scalar at its width; floats are their bits.\<close>

datatype scalar =
    SText "text" | SBytes bytes | SBool bool | SI8 "8 word" | SI16 "16 word" | SI32 "32 word"
  | SI64 "64 word" | SU8 u8 | SF32 u32 | SF64 u64

fun scalar_type :: "scalar \<Rightarrow> arrow_type" where
  "scalar_type (SText _) = Utf8"
| "scalar_type (SBytes _) = Binary"
| "scalar_type (SBool _) = Boolean"
| "scalar_type (SI8 _) = Int8"
| "scalar_type (SI16 _) = Int16"
| "scalar_type (SI32 _) = Int32"
| "scalar_type (SI64 _) = Int64"
| "scalar_type (SU8 _) = UInt8"
| "scalar_type (SF32 _) = Float32"
| "scalar_type (SF64 _) = Float64"

datatype cell = Null | One scalar | Items "scalar option list" | Entries "(scalar \<times> scalar option) list"

fun item_fits :: "arrow_type \<Rightarrow> bool \<Rightarrow> scalar option \<Rightarrow> bool" where
  "item_fits t n None \<longleftrightarrow> n"
| "item_fits t n (Some s) \<longleftrightarrow> scalar_type s = t"

fun cell_fits :: "arrow_type \<Rightarrow> cell \<Rightarrow> bool" where
  "cell_fits t Null \<longleftrightarrow> True"
| "cell_fits t (One s) \<longleftrightarrow> scalar_type s = t"
| "cell_fits (ListType t n) (Items xs) \<longleftrightarrow> list_all (item_fits t n) xs"
| "cell_fits (MapType _ k _ v n) (Entries es) \<longleftrightarrow>
     list_all (\<lambda>(a, b). scalar_type a = k \<and> item_fits v n b) es"
| "cell_fits _ _ \<longleftrightarrow> False"

record arrow_field =
  af_name :: "text"
  af_type :: arrow_type
  af_nullable :: bool
  af_meta :: "(text \<times> text) list"

record arrow_schema =
  as_fields :: "arrow_field list"
  as_meta :: "(text \<times> text) list"

record column =
  col_type :: arrow_type
  col_cells :: "cell list"

definition field_with_name :: "arrow_schema \<Rightarrow> text \<Rightarrow> arrow_field option" where
  "field_with_name s name = find (\<lambda>f. af_name f = name) (as_fields s)"

section \<open>The library\<close>

record 'b arrow_lib =
  make_batch :: "arrow_schema \<Rightarrow> column list \<Rightarrow> string + 'b"
  write_stream :: "'b \<Rightarrow> string + bytes"
  open_stream :: "bytes \<Rightarrow> string + (string + 'b) list"
  batch_schema :: "'b \<Rightarrow> arrow_schema"
  num_rows :: "'b \<Rightarrow> nat"
  batch_column :: "'b \<Rightarrow> text \<Rightarrow> column option"
  null_slot :: "arrow_type \<Rightarrow> cell"

text \<open>The value of a row; at a null slot a typed accessor answers what the buffers hold there.\<close>

definition slot :: "'b arrow_lib \<Rightarrow> column \<Rightarrow> nat \<Rightarrow> cell" where
  "slot lib c i = (case col_cells c ! i of Null \<Rightarrow> null_slot lib (col_type c) | x \<Rightarrow> x)"

text \<open>The columns a schema accepts: types equal, lengths equal, no null in a non-nullable field.\<close>

definition column_accepted :: "nat \<Rightarrow> arrow_field \<Rightarrow> column \<Rightarrow> bool" where
  "column_accepted n f c \<longleftrightarrow> col_type c = af_type f \<and> length (col_cells c) = n
     \<and> list_all (cell_fits (af_type f)) (col_cells c) \<and> (\<not> af_nullable f \<longrightarrow> Null \<notin> set (col_cells c))"

text \<open>Schemas up to the order of metadata entries, which the libraries keep in hash maps.\<close>

definition same_field :: "arrow_field \<Rightarrow> arrow_field \<Rightarrow> bool" where
  "same_field f g \<longleftrightarrow> af_name f = af_name g \<and> af_type f = af_type g \<and> af_nullable f = af_nullable g
     \<and> map_of (af_meta f) = map_of (af_meta g)"

definition same_schema :: "arrow_schema \<Rightarrow> arrow_schema \<Rightarrow> bool" where
  "same_schema s t \<longleftrightarrow> list_all2 same_field (as_fields s) (as_fields t) \<and> map_of (as_meta s) = map_of (as_meta t)"

lemma same_schema_refl [simp]: "same_schema s s"
  by (simp add: same_schema_def same_field_def list_all2_same)

lemma same_schema_names: "same_schema s t \<Longrightarrow> map af_name (as_fields s) = map af_name (as_fields t)"
proof -
  have "list_all2 same_field fs gs \<Longrightarrow> map af_name fs = map af_name gs" for fs gs
    by (induction rule: list_all2_induct) (simp_all add: same_field_def)
  then show "same_schema s t \<Longrightarrow> map af_name (as_fields s) = map af_name (as_fields t)"
    by (simp add: same_schema_def)
qed

lemma same_schema_field:
  assumes "same_schema s t" and "field_with_name t name = Some g"
  shows "\<exists>f. field_with_name s name = Some f \<and> same_field f g"
proof -
  have "list_all2 same_field fs gs \<Longrightarrow> find (\<lambda>f. af_name f = name) gs = Some g \<Longrightarrow>
      \<exists>f. find (\<lambda>f. af_name f = name) fs = Some f \<and> same_field f g" for fs gs
  proof (induction rule: list_all2_induct)
    case (Cons x xs y ys)
    then show ?case by (cases "af_name y = name") (auto simp: same_field_def)
  qed simp
  from this [of "as_fields s" "as_fields t"] show ?thesis
    using assms by (simp add: same_schema_def field_with_name_def)
qed

definition builds :: "'b arrow_lib \<Rightarrow> bool" where
  "builds lib \<longleftrightarrow> (\<forall>s cs n. cs \<noteq> [] \<and> list_all2 (column_accepted n) (as_fields s) cs \<longrightarrow>
     (\<exists>b. make_batch lib s cs = Inr b \<and> same_schema (batch_schema lib b) s \<and> num_rows lib b = n
        \<and> batch_column lib b = map_of (zip (map af_name (as_fields s)) cs)))"

definition writes :: "'b arrow_lib \<Rightarrow> bool" where
  "writes lib \<longleftrightarrow> (\<forall>b. \<exists>bytes. write_stream lib b = Inr bytes)"

text \<open>What one library writes, the other opens as exactly one batch with the same contents.\<close>

definition same_batch :: "'a arrow_lib \<Rightarrow> 'a \<Rightarrow> 'b arrow_lib \<Rightarrow> 'b \<Rightarrow> bool" where
  "same_batch la a lb b \<longleftrightarrow> same_schema (batch_schema lb b) (batch_schema la a) \<and> num_rows la a = num_rows lb b
     \<and> batch_column la a = batch_column lb b"

definition carries :: "'a arrow_lib \<Rightarrow> 'b arrow_lib \<Rightarrow> bool" where
  "carries w r \<longleftrightarrow> (\<forall>a bytes. write_stream w a = Inr bytes \<longrightarrow>
     (\<exists>b. open_stream r bytes = Inr [Inr b] \<and> same_batch w a r b))"

section \<open>The batch a contract asks for\<close>

text \<open>
  A type up to what the three libraries spell differently: the names inside a map and whether items
  may be null.
\<close>

fun kind :: "arrow_type \<Rightarrow> arrow_type" where
  "kind (ListType t _) = ListType (kind t) True"
| "kind (MapType _ k _ v _) = MapType [] (kind k) [] (kind v) True"
| "kind t = t"

fun leaf_arrow :: "laic_type \<Rightarrow> arrow_type" where
  "leaf_arrow LString = Utf8"
| "leaf_arrow LBool = Boolean"
| "leaf_arrow LI8 = Int8"
| "leaf_arrow LI16 = Int16"
| "leaf_arrow LI32 = Int32"
| "leaf_arrow LI64 = Int64"
| "leaf_arrow LU8 = UInt8"
| "leaf_arrow LF32 = Float32"
| "leaf_arrow LF64 = Float64"
| "leaf_arrow _ = Binary"

definition is_leaf :: "arrow_type \<Rightarrow> bool" where
  "is_leaf t = (case t of ListType _ _ \<Rightarrow> False | MapType _ _ _ _ _ \<Rightarrow> False | _ \<Rightarrow> True)"

lemma leaf_arrow_leaf [simp]: "is_leaf (leaf_arrow t)" "kind (leaf_arrow t) = leaf_arrow t"
  by (cases t; simp add: is_leaf_def)+

fun field_kind :: "laic_type \<Rightarrow> arrow_type" where
  "field_kind (LList t) = ListType (field_kind t) True"
| "field_kind (LOptional t) = field_kind t"
| "field_kind (LMap k v) = MapType [] (field_kind k) [] (field_kind v) True"
| "field_kind t = leaf_arrow t"

text \<open>The cells that are values of a schema type.\<close>

fun is_value :: "laic_type \<Rightarrow> cell \<Rightarrow> bool" where
  "is_value (LOptional (LList t)) c \<longleftrightarrow>
     c = Null \<or> (\<exists>xs. c = Items (map Some xs) \<and> list_all (\<lambda>s. scalar_type s = leaf_arrow t) xs)"
| "is_value (LOptional t) c \<longleftrightarrow> c = Null \<or> (\<exists>s. c = One s \<and> scalar_type s = leaf_arrow t)"
| "is_value (LList (LOptional t)) c \<longleftrightarrow> (\<exists>xs. c = Items xs \<and> list_all (item_fits (leaf_arrow t) True) xs)"
| "is_value (LList t) c \<longleftrightarrow> (\<exists>xs. c = Items (map Some xs) \<and> list_all (\<lambda>s. scalar_type s = leaf_arrow t) xs)"
| "is_value (LMap k v) c \<longleftrightarrow> (\<exists>es. c = Entries (map (\<lambda>(a, b). (a, Some b)) es) \<and> distinct (map fst es)
     \<and> list_all (\<lambda>(a, b). scalar_type a = leaf_arrow k \<and> scalar_type b = leaf_arrow v) es)"
| "is_value t c \<longleftrightarrow> (\<exists>s. c = One s \<and> scalar_type s = leaf_arrow t)"

text \<open>The supported types, one case per shape a generator treats differently.\<close>

lemma supported_cases:
  assumes "supported t"
  obtains (scalar) "is_scalar_type t"
    | (tensor) dtype dims where "t = LTensor dtype dims" "tensor_dims_ok dims"
    | (items) u where "t = LList u" "static_leaf u"
    | (nullable_items) u where "t = LList (LOptional u)" "static_leaf u"
    | (nullable) u where "t = LOptional u" "static_leaf u"
    | (nullable_list) u where "t = LOptional (LList u)" "static_leaf u"
    | (entries) k v where "t = LMap k v" "is_map_key k" "is_scalar_type v"
proof (cases t)
  case (LList u)
  then show thesis using assms that(3,4) by (cases u) (auto simp: supported_def)
next
  case (LOptional u)
  then show thesis using assms that(5,6) by (cases u) (auto simp: supported_def)
qed (use assms that(1,2,7) in \<open>auto simp: supported_def is_scalar_type_def is_map_value_def\<close>)

lemma static_leaf_cases:
  assumes "static_leaf u"
  obtains (scalar) "is_scalar_type u" | (tensor) dtype dims where "u = LTensor dtype dims" "tensor_dims_ok dims"
  using assms that by (cases u) (auto simp: static_leaf_def is_scalar_type_def is_map_value_def)

lemma static_leaf_kind [simp]: "static_leaf u \<Longrightarrow> field_kind u = leaf_arrow u"
  by (cases u) (simp_all add: static_leaf_def is_scalar_type_def is_map_value_def)

lemma scalar_kind [simp]: "is_scalar_type u \<Longrightarrow> field_kind u = leaf_arrow u" "is_map_key u \<Longrightarrow> field_kind u = leaf_arrow u"
  by (cases u; simp add: is_scalar_type_def is_map_value_def is_map_key_def)+

lemma is_value_scalar: "is_scalar_type t \<Longrightarrow> is_value t c \<longleftrightarrow> (\<exists>s. c = One s \<and> scalar_type s = leaf_arrow t)"
  by (cases t) (simp_all add: is_scalar_type_def is_map_value_def)

lemma is_value_items:
  "static_leaf u \<Longrightarrow> is_value (LList u) c \<longleftrightarrow>
     (\<exists>xs. c = Items (map Some xs) \<and> list_all (\<lambda>s. scalar_type s = leaf_arrow u) xs)"
  by (cases u) (simp_all add: static_leaf_def is_scalar_type_def is_map_value_def)

lemma is_value_nullable:
  "static_leaf u \<Longrightarrow> is_value (LOptional u) c \<longleftrightarrow> c = Null \<or> (\<exists>s. c = One s \<and> scalar_type s = leaf_arrow u)"
  by (cases u) (simp_all add: static_leaf_def is_scalar_type_def is_map_value_def)

lemmas is_value_simps = is_value_scalar is_value_items is_value_nullable

text \<open>A value fits every Arrow type of its field's kind.\<close>

lemma kind_leaf: "kind t = leaf_arrow u \<Longrightarrow> t = leaf_arrow u"
  by (cases u; cases t) simp_all

lemma kind_list: "kind t = ListType k True \<Longrightarrow> \<exists>s n. t = ListType s n \<and> kind s = k"
  by (cases t) auto

lemma kind_map: "kind t = MapType [] k [] v True \<Longrightarrow> \<exists>kn s vn r n. t = MapType kn s vn r n \<and> kind s = k \<and> kind r = v"
  by (cases t) auto

text \<open>The three metadata entries of a schema.\<close>

definition contract_meta :: "text \<Rightarrow> text \<Rightarrow> text \<Rightarrow> metadata" where
  "contract_meta sid version direction =
     [lit ''laic.skill_id'' \<mapsto> sid, lit ''laic.version'' \<mapsto> version, lit ''laic.direction'' \<mapsto> direction]"

definition tensor_meta_ok :: "laic_type \<Rightarrow> (text \<times> text) list \<Rightarrow> bool" where
  "tensor_meta_ok ty meta = (case tensor_metadata ty of
     None \<Rightarrow> map_of meta = Map.empty
   | Some (dtype, dims) \<Rightarrow>
       map_of meta = emitted_metadata dtype (format_tensor_shape_metadata dims))"

lemma tensor_meta_same: "same_field f g \<Longrightarrow> tensor_meta_ok t (af_meta f) = tensor_meta_ok t (af_meta g)"
  by (auto simp: same_field_def tensor_meta_ok_def split: option.split)

definition field_ok :: "'b arrow_lib \<Rightarrow> 'b \<Rightarrow> field_def \<Rightarrow> cell \<Rightarrow> bool" where
  "field_ok lib b f x \<longleftrightarrow> (\<exists>fld c. field_with_name (batch_schema lib b) (field_name f) = Some fld
     \<and> batch_column lib b (field_name f) = Some c \<and> col_type c = af_type fld
     \<and> kind (af_type fld) = field_kind (field_ty f) \<and> col_cells c = [x]
     \<and> tensor_meta_ok (field_ty f) (af_meta fld))"

definition contract ::
    "'b arrow_lib \<Rightarrow> struct_def \<Rightarrow> text \<Rightarrow> text \<Rightarrow> text \<Rightarrow> 'b \<Rightarrow> cell list \<Rightarrow> bool" where
  "contract lib d sid version direction b xs \<longleftrightarrow>
     num_rows lib b = 1 \<and> map_of (as_meta (batch_schema lib b)) = contract_meta sid version direction
     \<and> map af_name (as_fields (batch_schema lib b)) = map field_name (struct_fields d)
     \<and> dom (batch_column lib b) = field_name ` set (struct_fields d)
     \<and> list_all2 (field_ok lib b) (struct_fields d) xs"

lemma contract_transfer:
  assumes "same_batch la a lb b" and "contract la d i v dir a xs"
  shows "contract lb d i v dir b xs"
proof -
  have same: "same_schema (batch_schema lb b) (batch_schema la a)" "num_rows la a = num_rows lb b"
    "batch_column la a = batch_column lb b"
    using assms(1) by (simp_all add: same_batch_def)
  have "field_ok lb b f x" if ok: "field_ok la a f x" for f x
  proof -
    obtain g c where g: "field_with_name (batch_schema la a) (field_name f) = Some g"
      "batch_column la a (field_name f) = Some c" "col_type c = af_type g" "kind (af_type g) = field_kind (field_ty f)"
      "col_cells c = [x]" "tensor_meta_ok (field_ty f) (af_meta g)"
      using ok by (auto simp: field_ok_def)
    obtain h where h: "field_with_name (batch_schema lb b) (field_name f) = Some h" "same_field h g"
      using same_schema_field [OF same(1) g(1)] by blast
    then show ?thesis
      using g same(3) unfolding field_ok_def
      by (intro exI [of _ h] exI [of _ c]) (use tensor_meta_same [OF h(2)] in \<open>simp add: same_field_def\<close>)
  qed
  then show ?thesis
    using assms(2) same same_schema_names [OF same(1)] list_all2_mono [of "field_ok la a"]
    by (auto simp: contract_def same_schema_def)
qed

text \<open>
  A writer that makes one field and one column per field of the struct, of the right kind, gets a
  batch of the contract.
\<close>

lemma contract_fields:
  assumes "list_all2 (\<lambda>f x. kind (af_type (fld f)) = field_kind (field_ty f)
      \<and> af_name (fld f) = field_name f \<and> tensor_meta_ok (field_ty f) (af_meta (fld f))) fs xs"
    and "distinct (map field_name fs)"
    and "\<And>f x. (f, x) \<in> set (zip fs xs) \<Longrightarrow> (\<exists>g. field_with_name (batch_schema lib b) (field_name f) = Some g
        \<and> same_field g (fld f))
      \<and> batch_column lib b (field_name f) = Some \<lparr>col_type = af_type (fld f), col_cells = [x]\<rparr>"
  shows "list_all2 (field_ok lib b) fs xs"
  unfolding list_all2_iff
proof (intro conjI ballI, goal_cases)
  case 1
  show ?case using assms(1) by (rule list_all2_lengthD)
next
  case (2 p)
  obtain f x where p: "p = (f, x)" by (cases p)
  then have "kind (af_type (fld f)) = field_kind (field_ty f) \<and> tensor_meta_ok (field_ty f) (af_meta (fld f))"
    using assms(1) 2 by (auto simp: list_all2_iff)
  moreover obtain g where "field_with_name (batch_schema lib b) (field_name f) = Some g" "same_field g (fld f)"
    "batch_column lib b (field_name f) = Some \<lparr>col_type = af_type (fld f), col_cells = [x]\<rparr>"
    using assms(3) [of f x] 2 p by blast
  ultimately show ?case
    using tensor_meta_same [of g "fld f"] by (auto simp: p field_ok_def same_field_def)
qed

lemma find_name:
  "distinct (map field_name fs) \<Longrightarrow> f \<in> set fs \<Longrightarrow> \<forall>g \<in> set fs. af_name (fld g) = field_name g \<Longrightarrow>
     find (\<lambda>g. af_name g = field_name f) (map fld fs) = Some (fld f)"
  by (induction fs) (auto simp: rev_image_eqI)

lemma column_name:
  "distinct (map field_name fs) \<Longrightarrow> (f, x) \<in> set (zip fs xs) \<Longrightarrow> length xs = length fs \<Longrightarrow>
     map_of (zip (map field_name fs) (map2 col fs xs)) (field_name f) = Some (col f x)"
proof (induction fs xs rule: list_induct2')
  case (4 g gs y ys)
  show ?case
  proof (cases "f = g \<and> x = y")
    case False
    then have "(f, x) \<in> set (zip gs ys)" using 4(3) by auto
    moreover from this have "field_name f \<in> field_name ` set gs" by (auto dest: set_zip_leftD)
    then have "field_name f \<noteq> field_name g" using 4(2) by auto
    ultimately show ?thesis using 4 by simp
  qed simp
qed auto

lemma written_contract:
  assumes "builds lib" and "fs \<noteq> []" and meta: "map_of ms = contract_meta sid version direction" and names: "distinct (map field_name fs)" and fs: "struct_fields d = fs"
    and each: "list_all2 (\<lambda>f x. kind (af_type (fld f)) = field_kind (field_ty f)
      \<and> af_name (fld f) = field_name f \<and> tensor_meta_ok (field_ty f) (af_meta (fld f))
      \<and> cell_fits (af_type (fld f)) x \<and> (x = Null \<longrightarrow> af_nullable (fld f))) fs xs"
  shows "\<exists>b. make_batch lib \<lparr>as_fields = map fld fs, as_meta = ms\<rparr>
      (map2 (\<lambda>f x. \<lparr>col_type = af_type (fld f), col_cells = [x]\<rparr>) fs xs) = Inr b
    \<and> contract lib d sid version direction b xs"
proof -
  let ?s = "\<lparr>as_fields = map fld fs, as_meta = ms\<rparr>"
  let ?col = "\<lambda>f x. \<lparr>col_type = af_type (fld f), col_cells = [x]\<rparr>"
  have len: "length xs = length fs" using each by (simp add: list_all2_lengthD)
  have name: "\<forall>f \<in> set fs. af_name (fld f) = field_name f"
    using each len by (auto simp: list_all2_conv_all_nth in_set_conv_nth)
  then have names': "map af_name (map fld fs) = map field_name fs" by simp
  have "list_all2 (column_accepted 1) (map fld fs) (map2 ?col fs xs)"
    using each by (auto simp: list_all2_conv_all_nth column_accepted_def)
  moreover have "map2 ?col fs xs \<noteq> []" using assms(2) len by (cases fs; cases xs) auto
  ultimately obtain b where b: "make_batch lib ?s (map2 ?col fs xs) = Inr b" "same_schema (batch_schema lib b) ?s"
    "num_rows lib b = 1" "batch_column lib b = map_of (zip (map field_name fs) (map2 ?col fs xs))"
    using assms(1) names' unfolding builds_def by (metis arrow_schema.select_convs(1))
  have "list_all2 (field_ok lib b) fs xs"
  proof (rule contract_fields [where fld = fld])
    show "list_all2 (\<lambda>f x. kind (af_type (fld f)) = field_kind (field_ty f)
      \<and> af_name (fld f) = field_name f \<and> tensor_meta_ok (field_ty f) (af_meta (fld f))) fs xs"
      using each by (rule list_all2_mono) blast
    fix f x assume "(f, x) \<in> set (zip fs xs)"
    then show "(\<exists>g. field_with_name (batch_schema lib b) (field_name f) = Some g \<and> same_field g (fld f))
      \<and> batch_column lib b (field_name f) = Some (?col f x)"
      using find_name [OF names _ name, of f] column_name [OF names _ len, of f x ?col] b(4)
        same_schema_field [OF b(2), of "field_name f" "fld f"]
      by (auto simp: field_with_name_def [of ?s] dest: set_zip_leftD)
  qed (fact names)
  moreover have "length (map2 ?col fs xs) = length (map field_name fs)" using len by simp
  then have "dom (batch_column lib b) = field_name ` set fs"
    unfolding b(4) by (subst dom_map_of_zip) simp_all
  ultimately show ?thesis
    using b meta names' same_schema_names [OF b(2)] by (simp add: contract_def fs same_schema_def)
qed

text \<open>
  The NaNs of the two widths, and the cells all of whose scalars satisfy \<open>p\<close>. A language that has one
  float type may change the bits of a NaN.
\<close>

definition nan32 :: "u32 \<Rightarrow> bool" where
  "nan32 w \<longleftrightarrow> take_bit 8 (drop_bit 23 w) = 255 \<and> take_bit 23 w \<noteq> 0"

definition nan64 :: "u64 \<Rightarrow> bool" where
  "nan64 w \<longleftrightarrow> take_bit 11 (drop_bit 52 w) = 2047 \<and> take_bit 52 w \<noteq> 0"

fun plain_cell :: "(scalar \<Rightarrow> bool) \<Rightarrow> cell \<Rightarrow> bool" where
  "plain_cell p Null \<longleftrightarrow> True"
| "plain_cell p (One s) \<longleftrightarrow> p s"
| "plain_cell p (Items xs) \<longleftrightarrow> list_all (pred_option p) xs"
| "plain_cell p (Entries es) \<longleftrightarrow> list_all (\<lambda>(k, v). p k \<and> pred_option p v) es"

text \<open>
  The scalars of a dynamically typed language: \<open>fits t v\<close> says the value is one of the schema type, and
  then it is the image of a plain Arrow scalar of that type. The same follows for lists, nullable items
  and dictionary entries.
\<close>

locale scalar_view =
  fixes fits :: "laic_type \<Rightarrow> 's \<Rightarrow> bool" and of_scalar :: "scalar \<Rightarrow> 's" and plain :: "scalar \<Rightarrow> bool"
  assumes fits_scalar: "fits t v \<Longrightarrow> \<exists>s. scalar_type s = leaf_arrow t \<and> plain s \<and> v = of_scalar s"
begin

lemma fits_all:
  "list_all (\<lambda>x. \<exists>y. x = Some y \<and> fits t y) xs \<Longrightarrow>
     \<exists>ss. xs = map (\<lambda>s. Some (of_scalar s)) ss \<and> list_all (\<lambda>s. scalar_type s = leaf_arrow t \<and> plain s) ss"
proof (induction xs)
  case (Cons x xs)
  then obtain ss where ss: "xs = map (\<lambda>s. Some (of_scalar s)) ss"
    "list_all (\<lambda>s. scalar_type s = leaf_arrow t \<and> plain s) ss" by auto
  obtain s where "x = Some (of_scalar s)" "scalar_type s = leaf_arrow t" "plain s"
    using Cons.prems fits_scalar [of t] by auto
  then show ?case using ss by (intro exI [of _ "s # ss"]) simp
qed simp

lemma fits_opts:
  "list_all (pred_option (fits t)) xs \<Longrightarrow>
     \<exists>ss. xs = map (map_option of_scalar) ss
       \<and> list_all (item_fits (leaf_arrow t) True) ss \<and> list_all (pred_option plain) ss"
proof (induction xs)
  case (Cons x xs)
  then obtain ss where ss: "xs = map (map_option of_scalar) ss"
    "list_all (item_fits (leaf_arrow t) True) ss" "list_all (pred_option plain) ss" by auto
  have "\<exists>s. x = map_option of_scalar s \<and> item_fits (leaf_arrow t) True s \<and> pred_option plain s"
  proof (cases x)
    case None
    then show ?thesis by (intro exI [of _ None]) simp
  next
    case (Some y)
    then obtain s where "scalar_type s = leaf_arrow t" "plain s" "y = of_scalar s"
      using Cons.prems fits_scalar [of t y] by auto
    then show ?thesis using Some by (intro exI [of _ "Some s"]) simp
  qed
  then obtain s where "x = map_option of_scalar s" "item_fits (leaf_arrow t) True s" "pred_option plain s"
    by blast
  then show ?case using ss by (intro exI [of _ "s # ss"]) simp
qed simp

lemma fits_pairs:
  "list_all (\<lambda>(x, y). fits a x \<and> (\<exists>z. y = Some z \<and> fits b z)) es \<Longrightarrow>
     \<exists>ss. es = map (\<lambda>(k, v). (of_scalar k, Some (of_scalar v))) ss
       \<and> list_all (\<lambda>(k, v). scalar_type k = leaf_arrow a \<and> scalar_type v = leaf_arrow b \<and> plain k \<and> plain v) ss"
proof (induction es)
  case (Cons e es)
  then obtain ss where ss: "es = map (\<lambda>(k, v). (of_scalar k, Some (of_scalar v))) ss"
    "list_all (\<lambda>(k, v). scalar_type k = leaf_arrow a \<and> scalar_type v = leaf_arrow b \<and> plain k \<and> plain v) ss" by auto
  obtain x z where e: "e = (x, Some z)" "fits a x" "fits b z" using Cons.prems by auto
  obtain k where k: "scalar_type k = leaf_arrow a" "plain k" "x = of_scalar k" using fits_scalar [OF e(2)] by blast
  obtain v where v: "scalar_type v = leaf_arrow b" "plain v" "z = of_scalar v" using fits_scalar [OF e(3)] by blast
  show ?case using ss e(1) k v by (intro exI [of _ "(k, v) # ss"]) simp
qed simp

end

text \<open>Facts both deserializers use: reading field by field, and the keys of the schema.\<close>

lemma collect_all2: "list_all2 (\<lambda>x y. h x = Inr y) xs ys \<Longrightarrow> collect (map h xs) = Inr ys"
  by (induction rule: list_all2_induct) simp_all

lemma contract_keys [simp]:
  "contract_meta sid version direction (lit ''laic.skill_id'') = Some sid"
  "contract_meta sid version direction (lit ''laic.version'') = Some version"
  "contract_meta sid version direction (lit ''laic.direction'') = Some direction"
  by (simp_all add: contract_meta_def lit_inject)

lemma collect_Inr: "collect (map h xs) = Inr ys \<Longrightarrow> list_all2 (\<lambda>x y. h x = Inr y) xs ys"
  by (induction xs arbitrary: ys) (auto simp: try_bind_Inr_iff)

section \<open>What a binding promises\<close>

definition values_of :: "struct_def \<Rightarrow> cell list \<Rightarrow> bool" where
  "values_of d xs \<longleftrightarrow> list_all2 (\<lambda>f x. is_value (field_ty f) x) (struct_fields d) xs"

text \<open>
  \<open>enc d sid version direction vs\<close> are the bytes a serializer generated for the struct \<open>d\<close> writes for the
  field values \<open>vs\<close>; \<open>dec\<close> is the deserializer. Both hold for the structs the language admits.
\<close>

locale binding_writer =
  fixes lib :: "'b arrow_lib"
    and enc :: "struct_def \<Rightarrow> text \<Rightarrow> text \<Rightarrow> text \<Rightarrow> 'v list \<Rightarrow> bytes option"
    and typed :: "struct_def \<Rightarrow> 'v list \<Rightarrow> bool" and cells :: "struct_def \<Rightarrow> 'v list \<Rightarrow> cell list"
  assumes written: "typed d vs \<Longrightarrow> \<exists>b bytes. enc d sid version direction vs = Some bytes
      \<and> write_stream lib b = Inr bytes \<and> contract lib d sid version direction b (cells d vs)"
    and cells_values: "typed d vs \<Longrightarrow> values_of d (cells d vs)"

locale binding_reader =
  fixes lib :: "'b arrow_lib"
    and dec :: "struct_def \<Rightarrow> text \<Rightarrow> text \<Rightarrow> text \<Rightarrow> bytes \<Rightarrow> 'e + 'v list"
    and admits :: "struct_def \<Rightarrow> bool" and view :: "laic_type \<Rightarrow> cell \<Rightarrow> 'v"
  assumes reads_contract: "admits d \<Longrightarrow> open_stream lib bytes = Inr [Inr b] \<Longrightarrow>
      contract lib d sid version direction b xs \<Longrightarrow> values_of d xs \<Longrightarrow>
      dec d sid version direction bytes = Inr (map2 (\<lambda>f. view (field_ty f)) (struct_fields d) xs)"

locale binding_pair =
  w: binding_writer wlib enc typed cells + r: binding_reader rlib dec admits view
  for wlib :: "'a arrow_lib" and rlib :: "'b arrow_lib"
    and enc :: "struct_def \<Rightarrow> text \<Rightarrow> text \<Rightarrow> text \<Rightarrow> 'v list \<Rightarrow> bytes option"
    and typed :: "struct_def \<Rightarrow> 'v list \<Rightarrow> bool" and cells :: "struct_def \<Rightarrow> 'v list \<Rightarrow> cell list"
    and dec :: "struct_def \<Rightarrow> text \<Rightarrow> text \<Rightarrow> text \<Rightarrow> bytes \<Rightarrow> 'e + 'u list"
    and admits :: "struct_def \<Rightarrow> bool" and view :: "laic_type \<Rightarrow> cell \<Rightarrow> 'u" +
  assumes carried: "carries wlib rlib"
begin

lemma exchange:
  assumes "typed d vs" and "admits d"
  shows "\<exists>bytes. enc d sid version direction vs = Some bytes
    \<and> dec d sid version direction bytes = Inr (map2 (\<lambda>f. view (field_ty f)) (struct_fields d) (cells d vs))"
proof -
  obtain a bytes where a: "enc d sid version direction vs = Some bytes" "write_stream wlib a = Inr bytes"
    "contract wlib d sid version direction a (cells d vs)"
    using w.written [OF assms(1)] by blast
  then obtain b where b: "open_stream rlib bytes = Inr [Inr b]" "same_batch wlib a rlib b"
    using carried unfolding carries_def by blast
  have "contract rlib d sid version direction b (cells d vs)"
    using contract_transfer [OF b(2) a(3)] .
  then show ?thesis
    using a(1) r.reads_contract [OF assms(2) b(1)] w.cells_values [OF assms(1)] by blast
qed

end

text \<open>
  What a deserializer has checked when it succeeds with \<open>vs\<close>; \<open>check\<close> is the tensor check of its language.
  A scalar field has a column of its type, or no column and a default.
\<close>

definition scalar_checked :: "'b arrow_lib \<Rightarrow> 'b \<Rightarrow> field_def \<Rightarrow> bool" where
  "scalar_checked lib b f \<longleftrightarrow>
     (case batch_column lib b (field_name f) of
        None \<Rightarrow> field_default f \<noteq> None
      | Some _ \<Rightarrow> \<exists>fld. field_with_name (batch_schema lib b) (field_name f) = Some fld
          \<and> af_type fld = leaf_arrow (field_ty f))"

definition guarded ::
    "(tensor_element_type \<Rightarrow> dimension list \<Rightarrow> metadata \<Rightarrow> tensor_error + unit) \<Rightarrow> 'b arrow_lib \<Rightarrow> struct_def
     \<Rightarrow> text \<Rightarrow> text \<Rightarrow> text \<Rightarrow> bytes \<Rightarrow> 'v list \<Rightarrow> bool" where
  "guarded check lib d sid version direction bytes vs \<longleftrightarrow>
     (\<exists>b. open_stream lib bytes = Inr [Inr b] \<and> num_rows lib b = 1
       \<and> contract_meta sid version direction \<subseteq>\<^sub>m map_of (as_meta (batch_schema lib b))
       \<and> length vs = length (struct_fields d)
       \<and> (\<forall>f \<in> set (struct_fields d). case tensor_metadata (field_ty f) of
            None \<Rightarrow> True
          | Some (dtype, dims) \<Rightarrow>
              \<exists>fld. field_with_name (batch_schema lib b) (field_name f) = Some fld
                \<and> check dtype dims (map_of (af_meta fld)) = Inr ())
       \<and> (\<forall>f \<in> set (struct_fields d). is_scalar_type (field_ty f) \<longrightarrow> scalar_checked lib b f))"

lemma guardedI:
  assumes "open_stream lib bytes = Inr [Inr b]" and "num_rows lib b = 1"
    and "\<And>k v. (k, v) \<in> {(lit ''laic.skill_id'', sid), (lit ''laic.version'', version), (lit ''laic.direction'', direction)} \<Longrightarrow>
      map_of (as_meta (batch_schema lib b)) k = Some v"
    and "collect (map extract (struct_fields d)) = Inr vs"
    and "\<And>f v dtype dims. extract f = Inr v \<Longrightarrow> tensor_metadata (field_ty f) = Some (dtype, dims) \<Longrightarrow>
      \<exists>fld. field_with_name (batch_schema lib b) (field_name f) = Some fld
        \<and> check dtype dims (map_of (af_meta fld)) = Inr ()"
    and "\<And>f v. extract f = Inr v \<Longrightarrow> is_scalar_type (field_ty f) \<Longrightarrow> scalar_checked lib b f"
  shows "guarded check lib d sid version direction bytes vs"
proof -
  note each = collect_Inr [OF assms(4)]
  let ?meta = "map_of (as_meta (batch_schema lib b))"
  have "?meta (lit ''laic.skill_id'') = Some sid" "?meta (lit ''laic.version'') = Some version"
    "?meta (lit ''laic.direction'') = Some direction"
    by (rule assms(3), simp)+
  then have "contract_meta sid version direction \<subseteq>\<^sub>m ?meta"
    by (simp add: map_le_def contract_meta_def lit_inject)
  moreover have ex: "\<exists>v. extract f = Inr v" if "f \<in> set (struct_fields d)" for f
    using each that by (induction rule: list_all2_induct) auto
  have "case tensor_metadata (field_ty f) of None \<Rightarrow> True
      | Some (dtype, dims) \<Rightarrow> \<exists>fld. field_with_name (batch_schema lib b) (field_name f) = Some fld
          \<and> check dtype dims (map_of (af_meta fld)) = Inr ()" if f: "f \<in> set (struct_fields d)" for f
  proof -
    obtain v where "extract f = Inr v" using ex [OF f] by blast
    from assms(5) [OF this] show ?thesis by (auto split: option.split)
  qed
  moreover have "\<forall>f \<in> set (struct_fields d). is_scalar_type (field_ty f) \<longrightarrow> scalar_checked lib b f"
    using assms(6) ex by blast
  ultimately show ?thesis
    using assms(1,2) list_all2_lengthD [OF each] unfolding guarded_def by (intro exI [of _ b]) simp
qed

section \<open>A library in memory\<close>

text \<open>
  An instance of the interface: a batch is its contents, and a stream is the number of the batch in
  some enumeration of all batches. It shows that the laws can hold together.
\<close>

instance arrow_type :: countable
  by countable_datatype

instance scalar :: countable
  by countable_datatype

instance cell :: countable
  by countable_datatype

type_synonym mem_batch =
  "(text \<times> arrow_type \<times> bool \<times> (text \<times> text) list) list \<times> (text \<times> text) list
   \<times> (arrow_type \<times> cell list) list \<times> nat"

definition mem_schema :: "mem_batch \<Rightarrow> arrow_schema" where
  "mem_schema b = (case b of (fs, ms, _, _) \<Rightarrow>
     \<lparr>as_fields = map (\<lambda>(n, t, nl, m). \<lparr>af_name = n, af_type = t, af_nullable = nl, af_meta = m\<rparr>) fs, as_meta = ms\<rparr>)"

definition mem_columns :: "mem_batch \<Rightarrow> column list" where
  "mem_columns b = (case b of (_, _, cs, _) \<Rightarrow> map (\<lambda>(t, xs). \<lparr>col_type = t, col_cells = xs\<rparr>) cs)"

definition mem_arrow :: "mem_batch arrow_lib" where
  "mem_arrow =
     \<lparr>make_batch = (\<lambda>s cs.
        (case cs of
           [] \<Rightarrow> Inl ''no columns''
         | c # _ \<Rightarrow>
             if list_all2 (column_accepted (length (col_cells c))) (as_fields s) cs
             then Inr (map (\<lambda>f. (af_name f, af_type f, af_nullable f, af_meta f)) (as_fields s), as_meta s,
                       map (\<lambda>c. (col_type c, col_cells c)) cs, length (col_cells c))
             else Inl ''schema mismatch'')),
      write_stream = (\<lambda>b. Inr (replicate (to_nat b) 0)),
      open_stream = (\<lambda>bytes. Inr [Inr (from_nat (length bytes))]),
      batch_schema = mem_schema,
      num_rows = (\<lambda>b. snd (snd (snd b))),
      batch_column = (\<lambda>b. map_of (zip (map af_name (as_fields (mem_schema b))) (mem_columns b))),
      null_slot = (\<lambda>t. One (SBool False))\<rparr>"

lemma mem_writes: "writes mem_arrow"
  by (simp add: writes_def mem_arrow_def)

lemma mem_carries: "carries mem_arrow mem_arrow"
  by (auto simp: carries_def mem_arrow_def same_batch_def)

lemma arrow_record_eta [simp]:
  "\<lparr>af_name = af_name f, af_type = af_type f, af_nullable = af_nullable f, af_meta = af_meta f\<rparr> = f"
  "\<lparr>as_fields = as_fields s, as_meta = as_meta s\<rparr> = s"
  "\<lparr>col_type = col_type c, col_cells = col_cells c\<rparr> = c"
  by simp_all

lemma mem_builds: "builds mem_arrow"
  unfolding builds_def
proof (intro allI impI)
  fix s :: arrow_schema and cs n assume cs: "cs \<noteq> [] \<and> list_all2 (column_accepted n) (as_fields s) cs"
  then obtain c cs' where c: "cs = c # cs'" by (cases cs) auto
  then have n: "length (col_cells c) = n" using cs by (auto simp: list_all2_Cons2 column_accepted_def)
  let ?b = "(map (\<lambda>f. (af_name f, af_type f, af_nullable f, af_meta f)) (as_fields s), as_meta s,
    map (\<lambda>c. (col_type c, col_cells c)) cs, n)"
  have "mem_schema ?b = s" "mem_columns ?b = cs"
    by (simp_all add: mem_schema_def mem_columns_def comp_def)
  then show "\<exists>b. make_batch mem_arrow s cs = Inr b \<and> same_schema (batch_schema mem_arrow b) s \<and> num_rows mem_arrow b = n
      \<and> batch_column mem_arrow b = map_of (zip (map af_name (as_fields s)) cs)"
    using cs c n by (intro exI [of _ ?b]) (simp add: mem_arrow_def)
qed

section \<open>An example\<close>

definition document_struct :: struct_def where
  "document_struct =
     \<lparr>struct_name = lit ''Document'',
      struct_fields =
       [\<lparr>field_name = lit ''title'', field_ty = LString, field_default = Some (StringLit (lit ''untitled''))\<rparr>,
        \<lparr>field_name = lit ''scores'', field_ty = LList LI32, field_default = None\<rparr>,
        \<lparr>field_name = lit ''weight'', field_ty = LOptional LF64, field_default = None\<rparr>,
        \<lparr>field_name = lit ''tags'', field_ty = LMap LString LBool, field_default = None\<rparr>,
        \<lparr>field_name = lit ''embedding'', field_ty = LTensor TF32 [Dynamic None, Fixed 2], field_default = None\<rparr>]\<rparr>"

lemma document_valid: "valid_struct document_struct"
  by (simp add: valid_struct_def document_struct_def valid_field_def default_ok_def supported_def static_leaf_def
      is_scalar_type_def is_map_value_def is_map_key_def tensor_dims_ok_def
      is_reserved_codegen_identifier_def RESERVED_def lit_inject)

end
