(* ===== verification/Laicc_Rust_Binding.thy ===== *)
theory Laicc_Rust_Binding
  imports Laicc_Arrow
begin

text \<open>
  What the Rust code generated for a struct does when it runs: \<open>to_arrow_ipc\<close> and \<open>from_arrow_ipc\<close>, as
  the emitters of \<open>codegen/rust_serialize.rs\<close>, \<open>rust_deserialize.rs\<close> and \<open>rust_deserialize_fields.rs\<close> write
  them, statement by statement, over an Arrow library. A \<open>HashMap\<close> is a finite map with an unspecified
  iteration order, \<open>iter\<close>. The theory ties the run-time schema to the emitted text, and interprets
  \<open>binding_writer\<close> and \<open>binding_reader\<close>.
\<close>

section \<open>Types and schema\<close>

fun rust_data_type :: "laic_type \<Rightarrow> arrow_type" where
  "rust_data_type (LList inner) = ListType (rust_data_type inner) True"
| "rust_data_type (LOptional inner) = rust_data_type inner"
| "rust_data_type (LMap k v) =
     MapType (lit ''keys'') (rust_data_type k) (lit ''values'') (rust_data_type v) True"
| "rust_data_type t = leaf_arrow t"

text \<open>The Rust expression of an Arrow type; the emitted text is the expression of \<open>rust_data_type\<close>.\<close>

fun rust_expression :: "arrow_type \<Rightarrow> text" where
  "rust_expression Utf8 = lit ''DataType::Utf8''"
| "rust_expression Binary = lit ''DataType::Binary''"
| "rust_expression Boolean = lit ''DataType::Boolean''"
| "rust_expression Int8 = lit ''DataType::Int8''"
| "rust_expression Int16 = lit ''DataType::Int16''"
| "rust_expression Int32 = lit ''DataType::Int32''"
| "rust_expression Int64 = lit ''DataType::Int64''"
| "rust_expression UInt8 = lit ''DataType::UInt8''"
| "rust_expression Float32 = lit ''DataType::Float32''"
| "rust_expression Float64 = lit ''DataType::Float64''"
| "rust_expression (ListType t n) =
     fmt ''DataType::List(Arc::new(Field::new(^item^, {}, {})))'' [rust_expression t, bool_text n]"
| "rust_expression (MapType kn k vn v n) =
     fmt (''DataType::Map(Arc::new(Field::new(^entries^, DataType::Struct(Fields::from(vec!['' @
        ''Field::new(^{}^, {}, false), '' @ ''Field::new(^{}^, {}, {})'' @ ''])), false)), false)'')
       [kn, rust_expression k, vn, rust_expression v, bool_text n]"

lemma rust_expression_emitted: "rust_expression (rust_data_type t) = arrow_datatype t"
  by (induction t) (simp_all add: fmt_simps bool_text_def lit_def template_char_def)

definition rust_schema_field :: "field_def \<Rightarrow> arrow_field" where
  "rust_schema_field f =
     \<lparr>af_name = field_name f, af_type = rust_data_type (field_ty f), af_nullable = is_optional (field_ty f),
      af_meta = (case tensor_metadata (field_ty f) of
        None \<Rightarrow> []
      | Some (dtype, dims) \<Rightarrow>
          [(lit ''laic.tensor.dtype'', lit (tensor_as_str dtype)),
           (lit ''laic.tensor.shape'', format_dims_as_shape dims),
           (lit ''laic.tensor.version'', lit ''1'')])\<rparr>"

definition rust_schema_meta :: "text \<Rightarrow> text \<Rightarrow> text \<Rightarrow> (text \<times> text) list" where
  "rust_schema_meta sid version direction =
     [(lit ''laic.skill_id'', sid), (lit ''laic.version'', version), (lit ''laic.direction'', direction)]"

section \<open>Serializing\<close>

text \<open>The fields of a generated struct.\<close>

datatype rust_value =
    RScalar scalar
  | ROption "scalar option"
  | RVec "scalar list"
  | ROptVec "scalar list option"
  | RMap "scalar \<rightharpoonup> scalar"

type_synonym hash_iter = "(scalar \<rightharpoonup> scalar) \<Rightarrow> (scalar \<times> scalar) list"

definition iterates :: "hash_iter \<Rightarrow> bool" where
  "iterates iter \<longleftrightarrow> (\<forall>m. finite (dom m) \<longrightarrow> distinct (map fst (iter m)) \<and> map_of (iter m) = m)"

text \<open>The type of the array an emitted column expression builds, and its one cell.\<close>

fun rust_array_type :: "laic_type \<Rightarrow> arrow_type" where
  "rust_array_type (LList t) = ListType (leaf_arrow t) True"
| "rust_array_type (LOptional (LList t)) = ListType (leaf_arrow t) True"
| "rust_array_type (LOptional t) = leaf_arrow t"
| "rust_array_type (LMap k v) = MapType (lit ''keys'') (leaf_arrow k) (lit ''values'') (leaf_arrow v) True"
| "rust_array_type t = leaf_arrow t"

fun rust_cell :: "hash_iter \<Rightarrow> rust_value \<Rightarrow> cell" where
  "rust_cell iter (RScalar s) = One s"
| "rust_cell iter (ROption v) = (case v of None \<Rightarrow> Null | Some s \<Rightarrow> One s)"
| "rust_cell iter (RVec xs) = Items (map Some xs)"
| "rust_cell iter (ROptVec v) = (case v of None \<Rightarrow> Null | Some xs \<Rightarrow> Items (map Some xs))"
| "rust_cell iter (RMap m) = Entries (map (\<lambda>(k, v). (k, Some v)) (iter m))"

definition to_arrow_ipc ::
    "'b arrow_lib \<Rightarrow> hash_iter \<Rightarrow> struct_def \<Rightarrow> text \<Rightarrow> text \<Rightarrow> text \<Rightarrow> rust_value list \<Rightarrow> string + bytes" where
  "to_arrow_ipc lib iter d sid version direction self =
     (let schema = \<lparr>as_fields = map rust_schema_field (struct_fields d),
                    as_meta = rust_schema_meta sid version direction\<rparr>;
          columns = map2 (\<lambda>f v. \<lparr>col_type = rust_array_type (field_ty f), col_cells = [rust_cell iter v]\<rparr>)
                      (struct_fields d) self
      in try_bind (make_batch lib schema columns) (\<lambda>batch. write_stream lib batch))"

section \<open>Deserializing\<close>

datatype rust_error =
    ArrowFailed string | EmptyStream | NoRows | ManyRows nat | ManyBatches | CorruptTrailing string
  | MissingMetadata "text" | MetadataMismatch "text" | MissingField "text" | MissingColumn "text"
  | WrongType "text" | WrongArray "text" | TensorContract "text" tensor_error | BadDefault "text"

text \<open>
  A default literal as the Rust compiler reads it. \<open>None\<close> is a literal it rejects: a string with a C1
  control character, or an integer where a float is needed. Reading decimal float literals is an
  argument.
\<close>

fun rust_literal :: "show_f64 \<Rightarrow> (text \<Rightarrow> u32) \<Rightarrow> (text \<Rightarrow> u64) \<Rightarrow> laic_type \<Rightarrow> literal \<Rightarrow> scalar option" where
  "rust_literal sf rd32 rd64 LString (StringLit s) = (if list_ex c1_control s then None else Some (SText s))"
| "rust_literal sf rd32 rd64 LBool (BoolLit b) = Some (SBool b)"
| "rust_literal sf rd32 rd64 LI8 (IntegerLit i) = Some (SI8 (word_of_int i))"
| "rust_literal sf rd32 rd64 LI16 (IntegerLit i) = Some (SI16 (word_of_int i))"
| "rust_literal sf rd32 rd64 LI32 (IntegerLit i) = Some (SI32 (word_of_int i))"
| "rust_literal sf rd32 rd64 LI64 (IntegerLit i) = Some (SI64 (word_of_int i))"
| "rust_literal sf rd32 rd64 LU8 (IntegerLit i) = Some (SU8 (word_of_int i))"
| "rust_literal sf rd32 rd64 LF32 (FloatLit x) = Some (SF32 (rd32 (literal_to_rust sf (FloatLit x))))"
| "rust_literal sf rd32 rd64 LF64 (FloatLit x) = Some (SF64 (rd64 (literal_to_rust sf (FloatLit x))))"
| "rust_literal sf rd32 rd64 _ _ = None"

text \<open>The typed accessors; an ill-formed cell has no value in safe Rust and reads as \<open>default\<close>.\<close>

fun one_of :: "cell \<Rightarrow> scalar" where
  "one_of (One s) = s"
| "one_of _ = SBool False"

fun items_of :: "cell \<Rightarrow> scalar option list" where
  "items_of (Items xs) = xs"
| "items_of _ = []"

fun entries_of :: "cell \<Rightarrow> (scalar \<times> scalar option) list" where
  "entries_of (Entries es) = es"
| "entries_of _ = []"

definition item_value :: "'b arrow_lib \<Rightarrow> arrow_type \<Rightarrow> scalar option \<Rightarrow> scalar" where
  "item_value lib t x = (case x of Some s \<Rightarrow> s | None \<Rightarrow> one_of (null_slot lib t))"

definition rust_simple_extraction ::
    "'b arrow_lib \<Rightarrow> 'b \<Rightarrow> text \<Rightarrow> arrow_type \<Rightarrow> scalar option option \<Rightarrow> rust_error + rust_value" where
  "rust_simple_extraction lib batch name expected dflt =
     (case batch_column lib batch name of
        Some column \<Rightarrow>
          (case field_with_name (batch_schema lib batch) name of
             None \<Rightarrow> Inl (MissingField name)
           | Some fld \<Rightarrow>
               if af_type fld \<noteq> expected then Inl (WrongType name)
               else if col_type column \<noteq> expected then Inl (WrongArray name)
               else Inr (RScalar (one_of (slot lib column 0))))
      | None \<Rightarrow>
          (case dflt of
             None \<Rightarrow> Inl (MissingColumn name)
           | Some None \<Rightarrow> Inl (BadDefault name)
           | Some (Some s) \<Rightarrow> Inr (RScalar s)))"

definition rust_tensor_validation ::
    "'b arrow_lib \<Rightarrow> 'b \<Rightarrow> text \<Rightarrow> tensor_element_type \<Rightarrow> dimension list \<Rightarrow> rust_error + unit" where
  "rust_tensor_validation lib batch name dtype dims =
     (case field_with_name (batch_schema lib batch) name of
        None \<Rightarrow> Inl (MissingField name)
      | Some fld \<Rightarrow> map_err (TensorContract name) (rust_check_tensor dtype dims (map_of (af_meta fld))))"

definition rust_column :: "'b arrow_lib \<Rightarrow> 'b \<Rightarrow> text \<Rightarrow> (arrow_type \<Rightarrow> bool) \<Rightarrow> rust_error + column" where
  "rust_column lib batch name class =
     (case batch_column lib batch name of
        None \<Rightarrow> Inl (MissingColumn name)
      | Some c \<Rightarrow> if class (col_type c) then Inr c else Inl (MissingColumn name))"

fun is_list_type :: "arrow_type \<Rightarrow> bool" where
  "is_list_type (ListType _ _) = True"
| "is_list_type _ = False"

fun is_map_type :: "arrow_type \<Rightarrow> bool" where
  "is_map_type (MapType _ _ _ _ _) = True"
| "is_map_type _ = False"

fun item_type :: "arrow_type \<Rightarrow> arrow_type" where
  "item_type (ListType t _) = t"
| "item_type t = t"

definition rust_tensor_extraction ::
    "'b arrow_lib \<Rightarrow> 'b \<Rightarrow> text \<Rightarrow> tensor_element_type \<Rightarrow> dimension list \<Rightarrow> rust_error + rust_value" where
  "rust_tensor_extraction lib batch name dtype dims =
     try_bind (rust_tensor_validation lib batch name dtype dims) (\<lambda>_.
     try_bind (rust_column lib batch name (\<lambda>t. t = Binary)) (\<lambda>col.
     Inr (RScalar (one_of (slot lib col 0)))))"

text \<open>The items of a list cell, after the check of the item array's class.\<close>

definition rust_items :: "'b arrow_lib \<Rightarrow> text \<Rightarrow> laic_type \<Rightarrow> column \<Rightarrow> rust_error + scalar list" where
  "rust_items lib name inner col =
     (if item_type (col_type col) \<noteq> leaf_arrow inner then Inl (WrongArray name)
      else Inr (map (item_value lib (leaf_arrow inner)) (items_of (slot lib col 0))))"

definition rust_list_extraction :: "'b arrow_lib \<Rightarrow> 'b \<Rightarrow> text \<Rightarrow> laic_type \<Rightarrow> rust_error + rust_value" where
  "rust_list_extraction lib batch name inner =
     try_bind (rust_column lib batch name is_list_type) (\<lambda>list_arr.
     try_bind (case inner of
                 LTensor dtype dims \<Rightarrow> rust_tensor_validation lib batch name dtype dims
               | _ \<Rightarrow> Inr ()) (\<lambda>_.
     try_bind (rust_items lib name inner list_arr) (\<lambda>xs. Inr (RVec xs))))"

definition rust_optional_extraction :: "'b arrow_lib \<Rightarrow> 'b \<Rightarrow> text \<Rightarrow> laic_type \<Rightarrow> rust_error + rust_value" where
  "rust_optional_extraction lib batch name inner =
     try_bind (rust_column lib batch name (\<lambda>_. True)) (\<lambda>col.
     try_bind (case inner of
                 LTensor dtype dims \<Rightarrow> rust_tensor_validation lib batch name dtype dims
               | _ \<Rightarrow> Inr ()) (\<lambda>_.
     case inner of
       LList list_inner \<Rightarrow>
         if col_cells col ! 0 = Null then Inr (ROptVec None)
         else if \<not> is_list_type (col_type col) then Inl (WrongArray name)
         else try_bind (rust_items lib name list_inner col) (\<lambda>xs. Inr (ROptVec (Some xs)))
     | _ \<Rightarrow>
         if col_cells col ! 0 = Null then Inr (ROption None)
         else if col_type col \<noteq> leaf_arrow inner then Inl (WrongArray name)
         else Inr (ROption (Some (one_of (slot lib col 0))))))"

definition insert_all :: "(scalar \<times> scalar) list \<Rightarrow> scalar \<rightharpoonup> scalar" where
  "insert_all es = foldl (\<lambda>m (k, v). m(k \<mapsto> v)) Map.empty es"

definition rust_map_extraction ::
    "'b arrow_lib \<Rightarrow> 'b \<Rightarrow> text \<Rightarrow> laic_type \<Rightarrow> laic_type \<Rightarrow> rust_error + rust_value" where
  "rust_map_extraction lib batch name k v =
     try_bind (rust_column lib batch name is_map_type) (\<lambda>map_arr.
     case col_type map_arr of
       MapType _ kt _ vt _ \<Rightarrow>
         if kt \<noteq> leaf_arrow k then Inl (WrongArray name)
         else if vt \<noteq> leaf_arrow v then Inl (WrongArray name)
         else Inr (RMap (insert_all (map (\<lambda>(a, b). (a, item_value lib vt b)) (entries_of (slot lib map_arr 0)))))
     | _ \<Rightarrow> Inl (WrongArray name))"

definition rust_field_extraction ::
    "show_f64 \<Rightarrow> (text \<Rightarrow> u32) \<Rightarrow> (text \<Rightarrow> u64) \<Rightarrow> 'b arrow_lib \<Rightarrow> 'b \<Rightarrow> field_def \<Rightarrow> rust_error + rust_value" where
  "rust_field_extraction sf rd32 rd64 lib batch f =
     (case field_ty f of
        LTensor dtype dims \<Rightarrow> rust_tensor_extraction lib batch (field_name f) dtype dims
      | LList inner \<Rightarrow> rust_list_extraction lib batch (field_name f) inner
      | LOptional inner \<Rightarrow> rust_optional_extraction lib batch (field_name f) inner
      | LMap k v \<Rightarrow> rust_map_extraction lib batch (field_name f) k v
      | ty \<Rightarrow> rust_simple_extraction lib batch (field_name f) (rust_data_type ty)
                (map_option (rust_literal sf rd32 rd64 ty) (field_default f)))"

fun rust_metadata_validation :: "(text \<times> text) list \<Rightarrow> metadata \<Rightarrow> rust_error + unit" where
  "rust_metadata_validation [] meta = Inr ()"
| "rust_metadata_validation ((key, expected) # rest) meta =
     (case meta key of
        None \<Rightarrow> Inl (MissingMetadata key)
      | Some v \<Rightarrow> if v \<noteq> expected then Inl (MetadataMismatch key)
                  else rust_metadata_validation rest meta)"

definition from_arrow_ipc ::
    "show_f64 \<Rightarrow> (text \<Rightarrow> u32) \<Rightarrow> (text \<Rightarrow> u64) \<Rightarrow> 'b arrow_lib \<Rightarrow> struct_def \<Rightarrow> text \<Rightarrow> text \<Rightarrow> text
     \<Rightarrow> bytes \<Rightarrow> rust_error + rust_value list" where
  "from_arrow_ipc sf rd32 rd64 lib d sid version direction bytes =
     (case open_stream lib bytes of
        Inl e \<Rightarrow> Inl (ArrowFailed e)
      | Inr [] \<Rightarrow> Inl EmptyStream
      | Inr (Inl e # _) \<Rightarrow> Inl (ArrowFailed e)
      | Inr (Inr batch # trailing) \<Rightarrow>
          if num_rows lib batch = 0 then Inl NoRows
          else if num_rows lib batch > 1 then Inl (ManyRows (num_rows lib batch))
          else case trailing of
            Inr _ # _ \<Rightarrow> Inl ManyBatches
          | Inl e # _ \<Rightarrow> Inl (CorruptTrailing e)
          | [] \<Rightarrow>
              try_bind (rust_metadata_validation
                [(lit ''laic.skill_id'', sid), (lit ''laic.version'', version), (lit ''laic.direction'', direction)]
                (map_of (as_meta (batch_schema lib batch)))) (\<lambda>_.
              collect (map (rust_field_extraction sf rd32 rd64 lib batch) (struct_fields d))))"

section \<open>Values of the generated struct\<close>

definition has_leaf :: "laic_type \<Rightarrow> scalar \<Rightarrow> bool" where
  "has_leaf t s \<longleftrightarrow> scalar_type s = leaf_arrow t"

definition rust_typed :: "laic_type \<Rightarrow> rust_value \<Rightarrow> bool" where
  "rust_typed t v =
     (case t of
        LList u \<Rightarrow> (case v of RVec xs \<Rightarrow> list_all (has_leaf u) xs | _ \<Rightarrow> False)
      | LOptional u \<Rightarrow>
          if is_list u
          then (case (u, v) of (LList w, ROptVec x) \<Rightarrow> pred_option (list_all (has_leaf w)) x | _ \<Rightarrow> False)
          else (case v of ROption x \<Rightarrow> pred_option (has_leaf u) x | _ \<Rightarrow> False)
      | LMap a b \<Rightarrow>
          (case v of RMap m \<Rightarrow> finite (dom m) \<and> (\<forall>(x, y) \<in> Map.graph m. has_leaf a x \<and> has_leaf b y) | _ \<Rightarrow> False)
      | _ \<Rightarrow> (case v of RScalar s \<Rightarrow> has_leaf t s | _ \<Rightarrow> False))"

text \<open>What \<open>from_arrow_ipc\<close> makes of the cell of a field.\<close>

definition rust_view :: "laic_type \<Rightarrow> cell \<Rightarrow> rust_value" where
  "rust_view t c =
     (case t of
        LList _ \<Rightarrow> RVec (map the (items_of c))
      | LOptional u \<Rightarrow>
          if is_list u then ROptVec (if c = Null then None else Some (map the (items_of c)))
          else ROption (if c = Null then None else Some (one_of c))
      | LMap _ _ \<Rightarrow> RMap (insert_all (map (map_prod id the) (entries_of c)))
      | _ \<Rightarrow> RScalar (one_of c))"

text \<open>
  The code generated for a field compiles: no \<open>list<optional<T>>\<close> (the generator panics), no
  \<open>optional<list<tensor>>\<close> (borrowed bytes are collected where owned ones are expected), a default
  literal the compiler accepts, and no field that hides a name \<open>from_arrow_ipc\<close> still needs.
\<close>

definition rust_taken :: "text set" where
  "rust_taken = {lit ''batch'', lit ''Ok'', lit ''Err'', lit ''Some''}"

definition rust_compiles :: "show_f64 \<Rightarrow> (text \<Rightarrow> u32) \<Rightarrow> (text \<Rightarrow> u64) \<Rightarrow> field_def \<Rightarrow> bool" where
  "rust_compiles sf rd32 rd64 f \<longleftrightarrow> field_name f \<notin> rust_taken \<and> \<not> list_of_optional (field_ty f)
     \<and> (case field_ty f of LOptional (LList (LTensor _ _)) \<Rightarrow> False | _ \<Rightarrow> True)
     \<and> (case field_default f of None \<Rightarrow> True | Some l \<Rightarrow> rust_literal sf rd32 rd64 (field_ty f) l \<noteq> None)"

lemma static_leaf_data_type [simp]: "static_leaf u \<Longrightarrow> rust_data_type u = leaf_arrow u"
  by (cases u) (simp_all add: static_leaf_def is_scalar_type_def is_map_value_def)

lemma scalar_data_type [simp]:
  "is_scalar_type u \<Longrightarrow> rust_data_type u = leaf_arrow u" "is_map_key u \<Longrightarrow> rust_data_type u = leaf_arrow u"
  by (cases u; simp add: is_scalar_type_def is_map_value_def is_map_key_def)+

lemma insert_all_map_of: "distinct (map fst es) \<Longrightarrow> insert_all es = map_of es"
proof -
  assume d: "distinct (map fst es)"
  have "foldl (\<lambda>m (k, v). m(k \<mapsto> v)) m es = m ++ map_of es" for m
    using d
  proof (induction es arbitrary: m)
    case (Cons e es)
    then show ?case
      by (cases e) (simp add: map_add_upd_left dom_map_of_conv_image_fst del: fun_upd_apply)
  qed simp
  then show ?thesis by (simp add: insert_all_def)
qed

text \<open>The cell the serializer builds is a value of the field, fits the array it is in, and reads back.\<close>

lemma scalar_cases_type:
  "is_scalar_type t \<Longrightarrow> \<not> is_list t \<and> \<not> is_optional t \<and> rust_typed t v = (\<exists>s. v = RScalar s \<and> has_leaf t s)
     \<and> rust_view t c = RScalar (one_of c) \<and> rust_array_type t = leaf_arrow t"
  by (cases t) (auto simp: is_scalar_type_def is_map_value_def rust_typed_def rust_view_def split: rust_value.splits)

lemma static_leaf_not_list [simp]: "static_leaf u \<Longrightarrow> \<not> is_list u" "static_leaf u \<Longrightarrow> \<not> is_optional u"
  using static_leaf_leaf by auto

lemma rust_array_nullable [simp]: "static_leaf u \<Longrightarrow> rust_array_type (LOptional u) = leaf_arrow u"
  by (cases u) (simp_all add: static_leaf_def is_scalar_type_def is_map_value_def)

lemma rust_cell_value:
  assumes "supported t" and "\<not> list_of_optional t" and "rust_typed t v" and "iterates iter"
  shows "is_value t (rust_cell iter v) \<and> rust_view t (rust_cell iter v) = v
    \<and> rust_array_type t = rust_data_type t \<and> cell_fits (rust_data_type t) (rust_cell iter v)
    \<and> (rust_cell iter v = Null \<longrightarrow> is_optional t)"
  using assms(1)
proof (cases rule: supported_cases)
  case scalar
  then show ?thesis
    using assms(3) scalar_cases_type [OF scalar] by (auto simp: is_value_simps has_leaf_def)
next
  case (tensor dtype dims)
  then show ?thesis
    using assms(3) by (auto simp: rust_typed_def rust_view_def has_leaf_def split: rust_value.splits)
next
  case (items u)
  then show ?thesis
    using assms(3)
    by (auto simp: rust_typed_def rust_view_def has_leaf_def is_value_simps list_all_iff comp_def split: rust_value.splits)
next
  case (nullable_items u)
  then show ?thesis using assms(2) by simp
next
  case (nullable u)
  then show ?thesis
    using assms(3)
    by (auto simp: rust_typed_def rust_view_def has_leaf_def is_value_simps split: rust_value.splits option.splits)
next
  case (nullable_list u)
  then show ?thesis
    using assms(3)
    by (auto simp: rust_typed_def rust_view_def has_leaf_def list_all_iff comp_def split: rust_value.splits option.splits)
next
  case (entries k v')
  then obtain m where m: "v = RMap m" "finite (dom m)"
    "\<And>x y. m x = Some y \<Longrightarrow> scalar_type x = leaf_arrow k \<and> scalar_type y = leaf_arrow v'"
    using assms(3) by (auto simp: rust_typed_def has_leaf_def Map.graph_def split: rust_value.splits)
  then have it: "distinct (map fst (iter m))" "map_of (iter m) = m"
    using assms(4) by (auto simp: iterates_def)
  then have "(a, b) \<in> set (iter m) \<Longrightarrow> m a = Some b" for a b by (metis map_of_eq_Some_iff)
  then have types: "list_all (\<lambda>(a, b). scalar_type a = leaf_arrow k \<and> scalar_type b = leaf_arrow v') (iter m)"
    using m(3) by (auto simp: list_all_iff)
  moreover have "map (map_prod id the) (map (\<lambda>(k, v). (k, Some v)) (iter m)) = iter m"
    by (simp add: comp_def case_prod_beta map_idI)
  ultimately show ?thesis
    using entries m(1) it by (auto simp: rust_view_def insert_all_map_of list_all_iff)
qed

lemma rust_tensor_valid:
  assumes "tensor_meta_ok t (af_meta fld)" and "tensor_metadata t = Some (dtype, dims)" and "sized_dims dims"
    and "field_with_name (batch_schema lib b) name = Some fld"
  shows "rust_tensor_validation lib b name dtype dims = Inr ()"
proof -
  have "map_of (af_meta fld) = emitted_metadata dtype (format_tensor_shape_metadata dims)"
    using assms(1,2) by (simp add: tensor_meta_ok_def)
  then show ?thesis
    using assms(4) rust_binding.verdict [OF assms(3,3), of dtype dtype] first_mismatch_self [of 0 dims]
    by (simp add: rust_tensor_validation_def tensor_verdict_def)
qed

text \<open>The tensor dimensions of a field are \<open>usize\<close> values.\<close>

definition usize_dims :: "laic_type \<Rightarrow> bool" where
  "usize_dims t = (case tensor_metadata t of None \<Rightarrow> True | Some (_, dims) \<Rightarrow> \<forall>d \<in> set dims. dim_value d < 2 ^ 64)"

lemma rust_leaf_tensor_valid:
  assumes "static_leaf u" and "tensor_metadata t = tensor_metadata u" and "tensor_meta_ok t (af_meta fld)" and "usize_dims t"
    and "field_with_name (batch_schema lib b) name = Some fld"
  shows "(case u of LTensor dtype dims \<Rightarrow> rust_tensor_validation lib b name dtype dims | _ \<Rightarrow> Inr ()) = Inr ()"
  using assms(1)
proof (cases rule: static_leaf_cases)
  case scalar
  then show ?thesis by (cases u) (simp_all add: is_scalar_type_def is_map_value_def)
next
  case (tensor dtype dims)
  then have "tensor_metadata t = Some (dtype, dims)" using assms(2) by (simp add: tensor_metadata_def)
  moreover from this have "sized_dims dims" using assms(4) tensor by (simp add: usize_dims_def sized_dims_def)
  ultimately show ?thesis using rust_tensor_valid [OF assms(3) _ _ assms(5)] tensor by simp
qed

lemma rust_field_reads:
  assumes "supported (field_ty f)" and compiles: "rust_compiles sf rd32 rd64 f" and sized: "usize_dims (field_ty f)"
    and "field_ok lib b f x" and val: "is_value (field_ty f) x"
  shows "rust_field_extraction sf rd32 rd64 lib b f = Inr (rust_view (field_ty f) x)"
proof -
  from assms(4) obtain fld c where fld: "field_with_name (batch_schema lib b) (field_name f) = Some fld"
    and c: "batch_column lib b (field_name f) = Some c" "col_type c = af_type fld" "col_cells c = [x]"
    and kind: "kind (af_type fld) = field_kind (field_ty f)" and meta: "tensor_meta_ok (field_ty f) (af_meta fld)"
    by (auto simp: field_ok_def)
  from assms(1) show ?thesis
  proof (cases rule: supported_cases)
    case scalar
    then have "af_type fld = leaf_arrow (field_ty f)" using kind kind_leaf by simp
    moreover have "rust_field_extraction sf rd32 rd64 lib b f = rust_simple_extraction lib b (field_name f)
        (leaf_arrow (field_ty f)) (map_option (rust_literal sf rd32 rd64 (field_ty f)) (field_default f))"
      using scalar by (cases "field_ty f") (simp_all add: rust_field_extraction_def is_scalar_type_def is_map_value_def)
    ultimately show ?thesis
      using fld c val scalar_cases_type [OF scalar] scalar
      by (auto simp: rust_simple_extraction_def is_value_simps slot_def)
  next
    case (tensor dtype dims)
    then have "af_type fld = Binary" using kind kind_leaf [of "af_type fld" LBytes] by simp
    moreover have "sized_dims dims"
      using sized tensor by (simp add: usize_dims_def sized_dims_def tensor_metadata_def)
    then have "rust_tensor_validation lib b (field_name f) dtype dims = Inr ()"
      using rust_tensor_valid [OF meta _ _ fld] tensor by (simp add: tensor_metadata_def)
    ultimately show ?thesis
      using c val tensor
      by (auto simp: rust_field_extraction_def rust_tensor_extraction_def rust_column_def slot_def rust_view_def)
  next
    case (items u)
    then obtain n where ty: "af_type fld = ListType (leaf_arrow u) n"
      using kind kind_list kind_leaf by fastforce
    have "tensor_metadata (field_ty f) = tensor_metadata u"
      using items by (cases u) (simp_all add: tensor_metadata_def static_leaf_def is_scalar_type_def is_map_value_def)
    from rust_leaf_tensor_valid [OF items(2) this meta sized fld] show ?thesis
      using c val items ty
      by (auto simp: rust_field_extraction_def rust_list_extraction_def rust_column_def rust_items_def
          slot_def rust_view_def is_value_simps item_value_def comp_def)
  next
    case (nullable_items u)
    then show ?thesis using compiles by (simp add: rust_compiles_def)
  next
    case (nullable u)
    then have ty: "af_type fld = leaf_arrow u" using kind kind_leaf by simp
    have "tensor_metadata (field_ty f) = tensor_metadata u"
      using nullable by (cases u) (simp_all add: tensor_metadata_def static_leaf_def is_scalar_type_def is_map_value_def)
    note valid = rust_leaf_tensor_valid [OF nullable(2) this meta sized fld]
    have "rust_optional_extraction lib b (field_name f) u =
        (if x = Null then Inr (ROption None) else Inr (ROption (Some (one_of (slot lib c 0)))))"
      using nullable(2) valid c ty
      by (cases u) (auto simp: rust_optional_extraction_def rust_column_def static_leaf_def is_scalar_type_def is_map_value_def)
    then show ?thesis
      using nullable val c by (auto simp: rust_field_extraction_def slot_def rust_view_def is_value_simps)
  next
    case (nullable_list u)
    then obtain n where ty: "af_type fld = ListType (leaf_arrow u) n"
      using kind kind_list kind_leaf by fastforce
    consider "x = Null" | xs where "x = Items (map Some xs)" using val nullable_list by auto
    then show ?thesis
      using nullable_list c ty
      by cases (simp_all add: rust_field_extraction_def rust_optional_extraction_def rust_column_def rust_items_def
          slot_def rust_view_def item_value_def comp_def)
  next
    case (entries k v)
    then have "kind (af_type fld) = MapType [] (leaf_arrow k) [] (leaf_arrow v) True" using kind by simp
    from kind_map [OF this] obtain kn vn n where ty: "af_type fld = MapType kn (leaf_arrow k) vn (leaf_arrow v) n"
      using kind_leaf by blast
    obtain es where es: "x = Entries (map (\<lambda>(a, b). (a, Some b)) es)" using val entries by auto
    then show ?thesis
      using entries c ty
      by (simp add: rust_field_extraction_def rust_map_extraction_def rust_column_def slot_def rust_view_def
          comp_def case_prod_beta item_value_def)
  qed
qed

section \<open>The binding of a struct\<close>

lemma rust_meta: "map_of (rust_schema_meta sid version direction) = contract_meta sid version direction"
  by (rule ext) (simp add: rust_schema_meta_def contract_meta_def lit_inject)

lemma rust_field_meta: "tensor_meta_ok t (af_meta (rust_schema_field \<lparr>field_name = n, field_ty = t, field_default = l\<rparr>))"
  by (auto simp: tensor_meta_ok_def rust_schema_field_def emitted_metadata_def dtype_key_def shape_key_def
      shape_strings lit_inject split: option.splits)

lemma rust_kind: "kind (rust_data_type t) = field_kind t"
  by (induction t) simp_all

definition rust_struct_typed :: "struct_def \<Rightarrow> rust_value list \<Rightarrow> bool" where
  "rust_struct_typed d vs \<longleftrightarrow> list_all2 (\<lambda>f v. rust_typed (field_ty f) v) (struct_fields d) vs"

text \<open>
  What the compiler guarantees of a struct it generates code for, and that the code compiles; a struct
  whose name hides a type, trait or crate the generated file uses breaks it.
\<close>

definition rust_globals :: "text set" where
  "rust_globals = lit ` {''std'', ''arrow_array'', ''arrow_schema'', ''arrow_ipc'', ''Vec'', ''String'', ''Option'', ''Result'', ''Box'',
     ''HashMap'', ''Arc'', ''Array'', ''Schema'', ''Field'', ''DataType'', ''RecordBatch'', ''StringArray'', ''BinaryArray'',
     ''BooleanArray'', ''Int8Array'', ''Int16Array'', ''Int32Array'', ''Int64Array'', ''UInt8Array'', ''Float32Array'',
     ''Float64Array'', ''ListArray'', ''MapArray'', ''StructArray'', ''ListBuilder'', ''MapBuilder'', ''StringBuilder'',
     ''BinaryBuilder'', ''BooleanBuilder'', ''Int8Builder'', ''Int16Builder'', ''Int32Builder'', ''Int64Builder'', ''UInt8Builder'',
     ''Float32Builder'', ''Float64Builder'', ''str'', ''bool'', ''u8'', ''u16'', ''usize'', ''i8'', ''i16'', ''i32'', ''i64'',
     ''f32'', ''f64''}"

definition rust_struct_ok :: "show_f64 \<Rightarrow> (text \<Rightarrow> u32) \<Rightarrow> (text \<Rightarrow> u64) \<Rightarrow> struct_def \<Rightarrow> bool" where
  "rust_struct_ok sf rd32 rd64 d \<longleftrightarrow> valid_struct d \<and> struct_name d \<notin> rust_globals
     \<and> list_all (\<lambda>f. usize_dims (field_ty f) \<and> rust_compiles sf rd32 rd64 f) (struct_fields d)"

lemma rust_values:
  assumes ok: "rust_struct_ok sf rd32 rd64 d" and "rust_struct_typed d vs" and "iterates iter"
  shows "list_all2 (\<lambda>f v. is_value (field_ty f) (rust_cell iter v) \<and> rust_view (field_ty f) (rust_cell iter v) = v
    \<and> rust_array_type (field_ty f) = rust_data_type (field_ty f)
    \<and> cell_fits (rust_data_type (field_ty f)) (rust_cell iter v)
    \<and> (rust_cell iter v = Null \<longrightarrow> is_optional (field_ty f))) (struct_fields d) vs"
  using assms(2) unfolding rust_struct_typed_def list_all2_conv_all_nth
proof (intro conjI allI impI; elim conjE)
  fix i assume i: "i < length (struct_fields d)"
    and typed: "\<forall>i < length (struct_fields d). rust_typed (field_ty (struct_fields d ! i)) (vs ! i)"
  have "struct_fields d ! i \<in> set (struct_fields d)" using i by simp
  then have "supported (field_ty (struct_fields d ! i))" "\<not> list_of_optional (field_ty (struct_fields d ! i))"
    using ok by (auto simp: rust_struct_ok_def rust_compiles_def valid_struct_def valid_field_def list_all_iff)
  from rust_cell_value [OF this _ assms(3)] typed i
  show "is_value (field_ty (struct_fields d ! i)) (rust_cell iter (vs ! i))"
    "rust_view (field_ty (struct_fields d ! i)) (rust_cell iter (vs ! i)) = vs ! i"
    "rust_array_type (field_ty (struct_fields d ! i)) = rust_data_type (field_ty (struct_fields d ! i))"
    "cell_fits (rust_data_type (field_ty (struct_fields d ! i))) (rust_cell iter (vs ! i))"
    "rust_cell iter (vs ! i) = Null \<Longrightarrow> is_optional (field_ty (struct_fields d ! i))"
    by blast+
qed simp_all

lemma rust_writer:
  assumes lib: "builds lib" "writes lib" and iter: "iterates iter"
  shows "binding_writer lib (\<lambda>d sid version direction vs. to_option (to_arrow_ipc lib iter d sid version direction vs))
    (\<lambda>d vs. rust_struct_ok sf rd32 rd64 d \<and> rust_struct_typed d vs) (\<lambda>d. map (rust_cell iter))"
proof (unfold_locales; elim conjE)
  fix d vs and sid version direction :: "text"
  assume ok: "rust_struct_ok sf rd32 rd64 d" and typed: "rust_struct_typed d vs"
  note vals = rust_values [OF ok typed iter]
  show "values_of d (map (rust_cell iter) vs)"
    using vals by (auto simp: values_of_def list_all2_conv_all_nth)
  let ?fs = "struct_fields d" and ?xs = "map (rust_cell iter) vs"
  let ?s = "\<lparr>as_fields = map rust_schema_field ?fs, as_meta = rust_schema_meta sid version direction\<rparr>"
  have "tensor_meta_ok (field_ty f) (af_meta (rust_schema_field f))" for f
    using rust_field_meta [of "field_ty f" "field_name f" "field_default f"] by (simp add: rust_schema_field_def)
  then have each: "list_all2 (\<lambda>f x. kind (af_type (rust_schema_field f)) = field_kind (field_ty f)
      \<and> af_name (rust_schema_field f) = field_name f \<and> tensor_meta_ok (field_ty f) (af_meta (rust_schema_field f))
      \<and> cell_fits (af_type (rust_schema_field f)) x \<and> (x = Null \<longrightarrow> af_nullable (rust_schema_field f))) ?fs ?xs"
    using vals by (auto simp: list_all2_conv_all_nth rust_schema_field_def rust_kind)
  have names: "?fs \<noteq> []" "distinct (map field_name ?fs)"
    using ok by (simp_all add: rust_struct_ok_def valid_struct_def)
  obtain b where b: "make_batch lib ?s (map2 (\<lambda>f x. \<lparr>col_type = af_type (rust_schema_field f), col_cells = [x]\<rparr>) ?fs ?xs) = Inr b"
    "contract lib d sid version direction b ?xs"
    using written_contract [OF lib(1) names(1) rust_meta names(2) refl each] by blast
  have "map2 (\<lambda>f v. \<lparr>col_type = rust_array_type (field_ty f), col_cells = [rust_cell iter v]\<rparr>) ?fs vs =
      map2 (\<lambda>f x. \<lparr>col_type = af_type (rust_schema_field f), col_cells = [x]\<rparr>) ?fs ?xs"
    using vals by (auto simp: list_eq_iff_nth_eq list_all2_conv_all_nth rust_schema_field_def)
  moreover obtain bytes where "write_stream lib b = Inr bytes" using lib(2) by (auto simp: writes_def)
  ultimately show "\<exists>b bytes. to_option (to_arrow_ipc lib iter d sid version direction vs) = Some bytes
      \<and> write_stream lib b = Inr bytes \<and> contract lib d sid version direction b ?xs"
    using b by (auto simp: to_arrow_ipc_def to_option_def)
qed

lemma rust_reader:
  "binding_reader lib (from_arrow_ipc sf rd32 rd64 lib) (rust_struct_ok sf rd32 rd64) rust_view"
proof
  fix d bytes b xs and sid version direction :: "text"
  assume ok: "rust_struct_ok sf rd32 rd64 d" and stream: "open_stream lib bytes = Inr [Inr b]" and con: "contract lib d sid version direction b xs"
    and vals: "values_of d xs"
  have "list_all2 (\<lambda>f y. rust_field_extraction sf rd32 rd64 lib b f = Inr y) (struct_fields d)
      (map2 (\<lambda>f. rust_view (field_ty f)) (struct_fields d) xs)"
    unfolding list_all2_conv_all_nth
  proof (intro conjI allI impI)
    fix i assume i: "i < length (struct_fields d)"
    then have "struct_fields d ! i \<in> set (struct_fields d)" by simp
    then have "supported (field_ty (struct_fields d ! i))" "rust_compiles sf rd32 rd64 (struct_fields d ! i)"
      "usize_dims (field_ty (struct_fields d ! i))"
      using ok by (auto simp: rust_struct_ok_def valid_struct_def valid_field_def list_all_iff)
    moreover have "field_ok lib b (struct_fields d ! i) (xs ! i)" "is_value (field_ty (struct_fields d ! i)) (xs ! i)"
      "length xs = length (struct_fields d)"
      using con vals i by (auto simp: contract_def values_of_def list_all2_conv_all_nth)
    ultimately show "rust_field_extraction sf rd32 rd64 lib b (struct_fields d ! i) =
        Inr (map2 (\<lambda>f. rust_view (field_ty f)) (struct_fields d) xs ! i)"
      using i by (simp add: rust_field_reads)
  qed (use vals in \<open>simp add: values_of_def list_all2_lengthD\<close>)
  from collect_all2 [OF this]
  show "from_arrow_ipc sf rd32 rd64 lib d sid version direction bytes =
      Inr (map2 (\<lambda>f. rust_view (field_ty f)) (struct_fields d) xs)"
    using stream con by (simp add: from_arrow_ipc_def contract_def)
qed

lemma rust_metadata_ok:
  "rust_metadata_validation expected meta = Inr () \<longleftrightarrow> (\<forall>(k, v) \<in> set expected. meta k = Some v)"
  by (induction expected meta rule: rust_metadata_validation.induct) (auto split: option.splits)

lemma rust_tensor_checked:
  assumes "rust_field_extraction sf rd32 rd64 lib b f = Inr v" and "tensor_metadata (field_ty f) = Some (dtype, dims)"
  shows "rust_tensor_validation lib b (field_name f) dtype dims = Inr ()"
  using assms(2)
proof (cases rule: tensor_metadata_cases)
  case (plain dt ds)
  then show ?thesis
    using assms by (auto simp: rust_field_extraction_def rust_tensor_extraction_def tensor_metadata_def try_bind_Inr_iff)
next
  case (items dt ds)
  then show ?thesis
    using assms by (auto simp: rust_field_extraction_def rust_list_extraction_def tensor_metadata_def try_bind_Inr_iff)
next
  case (nullable dt ds)
  then show ?thesis
    using assms by (auto simp: rust_field_extraction_def rust_optional_extraction_def tensor_metadata_def try_bind_Inr_iff)
qed

lemma rust_scalar_checked:
  "rust_field_extraction sf rd32 rd64 lib b f = Inr v \<Longrightarrow> is_scalar_type (field_ty f) \<Longrightarrow> scalar_checked lib b f"
proof -
  assume ok: "rust_field_extraction sf rd32 rd64 lib b f = Inr v" and scalar: "is_scalar_type (field_ty f)"
  have "rust_field_extraction sf rd32 rd64 lib b f = rust_simple_extraction lib b (field_name f)
      (leaf_arrow (field_ty f)) (map_option (rust_literal sf rd32 rd64 (field_ty f)) (field_default f))"
    using scalar by (cases "field_ty f") (simp_all add: rust_field_extraction_def is_scalar_type_def is_map_value_def)
  then show ?thesis
    using ok by (auto simp: rust_simple_extraction_def scalar_checked_def split: option.splits if_splits)
qed

lemma rust_guarded:
  assumes "from_arrow_ipc sf rd32 rd64 lib d sid version direction bytes = Inr vs"
  shows "guarded rust_check_tensor lib d sid version direction bytes vs"
proof -
  obtain b where b: "open_stream lib bytes = Inr [Inr b]" "num_rows lib b = 1"
    and meta: "rust_metadata_validation
      [(lit ''laic.skill_id'', sid), (lit ''laic.version'', version), (lit ''laic.direction'', direction)]
      (map_of (as_meta (batch_schema lib b))) = Inr ()"
    and fields: "collect (map (rust_field_extraction sf rd32 rd64 lib b) (struct_fields d)) = Inr vs"
    using assms
    by (auto simp: from_arrow_ipc_def try_bind_Inr_iff split: sum.splits list.splits if_splits)
  show ?thesis
  proof (rule guardedI [OF b _ fields])
    fix f v dtype dims
    assume "rust_field_extraction sf rd32 rd64 lib b f = Inr v" "tensor_metadata (field_ty f) = Some (dtype, dims)"
    from rust_tensor_checked [OF this]
    show "\<exists>fld. field_with_name (batch_schema lib b) (field_name f) = Some fld
        \<and> rust_check_tensor dtype dims (map_of (af_meta fld)) = Inr ()"
      by (auto simp: rust_tensor_validation_def map_err_Inr_iff split: option.splits)
  qed (use meta [unfolded rust_metadata_ok] rust_scalar_checked in auto)
qed

text \<open>Some order of the entries of a finite map: an instance of the iteration order.\<close>

definition some_order :: hash_iter where
  "some_order m = (SOME es. distinct (map fst es) \<and> map_of es = m)"

lemma some_order: "iterates some_order"
  unfolding iterates_def some_order_def
proof (intro allI impI)
  fix m :: "scalar \<rightharpoonup> scalar" assume "finite (dom m)"
  from finite_distinct_list [OF this] obtain ks where ks: "set ks = dom m" "distinct ks" by auto
  have "map_of (map (\<lambda>k. (k, the (m k))) ks) k = m k" for k
    by (simp only: map_of_map_restrict restrict_map_def ks(1) comp_apply) (simp add: domIff)
  then have "distinct (map fst (map (\<lambda>k. (k, the (m k))) ks)) \<and> map_of (map (\<lambda>k. (k, the (m k))) ks) = m"
    using ks(2) by (intro conjI ext) (simp_all add: comp_def)
  then show "distinct (map fst (SOME es. distinct (map fst es) \<and> map_of es = m))
      \<and> map_of (SOME es. distinct (map fst es) \<and> map_of es = m) = m"
    by (rule someI [where P = "\<lambda>es. distinct (map fst es) \<and> map_of es = m"])
qed

interpretation rust_mem: binding_pair mem_arrow mem_arrow
  "\<lambda>d sid version direction vs. to_option (to_arrow_ipc mem_arrow some_order d sid version direction vs)"
  "\<lambda>d vs. rust_struct_ok sf rd32 rd64 d \<and> rust_struct_typed d vs" "\<lambda>d. map (rust_cell some_order)"
  "from_arrow_ipc sf rd32 rd64 mem_arrow" "rust_struct_ok sf rd32 rd64" rust_view for sf rd32 rd64
  by (intro binding_pair.intro binding_pair_axioms.intro rust_writer rust_reader mem_builds mem_writes mem_carries some_order)

section \<open>Properties\<close>

text \<open>
  C10. The generated Rust round trip, for every contract: on every struct the validator accepts and whose
  generated code compiles, \<open>to_arrow_ipc\<close> succeeds on every well-typed value and \<open>from_arrow_ipc\<close> of its
  bytes gives exactly that value back, whatever order hash maps are iterated in: scalars, tensors,
  lists, optionals, optional lists and maps.
\<close>

theorem rust_binding_roundtrip:
  assumes "builds lib" and "writes lib" and "carries lib lib" and "iterates iter"
    and "rust_struct_ok sf rd32 rd64 d" and "rust_struct_typed d vs"
  shows "\<exists>bytes. to_arrow_ipc lib iter d sid version direction vs = Inr bytes
    \<and> from_arrow_ipc sf rd32 rd64 lib d sid version direction bytes = Inr vs"
proof -
  note pair = binding_pair.intro [OF rust_writer [OF assms(1,2,4), of sf rd32 rd64]
      rust_reader [of lib sf rd32 rd64] binding_pair_axioms.intro [OF assms(3)]]
  show ?thesis
    using binding_pair.exchange [OF pair conjI [OF assms(5,6)] assms(5), of sid version direction]
      rust_values [OF assms(5,6,4)]
    by (auto simp: to_option_def zip_map2 list_all2_conv_all_nth list_eq_iff_nth_eq split: sum.splits)
qed

definition document_values :: "rust_value list" where
  "document_values =
     [RScalar (SText (lit ''a'')), RVec [SI32 1, SI32 (- 2)], ROption None,
      RMap [SText (lit ''draft'') \<mapsto> SBool True], RScalar (SBytes [0, 0, 128, 63])]"

lemma document_ok: "rust_struct_ok sf rd32 rd64 document_struct"
proof -
  have "\<not> list_ex c1_control (lit ''untitled'')" by (simp add: lit_def c1_control_def)
  then show ?thesis
    using document_valid unfolding rust_struct_ok_def
    by (simp add: document_struct_def rust_compiles_def rust_taken_def rust_globals_def lit_inject usize_dims_def tensor_metadata_def)
qed

lemma document_typed: "rust_struct_typed document_struct document_values"
  by (simp add: rust_struct_typed_def document_struct_def document_values_def rust_typed_def has_leaf_def
      Map.graph_def split: if_splits)

theorem rust_binding_roundtrip_witness:
  "\<exists>bytes. to_arrow_ipc mem_arrow some_order document_struct (lit ''docs'') (lit ''1.0'') (lit ''input'') document_values = Inr bytes
    \<and> from_arrow_ipc (\<lambda>_. []) (\<lambda>_. 0) (\<lambda>_. 0) mem_arrow document_struct (lit ''docs'') (lit ''1.0'') (lit ''input'') bytes
      = Inr document_values"
  by (rule rust_binding_roundtrip [OF mem_builds mem_writes mem_carries some_order document_ok document_typed])

end
