(* ===== verification/Laicc_Python_Binding.thy ===== *)
theory Laicc_Python_Binding
  imports Laicc_Arrow "HOL-Library.AList"
begin

text \<open>
  What the Python class generated for a struct does when it runs: \<open>to_ipc\<close> and \<open>from_ipc\<close>, as the
  emitters of \<open>codegen/python_serialize.rs\<close> and \<open>python_deserialize.rs\<close> write them. pyarrow is an
  \<open>arrow_lib\<close> with its conversions of Python values, \<open>py_conv\<close>; an exception is a \<open>python_error\<close>. The
  theory ties the run-time schema to the emitted text, and interprets \<open>binding_writer\<close> and
  \<open>binding_reader\<close>.
\<close>

section \<open>Types and schema\<close>

fun python_data_type :: "laic_type \<Rightarrow> arrow_type" where
  "python_data_type (LList inner) = ListType (python_data_type inner) True"
| "python_data_type (LOptional inner) = python_data_type inner"
| "python_data_type (LMap k v) =
     MapType (lit ''key'') (python_data_type k) (lit ''value'') (python_data_type v) True"
| "python_data_type t = leaf_arrow t"

fun python_expression :: "arrow_type \<Rightarrow> text" where
  "python_expression Utf8 = lit ''pa.string()''"
| "python_expression Binary = lit ''pa.binary()''"
| "python_expression Boolean = lit ''pa.bool_()''"
| "python_expression Int8 = lit ''pa.int8()''"
| "python_expression Int16 = lit ''pa.int16()''"
| "python_expression Int32 = lit ''pa.int32()''"
| "python_expression Int64 = lit ''pa.int64()''"
| "python_expression UInt8 = lit ''pa.uint8()''"
| "python_expression Float32 = lit ''pa.float32()''"
| "python_expression Float64 = lit ''pa.float64()''"
| "python_expression (ListType t _) = fmt ''pa.list_({})'' [python_expression t]"
| "python_expression (MapType _ k _ v _) = fmt ''pa.map_({}, {})'' [python_expression k, python_expression v]"

lemma python_expression_emitted: "python_expression (python_data_type t) = pyarrow_type t"
  by (induction t) simp_all

definition python_schema_field :: "field_def \<Rightarrow> arrow_field" where
  "python_schema_field f =
     \<lparr>af_name = field_name f, af_type = python_data_type (field_ty f), af_nullable = is_optional (field_ty f),
      af_meta = (case tensor_metadata (field_ty f) of
        None \<Rightarrow> []
      | Some (dtype, dims) \<Rightarrow>
          [(lit ''laic.tensor.dtype'', lit (tensor_as_str dtype)),
           (lit ''laic.tensor.shape'', format_dims_as_shape_py dims),
           (lit ''laic.tensor.version'', lit ''1'')])\<rparr>"

definition python_schema_meta :: "text \<Rightarrow> text \<Rightarrow> text \<Rightarrow> (text \<times> text) list" where
  "python_schema_meta sid version direction =
     [(lit ''laic.skill_id'', sid), (lit ''laic.version'', version), (lit ''laic.direction'', direction)]"

section \<open>Python values\<close>

text \<open>\<open>PyPairs\<close> is a list of two-tuples, as \<open>items()\<close> and a map scalar give it; a dictionary keeps its order.\<close>

datatype py_scalar = PyStr "text" | PyBytes bytes | PyBool bool | PyInt int | PyFloat u64

datatype py_value =
    PyNone
  | PyOne py_scalar
  | PyList "py_scalar option list"
  | PyDict "(py_scalar \<times> py_scalar option) list"
  | PyPairs "(py_scalar \<times> py_scalar option) list"

text \<open>
  pyarrow's conversions: of a scalar to Python (\<open>as_py\<close>) and of a Python value to the cell of a column of
  a type. \<open>converts\<close> is what its documentation promises: reading is \<open>py_of\<close>, and what was read converts
  back; \<open>widen\<close> is the float of a 32-bit float. The bits of a 32-bit NaN may change on the way back.
\<close>

record py_conv =
  as_py :: "cell \<Rightarrow> py_value"
  from_py :: "arrow_type \<Rightarrow> py_value \<Rightarrow> string + cell"

fun py_scalar_of :: "(u32 \<Rightarrow> u64) \<Rightarrow> scalar \<Rightarrow> py_scalar" where
  "py_scalar_of widen (SText s) = PyStr s"
| "py_scalar_of widen (SBytes b) = PyBytes b"
| "py_scalar_of widen (SBool b) = PyBool b"
| "py_scalar_of widen (SI8 w) = PyInt (sint w)"
| "py_scalar_of widen (SI16 w) = PyInt (sint w)"
| "py_scalar_of widen (SI32 w) = PyInt (sint w)"
| "py_scalar_of widen (SI64 w) = PyInt (sint w)"
| "py_scalar_of widen (SU8 w) = PyInt (uint w)"
| "py_scalar_of widen (SF32 w) = PyFloat (widen w)"
| "py_scalar_of widen (SF64 w) = PyFloat w"

fun py_of :: "(u32 \<Rightarrow> u64) \<Rightarrow> cell \<Rightarrow> py_value" where
  "py_of widen Null = PyNone"
| "py_of widen (One s) = PyOne (py_scalar_of widen s)"
| "py_of widen (Items xs) = PyList (map (map_option (py_scalar_of widen)) xs)"
| "py_of widen (Entries es) = PyPairs (map (map_prod (py_scalar_of widen) (map_option (py_scalar_of widen))) es)"

fun plain_scalar :: "scalar \<Rightarrow> bool" where
  "plain_scalar (SF32 w) \<longleftrightarrow> \<not> nan32 w"
| "plain_scalar _ \<longleftrightarrow> True"

definition converts :: "(u32 \<Rightarrow> u64) \<Rightarrow> py_conv \<Rightarrow> bool" where
  "converts widen conv \<longleftrightarrow> (\<forall>c. as_py conv c = py_of widen c)
     \<and> (\<forall>t c. cell_fits t c \<and> plain_cell plain_scalar c \<longrightarrow> from_py conv t (py_of widen c) = Inr c)"

section \<open>Serializing\<close>

definition pydict_value :: "laic_type \<Rightarrow> py_value \<Rightarrow> py_value" where
  "pydict_value ty v = (case (ty, v) of (LMap _ _, PyDict es) \<Rightarrow> PyPairs es | _ \<Rightarrow> v)"

definition to_ipc ::
    "'b arrow_lib \<Rightarrow> py_conv \<Rightarrow> struct_def \<Rightarrow> text \<Rightarrow> text \<Rightarrow> text \<Rightarrow> py_value list \<Rightarrow> string + bytes" where
  "to_ipc lib conv d sid version direction self =
     (let schema = \<lparr>as_fields = map python_schema_field (struct_fields d),
                    as_meta = python_schema_meta sid version direction\<rparr> in
      try_bind (collect (map2 (\<lambda>f v.
          map_sum id (\<lambda>x. \<lparr>col_type = python_data_type (field_ty f), col_cells = [x]\<rparr>)
            (from_py conv (python_data_type (field_ty f)) (pydict_value (field_ty f) v)))
        (struct_fields d) self)) (\<lambda>columns.
      try_bind (make_batch lib schema columns) (\<lambda>batch. write_stream lib batch)))"

section \<open>Deserializing\<close>

datatype python_error =
    PyArrowFailed string | PyStopIteration | PyNoRows | PyManyRows nat | PyManyBatches
  | PyMissingMetadata "text" | PyMetadataMismatch "text" | PyKeyError "text" | PyWrongType "text"
  | PyTensorContract "text" tensor_error | PyTypeError "text"

text \<open>A default literal as Python evaluates it; reading decimal float literals is an argument.\<close>

fun python_literal :: "show_f64 \<Rightarrow> (text \<Rightarrow> u64) \<Rightarrow> literal \<Rightarrow> py_value" where
  "python_literal sf rd64 (StringLit s) = PyOne (PyStr s)"
| "python_literal sf rd64 (IntegerLit i) = PyOne (PyInt i)"
| "python_literal sf rd64 (FloatLit x) = PyOne (PyFloat (rd64 (literal_to_python sf (FloatLit x))))"
| "python_literal sf rd64 (BoolLit b) = PyOne (PyBool b)"

definition python_column :: "'b arrow_lib \<Rightarrow> 'b \<Rightarrow> text \<Rightarrow> python_error + column" where
  "python_column lib batch name =
     (case batch_column lib batch name of None \<Rightarrow> Inl (PyKeyError name) | Some c \<Rightarrow> Inr c)"

definition python_typed_value ::
    "'b arrow_lib \<Rightarrow> py_conv \<Rightarrow> 'b \<Rightarrow> text \<Rightarrow> arrow_type \<Rightarrow> column \<Rightarrow> python_error + py_value" where
  "python_typed_value lib conv batch name expected col =
     (case field_with_name (batch_schema lib batch) name of
        None \<Rightarrow> Inl (PyKeyError name)
      | Some fld \<Rightarrow>
          if af_type fld \<noteq> expected then Inl (PyWrongType name) else Inr (as_py conv (col_cells col ! 0)))"

definition python_scalar_extraction ::
    "show_f64 \<Rightarrow> (text \<Rightarrow> u64) \<Rightarrow> 'b arrow_lib \<Rightarrow> py_conv \<Rightarrow> 'b \<Rightarrow> text \<Rightarrow> laic_type \<Rightarrow> literal option
     \<Rightarrow> python_error + py_value" where
  "python_scalar_extraction sf rd64 lib conv batch name ty dflt =
     (case dflt of
        Some l \<Rightarrow>
          (case batch_column lib batch name of
             Some col \<Rightarrow> python_typed_value lib conv batch name (python_data_type ty) col
           | None \<Rightarrow> Inr (python_literal sf rd64 l))
      | None \<Rightarrow>
          try_bind (python_column lib batch name)
            (python_typed_value lib conv batch name (python_data_type ty)))"

definition python_tensor_validation ::
    "'b arrow_lib \<Rightarrow> 'b \<Rightarrow> text \<Rightarrow> tensor_element_type \<Rightarrow> dimension list \<Rightarrow> python_error + unit" where
  "python_tensor_validation lib batch name dtype dims =
     (case field_with_name (batch_schema lib batch) name of
        None \<Rightarrow> Inl (PyKeyError name)
      | Some fld \<Rightarrow> map_err (PyTensorContract name) (python_check_tensor dtype dims (map_of (af_meta fld))))"

text \<open>
  Python's \<open>dict(...)\<close>: of pairs, where a later value of a key replaces an earlier one in its place, of
  a dictionary, or of any iterable of two-element iterables; among the values here, an empty string or empty
  bytes, and a list of strings or bytes of length two. \<open>None\<close> is its \<open>TypeError\<close> or \<open>ValueError\<close>.
\<close>

fun python_dict_item :: "py_scalar option \<Rightarrow> (py_scalar \<times> py_scalar option) option" where
  "python_dict_item (Some (PyStr [a, b])) = Some (PyStr [a], Some (PyStr [b]))"
| "python_dict_item (Some (PyBytes [a, b])) = Some (PyInt (uint a), Some (PyInt (uint b)))"
| "python_dict_item _ = None"

fun python_dict :: "py_value \<Rightarrow> (py_scalar \<times> py_scalar option) list option" where
  "python_dict (PyPairs es) = Some (foldl (\<lambda>m (k, v). AList.update k v m) [] es)"
| "python_dict (PyDict es) = Some es"
| "python_dict (PyList xs) =
     map_option (foldl (\<lambda>m (k, v). AList.update k v m) []) (those (map python_dict_item xs))"
| "python_dict (PyOne (PyStr [])) = Some []"
| "python_dict (PyOne (PyBytes [])) = Some []"
| "python_dict _ = None"

definition python_field_extraction ::
    "show_f64 \<Rightarrow> (text \<Rightarrow> u64) \<Rightarrow> 'b arrow_lib \<Rightarrow> py_conv \<Rightarrow> 'b \<Rightarrow> field_def \<Rightarrow> python_error + py_value" where
  "python_field_extraction sf rd64 lib conv batch f =
     (let name = field_name f in
      case field_ty f of
        LTensor dtype dims \<Rightarrow>
          try_bind (python_column lib batch name) (\<lambda>col.
          try_bind (python_tensor_validation lib batch name dtype dims) (\<lambda>_.
          Inr (as_py conv (col_cells col ! 0))))
      | LList (LTensor dtype dims) \<Rightarrow>
          try_bind (python_tensor_validation lib batch name dtype dims) (\<lambda>_.
          try_bind (python_column lib batch name) (\<lambda>col.
          case col_cells col ! 0 of
            Items xs \<Rightarrow> Inr (as_py conv (Items xs))
          | _ \<Rightarrow> Inl (PyTypeError name)))
      | LList _ \<Rightarrow>
          try_bind (python_column lib batch name) (\<lambda>col. Inr (as_py conv (col_cells col ! 0)))
      | LOptional (LTensor dtype dims) \<Rightarrow>
          try_bind (python_tensor_validation lib batch name dtype dims) (\<lambda>_.
          try_bind (python_column lib batch name) (\<lambda>col.
          Inr (if col_cells col ! 0 = Null then PyNone else as_py conv (col_cells col ! 0))))
      | LOptional _ \<Rightarrow>
          try_bind (python_column lib batch name) (\<lambda>col.
          Inr (if col_cells col ! 0 = Null then PyNone else as_py conv (col_cells col ! 0)))
      | LMap _ _ \<Rightarrow>
          try_bind (python_column lib batch name) (\<lambda>col.
          case as_py conv (col_cells col ! 0) of
            PyNone \<Rightarrow> Inr (PyDict [])
          | v \<Rightarrow> (case python_dict v of Some es \<Rightarrow> Inr (PyDict es) | None \<Rightarrow> Inl (PyTypeError name)))
      | ty \<Rightarrow> python_scalar_extraction sf rd64 lib conv batch name ty (field_default f))"

fun python_metadata_validation :: "(text \<times> text) list \<Rightarrow> metadata \<Rightarrow> python_error + unit" where
  "python_metadata_validation [] meta = Inr ()"
| "python_metadata_validation ((key, expected) # rest) meta =
     (case meta key of
        None \<Rightarrow> Inl (PyMissingMetadata key)
      | Some v \<Rightarrow> if v \<noteq> expected then Inl (PyMetadataMismatch key)
                  else python_metadata_validation rest meta)"

definition from_ipc ::
    "show_f64 \<Rightarrow> (text \<Rightarrow> u64) \<Rightarrow> 'b arrow_lib \<Rightarrow> py_conv \<Rightarrow> struct_def \<Rightarrow> text \<Rightarrow> text \<Rightarrow> text
     \<Rightarrow> bytes \<Rightarrow> python_error + py_value list" where
  "from_ipc sf rd64 lib conv d sid version direction data =
     (case open_stream lib data of
        Inl e \<Rightarrow> Inl (PyArrowFailed e)
      | Inr [] \<Rightarrow> Inl PyStopIteration
      | Inr (Inl e # _) \<Rightarrow> Inl (PyArrowFailed e)
      | Inr (Inr batch # trailing) \<Rightarrow>
          if num_rows lib batch = 0 then Inl PyNoRows
          else if num_rows lib batch > 1 then Inl (PyManyRows (num_rows lib batch))
          else case trailing of
            Inr _ # _ \<Rightarrow> Inl PyManyBatches
          | Inl e # _ \<Rightarrow> Inl (PyArrowFailed e)
          | [] \<Rightarrow>
              try_bind (python_metadata_validation
                [(lit ''laic.skill_id'', sid), (lit ''laic.version'', version), (lit ''laic.direction'', direction)]
                (map_of (as_meta (batch_schema lib batch)))) (\<lambda>_.
              collect (map (python_field_extraction sf rd64 lib conv batch) (struct_fields d))))"

section \<open>Values of the generated class\<close>

definition py_fits :: "(u32 \<Rightarrow> u64) \<Rightarrow> laic_type \<Rightarrow> py_scalar \<Rightarrow> bool" where
  "py_fits widen t v =
     (case v of
        PyStr _ \<Rightarrow> t = LString
      | PyBytes _ \<Rightarrow> leaf_arrow t = Binary
      | PyBool _ \<Rightarrow> t = LBool
      | PyInt i \<Rightarrow>
          t = LI8 \<and> - (2 ^ 7) \<le> i \<and> i < 2 ^ 7 \<or> t = LI16 \<and> - (2 ^ 15) \<le> i \<and> i < 2 ^ 15
          \<or> t = LI32 \<and> - (2 ^ 31) \<le> i \<and> i < 2 ^ 31 \<or> t = LI64 \<and> - (2 ^ 63) \<le> i \<and> i < 2 ^ 63
          \<or> t = LU8 \<and> 0 \<le> i \<and> i < 2 ^ 8
      | PyFloat x \<Rightarrow> t = LF64 \<or> t = LF32 \<and> (\<exists>w. \<not> nan32 w \<and> x = widen w))"

definition py_typed :: "(u32 \<Rightarrow> u64) \<Rightarrow> laic_type \<Rightarrow> py_value \<Rightarrow> bool" where
  "py_typed widen t v =
     (case t of
        LList (LOptional u) \<Rightarrow>
          (case v of PyList xs \<Rightarrow> list_all (pred_option (py_fits widen u)) xs | _ \<Rightarrow> False)
      | LList u \<Rightarrow>
          (case v of PyList xs \<Rightarrow> list_all (\<lambda>x. \<exists>y. x = Some y \<and> py_fits widen u y) xs | _ \<Rightarrow> False)
      | LOptional (LList u) \<Rightarrow>
          (case v of PyNone \<Rightarrow> True | PyList xs \<Rightarrow> list_all (\<lambda>x. \<exists>y. x = Some y \<and> py_fits widen u y) xs
           | _ \<Rightarrow> False)
      | LOptional u \<Rightarrow> (case v of PyNone \<Rightarrow> True | PyOne x \<Rightarrow> py_fits widen u x | _ \<Rightarrow> False)
      | LMap a b \<Rightarrow>
          (case v of PyDict es \<Rightarrow> distinct (map fst es)
              \<and> list_all (\<lambda>(x, y). py_fits widen a x \<and> (\<exists>z. y = Some z \<and> py_fits widen b z)) es
           | _ \<Rightarrow> False)
      | _ \<Rightarrow> (case v of PyOne x \<Rightarrow> py_fits widen t x | _ \<Rightarrow> False))"

text \<open>What \<open>from_ipc\<close> makes of the cell of a field.\<close>

definition py_view :: "(u32 \<Rightarrow> u64) \<Rightarrow> laic_type \<Rightarrow> cell \<Rightarrow> py_value" where
  "py_view widen t c =
     (case (t, py_of widen c) of (LMap _ _, PyPairs es) \<Rightarrow> PyDict es | (_, v) \<Rightarrow> v)"

text \<open>Neither a field nor the class hides a name the generated module uses.\<close>

definition python_taken :: "text set" where
  "python_taken = lit ` {''batch'', ''cls'', ''pa'', ''ipc'', ''len'', ''int'', ''dict'', ''ValueError'',
     ''StopIteration'', ''to_ipc'', ''from_ipc'', ''classmethod'', ''SKILL_ID'', ''VERSION'', ''DIRECTION''}"

definition python_globals :: "text set" where
  "python_globals = lit ` {''pa'', ''ipc'', ''dataclasses'', ''enum'', ''ClassVar'', ''classmethod'', ''len'', ''int'',
     ''dict'', ''ValueError'', ''StopIteration''}"

definition python_struct_ok :: "struct_def \<Rightarrow> bool" where
  "python_struct_ok d \<longleftrightarrow> valid_struct d \<and> struct_name d \<notin> python_globals
     \<and> list_all (\<lambda>f. field_name f \<notin> python_taken) (struct_fields d)"

definition python_struct_typed :: "(u32 \<Rightarrow> u64) \<Rightarrow> struct_def \<Rightarrow> py_value list \<Rightarrow> bool" where
  "python_struct_typed widen d vs \<longleftrightarrow> list_all2 (\<lambda>f v. py_typed widen (field_ty f) v) (struct_fields d) vs"

text \<open>A Python value of a field is what some cell of the field reads as.\<close>

lemma py_fits_scalar:
  assumes "py_fits widen t v"
  shows "\<exists>s. scalar_type s = leaf_arrow t \<and> plain_scalar s \<and> v = py_scalar_of widen s"
proof (cases v)
  case (PyInt i)
  then consider "t = LI8" "- (2 ^ 7) \<le> i" "i < 2 ^ 7" | "t = LI16" "- (2 ^ 15) \<le> i" "i < 2 ^ 15"
    | "t = LI32" "- (2 ^ 31) \<le> i" "i < 2 ^ 31" | "t = LI64" "- (2 ^ 63) \<le> i" "i < 2 ^ 63"
    | "t = LU8" "0 \<le> i" "i < 2 ^ 8"
    using assms by (auto simp: py_fits_def)
  then show ?thesis
  proof cases
    case 1
    then show ?thesis using PyInt
      by (intro exI [of _ "SI8 (word_of_int i)"]) (simp add: sint_sbintrunc' signed_take_bit_int_eq_self)
  next
    case 2
    then show ?thesis using PyInt
      by (intro exI [of _ "SI16 (word_of_int i)"]) (simp add: sint_sbintrunc' signed_take_bit_int_eq_self)
  next
    case 3
    then show ?thesis using PyInt
      by (intro exI [of _ "SI32 (word_of_int i)"]) (simp add: sint_sbintrunc' signed_take_bit_int_eq_self)
  next
    case 4
    then show ?thesis using PyInt
      by (intro exI [of _ "SI64 (word_of_int i)"]) (simp add: sint_sbintrunc' signed_take_bit_int_eq_self)
  next
    case 5
    then show ?thesis using PyInt
      by (intro exI [of _ "SU8 (word_of_int i)"]) (simp add: uint_word_of_int take_bit_int_eq_self)
  qed
next
  case (PyStr x)
  then show ?thesis using assms by (intro exI [of _ "SText x"]) (simp add: py_fits_def)
next
  case (PyBytes x)
  then show ?thesis using assms by (intro exI [of _ "SBytes x"]) (simp add: py_fits_def)
next
  case (PyBool x)
  then show ?thesis using assms by (intro exI [of _ "SBool x"]) (simp add: py_fits_def)
next
  case (PyFloat x)
  then consider "t = LF64" | w where "t = LF32" "\<not> nan32 w" "x = widen w"
    using assms by (auto simp: py_fits_def)
  then show ?thesis
  proof cases
    case 1
    then show ?thesis using PyFloat by (intro exI [of _ "SF64 x"]) simp
  next
    case 2
    then show ?thesis using PyFloat by (intro exI [of _ "SF32 w"]) simp
  qed
qed

interpretation py_scalars: scalar_view "py_fits widen" "py_scalar_of widen" plain_scalar for widen
  by unfold_locales (rule py_fits_scalar)

lemma scalar_cases_py:
  "is_scalar_type t \<Longrightarrow> py_typed widen t v = (\<exists>x. v = PyOne x \<and> py_fits widen t x)
     \<and> python_data_type t = leaf_arrow t \<and> pydict_value t v = v \<and> py_view widen t c = py_of widen c"
  by (cases t) (auto simp: is_scalar_type_def is_map_value_def py_typed_def pydict_value_def py_view_def split: py_value.splits)

lemma static_leaf_py:
  "static_leaf u \<Longrightarrow> python_data_type u = leaf_arrow u
     \<and> py_typed widen (LList u) v = (\<exists>xs. v = PyList xs \<and> list_all (\<lambda>x. \<exists>y. x = Some y \<and> py_fits widen u y) xs)
     \<and> py_typed widen (LOptional u) v = (v = PyNone \<or> (\<exists>x. v = PyOne x \<and> py_fits widen u x))"
  by (cases u) (auto simp: static_leaf_def is_scalar_type_def is_map_value_def py_typed_def split: py_value.splits)

lemma map_key_data [simp]: "is_map_key k \<Longrightarrow> python_data_type k = leaf_arrow k"
  by (cases k) (simp_all add: is_map_key_def)

lemma py_typed_cell:
  assumes "supported t" and "py_typed widen t v"
  shows "\<exists>c. is_value t c \<and> plain_cell plain_scalar c \<and> pydict_value t v = py_of widen c \<and> py_view widen t c = v
    \<and> cell_fits (python_data_type t) c \<and> (c = Null \<longrightarrow> is_optional t)"
  using assms(1)
proof (cases rule: supported_cases)
  case scalar
  then obtain s where "scalar_type s = leaf_arrow t" "plain_scalar s" "v = PyOne (py_scalar_of widen s)"
    using assms(2) scalar_cases_py py_fits_scalar by blast
  then show ?thesis
    using scalar scalar_cases_py [OF scalar] by (intro exI [of _ "One s"]) (simp add: is_value_simps)
next
  case (tensor dtype dims)
  then obtain x where "v = PyOne x" "py_fits widen t x"
    using assms(2) by (auto simp: py_typed_def split: py_value.splits)
  then obtain s where "scalar_type s = leaf_arrow t" "plain_scalar s" "v = PyOne (py_scalar_of widen s)"
    using py_fits_scalar by blast
  then show ?thesis
    using tensor by (intro exI [of _ "One s"]) (simp add: pydict_value_def py_view_def)
next
  case (items u)
  then obtain ss where "v = PyList (map (\<lambda>s. Some (py_scalar_of widen s)) ss)"
    "list_all (\<lambda>s. scalar_type s = leaf_arrow u \<and> plain_scalar s) ss"
    using assms(2) static_leaf_py [OF items(2)] py_scalars.fits_all by blast
  then show ?thesis
    using items static_leaf_py [OF items(2)]
    by (intro exI [of _ "Items (map Some ss)"])
      (auto simp: is_value_simps pydict_value_def py_view_def list_all_iff comp_def)
next
  case (nullable_items u)
  then obtain xs where "v = PyList xs" "list_all (pred_option (py_fits widen u)) xs"
    using assms(2) by (auto simp: py_typed_def split: py_value.splits)
  moreover from py_scalars.fits_opts [OF this(2)] obtain ss where "xs = map (map_option (py_scalar_of widen)) ss"
    "list_all (item_fits (leaf_arrow u) True) ss" "list_all (pred_option plain_scalar) ss" by blast
  ultimately show ?thesis
    using nullable_items static_leaf_py [OF nullable_items(2)]
    by (intro exI [of _ "Items ss"]) (simp add: pydict_value_def py_view_def)
next
  case (nullable u)
  note facts = static_leaf_py [OF nullable(2)]
  from nullable assms(2) facts consider "v = PyNone" | x where "v = PyOne x" "py_fits widen u x" by blast
  then show ?thesis
  proof cases
    case 1
    then show ?thesis using nullable
      by (intro exI [of _ Null]) (simp add: is_value_simps pydict_value_def py_view_def)
  next
    case 2
    then obtain s where "scalar_type s = leaf_arrow u" "plain_scalar s" "v = PyOne (py_scalar_of widen s)"
      using py_fits_scalar by blast
    then show ?thesis
      using nullable facts
      by (intro exI [of _ "One s"]) (simp add: is_value_simps pydict_value_def py_view_def)
  qed
next
  case (nullable_list u)
  then consider "v = PyNone" | xs where "v = PyList xs" "list_all (\<lambda>x. \<exists>y. x = Some y \<and> py_fits widen u y) xs"
    using assms(2) by (auto simp: py_typed_def split: py_value.splits)
  then show ?thesis
  proof cases
    case 1
    then show ?thesis using nullable_list
      by (intro exI [of _ Null]) (simp add: pydict_value_def py_view_def)
  next
    case 2
    from py_scalars.fits_all [OF 2(2)] obtain ss where "xs = map (\<lambda>s. Some (py_scalar_of widen s)) ss"
      "list_all (\<lambda>s. scalar_type s = leaf_arrow u \<and> plain_scalar s) ss" by blast
    then show ?thesis
      using nullable_list 2(1) static_leaf_py [OF nullable_list(2)]
      by (intro exI [of _ "Items (map Some ss)"])
        (auto simp: pydict_value_def py_view_def list_all_iff comp_def)
  qed
next
  case (entries k v')
  then obtain es where es: "v = PyDict es" "distinct (map fst es)"
    "list_all (\<lambda>(x, y). py_fits widen k x \<and> (\<exists>z. y = Some z \<and> py_fits widen v' z)) es"
    using assms(2) by (auto simp: py_typed_def split: py_value.splits)
  from py_scalars.fits_pairs [OF es(3)] obtain ss where
    ss: "es = map (\<lambda>(k, v). (py_scalar_of widen k, Some (py_scalar_of widen v))) ss"
    "list_all (\<lambda>(x, y). scalar_type x = leaf_arrow k \<and> scalar_type y = leaf_arrow v'
        \<and> plain_scalar x \<and> plain_scalar y) ss" by blast
  have "map fst es = map (py_scalar_of widen) (map fst ss)" using ss(1) by (simp add: comp_def case_prod_beta)
  then have "distinct (map fst ss)" using es(2) by (metis distinct_map)
  moreover have "py_of widen (Entries (map (\<lambda>(a, b). (a, Some b)) ss)) = PyPairs es"
    using ss(1) by (simp add: comp_def case_prod_beta)
  moreover have "cell_fits (python_data_type t) (Entries (map (\<lambda>(a, b). (a, Some b)) ss))"
    "plain_cell plain_scalar (Entries (map (\<lambda>(a, b). (a, Some b)) ss))"
    using entries ss(2) scalar_cases_py [OF entries(3), THEN conjunct2, THEN conjunct1] by (auto simp: list_all_iff)
  ultimately show ?thesis
    using entries es(1) ss(2)
    by (intro exI [of _ "Entries (map (\<lambda>(a, b). (a, Some b)) ss)"])
      (auto simp: pydict_value_def py_view_def list_all_iff)
qed

lemma int_of_word_inject: "sint a = sint b \<longleftrightarrow> a = b" "uint a = uint b \<longleftrightarrow> a = b"
  by (auto intro: signed_word_eqI unsigned_word_eqI)

lemma py_scalar_of_inject:
  "scalar_type a = scalar_type b \<Longrightarrow> scalar_type a \<noteq> Float32 \<Longrightarrow>
     py_scalar_of widen a = py_scalar_of widen b \<longleftrightarrow> a = b"
  by (cases a; cases b) (simp_all add: int_of_word_inject)

lemma update_all_new:
  "distinct (map fst (acc @ es)) \<Longrightarrow> foldl (\<lambda>m (k, v). AList.update k v m) acc es = acc @ es"
proof (induction es arbitrary: acc)
  case (Cons e es)
  obtain k v where e: "e = (k, v)" by (cases e)
  have "k \<notin> set (map fst acc) \<Longrightarrow> AList.update k v acc = acc @ [(k, v)]"
    by (induction acc) auto
  then have "AList.update k v acc = acc @ [(k, v)]" using Cons.prems e by simp
  then show ?case using Cons e by simp
qed simp

lemma python_tensor_valid:
  assumes "tensor_meta_ok t (af_meta fld)" and "tensor_metadata t = Some (dtype, dims)" and "tensor_dims_ok dims"
    and "field_with_name (batch_schema lib b) name = Some fld"
  shows "python_tensor_validation lib b name dtype dims = Inr ()"
proof -
  have "map_of (af_meta fld) = emitted_metadata dtype (format_tensor_shape_metadata dims)"
    using assms(1,2) by (simp add: tensor_meta_ok_def)
  then show ?thesis
    using assms(4) python_binding.verdict [OF assms(3,3), of dtype dtype] first_mismatch_self [of 0 dims]
    by (simp add: python_tensor_validation_def tensor_verdict_def)
qed

lemma python_field_reads:
  assumes "supported (field_ty f)" and "converts widen conv"
    and "field_ok lib b f x" and val: "is_value (field_ty f) x"
  shows "python_field_extraction sf rd64 lib conv b f = Inr (py_view widen (field_ty f) x)"
proof -
  have as_py [simp]: "as_py conv c = py_of widen c" for c using assms(2) by (simp add: converts_def)
  from assms(3) obtain fld c where fld: "field_with_name (batch_schema lib b) (field_name f) = Some fld"
    and c: "batch_column lib b (field_name f) = Some c" "col_type c = af_type fld" "col_cells c = [x]"
    and kind: "kind (af_type fld) = field_kind (field_ty f)" and meta: "tensor_meta_ok (field_ty f) (af_meta fld)"
    by (auto simp: field_ok_def)
  have column: "python_column lib b (field_name f) = Inr c" using c by (simp add: python_column_def)
  from assms(1) show ?thesis
  proof (cases rule: supported_cases)
    case scalar
    then have "af_type fld = leaf_arrow (field_ty f)" using kind kind_leaf by simp
    then have "python_scalar_extraction sf rd64 lib conv b (field_name f) (field_ty f) (field_default f)
        = Inr (py_of widen x)"
      using fld c column scalar_cases_py [OF scalar, THEN conjunct2, THEN conjunct1]
      by (simp add: python_scalar_extraction_def python_typed_value_def split: option.split)
    then show ?thesis
      using scalar scalar_cases_py [OF scalar]
      by (cases "field_ty f") (simp_all add: python_field_extraction_def is_scalar_type_def is_map_value_def)
  next
    case (tensor dtype dims)
    then have "python_tensor_validation lib b (field_name f) dtype dims = Inr ()"
      using python_tensor_valid [OF meta _ _ fld] by (simp add: tensor_metadata_def)
    then show ?thesis
      using tensor column c by (simp add: python_field_extraction_def py_view_def)
  next
    case (items u)
    obtain xs where xs: "x = Items (map Some xs)" using val items by (auto simp: is_value_simps)
    from items(2) show ?thesis
    proof (cases rule: static_leaf_cases)
      case scalar
      then show ?thesis using items xs column c
        by (cases u) (simp_all add: python_field_extraction_def py_view_def is_scalar_type_def is_map_value_def)
    next
      case (tensor dtype dims)
      then have "python_tensor_validation lib b (field_name f) dtype dims = Inr ()"
        using items python_tensor_valid [OF meta _ _ fld] by (simp add: tensor_metadata_def)
      then show ?thesis
        using items tensor xs column c by (simp add: python_field_extraction_def py_view_def)
    qed
  next
    case (nullable_items u)
    then show ?thesis using column c by (simp add: python_field_extraction_def py_view_def)
  next
    case (nullable u)
    from nullable(2) show ?thesis
    proof (cases rule: static_leaf_cases)
      case scalar
      then show ?thesis using nullable column c
        by (cases u) (simp_all add: python_field_extraction_def py_view_def is_scalar_type_def is_map_value_def)
    next
      case (tensor dtype dims)
      then have "python_tensor_validation lib b (field_name f) dtype dims = Inr ()"
        using nullable python_tensor_valid [OF meta _ _ fld] by (simp add: tensor_metadata_def)
      then show ?thesis
        using nullable tensor column c by (simp add: python_field_extraction_def py_view_def)
    qed
  next
    case (nullable_list u)
    then show ?thesis using column c by (simp add: python_field_extraction_def py_view_def)
  next
    case (entries k v)
    then obtain es where es: "x = Entries (map (\<lambda>(a, b). (a, Some b)) es)" "distinct (map fst es)"
      "list_all (\<lambda>(a, b). scalar_type a = leaf_arrow k \<and> scalar_type b = leaf_arrow v) es"
      using val by auto
    let ?conv = "map (\<lambda>e. (py_scalar_of widen (fst e), Some (py_scalar_of widen (snd e)))) es"
    have "leaf_arrow k \<noteq> Float32" using entries(2) by (cases k) (simp_all add: is_map_key_def)
    moreover have "scalar_type s = leaf_arrow k" if "s \<in> set (map fst es)" for s
      using es(3) that by (auto simp: list_all_iff)
    ultimately have "inj_on (py_scalar_of widen) (set (map fst es))"
      by (intro inj_onI) (metis py_scalar_of_inject)
    then have "distinct (map fst ?conv)"
      using es(2) distinct_map [of "py_scalar_of widen" "map fst es"] by (simp add: comp_def)
    from update_all_new [of "[]", simplified, OF this] show ?thesis
      using entries column c es(1)
      by (simp add: python_field_extraction_def py_view_def comp_def case_prod_beta)
  qed
qed

section \<open>The binding of a class\<close>

lemma python_schema_metadata: "map_of (python_schema_meta sid version direction) = contract_meta sid version direction"
  by (rule ext) (simp add: python_schema_meta_def contract_meta_def lit_inject)

lemma python_field_metadata: "tensor_meta_ok (field_ty f) (af_meta (python_schema_field f))"
  by (auto simp: tensor_meta_ok_def python_schema_field_def emitted_metadata_def dtype_key_def shape_key_def
      shape_strings lit_inject split: option.splits)

lemma python_kind: "kind (python_data_type t) = field_kind t"
  by (induction t) simp_all

text \<open>The cells pyarrow makes of the values of an object.\<close>

definition python_cells :: "py_conv \<Rightarrow> struct_def \<Rightarrow> py_value list \<Rightarrow> cell list" where
  "python_cells conv d vs =
     map2 (\<lambda>f v. case from_py conv (python_data_type (field_ty f)) (pydict_value (field_ty f) v) of
         Inr c \<Rightarrow> c | Inl _ \<Rightarrow> Null) (struct_fields d) vs"

lemma python_values:
  assumes "python_struct_ok d" and "python_struct_typed widen d vs" and "converts widen conv"
  shows "length vs = length (struct_fields d) \<and> length (python_cells conv d vs) = length (struct_fields d)
    \<and> (\<forall>i < length (struct_fields d).
         let t = field_ty (struct_fields d ! i); x = python_cells conv d vs ! i in
         from_py conv (python_data_type t) (pydict_value t (vs ! i)) = Inr x
         \<and> is_value t x \<and> py_view widen t x = vs ! i
         \<and> cell_fits (python_data_type t) x \<and> (x = Null \<longrightarrow> is_optional t))"
proof -
  have len: "length vs = length (struct_fields d)"
    using assms(2) by (simp add: python_struct_typed_def list_all2_lengthD)
  show ?thesis
  proof (intro conjI allI impI)
    fix i assume i: "i < length (struct_fields d)"
    let ?f = "struct_fields d ! i"
    have "?f \<in> set (struct_fields d)" using i by simp
    then have "supported (field_ty ?f)"
      using assms(1) by (auto simp: python_struct_ok_def valid_struct_def valid_field_def list_all_iff)
    moreover have "py_typed widen (field_ty ?f) (vs ! i)"
      using assms(2) i by (simp add: python_struct_typed_def list_all2_conv_all_nth)
    ultimately obtain x where x: "is_value (field_ty ?f) x" "plain_cell plain_scalar x"
      "pydict_value (field_ty ?f) (vs ! i) = py_of widen x" "py_view widen (field_ty ?f) x = vs ! i"
      "cell_fits (python_data_type (field_ty ?f)) x" "x = Null \<longrightarrow> is_optional (field_ty ?f)"
      using py_typed_cell by blast
    then have "from_py conv (python_data_type (field_ty ?f)) (pydict_value (field_ty ?f) (vs ! i)) = Inr x"
      using assms(3) by (simp add: converts_def)
    moreover from this have "python_cells conv d vs ! i = x" using i len by (simp add: python_cells_def)
    ultimately show "let t = field_ty (struct_fields d ! i); x = python_cells conv d vs ! i in
         from_py conv (python_data_type t) (pydict_value t (vs ! i)) = Inr x
         \<and> is_value t x \<and> py_view widen t x = vs ! i
         \<and> cell_fits (python_data_type t) x \<and> (x = Null \<longrightarrow> is_optional t)"
      using x by (simp add: Let_def)
  qed (simp_all add: python_cells_def len)
qed

lemma python_writer:
  assumes lib: "builds lib" "writes lib" and conv: "converts widen conv"
  shows "binding_writer lib (\<lambda>d sid version direction vs. to_option (to_ipc lib conv d sid version direction vs))
    (\<lambda>d vs. python_struct_ok d \<and> python_struct_typed widen d vs) (python_cells conv)"
proof (unfold_locales; elim conjE)
  fix d vs and sid version direction :: "text"
  assume ok: "python_struct_ok d" and typed: "python_struct_typed widen d vs"
  note vals = python_values [OF ok typed conv, unfolded Let_def]
  show "values_of d (python_cells conv d vs)"
    using vals by (simp add: values_of_def list_all2_conv_all_nth)
  let ?fs = "struct_fields d" and ?xs = "python_cells conv d vs"
  let ?s = "\<lparr>as_fields = map python_schema_field ?fs, as_meta = python_schema_meta sid version direction\<rparr>"
  let ?cols = "map2 (\<lambda>f x. \<lparr>col_type = af_type (python_schema_field f), col_cells = [x]\<rparr>) ?fs ?xs"
  have "list_all2 (\<lambda>f x. kind (af_type (python_schema_field f)) = field_kind (field_ty f)
      \<and> af_name (python_schema_field f) = field_name f \<and> tensor_meta_ok (field_ty f) (af_meta (python_schema_field f))
      \<and> cell_fits (af_type (python_schema_field f)) x \<and> (x = Null \<longrightarrow> af_nullable (python_schema_field f))) ?fs ?xs"
    using vals python_field_metadata
    by (simp add: list_all2_conv_all_nth python_schema_field_def python_kind)
  moreover have "?fs \<noteq> []" "distinct (map field_name ?fs)"
    using ok by (simp_all add: python_struct_ok_def valid_struct_def)
  ultimately obtain b where b: "make_batch lib ?s ?cols = Inr b" "contract lib d sid version direction b ?xs"
    using written_contract [OF lib(1) _ python_schema_metadata _ refl] by blast
  have "list_all2 (\<lambda>p y. (case p of (f, v) \<Rightarrow>
        map_sum id (\<lambda>x. \<lparr>col_type = python_data_type (field_ty f), col_cells = [x]\<rparr>)
          (from_py conv (python_data_type (field_ty f)) (pydict_value (field_ty f) v))) = Inr y) (zip ?fs vs) ?cols"
    using vals by (simp add: list_all2_conv_all_nth python_schema_field_def)
  note columns = collect_all2 [OF this]
  moreover obtain bytes where "write_stream lib b = Inr bytes" using lib(2) by (auto simp: writes_def)
  ultimately show "\<exists>b bytes. to_option (to_ipc lib conv d sid version direction vs) = Some bytes
      \<and> write_stream lib b = Inr bytes \<and> contract lib d sid version direction b ?xs"
    using b columns by (auto simp: to_ipc_def to_option_def)
qed

lemma python_reader:
  assumes "converts widen conv"
  shows "binding_reader lib (from_ipc sf rd64 lib conv) python_struct_ok (py_view widen)"
proof
  fix d bytes b xs and sid version direction :: "text"
  assume ok: "python_struct_ok d" and stream: "open_stream lib bytes = Inr [Inr b]"
    and con: "contract lib d sid version direction b xs" and vals: "values_of d xs"
  have "list_all2 (\<lambda>f y. python_field_extraction sf rd64 lib conv b f = Inr y) (struct_fields d)
      (map2 (\<lambda>f. py_view widen (field_ty f)) (struct_fields d) xs)"
    unfolding list_all2_conv_all_nth
  proof (intro conjI allI impI)
    fix i assume i: "i < length (struct_fields d)"
    then have "struct_fields d ! i \<in> set (struct_fields d)" by simp
    then have "supported (field_ty (struct_fields d ! i))"
      using ok by (auto simp: python_struct_ok_def valid_struct_def valid_field_def list_all_iff)
    moreover have "field_ok lib b (struct_fields d ! i) (xs ! i)" "is_value (field_ty (struct_fields d ! i)) (xs ! i)"
      "length xs = length (struct_fields d)"
      using con vals i by (auto simp: contract_def values_of_def list_all2_conv_all_nth)
    ultimately show "python_field_extraction sf rd64 lib conv b (struct_fields d ! i) =
        Inr (map2 (\<lambda>f. py_view widen (field_ty f)) (struct_fields d) xs ! i)"
      using i assms by (simp add: python_field_reads)
  qed (use vals in \<open>simp add: values_of_def list_all2_lengthD\<close>)
  from collect_all2 [OF this]
  show "from_ipc sf rd64 lib conv d sid version direction bytes =
      Inr (map2 (\<lambda>f. py_view widen (field_ty f)) (struct_fields d) xs)"
    using stream con by (simp add: from_ipc_def contract_def)
qed

lemma python_metadata_ok:
  "python_metadata_validation expected meta = Inr () \<longleftrightarrow> (\<forall>(k, v) \<in> set expected. meta k = Some v)"
  by (induction expected meta rule: python_metadata_validation.induct) (auto split: option.splits)

lemma python_tensor_checked:
  assumes "python_field_extraction sf rd64 lib conv b f = Inr v" and "tensor_metadata (field_ty f) = Some (dtype, dims)"
  shows "python_tensor_validation lib b (field_name f) dtype dims = Inr ()"
  using assms(2)
  by (cases rule: tensor_metadata_cases)
    (use assms in \<open>auto simp: python_field_extraction_def tensor_metadata_def try_bind_Inr_iff Let_def\<close>)

lemma python_scalar_checked:
  "python_field_extraction sf rd64 lib conv b f = Inr v \<Longrightarrow> is_scalar_type (field_ty f) \<Longrightarrow> scalar_checked lib b f"
proof -
  assume ok: "python_field_extraction sf rd64 lib conv b f = Inr v" and scalar: "is_scalar_type (field_ty f)"
  have "python_field_extraction sf rd64 lib conv b f =
      python_scalar_extraction sf rd64 lib conv b (field_name f) (field_ty f) (field_default f)"
    using scalar by (cases "field_ty f") (simp_all add: python_field_extraction_def is_scalar_type_def is_map_value_def)
  moreover have "python_data_type (field_ty f) = leaf_arrow (field_ty f)" using scalar scalar_cases_py by blast
  ultimately show ?thesis
    using ok by (auto simp: python_scalar_extraction_def python_typed_value_def python_column_def scalar_checked_def
        try_bind_Inr_iff split: option.splits if_splits)
qed

lemma python_guarded:
  assumes "from_ipc sf rd64 lib conv d sid version direction bytes = Inr vs"
  shows "guarded python_check_tensor lib d sid version direction bytes vs"
proof -
  obtain b where b: "open_stream lib bytes = Inr [Inr b]" "num_rows lib b = 1"
    and meta: "python_metadata_validation
      [(lit ''laic.skill_id'', sid), (lit ''laic.version'', version), (lit ''laic.direction'', direction)]
      (map_of (as_meta (batch_schema lib b))) = Inr ()"
    and fields: "collect (map (python_field_extraction sf rd64 lib conv b) (struct_fields d)) = Inr vs"
    using assms
    by (auto simp: from_ipc_def try_bind_Inr_iff split: sum.splits list.splits if_splits)
  show ?thesis
  proof (rule guardedI [OF b _ fields])
    fix f v dtype dims
    assume "python_field_extraction sf rd64 lib conv b f = Inr v" "tensor_metadata (field_ty f) = Some (dtype, dims)"
    from python_tensor_checked [OF this]
    show "\<exists>fld. field_with_name (batch_schema lib b) (field_name f) = Some fld
        \<and> python_check_tensor dtype dims (map_of (af_meta fld)) = Inr ()"
      by (auto simp: python_tensor_validation_def map_err_Inr_iff split: option.splits)
  qed (use meta [unfolded python_metadata_ok] python_scalar_checked in auto)
qed

text \<open>Conversions in memory: an instance of \<open>py_conv\<close> whose laws hold.\<close>

fun mem_scalar :: "arrow_type \<Rightarrow> py_scalar \<Rightarrow> scalar" where
  "mem_scalar t (PyStr s) = SText s"
| "mem_scalar t (PyBytes b) = SBytes b"
| "mem_scalar t (PyBool b) = SBool b"
| "mem_scalar t (PyInt i) =
     (case t of Int8 \<Rightarrow> SI8 (word_of_int i) | Int16 \<Rightarrow> SI16 (word_of_int i) | Int32 \<Rightarrow> SI32 (word_of_int i)
      | Int64 \<Rightarrow> SI64 (word_of_int i) | _ \<Rightarrow> SU8 (word_of_int i))"
| "mem_scalar t (PyFloat x) = (if t = Float32 then SF32 (ucast x) else SF64 x)"

fun mem_from_py :: "arrow_type \<Rightarrow> py_value \<Rightarrow> string + cell" where
  "mem_from_py t (PyOne x) = Inr (One (mem_scalar t x))"
| "mem_from_py (ListType t _) (PyList xs) = Inr (Items (map (map_option (mem_scalar t)) xs))"
| "mem_from_py (MapType _ k _ v _) (PyPairs es) =
     Inr (Entries (map (map_prod (mem_scalar k) (map_option (mem_scalar v))) es))"
| "mem_from_py t PyNone = Inr Null"
| "mem_from_py t v = Inl ''type''"

definition mem_conv :: py_conv where
  "mem_conv = \<lparr>as_py = py_of ucast, from_py = mem_from_py\<rparr>"

lemma mem_scalar_back: "mem_scalar (scalar_type s) (py_scalar_of ucast s) = s"
  by (cases s) (simp_all add: ucast_up_ucast_id is_up)

lemma mem_item_back: "item_fits t n x \<Longrightarrow> map_option (mem_scalar t \<circ> py_scalar_of ucast) x = x"
  using mem_scalar_back by (cases x) auto

lemma mem_converts: "converts ucast mem_conv"
proof -
  have "mem_from_py t (py_of ucast c) = Inr c" if "cell_fits t c" for t c
    using that
  proof (induction t c rule: cell_fits.induct)
    case (2 t s)
    then show ?case using mem_scalar_back [of s] by auto
  next
    case (3 t n xs)
    then show ?case
      using mem_item_back by (auto simp: list_all_iff option.map_comp comp_def intro!: map_idI)
  next
    case (4 kn k vn v n es)
    then have "map (map_prod (mem_scalar k) (map_option (mem_scalar v)))
        (map (map_prod (py_scalar_of ucast) (map_option (py_scalar_of ucast))) es) = es"
      using mem_item_back mem_scalar_back
      by (auto simp: list_all_iff option.map_comp map_prod.compositionality comp_def intro!: map_idI)
    then show ?case by simp
  qed simp_all
  then show ?thesis by (simp add: converts_def mem_conv_def)
qed

interpretation python_mem: binding_pair mem_arrow mem_arrow
  "\<lambda>d sid version direction vs. to_option (to_ipc mem_arrow mem_conv d sid version direction vs)"
  "\<lambda>d vs. python_struct_ok d \<and> python_struct_typed ucast d vs" "python_cells mem_conv"
  "from_ipc sf rd64 mem_arrow mem_conv" python_struct_ok "py_view ucast" for sf rd64
  by (intro binding_pair.intro binding_pair_axioms.intro python_writer python_reader mem_builds mem_writes
      mem_carries mem_converts)

section \<open>Properties\<close>

text \<open>
  C25. The generated Python round trip: on every struct the validator accepts whose name and field names
  hide nothing the generated code uses, \<open>to_ipc\<close> succeeds on every value of the declared types and \<open>from_ipc\<close> of
  its bytes gives exactly that value back, \<open>list<optional<T>>\<close> and the order of dictionaries included.
\<close>

theorem python_binding_roundtrip:
  assumes "builds lib" and "writes lib" and "carries lib lib" and "converts widen conv"
    and "python_struct_ok d" and "python_struct_typed widen d vs"
  shows "\<exists>bytes. to_ipc lib conv d sid version direction vs = Inr bytes
    \<and> from_ipc sf rd64 lib conv d sid version direction bytes = Inr vs"
proof -
  note pair = binding_pair.intro [OF python_writer [OF assms(1,2,4)] python_reader [OF assms(4), of lib sf rd64]
      binding_pair_axioms.intro [OF assms(3)]]
  have "map2 (\<lambda>f. py_view widen (field_ty f)) (struct_fields d) (python_cells conv d vs) = vs"
    using python_values [OF assms(5,6,4)] by (simp add: list_eq_iff_nth_eq Let_def)
  then show ?thesis
    using binding_pair.exchange [OF pair conjI [OF assms(5,6)] assms(5), of sid version direction]
    by (auto simp: to_option_def split: sum.splits)
qed

definition document_object :: "py_value list" where
  "document_object =
     [PyOne (PyStr (lit ''a'')), PyList [Some (PyInt 1), Some (PyInt (- 2))], PyNone,
      PyDict [(PyStr (lit ''draft''), Some (PyBool True)), (PyStr (lit ''b''), Some (PyBool False))],
      PyOne (PyBytes [0, 0, 128, 63])]"

lemma document_python_ok: "python_struct_ok document_struct"
  using document_valid unfolding python_struct_ok_def
  by (simp add: document_struct_def python_taken_def python_globals_def lit_inject)

lemma document_python_typed: "python_struct_typed widen document_struct document_object"
  by (simp add: python_struct_typed_def document_struct_def document_object_def py_typed_def py_fits_def lit_inject)

theorem python_binding_roundtrip_witness:
  "\<exists>bytes. to_ipc mem_arrow mem_conv document_struct (lit ''docs'') (lit ''1.0'') (lit ''output'') document_object = Inr bytes
    \<and> from_ipc (\<lambda>_. []) (\<lambda>_. 0) mem_arrow mem_conv document_struct (lit ''docs'') (lit ''1.0'') (lit ''output'') bytes
      = Inr document_object"
  by (rule python_binding_roundtrip [OF mem_builds mem_writes mem_carries mem_converts document_python_ok
      document_python_typed])

end
