(* ===== verification/Laicc_Typescript_Binding.thy ===== *)
theory Laicc_Typescript_Binding
  imports Laicc_Arrow
begin

text \<open>
  What the TypeScript class generated for a struct does when it runs: \<open>toIpc\<close> and \<open>fromIpc\<close>, as the
  emitters of \<open>codegen/typescript_serialize.rs\<close> and \<open>typescript_deserialize.rs\<close> write them, with the
  helper functions of the generated file. Arrow JS is an \<open>arrow_lib\<close> with its conversions, \<open>js_conv\<close>; a
  thrown error is a \<open>ts_error\<close>. A JavaScript number is the bits of a double, with one NaN; \<open>num\<close> is the
  number of an integer literal and \<open>widen\<close> the double of a 32-bit float.
\<close>

section \<open>Types and schema\<close>

fun ts_data_type :: "laic_type \<Rightarrow> arrow_type" where
  "ts_data_type (LList inner) = ListType (ts_data_type inner) (is_optional inner)"
| "ts_data_type (LOptional inner) = ts_data_type inner"
| "ts_data_type (LMap k v) =
     MapType (lit ''key'') (ts_data_type k) (lit ''value'') (ts_data_type v) False"
| "ts_data_type t = leaf_arrow t"

fun ts_expression :: "arrow_type \<Rightarrow> text" where
  "ts_expression Utf8 = lit ''new arrow.Utf8()''"
| "ts_expression Binary = lit ''new arrow.Binary()''"
| "ts_expression Boolean = lit ''new arrow.Bool()''"
| "ts_expression Int8 = lit ''new arrow.Int8()''"
| "ts_expression Int16 = lit ''new arrow.Int16()''"
| "ts_expression Int32 = lit ''new arrow.Int32()''"
| "ts_expression Int64 = lit ''new arrow.Int64()''"
| "ts_expression UInt8 = lit ''new arrow.Uint8()''"
| "ts_expression Float32 = lit ''new arrow.Float32()''"
| "ts_expression Float64 = lit ''new arrow.Float64()''"
| "ts_expression (ListType t n) =
     fmt ''new arrow.List(new arrow.Field(^item^, {}, {}))'' [ts_expression t, bool_text n]"
| "ts_expression (MapType kn k vn v n) =
     fmt (''new arrow.Map_(new arrow.Field(^entries^, new arrow.Struct([new arrow.Field(^{}^, {}, false) as any, '' @
          ''new arrow.Field(^{}^, {}, {}) as any]) as any, false), false) as any'')
       [kn, ts_expression k, vn, ts_expression v, bool_text n]"

lemma ts_expression_emitted: "ts_expression (ts_data_type t) = ts_arrow_datatype t"
  by (induction t) (simp_all add: fmt_simps bool_text_def lit_def template_char_def)

definition ts_schema_field :: "field_def \<Rightarrow> arrow_field" where
  "ts_schema_field f =
     \<lparr>af_name = field_name f, af_type = ts_data_type (field_ty f), af_nullable = is_optional (field_ty f),
      af_meta = (case tensor_metadata (field_ty f) of
        None \<Rightarrow> []
      | Some (dtype, dims) \<Rightarrow>
          [(lit ''laic.tensor.dtype'', lit (tensor_as_str dtype)),
           (lit ''laic.tensor.shape'', format_ts_dims dims),
           (lit ''laic.tensor.version'', lit ''1'')])\<rparr>"

definition ts_schema_meta :: "text \<Rightarrow> text \<Rightarrow> text \<Rightarrow> (text \<times> text) list" where
  "ts_schema_meta sid version direction =
     [(lit ''laic.skill_id'', sid), (lit ''laic.version'', version), (lit ''laic.direction'', direction)]"

section \<open>JavaScript values\<close>

datatype js_scalar = JsStr "text" | JsBytes bytes | JsBool bool | JsNum u64 | JsBig int

text \<open>
  Arrow JS gives a list cell as a \<open>Vector\<close> and a map cell as a \<open>MapRow\<close>; programs hold an \<open>Array\<close> and a
  \<open>Map\<close>. \<open>JsPairs\<close> is an array of two-element arrays.
\<close>

datatype js_value =
    JsNull
  | JsOne js_scalar
  | JsArray "js_scalar option list"
  | JsVector "js_scalar option list"
  | JsMap "(js_scalar \<times> js_scalar option) list"
  | JsMapRow "(js_scalar \<times> js_scalar option) list"
  | JsPairs "(js_scalar \<times> js_scalar option) list"

record js_conv =
  as_js :: "cell \<Rightarrow> js_value"
  from_js :: "arrow_type \<Rightarrow> js_value \<Rightarrow> string + cell"

definition js_nan :: u64 where
  "js_nan = 0x7FF8000000000000"

fun js_scalar_of :: "(int \<Rightarrow> u64) \<Rightarrow> (u32 \<Rightarrow> u64) \<Rightarrow> scalar \<Rightarrow> js_scalar" where
  "js_scalar_of num widen (SText s) = JsStr s"
| "js_scalar_of num widen (SBytes b) = JsBytes b"
| "js_scalar_of num widen (SBool b) = JsBool b"
| "js_scalar_of num widen (SI8 w) = JsNum (num (sint w))"
| "js_scalar_of num widen (SI16 w) = JsNum (num (sint w))"
| "js_scalar_of num widen (SI32 w) = JsNum (num (sint w))"
| "js_scalar_of num widen (SI64 w) = JsBig (sint w)"
| "js_scalar_of num widen (SU8 w) = JsNum (num (uint w))"
| "js_scalar_of num widen (SF32 w) = JsNum (if nan32 w then js_nan else widen w)"
| "js_scalar_of num widen (SF64 w) = JsNum (if nan64 w then js_nan else w)"

text \<open>What \<open>Vector.get\<close> gives for a cell, and the value a program writes for it.\<close>

fun js_of :: "(int \<Rightarrow> u64) \<Rightarrow> (u32 \<Rightarrow> u64) \<Rightarrow> cell \<Rightarrow> js_value" where
  "js_of num widen Null = JsNull"
| "js_of num widen (One s) = JsOne (js_scalar_of num widen s)"
| "js_of num widen (Items xs) = JsVector (map (map_option (js_scalar_of num widen)) xs)"
| "js_of num widen (Entries es) =
     JsMapRow (map (map_prod (js_scalar_of num widen) (map_option (js_scalar_of num widen))) es)"

fun js_in :: "js_value \<Rightarrow> js_value" where
  "js_in (JsVector xs) = JsArray xs"
| "js_in (JsMapRow es) = JsMap es"
| "js_in v = v"

fun no_nan :: "scalar \<Rightarrow> bool" where
  "no_nan (SF32 w) \<longleftrightarrow> \<not> nan32 w"
| "no_nan (SF64 w) \<longleftrightarrow> \<not> nan64 w"
| "no_nan _ \<longleftrightarrow> True"

definition js_converts :: "(int \<Rightarrow> u64) \<Rightarrow> (u32 \<Rightarrow> u64) \<Rightarrow> js_conv \<Rightarrow> bool" where
  "js_converts num widen conv \<longleftrightarrow> (\<forall>c. as_js conv c = js_of num widen c)
     \<and> (\<forall>t c. cell_fits t c \<and> plain_cell no_nan c \<longrightarrow> from_js conv t (js_in (js_of num widen c)) = Inr c)"

section \<open>Serializing\<close>

definition toIpc ::
    "'b arrow_lib \<Rightarrow> js_conv \<Rightarrow> struct_def \<Rightarrow> text \<Rightarrow> text \<Rightarrow> text \<Rightarrow> js_value list \<Rightarrow> string + bytes" where
  "toIpc lib conv d sid version direction this =
     (let schema = \<lparr>as_fields = map ts_schema_field (struct_fields d),
                    as_meta = ts_schema_meta sid version direction\<rparr> in
      try_bind (collect (map2 (\<lambda>fld v.
          map_sum id (\<lambda>x. \<lparr>col_type = af_type fld, col_cells = [x]\<rparr>) (from_js conv (af_type fld) v))
        (as_fields schema) this)) (\<lambda>columns.
      try_bind (make_batch lib schema columns) (\<lambda>table. write_stream lib table)))"

section \<open>Deserializing\<close>

datatype ts_error =
    TsArrow string | TsNoRows | TsManyRows nat | TsManyBatches | TsMissingMetadata "text"
  | TsMetadataMismatch "text" | TsMissingColumn "text" | TsWrongType "text" | TsTensor "text" tensor_error
  | TsTypeError "text"

fun ts_literal :: "show_f64 \<Rightarrow> (text \<Rightarrow> u64) \<Rightarrow> (int \<Rightarrow> u64) \<Rightarrow> laic_type \<Rightarrow> literal \<Rightarrow> js_value" where
  "ts_literal sf rd64 num ty (StringLit s) = JsOne (JsStr s)"
| "ts_literal sf rd64 num ty (IntegerLit i) = JsOne (if ty = LI64 then JsBig i else JsNum (num i))"
| "ts_literal sf rd64 num ty (FloatLit x) = JsOne (JsNum (rd64 (literal_to_ts sf (FloatLit x) ty)))"
| "ts_literal sf rd64 num ty (BoolLit b) = JsOne (JsBool b)"

text \<open>\<open>Array.from\<close>: an iterable gives its elements, \<open>null\<close> throws, every other value an empty array.\<close>

fun array_from :: "(int \<Rightarrow> u64) \<Rightarrow> text \<Rightarrow> js_value \<Rightarrow> ts_error + js_value" where
  "array_from num name JsNull = Inl (TsTypeError name)"
| "array_from num name (JsVector xs) = Inr (JsArray xs)"
| "array_from num name (JsArray xs) = Inr (JsArray xs)"
| "array_from num name (JsOne (JsStr s)) = Inr (JsArray (map (\<lambda>c. Some (JsStr [c])) s))"
| "array_from num name (JsOne (JsBytes b)) = Inr (JsArray (map (\<lambda>w. Some (JsNum (num (uint w)))) b))"
| "array_from num name (JsOne _) = Inr (JsArray [])"
| "array_from num name (JsMap es) = Inr (JsPairs es)"
| "array_from num name (JsMapRow es) = Inr (JsPairs es)"
| "array_from num name (JsPairs es) = Inr (JsPairs es)"

text \<open>\<open>batch.getChild(name)!\<close>, with a method called on it.\<close>

definition ts_child :: "'b arrow_lib \<Rightarrow> 'b \<Rightarrow> text \<Rightarrow> ts_error + column" where
  "ts_child lib batch name =
     (case batch_column lib batch name of None \<Rightarrow> Inl (TsTypeError name) | Some c \<Rightarrow> Inr c)"

text \<open>The helper compares the printed types, which for the scalar types it is called with is equality.\<close>

definition laicAssertFieldType :: "arrow_field option \<Rightarrow> text \<Rightarrow> arrow_type \<Rightarrow> ts_error + unit" where
  "laicAssertFieldType fld name expected =
     (case fld of
        None \<Rightarrow> Inl (TsTypeError name)
      | Some f \<Rightarrow> if af_type f \<noteq> expected then Inl (TsWrongType name) else Inr ())"

definition ts_scalar_extraction ::
    "show_f64 \<Rightarrow> (text \<Rightarrow> u64) \<Rightarrow> (int \<Rightarrow> u64) \<Rightarrow> 'b arrow_lib \<Rightarrow> js_conv \<Rightarrow> 'b \<Rightarrow> text \<Rightarrow> laic_type
     \<Rightarrow> literal option \<Rightarrow> ts_error + js_value" where
  "ts_scalar_extraction sf rd64 num lib conv batch name ty dflt =
     (case batch_column lib batch name of
        None \<Rightarrow>
          (case dflt of None \<Rightarrow> Inl (TsMissingColumn name) | Some l \<Rightarrow> Inr (ts_literal sf rd64 num ty l))
      | Some col \<Rightarrow>
          try_bind (laicAssertFieldType (field_with_name (batch_schema lib batch) name) name (ts_data_type ty)) (\<lambda>_.
          Inr (as_js conv (col_cells col ! 0))))"

definition ts_tensor_assertion ::
    "(int \<Rightarrow> u64) \<Rightarrow> 'b arrow_lib \<Rightarrow> 'b \<Rightarrow> text \<Rightarrow> tensor_element_type \<Rightarrow> dimension list \<Rightarrow> ts_error + unit" where
  "ts_tensor_assertion num lib batch name dtype dims =
     (case field_with_name (batch_schema lib batch) name of
        None \<Rightarrow> Inl (TsTypeError name)
      | Some fld \<Rightarrow> map_err (TsTensor name) (ts_check_tensor num dtype dims (map_of (af_meta fld))))"

definition ts_field_extraction ::
    "show_f64 \<Rightarrow> (text \<Rightarrow> u64) \<Rightarrow> (int \<Rightarrow> u64) \<Rightarrow> 'b arrow_lib \<Rightarrow> js_conv \<Rightarrow> 'b \<Rightarrow> field_def
     \<Rightarrow> ts_error + js_value" where
  "ts_field_extraction sf rd64 num lib conv batch f =
     (let name = field_name f;
          assertion = (\<lambda>t. case t of
            LTensor dtype dims \<Rightarrow> ts_tensor_assertion num lib batch name dtype dims | _ \<Rightarrow> Inr ())
      in case field_ty f of
        LTensor dtype dims \<Rightarrow>
          try_bind (assertion (LTensor dtype dims)) (\<lambda>_.
          try_bind (ts_child lib batch name) (\<lambda>col. Inr (as_js conv (col_cells col ! 0))))
      | LList inner \<Rightarrow>
          try_bind (assertion inner) (\<lambda>_.
          try_bind (ts_child lib batch name) (\<lambda>col. array_from num name (as_js conv (col_cells col ! 0))))
      | LOptional inner \<Rightarrow>
          try_bind (assertion inner) (\<lambda>_.
          try_bind (ts_child lib batch name) (\<lambda>col.
          Inr (if col_cells col ! 0 = Null then JsNull else as_js conv (col_cells col ! 0))))
      | LMap _ _ \<Rightarrow>
          try_bind (ts_child lib batch name) (\<lambda>col. Inr (as_js conv (col_cells col ! 0)))
      | ty \<Rightarrow> ts_scalar_extraction sf rd64 num lib conv batch name ty (field_default f))"

definition laicAssertMetadata :: "metadata \<Rightarrow> text \<Rightarrow> text \<Rightarrow> ts_error + unit" where
  "laicAssertMetadata meta key expected =
     (case meta key of
        None \<Rightarrow> Inl (TsMissingMetadata key)
      | Some actual \<Rightarrow> if actual \<noteq> expected then Inl (TsMetadataMismatch key) else Inr ())"

definition fromIpc ::
    "show_f64 \<Rightarrow> (text \<Rightarrow> u64) \<Rightarrow> (int \<Rightarrow> u64) \<Rightarrow> 'b arrow_lib \<Rightarrow> js_conv \<Rightarrow> struct_def \<Rightarrow> text \<Rightarrow> text
     \<Rightarrow> text \<Rightarrow> bytes \<Rightarrow> ts_error + js_value list" where
  "fromIpc sf rd64 num lib conv d sid version direction data =
     try_bind (map_err TsArrow (try_bind (open_stream lib data) collect)) (\<lambda>batches.
     let rows = sum_list (map (num_rows lib) batches) in
     if rows = 0 then Inl TsNoRows
     else if rows > 1 then Inl (TsManyRows rows)
     else if length batches > 1 then Inl TsManyBatches
     else let batch = batches ! 0; meta = map_of (as_meta (batch_schema lib batch)) in
       try_bind (laicAssertMetadata meta (lit ''laic.skill_id'') sid) (\<lambda>_.
       try_bind (laicAssertMetadata meta (lit ''laic.version'') version) (\<lambda>_.
       try_bind (laicAssertMetadata meta (lit ''laic.direction'') direction) (\<lambda>_.
       collect (map (ts_field_extraction sf rd64 num lib conv batch) (struct_fields d))))))"

section \<open>Values of the generated class\<close>

definition js_fits :: "(int \<Rightarrow> u64) \<Rightarrow> (u32 \<Rightarrow> u64) \<Rightarrow> laic_type \<Rightarrow> js_scalar \<Rightarrow> bool" where
  "js_fits num widen t v =
     (case v of
        JsStr _ \<Rightarrow> t = LString
      | JsBytes _ \<Rightarrow> leaf_arrow t = Binary
      | JsBool _ \<Rightarrow> t = LBool
      | JsBig i \<Rightarrow> t = LI64 \<and> - (2 ^ 63) \<le> i \<and> i < 2 ^ 63
      | JsNum x \<Rightarrow>
          t = LF64 \<and> \<not> nan64 x \<or> t = LF32 \<and> (\<exists>w. \<not> nan32 w \<and> x = widen w)
          \<or> (\<exists>i. x = num i \<and> (t = LI8 \<and> - (2 ^ 7) \<le> i \<and> i < 2 ^ 7
              \<or> t = LI16 \<and> - (2 ^ 15) \<le> i \<and> i < 2 ^ 15 \<or> t = LI32 \<and> - (2 ^ 31) \<le> i \<and> i < 2 ^ 31
              \<or> t = LU8 \<and> 0 \<le> i \<and> i < 2 ^ 8)))"

definition js_typed :: "(int \<Rightarrow> u64) \<Rightarrow> (u32 \<Rightarrow> u64) \<Rightarrow> laic_type \<Rightarrow> js_value \<Rightarrow> bool" where
  "js_typed num widen t v =
     (case t of
        LList (LOptional u) \<Rightarrow>
          (case v of JsArray xs \<Rightarrow> list_all (pred_option (js_fits num widen u)) xs | _ \<Rightarrow> False)
      | LList u \<Rightarrow>
          (case v of JsArray xs \<Rightarrow> list_all (\<lambda>x. \<exists>y. x = Some y \<and> js_fits num widen u y) xs | _ \<Rightarrow> False)
      | LOptional (LList u) \<Rightarrow>
          (case v of JsNull \<Rightarrow> True | JsArray xs \<Rightarrow> list_all (\<lambda>x. \<exists>y. x = Some y \<and> js_fits num widen u y) xs
           | _ \<Rightarrow> False)
      | LOptional u \<Rightarrow> (case v of JsNull \<Rightarrow> True | JsOne x \<Rightarrow> js_fits num widen u x | _ \<Rightarrow> False)
      | LMap a b \<Rightarrow>
          (case v of JsMap es \<Rightarrow> distinct (map fst es)
              \<and> list_all (\<lambda>(x, y). js_fits num widen a x \<and> (\<exists>z. y = Some z \<and> js_fits num widen b z)) es
           | _ \<Rightarrow> False)
      | _ \<Rightarrow> (case v of JsOne x \<Rightarrow> js_fits num widen t x | _ \<Rightarrow> False))"

text \<open>
  What \<open>fromIpc\<close> makes of the cell of a field: a list becomes an array, while an optional list stays a
  \<open>Vector\<close> and a map a \<open>MapRow\<close>, whatever the type in the cast says. \<open>ts_returned\<close> is the same for a value
  that was written.
\<close>

definition ts_view :: "(int \<Rightarrow> u64) \<Rightarrow> (u32 \<Rightarrow> u64) \<Rightarrow> laic_type \<Rightarrow> cell \<Rightarrow> js_value" where
  "ts_view num widen t c =
     (case (t, js_of num widen c) of (LList _, JsVector xs) \<Rightarrow> JsArray xs | (_, v) \<Rightarrow> v)"

definition ts_returned :: "laic_type \<Rightarrow> js_value \<Rightarrow> js_value" where
  "ts_returned t v =
     (case (t, v) of (LOptional (LList _), JsArray xs) \<Rightarrow> JsVector xs | (LMap _ _, JsMap es) \<Rightarrow> JsMapRow es
      | _ \<Rightarrow> v)"

text \<open>
  Neither a field nor the class redeclares or hides a name the generated file uses (a field of the class's own
  name would hide the class before \<open>new\<close>), and dimensions are exact as numbers.
\<close>

definition ts_taken :: "text set" where
  "ts_taken = lit ` {''data'', ''table'', ''batch'', ''schemaMetadata'', ''arrow'', ''Array'', ''Error'', ''toIpc'',
     ''laicSchemaMetadata'', ''laicAssertMetadata'', ''laicAssertFieldType'', ''laicAssertTensorMetadata''}"

definition ts_dims_ok :: "laic_type \<Rightarrow> bool" where
  "ts_dims_ok t = (case tensor_metadata t of None \<Rightarrow> True | Some (_, dims) \<Rightarrow> \<forall>d \<in> set dims. dim_value d \<le> 2 ^ 53)"

definition ts_globals :: "text set" where
  "ts_globals = lit ` {''arrow'', ''Array'', ''Map'', ''Error'', ''Number'', ''Uint8Array'', ''Record'', ''Iterable'', ''bigint'',
     ''laicSchemaMetadata'', ''laicFieldMetadata'', ''laicAssertMetadata'', ''laicAssertFieldType'',
     ''laicParseTensorShape'', ''laicAssertTensorMetadata''}"

definition ts_struct_ok :: "struct_def \<Rightarrow> bool" where
  "ts_struct_ok d \<longleftrightarrow> valid_struct d \<and> struct_name d \<notin> ts_globals
     \<and> struct_name d \<notin> set (map field_name (struct_fields d))
     \<and> list_all (\<lambda>f. field_name f \<notin> ts_taken \<and> ts_dims_ok (field_ty f)) (struct_fields d)
     \<and> (let names = set (map field_name (struct_fields d)) in
         \<forall>n \<in> names. n @ lit ''_column'' \<notin> names \<and> n @ lit ''_field'' \<notin> names)"

definition ts_struct_typed :: "(int \<Rightarrow> u64) \<Rightarrow> (u32 \<Rightarrow> u64) \<Rightarrow> struct_def \<Rightarrow> js_value list \<Rightarrow> bool" where
  "ts_struct_typed num widen d vs \<longleftrightarrow> list_all2 (\<lambda>f v. js_typed num widen (field_ty f) v) (struct_fields d) vs"

lemma js_fits_scalar:
  assumes "js_fits num widen t v"
  shows "\<exists>s. scalar_type s = leaf_arrow t \<and> no_nan s \<and> v = js_scalar_of num widen s"
proof (cases v)
  case (JsNum x)
  then consider "t = LF64" "\<not> nan64 x" | w where "t = LF32" "\<not> nan32 w" "x = widen w"
    | i where "t = LI8" "x = num i" "- (2 ^ 7) \<le> i" "i < 2 ^ 7" | i where "t = LI16" "x = num i" "- (2 ^ 15) \<le> i" "i < 2 ^ 15"
    | i where "t = LI32" "x = num i" "- (2 ^ 31) \<le> i" "i < 2 ^ 31" | i where "t = LU8" "x = num i" "0 \<le> i" "i < 2 ^ 8"
    using assms unfolding js_fits_def JsNum js_scalar.case by blast
  then show ?thesis
  proof cases
    case 1
    then show ?thesis using JsNum by (intro exI [of _ "SF64 x"]) simp
  next
    case (2 w)
    then show ?thesis using JsNum by (intro exI [of _ "SF32 w"]) simp
  next
    case (3 i)
    then show ?thesis using JsNum
      by (intro exI [of _ "SI8 (word_of_int i)"]) (simp add: sint_sbintrunc' signed_take_bit_int_eq_self)
  next
    case (4 i)
    then show ?thesis using JsNum
      by (intro exI [of _ "SI16 (word_of_int i)"]) (simp add: sint_sbintrunc' signed_take_bit_int_eq_self)
  next
    case (5 i)
    then show ?thesis using JsNum
      by (intro exI [of _ "SI32 (word_of_int i)"]) (simp add: sint_sbintrunc' signed_take_bit_int_eq_self)
  next
    case (6 i)
    then show ?thesis using JsNum
      by (intro exI [of _ "SU8 (word_of_int i)"]) (simp add: uint_word_of_int take_bit_int_eq_self)
  qed
next
  case (JsBig i)
  then show ?thesis using assms
    by (intro exI [of _ "SI64 (word_of_int i)"]) (simp add: js_fits_def sint_sbintrunc' signed_take_bit_int_eq_self)
next
  case (JsStr x)
  then show ?thesis using assms by (intro exI [of _ "SText x"]) (simp add: js_fits_def)
next
  case (JsBytes x)
  then show ?thesis using assms by (intro exI [of _ "SBytes x"]) (simp add: js_fits_def)
next
  case (JsBool x)
  then show ?thesis using assms by (intro exI [of _ "SBool x"]) (simp add: js_fits_def)
qed

interpretation js_scalars: scalar_view "js_fits num widen" "js_scalar_of num widen" no_nan for num widen
  by unfold_locales (rule js_fits_scalar)

lemma scalar_cases_ts:
  "is_scalar_type t \<Longrightarrow> js_typed num widen t v = (\<exists>x. v = JsOne x \<and> js_fits num widen t x)
     \<and> ts_data_type t = leaf_arrow t \<and> ts_returned t v = v \<and> ts_view num widen t c = js_of num widen c \<and> \<not> is_optional t"
  by (cases t) (auto simp: is_scalar_type_def is_map_value_def js_typed_def ts_returned_def ts_view_def split: js_value.splits)

lemma static_leaf_ts:
  "static_leaf u \<Longrightarrow> ts_data_type u = leaf_arrow u \<and> \<not> is_optional u
     \<and> js_typed num widen (LList u) v = (\<exists>xs. v = JsArray xs \<and> list_all (\<lambda>x. \<exists>y. x = Some y \<and> js_fits num widen u y) xs)
     \<and> js_typed num widen (LOptional u) v = (v = JsNull \<or> (\<exists>x. v = JsOne x \<and> js_fits num widen u x))
     \<and> ts_returned (LOptional u) v = v"
  by (cases u) (auto simp: static_leaf_def is_scalar_type_def is_map_value_def js_typed_def ts_returned_def split: js_value.splits)

lemma map_key_ts [simp]: "is_map_key k \<Longrightarrow> ts_data_type k = leaf_arrow k"
  by (cases k) (simp_all add: is_map_key_def)

lemma js_typed_cell:
  assumes "supported t" and "js_typed num widen t v"
  shows "\<exists>c. is_value t c \<and> plain_cell no_nan c \<and> js_in (js_of num widen c) = v \<and> ts_view num widen t c = ts_returned t v
    \<and> cell_fits (ts_data_type t) c \<and> (c = Null \<longrightarrow> is_optional t)"
  using assms(1)
proof (cases rule: supported_cases)
  case scalar
  then obtain x where "v = JsOne x" "js_fits num widen t x" using assms(2) scalar_cases_ts by blast
  then obtain s where "scalar_type s = leaf_arrow t" "no_nan s" "v = JsOne (js_scalar_of num widen s)"
    using js_fits_scalar by blast
  then show ?thesis
    using scalar scalar_cases_ts [OF scalar] by (intro exI [of _ "One s"]) (simp add: is_value_simps)
next
  case (tensor dtype dims)
  then obtain x where "v = JsOne x" "js_fits num widen t x"
    using assms(2) by (auto simp: js_typed_def split: js_value.splits)
  then obtain s where "scalar_type s = leaf_arrow t" "no_nan s" "v = JsOne (js_scalar_of num widen s)"
    using js_fits_scalar by blast
  then show ?thesis
    using tensor by (intro exI [of _ "One s"]) (simp add: ts_returned_def ts_view_def)
next
  case (items u)
  then obtain xs where "v = JsArray xs" "list_all (\<lambda>x. \<exists>y. x = Some y \<and> js_fits num widen u y) xs"
    using assms(2) static_leaf_ts [OF items(2)] by auto
  moreover from js_scalars.fits_all [OF this(2)] obtain ss where "xs = map (\<lambda>s. Some (js_scalar_of num widen s)) ss"
    "list_all (\<lambda>s. scalar_type s = leaf_arrow u \<and> no_nan s) ss" by blast
  ultimately show ?thesis
    using items static_leaf_ts [OF items(2)]
    by (intro exI [of _ "Items (map Some ss)"])
      (auto simp: is_value_simps ts_returned_def ts_view_def list_all_iff comp_def)
next
  case (nullable_items u)
  then obtain xs where "v = JsArray xs" "list_all (pred_option (js_fits num widen u)) xs"
    using assms(2) by (auto simp: js_typed_def split: js_value.splits)
  moreover from js_scalars.fits_opts [OF this(2)] obtain ss where "xs = map (map_option (js_scalar_of num widen)) ss"
    "list_all (item_fits (leaf_arrow u) True) ss" "list_all (pred_option no_nan) ss" by blast
  ultimately show ?thesis
    using nullable_items static_leaf_ts [OF nullable_items(2)]
    by (intro exI [of _ "Items ss"]) (simp add: ts_returned_def ts_view_def)
next
  case (nullable u)
  note facts = static_leaf_ts [OF nullable(2)]
  from nullable assms(2) facts consider "v = JsNull" | x where "v = JsOne x" "js_fits num widen u x" by blast
  then show ?thesis
  proof cases
    case 1
    then show ?thesis using nullable facts
      by (intro exI [of _ Null]) (simp add: is_value_simps ts_view_def)
  next
    case 2
    then obtain s where "scalar_type s = leaf_arrow u" "no_nan s" "v = JsOne (js_scalar_of num widen s)"
      using js_fits_scalar by blast
    then show ?thesis
      using nullable facts
      by (intro exI [of _ "One s"]) (simp add: is_value_simps ts_view_def)
  qed
next
  case (nullable_list u)
  then consider "v = JsNull" | xs where "v = JsArray xs" "list_all (\<lambda>x. \<exists>y. x = Some y \<and> js_fits num widen u y) xs"
    using assms(2) by (auto simp: js_typed_def split: js_value.splits)
  then show ?thesis
  proof cases
    case 1
    then show ?thesis using nullable_list
      by (intro exI [of _ Null]) (simp add: ts_returned_def ts_view_def)
  next
    case 2
    from js_scalars.fits_all [OF 2(2)] obtain ss where "xs = map (\<lambda>s. Some (js_scalar_of num widen s)) ss"
      "list_all (\<lambda>s. scalar_type s = leaf_arrow u \<and> no_nan s) ss" by blast
    then show ?thesis
      using nullable_list 2(1) static_leaf_ts [OF nullable_list(2)]
      by (intro exI [of _ "Items (map Some ss)"])
        (auto simp: ts_returned_def ts_view_def list_all_iff comp_def)
  qed
next
  case (entries k v')
  then obtain es where es: "v = JsMap es" "distinct (map fst es)"
    "list_all (\<lambda>(x, y). js_fits num widen k x \<and> (\<exists>z. y = Some z \<and> js_fits num widen v' z)) es"
    using assms(2) by (auto simp: js_typed_def split: js_value.splits)
  from js_scalars.fits_pairs [OF es(3)] obtain ss where
    ss: "es = map (\<lambda>(k, v). (js_scalar_of num widen k, Some (js_scalar_of num widen v))) ss"
    "list_all (\<lambda>(x, y). scalar_type x = leaf_arrow k \<and> scalar_type y = leaf_arrow v' \<and> no_nan x \<and> no_nan y) ss" by blast
  have "map fst es = map (js_scalar_of num widen) (map fst ss)" using ss(1) by (simp add: comp_def case_prod_beta)
  then have "distinct (map fst ss)" using es(2) by (metis distinct_map)
  moreover have "js_of num widen (Entries (map (\<lambda>(a, b). (a, Some b)) ss)) = JsMapRow es"
    using ss(1) by (simp add: comp_def case_prod_beta)
  moreover have "cell_fits (ts_data_type t) (Entries (map (\<lambda>(a, b). (a, Some b)) ss))"
    "plain_cell no_nan (Entries (map (\<lambda>(a, b). (a, Some b)) ss))"
    using entries ss(2) scalar_cases_ts [OF entries(3), THEN conjunct2, THEN conjunct1] by (auto simp: list_all_iff)
  ultimately show ?thesis
    using entries es(1) ss(2)
    by (intro exI [of _ "Entries (map (\<lambda>(a, b). (a, Some b)) ss)"])
      (auto simp: ts_returned_def ts_view_def list_all_iff)
qed

text \<open>The cells Arrow JS makes of the values of an object.\<close>

definition ts_cells :: "js_conv \<Rightarrow> struct_def \<Rightarrow> js_value list \<Rightarrow> cell list" where
  "ts_cells conv d vs =
     map2 (\<lambda>f v. case from_js conv (ts_data_type (field_ty f)) v of Inr c \<Rightarrow> c | Inl _ \<Rightarrow> Null) (struct_fields d) vs"

lemma ts_values:
  assumes "ts_struct_ok d" and "ts_struct_typed num widen d vs" and "js_converts num widen conv"
  shows "length vs = length (struct_fields d) \<and> length (ts_cells conv d vs) = length (struct_fields d)
    \<and> (\<forall>i < length (struct_fields d).
         let t = field_ty (struct_fields d ! i); x = ts_cells conv d vs ! i in
         from_js conv (ts_data_type t) (vs ! i) = Inr x
         \<and> is_value t x \<and> ts_view num widen t x = ts_returned t (vs ! i)
         \<and> cell_fits (ts_data_type t) x \<and> (x = Null \<longrightarrow> is_optional t))"
proof -
  have len: "length vs = length (struct_fields d)"
    using assms(2) by (simp add: ts_struct_typed_def list_all2_lengthD)
  show ?thesis
  proof (intro conjI allI impI)
    fix i assume i: "i < length (struct_fields d)"
    let ?f = "struct_fields d ! i"
    have "?f \<in> set (struct_fields d)" using i by simp
    then have "supported (field_ty ?f)"
      using assms(1) by (auto simp: ts_struct_ok_def valid_struct_def valid_field_def list_all_iff)
    moreover have "js_typed num widen (field_ty ?f) (vs ! i)"
      using assms(2) i by (simp add: ts_struct_typed_def list_all2_conv_all_nth)
    ultimately obtain x where x: "is_value (field_ty ?f) x" "plain_cell no_nan x"
      "js_in (js_of num widen x) = vs ! i" "ts_view num widen (field_ty ?f) x = ts_returned (field_ty ?f) (vs ! i)"
      "cell_fits (ts_data_type (field_ty ?f)) x" "x = Null \<longrightarrow> is_optional (field_ty ?f)"
      using js_typed_cell by blast
    then have "from_js conv (ts_data_type (field_ty ?f)) (js_in (js_of num widen x)) = Inr x"
      using assms(3) unfolding js_converts_def by blast
    then have "from_js conv (ts_data_type (field_ty ?f)) (vs ! i) = Inr x" using x(3) by simp
    moreover from this have "ts_cells conv d vs ! i = x" using i len by (simp add: ts_cells_def)
    ultimately show "let t = field_ty (struct_fields d ! i); x = ts_cells conv d vs ! i in
         from_js conv (ts_data_type t) (vs ! i) = Inr x
         \<and> is_value t x \<and> ts_view num widen t x = ts_returned t (vs ! i)
         \<and> cell_fits (ts_data_type t) x \<and> (x = Null \<longrightarrow> is_optional t)"
      using x by (simp add: Let_def)
  qed (simp_all add: ts_cells_def len)
qed

lemma ts_tensor_valid:
  assumes "js_exact num" and "tensor_meta_ok t (af_meta fld)" and "tensor_metadata t = Some (dtype, dims)"
    and "tensor_dims_ok dims" and "ts_dims_ok t" and "field_with_name (batch_schema lib b) name = Some fld"
  shows "ts_tensor_assertion num lib b name dtype dims = Inr ()"
proof -
  have "map_of (af_meta fld) = emitted_metadata dtype (format_tensor_shape_metadata dims)"
    using assms(2,3) by (simp add: tensor_meta_ok_def)
  moreover have "js_exact num \<and> safe_dims dims" using assms(1,3-5) by (simp add: safe_dims_def ts_dims_ok_def)
  ultimately show ?thesis
    using assms(6) ts_binding.verdict [of num dims dims dtype dtype] first_mismatch_self [of 0 dims]
    by (simp add: ts_tensor_assertion_def tensor_verdict_def)
qed

lemma ts_leaf_valid:
  assumes "static_leaf u" and "tensor_metadata t = tensor_metadata u" and "js_exact num"
    and "tensor_meta_ok t (af_meta fld)" and "ts_dims_ok t" and "field_with_name (batch_schema lib b) name = Some fld"
  shows "(case u of LTensor dtype dims \<Rightarrow> ts_tensor_assertion num lib b name dtype dims | _ \<Rightarrow> Inr ()) = Inr ()"
  using assms(1)
proof (cases rule: static_leaf_cases)
  case scalar
  then show ?thesis by (cases u) (simp_all add: is_scalar_type_def is_map_value_def)
next
  case (tensor dtype dims)
  then have "tensor_metadata t = Some (dtype, dims)" using assms(2) by (simp add: tensor_metadata_def)
  from ts_tensor_valid [OF assms(3,4) this tensor(2) assms(5,6)] show ?thesis using tensor by simp
qed

lemma ts_field_reads:
  assumes "supported (field_ty f)" and "ts_dims_ok (field_ty f)" and "js_exact num" and "js_converts num widen conv"
    and "field_ok lib b f x" and val: "is_value (field_ty f) x"
  shows "ts_field_extraction sf rd64 num lib conv b f = Inr (ts_view num widen (field_ty f) x)"
proof -
  have as_js [simp]: "as_js conv c = js_of num widen c" for c using assms(4) by (simp add: js_converts_def)
  from assms(5) obtain fld c where fld: "field_with_name (batch_schema lib b) (field_name f) = Some fld"
    and c: "batch_column lib b (field_name f) = Some c" "col_type c = af_type fld" "col_cells c = [x]"
    and kind: "kind (af_type fld) = field_kind (field_ty f)" and meta: "tensor_meta_ok (field_ty f) (af_meta fld)"
    by (auto simp: field_ok_def)
  have child: "ts_child lib b (field_name f) = Inr c" using c by (simp add: ts_child_def)
  from assms(1) show ?thesis
  proof (cases rule: supported_cases)
    case scalar
    then have "af_type fld = leaf_arrow (field_ty f)" using kind kind_leaf by simp
    then have "ts_scalar_extraction sf rd64 num lib conv b (field_name f) (field_ty f) (field_default f)
        = Inr (js_of num widen x)"
      using fld c scalar_cases_ts [OF scalar, THEN conjunct2, THEN conjunct1]
      by (simp add: ts_scalar_extraction_def laicAssertFieldType_def)
    then show ?thesis
      using scalar scalar_cases_ts [OF scalar]
      by (cases "field_ty f") (simp_all add: ts_field_extraction_def is_scalar_type_def is_map_value_def)
  next
    case (tensor dtype dims)
    then have "ts_tensor_assertion num lib b (field_name f) dtype dims = Inr ()"
      using ts_tensor_valid [OF assms(3) meta _ _ assms(2) fld] by (simp add: tensor_metadata_def)
    then show ?thesis
      using tensor child c by (simp add: ts_field_extraction_def ts_view_def)
  next
    case (items u)
    obtain xs where "x = Items (map Some xs)" using val items by (auto simp: is_value_simps)
    moreover have "tensor_metadata (field_ty f) = tensor_metadata u"
      using items by (cases u) (simp_all add: tensor_metadata_def static_leaf_def is_scalar_type_def is_map_value_def)
    note ts_leaf_valid [OF items(2) this assms(3) meta assms(2) fld]
    ultimately show ?thesis
      using items child c by (simp add: ts_field_extraction_def ts_view_def)
  next
    case (nullable_items u)
    then obtain xs where "x = Items xs" using val by auto
    then show ?thesis using nullable_items child c by (simp add: ts_field_extraction_def ts_view_def)
  next
    case (nullable u)
    have "tensor_metadata (field_ty f) = tensor_metadata u"
      using nullable by (cases u) (simp_all add: tensor_metadata_def static_leaf_def is_scalar_type_def is_map_value_def)
    note ts_leaf_valid [OF nullable(2) this assms(3) meta assms(2) fld]
    then show ?thesis
      using nullable child c by (simp add: ts_field_extraction_def ts_view_def)
  next
    case (nullable_list u)
    then show ?thesis using child c by (simp add: ts_field_extraction_def ts_view_def)
  next
    case (entries k v)
    then show ?thesis using child c by (simp add: ts_field_extraction_def ts_view_def)
  qed
qed

section \<open>The binding of a class\<close>

lemma ts_schema_metadata: "map_of (ts_schema_meta sid version direction) = contract_meta sid version direction"
  by (rule ext) (simp add: ts_schema_meta_def contract_meta_def lit_inject)

lemma ts_field_metadata: "tensor_meta_ok (field_ty f) (af_meta (ts_schema_field f))"
  by (auto simp: tensor_meta_ok_def ts_schema_field_def emitted_metadata_def dtype_key_def shape_key_def
      shape_strings lit_inject split: option.splits)

lemma ts_kind: "kind (ts_data_type t) = field_kind t"
  by (induction t) simp_all

lemma ts_writer:
  assumes lib: "builds lib" "writes lib" and conv: "js_converts num widen conv"
  shows "binding_writer lib (\<lambda>d sid version direction vs. to_option (toIpc lib conv d sid version direction vs))
    (\<lambda>d vs. ts_struct_ok d \<and> ts_struct_typed num widen d vs) (ts_cells conv)"
proof (unfold_locales; elim conjE)
  fix d vs and sid version direction :: "text"
  assume ok: "ts_struct_ok d" and typed: "ts_struct_typed num widen d vs"
  note vals = ts_values [OF ok typed conv, unfolded Let_def]
  show "values_of d (ts_cells conv d vs)"
    using vals by (simp add: values_of_def list_all2_conv_all_nth)
  let ?fs = "struct_fields d" and ?xs = "ts_cells conv d vs"
  let ?s = "\<lparr>as_fields = map ts_schema_field ?fs, as_meta = ts_schema_meta sid version direction\<rparr>"
  let ?cols = "map2 (\<lambda>f x. \<lparr>col_type = af_type (ts_schema_field f), col_cells = [x]\<rparr>) ?fs ?xs"
  have "list_all2 (\<lambda>f x. kind (af_type (ts_schema_field f)) = field_kind (field_ty f)
      \<and> af_name (ts_schema_field f) = field_name f \<and> tensor_meta_ok (field_ty f) (af_meta (ts_schema_field f))
      \<and> cell_fits (af_type (ts_schema_field f)) x \<and> (x = Null \<longrightarrow> af_nullable (ts_schema_field f))) ?fs ?xs"
    using vals ts_field_metadata
    by (simp add: list_all2_conv_all_nth ts_schema_field_def ts_kind)
  moreover have "?fs \<noteq> []" "distinct (map field_name ?fs)"
    using ok by (simp_all add: ts_struct_ok_def valid_struct_def)
  ultimately obtain b where b: "make_batch lib ?s ?cols = Inr b" "contract lib d sid version direction b ?xs"
    using written_contract [OF lib(1) _ ts_schema_metadata _ refl] by blast
  have "list_all2 (\<lambda>p y. (case p of (fld, v) \<Rightarrow>
        map_sum id (\<lambda>x. \<lparr>col_type = af_type fld, col_cells = [x]\<rparr>) (from_js conv (af_type fld) v)) = Inr y)
      (zip (map ts_schema_field ?fs) vs) ?cols"
    using vals by (simp add: list_all2_conv_all_nth ts_schema_field_def)
  note columns = collect_all2 [OF this]
  moreover obtain bytes where "write_stream lib b = Inr bytes" using lib(2) by (auto simp: writes_def)
  ultimately show "\<exists>b bytes. to_option (toIpc lib conv d sid version direction vs) = Some bytes
      \<and> write_stream lib b = Inr bytes \<and> contract lib d sid version direction b ?xs"
    using b by (auto simp: toIpc_def to_option_def)
qed

lemma ts_reader:
  assumes "js_exact num" and "js_converts num widen conv"
  shows "binding_reader lib (fromIpc sf rd64 num lib conv) ts_struct_ok (ts_view num widen)"
proof
  fix d bytes b xs and sid version direction :: "text"
  assume ok: "ts_struct_ok d" and stream: "open_stream lib bytes = Inr [Inr b]"
    and con: "contract lib d sid version direction b xs" and vals: "values_of d xs"
  have "list_all2 (\<lambda>f y. ts_field_extraction sf rd64 num lib conv b f = Inr y) (struct_fields d)
      (map2 (\<lambda>f. ts_view num widen (field_ty f)) (struct_fields d) xs)"
    unfolding list_all2_conv_all_nth
  proof (intro conjI allI impI)
    fix i assume i: "i < length (struct_fields d)"
    then have "struct_fields d ! i \<in> set (struct_fields d)" by simp
    then have "supported (field_ty (struct_fields d ! i))" "ts_dims_ok (field_ty (struct_fields d ! i))"
      using ok by (auto simp: ts_struct_ok_def valid_struct_def valid_field_def list_all_iff)
    moreover have "field_ok lib b (struct_fields d ! i) (xs ! i)" "is_value (field_ty (struct_fields d ! i)) (xs ! i)"
      "length xs = length (struct_fields d)"
      using con vals i by (auto simp: contract_def values_of_def list_all2_conv_all_nth)
    ultimately show "ts_field_extraction sf rd64 num lib conv b (struct_fields d ! i) =
        Inr (map2 (\<lambda>f. ts_view num widen (field_ty f)) (struct_fields d) xs ! i)"
      using i assms by (simp add: ts_field_reads)
  qed (use vals in \<open>simp add: values_of_def list_all2_lengthD\<close>)
  from collect_all2 [OF this]
  show "fromIpc sf rd64 num lib conv d sid version direction bytes =
      Inr (map2 (\<lambda>f. ts_view num widen (field_ty f)) (struct_fields d) xs)"
    using stream con by (simp add: fromIpc_def contract_def laicAssertMetadata_def)
qed

lemma ts_metadata_ok: "laicAssertMetadata meta key expected = Inr () \<longleftrightarrow> meta key = Some expected"
  by (auto simp: laicAssertMetadata_def split: option.splits)

lemma ts_tensor_checked:
  assumes "ts_field_extraction sf rd64 num lib conv b f = Inr v" and "tensor_metadata (field_ty f) = Some (dtype, dims)"
  shows "ts_tensor_assertion num lib b (field_name f) dtype dims = Inr ()"
  using assms(2)
  by (cases rule: tensor_metadata_cases)
    (use assms in \<open>auto simp: ts_field_extraction_def tensor_metadata_def try_bind_Inr_iff Let_def\<close>)

lemma ts_scalar_checked:
  "ts_field_extraction sf rd64 num lib conv b f = Inr v \<Longrightarrow> is_scalar_type (field_ty f) \<Longrightarrow> scalar_checked lib b f"
proof -
  assume ok: "ts_field_extraction sf rd64 num lib conv b f = Inr v" and scalar: "is_scalar_type (field_ty f)"
  have "ts_field_extraction sf rd64 num lib conv b f =
      ts_scalar_extraction sf rd64 num lib conv b (field_name f) (field_ty f) (field_default f)"
    using scalar by (cases "field_ty f") (simp_all add: ts_field_extraction_def is_scalar_type_def is_map_value_def)
  moreover have "ts_data_type (field_ty f) = leaf_arrow (field_ty f)" using scalar scalar_cases_ts by blast
  ultimately show ?thesis
    using ok by (auto simp: ts_scalar_extraction_def laicAssertFieldType_def scalar_checked_def
        try_bind_Inr_iff split: option.splits if_splits)
qed

lemma one_batch:
  assumes "\<not> length bs > 1" and "sum_list (map n bs) \<noteq> 0" and "\<not> sum_list (map n bs) > 1"
  shows "\<exists>b. bs = [b] \<and> n b = (1 :: nat)"
  using assms by (cases bs) auto

lemma collect_single: "collect rs = Inr [b] \<Longrightarrow> rs = [Inr b]"
  using collect_Inr [of id rs "[b]"] by (auto simp: list_all2_Cons2)

lemma ts_guarded:
  assumes "fromIpc sf rd64 num lib conv d sid version direction bytes = Inr vs"
  shows "guarded (ts_check_tensor num) lib d sid version direction bytes vs"
proof -
  obtain rs bs where rs: "open_stream lib bytes = Inr rs" "collect rs = Inr bs"
    and rows: "\<not> length bs > 1" "sum_list (map (num_rows lib) bs) \<noteq> 0" "\<not> sum_list (map (num_rows lib) bs) > 1"
    and meta: "\<And>k v. (k, v) \<in> {(lit ''laic.skill_id'', sid), (lit ''laic.version'', version), (lit ''laic.direction'', direction)}
      \<Longrightarrow> map_of (as_meta (batch_schema lib (bs ! 0))) k = Some v"
    and fields: "collect (map (ts_field_extraction sf rd64 num lib conv (bs ! 0)) (struct_fields d)) = Inr vs"
    using assms by (auto simp: fromIpc_def try_bind_Inr_iff ts_metadata_ok Let_def split: if_splits)
  obtain b where bs: "bs = [b]" "num_rows lib b = 1" using one_batch [OF rows] by blast
  then have b: "open_stream lib bytes = Inr [Inr b]" using rs collect_single by simp
  have each: "collect (map (ts_field_extraction sf rd64 num lib conv b) (struct_fields d)) = Inr vs"
    using fields bs(1) by simp
  show ?thesis
  proof (rule guardedI [OF b bs(2) _ each])
    fix f v dtype dims
    assume "ts_field_extraction sf rd64 num lib conv b f = Inr v" "tensor_metadata (field_ty f) = Some (dtype, dims)"
    from ts_tensor_checked [OF this]
    show "\<exists>fld. field_with_name (batch_schema lib b) (field_name f) = Some fld
        \<and> ts_check_tensor num dtype dims (map_of (af_meta fld)) = Inr ()"
      by (auto simp: ts_tensor_assertion_def map_err_Inr_iff split: option.splits)
  qed (use meta bs(1) ts_scalar_checked in auto)
qed

text \<open>Conversions in memory: an instance of \<open>js_conv\<close> whose laws hold.\<close>

fun mem_js_scalar :: "arrow_type \<Rightarrow> js_scalar \<Rightarrow> scalar" where
  "mem_js_scalar t (JsStr s) = SText s"
| "mem_js_scalar t (JsBytes b) = SBytes b"
| "mem_js_scalar t (JsBool b) = SBool b"
| "mem_js_scalar t (JsBig i) = SI64 (word_of_int i)"
| "mem_js_scalar t (JsNum x) =
     (case t of Int8 \<Rightarrow> SI8 (ucast x) | Int16 \<Rightarrow> SI16 (ucast x) | Int32 \<Rightarrow> SI32 (ucast x) | UInt8 \<Rightarrow> SU8 (ucast x)
      | Float32 \<Rightarrow> SF32 (ucast x) | _ \<Rightarrow> SF64 x)"

fun mem_from_js :: "arrow_type \<Rightarrow> js_value \<Rightarrow> string + cell" where
  "mem_from_js t (JsOne x) = Inr (One (mem_js_scalar t x))"
| "mem_from_js (ListType t _) (JsArray xs) = Inr (Items (map (map_option (mem_js_scalar t)) xs))"
| "mem_from_js (MapType _ k _ v _) (JsMap es) =
     Inr (Entries (map (map_prod (mem_js_scalar k) (map_option (mem_js_scalar v))) es))"
| "mem_from_js t JsNull = Inr Null"
| "mem_from_js t v = Inl ''type''"

definition mem_js :: js_conv where
  "mem_js = \<lparr>as_js = js_of word_of_int ucast, from_js = mem_from_js\<rparr>"

lemma ucast_back:
  "ucast (scast w :: u64) = w" if "LENGTH('a) \<le> 64" for w :: "'a::len word"
  using that by transfer (simp add: take_bit_signed_take_bit)

lemma ucast_back_uint:
  "ucast (word_of_int (uint w) :: u64) = w" if "LENGTH('a) \<le> 64" for w :: "'a::len word"
  using that by transfer simp

lemma mem_js_back: "no_nan s \<Longrightarrow> mem_js_scalar (scalar_type s) (js_scalar_of word_of_int ucast s) = s"
  by (cases s) (simp_all add: ucast_back ucast_back_uint ucast_up_ucast_id is_up)

lemma mem_js_item_back:
  "item_fits t n x \<Longrightarrow> pred_option no_nan x \<Longrightarrow>
     map_option (mem_js_scalar t \<circ> js_scalar_of word_of_int ucast) x = x"
  using mem_js_back by (cases x) auto

lemma mem_js_converts: "js_converts word_of_int ucast mem_js"
proof -
  have "mem_from_js t (js_in (js_of word_of_int ucast c)) = Inr c" if "cell_fits t c" "plain_cell no_nan c" for t c
    using that
  proof (induction t c rule: cell_fits.induct)
    case (2 t s)
    then show ?case using mem_js_back [of s] by auto
  next
    case (3 t n xs)
    then have "map (map_option (mem_js_scalar t)) (map (map_option (js_scalar_of word_of_int ucast)) xs) = xs"
      using mem_js_item_back by (auto simp: list_all_iff option.map_comp intro!: map_idI)
    then show ?case by simp
  next
    case (4 kn k vn v n es)
    then have "scalar_type a = k \<and> no_nan a \<and> item_fits v n b \<and> pred_option no_nan b" if "(a, b) \<in> set es" for a b
      using that by (auto simp: list_all_iff)
    then have "mem_js_scalar k (js_scalar_of word_of_int ucast a) = a
        \<and> map_option (mem_js_scalar v \<circ> js_scalar_of word_of_int ucast) b = b" if "(a, b) \<in> set es" for a b
      using mem_js_item_back mem_js_back that by blast
    then have "map (map_prod (mem_js_scalar k) (map_option (mem_js_scalar v)))
        (map (map_prod (js_scalar_of word_of_int ucast) (map_option (js_scalar_of word_of_int ucast))) es) = es"
      by (auto simp: option.map_comp intro!: map_idI)
    then show ?case by simp
  qed simp_all
  then show ?thesis by (simp add: js_converts_def mem_js_def)
qed

lemma mem_js_exact: "js_exact (word_of_int :: int \<Rightarrow> u64)"
  unfolding js_exact_def inj_on_def by (auto simp: word_of_int_eq_iff take_bit_int_eq_self)

interpretation ts_mem: binding_pair mem_arrow mem_arrow
  "\<lambda>d sid version direction vs. to_option (toIpc mem_arrow mem_js d sid version direction vs)"
  "\<lambda>d vs. ts_struct_ok d \<and> ts_struct_typed word_of_int ucast d vs" "ts_cells mem_js"
  "fromIpc sf rd64 word_of_int mem_arrow mem_js" ts_struct_ok "ts_view word_of_int ucast" for sf rd64
  by (intro binding_pair.intro binding_pair_axioms.intro ts_writer ts_reader mem_builds mem_writes
      mem_carries mem_js_converts mem_js_exact)

section \<open>Properties\<close>

text \<open>
  C26. The generated TypeScript round trip: on every validated struct whose name and field names do not
  collide with each other or with names the generated code uses, and whose dimensions are at most \<open>2 ^ 53\<close>, \<open>toIpc\<close> succeeds on every value of the declared types, and \<open>fromIpc\<close> of its
  bytes succeeds with that value, except that an optional list comes back as an Arrow \<open>Vector\<close> and a map
  as a \<open>MapRow\<close> with the same contents, not as the \<open>Array\<close> and the \<open>Map\<close> of the declared type.
\<close>

theorem ts_binding_roundtrip:
  assumes "builds lib" and "writes lib" and "carries lib lib" and "js_exact num" and "js_converts num widen conv"
    and "ts_struct_ok d" and "ts_struct_typed num widen d vs"
  shows "\<exists>bytes. toIpc lib conv d sid version direction vs = Inr bytes
    \<and> fromIpc sf rd64 num lib conv d sid version direction bytes
      = Inr (map2 (\<lambda>f. ts_returned (field_ty f)) (struct_fields d) vs)"
proof -
  note pair = binding_pair.intro [OF ts_writer [OF assms(1,2,5)] ts_reader [OF assms(4,5), of lib sf rd64]
      binding_pair_axioms.intro [OF assms(3)]]
  have "map2 (\<lambda>f. ts_view num widen (field_ty f)) (struct_fields d) (ts_cells conv d vs)
      = map2 (\<lambda>f. ts_returned (field_ty f)) (struct_fields d) vs"
    using ts_values [OF assms(6,7,5)] by (simp add: list_eq_iff_nth_eq Let_def)
  then show ?thesis
    using binding_pair.exchange [OF pair conjI [OF assms(6,7)] assms(6), of sid version direction]
    by (auto simp: to_option_def split: sum.splits)
qed

definition document_js :: "js_value list" where
  "document_js =
     [JsOne (JsStr (lit ''a'')), JsArray [Some (JsNum (word_of_int 1)), Some (JsNum (word_of_int (- 2)))], JsNull,
      JsMap [(JsStr (lit ''draft''), Some (JsBool True))], JsOne (JsBytes [0, 0, 128, 63])]"

lemma document_ts_ok: "ts_struct_ok document_struct"
proof -
  have "n @ lit ''_column'' \<notin> set (map field_name (struct_fields document_struct))
      \<and> n @ lit ''_field'' \<notin> set (map field_name (struct_fields document_struct))" for n
  proof -
    have "last (n @ lit ''_column'') = 110" "last (n @ lit ''_field'') = 100" by (simp_all add: lit_def)
    moreover have "last m \<noteq> 110 \<or> rev m ! 1 \<noteq> 109" "last m \<noteq> 100"
      if "m \<in> set (map field_name (struct_fields document_struct))" for m
      using that by (auto simp: document_struct_def lit_def)
    moreover have "rev (n @ lit ''_column'') ! 1 = 109" by (simp add: lit_def)
    ultimately show ?thesis by metis
  qed
  then show ?thesis
    using document_valid unfolding ts_struct_ok_def
    by (simp add: document_struct_def ts_taken_def ts_globals_def ts_dims_ok_def tensor_metadata_def lit_inject)
qed

lemma document_ts_typed: "ts_struct_typed word_of_int widen document_struct document_js"
proof -
  have "js_fits word_of_int widen LI32 (JsNum (word_of_int i))" if "- (2 ^ 31) \<le> i" "i < 2 ^ 31" for i
    using that by (auto simp: js_fits_def)
  from this [of 1] this [of "- 2"] show ?thesis
    by (simp add: ts_struct_typed_def document_struct_def document_js_def js_typed_def) (simp add: js_fits_def)
qed

theorem ts_binding_roundtrip_witness:
  "\<exists>bytes. toIpc mem_arrow mem_js document_struct (lit ''docs'') (lit ''1.0'') (lit ''output'') document_js = Inr bytes
    \<and> fromIpc (\<lambda>_. []) (\<lambda>_. 0) word_of_int mem_arrow mem_js document_struct (lit ''docs'') (lit ''1.0'') (lit ''output'') bytes
      = Inr (map2 (\<lambda>f. ts_returned (field_ty f)) (struct_fields document_struct) document_js)"
  by (rule ts_binding_roundtrip [OF mem_builds mem_writes mem_carries mem_js_exact mem_js_converts document_ts_ok
      document_ts_typed])

end
