(* ===== verification/Laicc_Interop.thy ===== *)
theory Laicc_Interop
  imports Laicc_Rust_Binding Laicc_Python_Binding Laicc_Typescript_Binding
begin

text \<open>
  The generated bindings of the three languages together: what one writes, the others read; what any of
  them accepts; and what happens when writer and reader were generated from different contracts. The
  three Arrow libraries are separate arguments that read each other's streams (\<open>carries\<close>).
\<close>

definition views :: "(laic_type \<Rightarrow> cell \<Rightarrow> 'v) \<Rightarrow> struct_def \<Rightarrow> cell list \<Rightarrow> 'v list" where
  "views view d xs = map2 (\<lambda>f. view (field_ty f)) (struct_fields d) xs"

text \<open>
  The pairs of bindings of different languages. Each is an instance of \<open>binding_pair\<close>, here on the library
  in memory; \<open>exchange\<close> is used on any libraries through the constructors.
\<close>

interpretation rust_python: binding_pair mem_arrow mem_arrow
  "\<lambda>d sid version direction vs. to_option (to_arrow_ipc mem_arrow some_order d sid version direction vs)"
  "\<lambda>d vs. rust_struct_ok sf rd32 rd64 d \<and> rust_struct_typed d vs" "\<lambda>d. map (rust_cell some_order)"
  "from_ipc sf rd64 mem_arrow mem_conv" python_struct_ok "py_view ucast" for sf rd32 rd64
  by (intro binding_pair.intro binding_pair_axioms.intro rust_writer python_reader mem_builds mem_writes
      mem_carries some_order mem_converts)

interpretation python_ts: binding_pair mem_arrow mem_arrow
  "\<lambda>d sid version direction vs. to_option (to_ipc mem_arrow mem_conv d sid version direction vs)"
  "\<lambda>d vs. python_struct_ok d \<and> python_struct_typed ucast d vs" "python_cells mem_conv"
  "fromIpc sf rd64 word_of_int mem_arrow mem_js" ts_struct_ok "ts_view word_of_int ucast" for sf rd64
  by (intro binding_pair.intro binding_pair_axioms.intro python_writer ts_reader mem_builds mem_writes
      mem_carries mem_converts mem_js_converts mem_js_exact)

section \<open>Exchange\<close>

text \<open>The two readers of other languages get their views of the cells a writer wrote.\<close>

lemma two_readers:
  assumes w: "binding_writer w enc typed cells"
    and r: "binding_reader r dec admits view" "binding_reader s dec' admits' view'"
    and "carries w r" "carries w s" and "typed d vs" "admits d" "admits' d"
  shows "\<exists>bytes. enc d sid version direction vs = Some bytes \<and> values_of d (cells d vs)
    \<and> dec d sid version direction bytes = Inr (views view d (cells d vs))
    \<and> dec' d sid version direction bytes = Inr (views view' d (cells d vs))"
proof -
  note p = binding_pair.exchange [OF binding_pair.intro [OF w r(1) binding_pair_axioms.intro [OF assms(4)]] assms(6,7), of sid version direction]
    and q = binding_pair.exchange [OF binding_pair.intro [OF w r(2) binding_pair_axioms.intro [OF assms(5)]] assms(6,8), of sid version direction]
  show ?thesis using p q binding_writer.cells_values [OF w assms(6)] by (auto simp: views_def)
qed

lemma views_rust:
  assumes "rust_struct_ok sf rd32 rd64 d" and "rust_struct_typed d vs" and "iterates iter"
  shows "views rust_view d (map (rust_cell iter) vs) = vs"
  using rust_values [OF assms]
  by (simp add: views_def list_eq_iff_nth_eq list_all2_conv_all_nth)

lemma views_python:
  assumes "python_struct_ok d" and "python_struct_typed widen d vs" and "converts widen conv"
  shows "views (py_view widen) d (python_cells conv d vs) = vs"
  using python_values [OF assms] by (simp add: views_def list_eq_iff_nth_eq Let_def)

lemma views_ts:
  assumes "ts_struct_ok d" and "ts_struct_typed num widen d vs" and "js_converts num widen conv"
  shows "views (ts_view num widen) d (ts_cells conv d vs) = map2 (\<lambda>f. ts_returned (field_ty f)) (struct_fields d) vs"
  using ts_values [OF assms] by (simp add: views_def list_eq_iff_nth_eq Let_def)

text \<open>
  C3. The generated bindings interoperate: for a contract all three languages support, what Rust, Python
  or TypeScript serializes is some row of Arrow values \<open>xs\<close> of the declared types whose view in the
  writer's language is the written object, and each of the other two languages deserializes the bytes,
  without an error, to its own view of the same \<open>xs\<close>.
\<close>

theorem bindings_interoperate:
  assumes "builds r" "writes r" "builds p" "writes p" "builds t" "writes t"
    and "carries r p" "carries r t" "carries p r" "carries p t" "carries t r" "carries t p"
    and "iterates iter" and "converts widen conv" and "js_exact num" and "js_converts num widen js"
    and "rust_struct_ok sf rd32 rd64 d" and "python_struct_ok d" and "ts_struct_ok d"
  shows "(rust_struct_typed d vr \<longrightarrow> (\<exists>bytes xs. to_arrow_ipc r iter d sid version direction vr = Inr bytes
      \<and> values_of d xs \<and> views rust_view d xs = vr
      \<and> from_ipc sf rd64 p conv d sid version direction bytes = Inr (views (py_view widen) d xs)
      \<and> fromIpc sf rd64 num t js d sid version direction bytes = Inr (views (ts_view num widen) d xs)))
    \<and> (python_struct_typed widen d vp \<longrightarrow> (\<exists>bytes xs. to_ipc p conv d sid version direction vp = Inr bytes
      \<and> values_of d xs \<and> views (py_view widen) d xs = vp
      \<and> from_arrow_ipc sf rd32 rd64 r d sid version direction bytes = Inr (views rust_view d xs)
      \<and> fromIpc sf rd64 num t js d sid version direction bytes = Inr (views (ts_view num widen) d xs)))
    \<and> (ts_struct_typed num widen d vt \<longrightarrow> (\<exists>bytes xs. toIpc t js d sid version direction vt = Inr bytes
      \<and> values_of d xs \<and> views (ts_view num widen) d xs = map2 (\<lambda>f. ts_returned (field_ty f)) (struct_fields d) vt
      \<and> from_arrow_ipc sf rd32 rd64 r d sid version direction bytes = Inr (views rust_view d xs)
      \<and> from_ipc sf rd64 p conv d sid version direction bytes = Inr (views (py_view widen) d xs)))"
proof (intro conjI impI)
  note rr = rust_reader [of r sf rd32 rd64] and pr = python_reader [OF assms(14), of p sf rd64]
    and tr = ts_reader [OF assms(15,16), of t sf rd64]
  show "\<exists>bytes xs. to_arrow_ipc r iter d sid version direction vr = Inr bytes
      \<and> values_of d xs \<and> views rust_view d xs = vr
      \<and> from_ipc sf rd64 p conv d sid version direction bytes = Inr (views (py_view widen) d xs)
      \<and> fromIpc sf rd64 num t js d sid version direction bytes = Inr (views (ts_view num widen) d xs)"
    if typed: "rust_struct_typed d vr"
    using two_readers [OF rust_writer [OF assms(1,2,13)] pr tr assms(7,8) conjI [OF assms(17) typed] assms(18,19),
        of sid version direction] views_rust [OF assms(17) typed assms(13)]
    by (auto simp: to_option_def split: sum.splits)
  show "\<exists>bytes xs. to_ipc p conv d sid version direction vp = Inr bytes
      \<and> values_of d xs \<and> views (py_view widen) d xs = vp
      \<and> from_arrow_ipc sf rd32 rd64 r d sid version direction bytes = Inr (views rust_view d xs)
      \<and> fromIpc sf rd64 num t js d sid version direction bytes = Inr (views (ts_view num widen) d xs)"
    if typed: "python_struct_typed widen d vp"
    using two_readers [OF python_writer [OF assms(3,4,14)] rr tr assms(9,10) conjI [OF assms(18) typed] assms(17,19),
        of sid version direction] views_python [OF assms(18) typed assms(14)]
    by (auto simp: to_option_def split: sum.splits)
  show "\<exists>bytes xs. toIpc t js d sid version direction vt = Inr bytes
      \<and> values_of d xs \<and> views (ts_view num widen) d xs = map2 (\<lambda>f. ts_returned (field_ty f)) (struct_fields d) vt
      \<and> from_arrow_ipc sf rd32 rd64 r d sid version direction bytes = Inr (views rust_view d xs)
      \<and> from_ipc sf rd64 p conv d sid version direction bytes = Inr (views (py_view widen) d xs)"
    if typed: "ts_struct_typed num widen d vt"
    using two_readers [OF ts_writer [OF assms(5,6,16)] rr pr assms(11,12) conjI [OF assms(19) typed] assms(17,18),
        of sid version direction] views_ts [OF assms(19) typed assms(16)]
    by (auto simp: to_option_def split: sum.splits)
qed

theorem bindings_interoperate_witness:
  "\<exists>bytes xs. to_arrow_ipc mem_arrow some_order document_struct (lit ''docs'') (lit ''1.0'') (lit ''input'') document_values
      = Inr bytes
    \<and> views rust_view document_struct xs = document_values
    \<and> from_ipc (\<lambda>_. []) (\<lambda>_. 0) mem_arrow mem_conv document_struct (lit ''docs'') (lit ''1.0'') (lit ''input'') bytes
      = Inr (views (py_view ucast) document_struct xs)
    \<and> fromIpc (\<lambda>_. []) (\<lambda>_. 0) word_of_int mem_arrow mem_js document_struct (lit ''docs'') (lit ''1.0'') (lit ''input'') bytes
      = Inr (views (ts_view word_of_int ucast) document_struct xs)"
  using bindings_interoperate [OF mem_builds mem_writes mem_builds mem_writes mem_builds mem_writes
      mem_carries mem_carries mem_carries mem_carries mem_carries mem_carries some_order mem_converts mem_js_exact
      mem_js_converts document_ok document_python_ok document_ts_ok,
      where vr = document_values and sid = "lit ''docs''" and version = "lit ''1.0''" and direction = "lit ''input''"
        and sf = "\<lambda>_. []" and ?rd32.0 = "\<lambda>_. 0" and ?rd64.0 = "\<lambda>_. 0"] document_typed
  by blast

section \<open>What a deserializer lets through\<close>

text \<open>
  C24. What the generated deserializers let through, in each language: a success means the stream is
  exactly one batch of exactly one row, its schema carries the skill id, version and direction of the
  contract, every field was read, every tensor field, also inside a list or an optional and also when it
  is null, passed the dtype and shape check, and every scalar field had a column of its type or no
  column and a default.
\<close>

theorem deserializers_guard:
  "(from_arrow_ipc sf rd32 rd64 r d sid version direction bytes = Inr vr \<longrightarrow>
      guarded rust_check_tensor r d sid version direction bytes vr)
   \<and> (from_ipc sf rd64 p conv d sid version direction bytes = Inr vp \<longrightarrow>
      guarded python_check_tensor p d sid version direction bytes vp)
   \<and> (fromIpc sf rd64 num t js d sid version direction bytes = Inr vt \<longrightarrow>
      guarded (ts_check_tensor num) t d sid version direction bytes vt)"
  by (intro conjI impI rust_guarded python_guarded ts_guarded)

theorem deserializers_guard_witness:
  "\<exists>bytes. guarded rust_check_tensor mem_arrow document_struct (lit ''docs'') (lit ''1.0'') (lit ''input'') bytes document_values"
proof -
  obtain bytes where "to_option (to_arrow_ipc mem_arrow some_order document_struct (lit ''docs'') (lit ''1.0'') (lit ''input'') document_values) = Some bytes"
    "from_arrow_ipc (\<lambda>_. []) (\<lambda>_. 0) (\<lambda>_. 0) mem_arrow document_struct (lit ''docs'') (lit ''1.0'') (lit ''input'') bytes
      = Inr (views rust_view document_struct (map (rust_cell some_order) document_values))"
    using rust_mem.exchange [OF conjI [OF document_ok document_typed] document_ok] unfolding views_def by blast
  then show ?thesis
    using deserializers_guard views_rust [OF document_ok document_typed some_order] by metis
qed

section \<open>Contract drift\<close>

text \<open>
  \<open>compatible d' d\<close>: what a reader generated for \<open>d'\<close> has checked of a row written for \<open>d\<close>. A tensor field
  is a tensor there of the same element type, rank and fixed dimensions; a scalar field is there with
  the same Arrow type, perhaps as an optional, or is absent and has a default.
\<close>

definition compatible :: "struct_def \<Rightarrow> struct_def \<Rightarrow> bool" where
  "compatible d' d \<longleftrightarrow> (\<forall>f' \<in> set (struct_fields d').
     (case tensor_metadata (field_ty f') of
        None \<Rightarrow> True
      | Some (dtype', dims') \<Rightarrow> \<exists>f \<in> set (struct_fields d). field_name f = field_name f'
          \<and> (\<exists>dtype dims. tensor_metadata (field_ty f) = Some (dtype, dims)
              \<and> tensor_verdict dtype' dims' dtype dims = Inr ()))
     \<and> (is_scalar_type (field_ty f') \<longrightarrow>
          (\<exists>f \<in> set (struct_fields d). field_name f = field_name f' \<and> field_kind (field_ty f) = leaf_arrow (field_ty f'))
          \<or> field_default f' \<noteq> None \<and> field_name f' \<notin> field_name ` set (struct_fields d)))"

definition exact_struct :: "struct_def \<Rightarrow> bool" where
  "exact_struct d \<longleftrightarrow> valid_struct d \<and> list_all (\<lambda>f. ts_dims_ok (field_ty f)) (struct_fields d)"

lemma exact_tensor:
  assumes "exact_struct d" and "f \<in> set (struct_fields d)" and "tensor_metadata (field_ty f) = Some (dtype, dims)"
  shows "safe_dims dims"
proof -
  have "supported (field_ty f)" "ts_dims_ok (field_ty f)"
    using assms(1,2) by (auto simp: exact_struct_def valid_struct_def valid_field_def list_all_iff)
  moreover have "tensor_dims_ok dims"
    using assms(3)
    by (cases rule: tensor_metadata_cases)
      (use assms(3) \<open>supported (field_ty f)\<close> in
        \<open>auto simp: supported_def static_leaf_def is_scalar_type_def is_map_value_def tensor_metadata_def\<close>)
  ultimately show ?thesis using assms(3) by (simp add: safe_dims_def ts_dims_ok_def)
qed

text \<open>A check with the verdict of every language, on a batch of a contract.\<close>

lemma compatible_batch:
  assumes con: "contract lib d sid version direction b xs" and exact: "exact_struct d" "exact_struct d'"
    and verdict: "\<And>dtype dims dtype' dims'. safe_dims dims \<Longrightarrow> safe_dims dims' \<Longrightarrow>
      check dtype' dims' (emitted_metadata dtype (format_tensor_shape_metadata dims)) = tensor_verdict dtype' dims' dtype dims"
    and missing: "\<And>dtype dims. check dtype dims Map.empty = Inl MissingDtype"
    and "open_stream lib bytes = Inr [Inr b]" and "guarded check lib d' sid' version' direction' bytes vs"
  shows "sid' = sid \<and> version' = version \<and> direction' = direction \<and> compatible d' d"
proof -
  have meta: "contract_meta sid' version' direction' \<subseteq>\<^sub>m contract_meta sid version direction"
    and tensors: "\<And>f dtype dims. f \<in> set (struct_fields d') \<Longrightarrow> tensor_metadata (field_ty f) = Some (dtype, dims) \<Longrightarrow>
      \<exists>fld. field_with_name (batch_schema lib b) (field_name f) = Some fld
        \<and> check dtype dims (map_of (af_meta fld)) = Inr ()"
    and scalars: "\<And>f. f \<in> set (struct_fields d') \<Longrightarrow> is_scalar_type (field_ty f) \<Longrightarrow> scalar_checked lib b f"
    using con assms(6,7) by (auto simp: guarded_def contract_def split: option.splits)
  have names: "field_name f \<in> field_name ` set (struct_fields d)"
    if "field_with_name (batch_schema lib b) (field_name f) = Some fld" for f fld
  proof -
    have "fld \<in> set (as_fields (batch_schema lib b))" "af_name fld = field_name f"
      using that by (auto simp: field_with_name_def find_Some_iff)
    then have "field_name f \<in> set (map af_name (as_fields (batch_schema lib b)))" by (metis image_eqI list.set_map)
    then show ?thesis using con unfolding contract_def by (metis list.set_map)
  qed
  have field: "\<exists>x. field_ok lib b f x" if "f \<in> set (struct_fields d)" for f
  proof -
    have "list_all2 (field_ok lib b) (struct_fields d) xs" using con by (simp add: contract_def)
    then show ?thesis using that by (induction rule: list_all2_induct) auto
  qed
  have "case tensor_metadata (field_ty f') of None \<Rightarrow> True
      | Some (dtype', dims') \<Rightarrow> \<exists>f \<in> set (struct_fields d). field_name f = field_name f'
          \<and> (\<exists>dtype dims. tensor_metadata (field_ty f) = Some (dtype, dims)
              \<and> tensor_verdict dtype' dims' dtype dims = Inr ())" if f': "f' \<in> set (struct_fields d')" for f'
  proof (cases "tensor_metadata (field_ty f')")
    case (Some m)
    obtain dtype' dims' where m: "m = (dtype', dims')" by (cases m)
    obtain fld where fld: "field_with_name (batch_schema lib b) (field_name f') = Some fld"
      "check dtype' dims' (map_of (af_meta fld)) = Inr ()"
      using tensors [OF f'] Some m by blast
    then obtain f where f: "f \<in> set (struct_fields d)" "field_name f = field_name f'" using names by force
    then have tm: "tensor_meta_ok (field_ty f) (af_meta fld)" using field fld(1) by (force simp: field_ok_def)
    then obtain dtype dims where tf: "tensor_metadata (field_ty f) = Some (dtype, dims)"
      using fld(2) missing [of dtype' dims'] by (cases "tensor_metadata (field_ty f)") (auto simp: tensor_meta_ok_def)
    then have "tensor_verdict dtype' dims' dtype dims = Inr ()"
      using tm fld(2) verdict [OF exact_tensor [OF exact(1) f(1) tf] exact_tensor [OF exact(2) f' Some [unfolded m]]]
      by (simp add: tensor_meta_ok_def)
    then show ?thesis using Some m f tf by auto
  qed simp
  moreover have "(\<exists>f \<in> set (struct_fields d). field_name f = field_name f' \<and> field_kind (field_ty f) = leaf_arrow (field_ty f'))
      \<or> field_default f' \<noteq> None \<and> field_name f' \<notin> field_name ` set (struct_fields d)"
    if f': "f' \<in> set (struct_fields d')" "is_scalar_type (field_ty f')" for f'
  proof (cases "batch_column lib b (field_name f')")
    case None
    then have "field_name f' \<notin> field_name ` set (struct_fields d)" using con by (auto simp: contract_def domIff)
    then show ?thesis using None scalars [OF f'] by (simp add: scalar_checked_def)
  next
    case (Some c)
    then obtain fld where fld: "field_with_name (batch_schema lib b) (field_name f') = Some fld"
      "af_type fld = leaf_arrow (field_ty f')"
      using scalars [OF f'] by (auto simp: scalar_checked_def)
    then obtain f where f: "f \<in> set (struct_fields d)" "field_name f = field_name f'" using names by force
    then have "kind (af_type fld) = field_kind (field_ty f)" using field fld(1) by (force simp: field_ok_def)
    then show ?thesis using fld(2) f by auto
  qed
  moreover have "sid' = sid" "version' = version" "direction' = direction"
    using meta unfolding map_le_def by (auto simp: contract_meta_def lit_inject split: if_splits)
  ultimately show ?thesis unfolding compatible_def by blast
qed

lemma rust_verdict:
  "safe_dims dims \<Longrightarrow> safe_dims dims' \<Longrightarrow>
     rust_check_tensor dtype' dims' (emitted_metadata dtype (format_tensor_shape_metadata dims)) = tensor_verdict dtype' dims' dtype dims"
  by (rule rust_binding.verdict; simp add: safe_sized)

lemma python_verdict:
  "safe_dims dims \<Longrightarrow> safe_dims dims' \<Longrightarrow>
     python_check_tensor dtype' dims' (emitted_metadata dtype (format_tensor_shape_metadata dims)) = tensor_verdict dtype' dims' dtype dims"
  by (rule python_binding.verdict; simp add: safe_dims_def)

lemma ts_verdict:
  "js_exact num \<Longrightarrow> safe_dims dims \<Longrightarrow> safe_dims dims' \<Longrightarrow>
     ts_check_tensor num dtype' dims' (emitted_metadata dtype (format_tensor_shape_metadata dims)) = tensor_verdict dtype' dims' dtype dims"
  by (rule ts_binding.verdict; simp)

lemma no_metadata:
  "rust_check_tensor dtype dims Map.empty = Inl MissingDtype"
  "python_check_tensor dtype dims Map.empty = Inl MissingDtype"
  "ts_check_tensor num dtype dims Map.empty = Inl MissingDtype"
  by (simp_all add: rust_check_tensor_def python_check_tensor_def ts_check_tensor_def laicAssertTensorMetadata_def)

lemma written_stream:
  assumes "binding_writer w enc typed cells" and "carries w r" and "typed d vs"
    and "enc d sid version direction vs = Some bytes"
  shows "\<exists>b. open_stream r bytes = Inr [Inr b] \<and> contract r d sid version direction b (cells d vs)"
proof -
  from binding_writer.written [OF assms(1,3), of sid version direction] assms(4)
  obtain a where a: "write_stream w a = Inr bytes" "contract w d sid version direction a (cells d vs)" by auto
  then obtain b where b: "open_stream r bytes = Inr [Inr b]" "same_batch w a r b"
    using assms(2) unfolding carries_def by blast
  then show ?thesis using a(2) contract_transfer [OF b(2)] by blast
qed

text \<open>
  C8. Contract drift is detected across languages: when a deserializer of any language, generated for the
  struct \<open>d'\<close> of some contract, accepts what a serializer of any language, generated for \<open>d\<close>, wrote, then
  the skill ids, versions and directions of the two contracts are equal, every tensor field of \<open>d'\<close> is a
  tensor of \<open>d\<close> with the same element type, rank and fixed dimensions, and every scalar field is in \<open>d\<close>
  with the same Arrow type, or is absent there and has a default.
\<close>

theorem contract_drift_rejected:
  assumes "builds w" and "writes w" and "carries w r" and "iterates iter" and "converts widen conv"
    and "js_exact num" and "js_converts num widen js" and "exact_struct d" and "exact_struct d'"
    and writer: "rust_struct_ok sf rd32 rd64 d \<and> rust_struct_typed d vr
        \<and> to_arrow_ipc w iter d sid version direction vr = Inr bytes
      \<or> python_struct_ok d \<and> python_struct_typed widen d vp \<and> to_ipc w conv d sid version direction vp = Inr bytes
      \<or> ts_struct_ok d \<and> ts_struct_typed num widen d vt \<and> toIpc w js d sid version direction vt = Inr bytes"
    and reader: "from_arrow_ipc sf rd32 rd64 r d' sid' version' direction' bytes = Inr vr'
      \<or> from_ipc sf rd64 r conv d' sid' version' direction' bytes = Inr vp'
      \<or> fromIpc sf rd64 num r js d' sid' version' direction' bytes = Inr vt'"
  shows "sid' = sid \<and> version' = version \<and> direction' = direction \<and> compatible d' d"
proof -
  from writer obtain b xs where b: "open_stream r bytes = Inr [Inr b]" "contract r d sid version direction b xs"
  proof (elim disjE conjE)
    assume "rust_struct_ok sf rd32 rd64 d" "rust_struct_typed d vr" "to_arrow_ipc w iter d sid version direction vr = Inr bytes"
    then show ?thesis
      using written_stream [OF rust_writer [OF assms(1,2,4), of sf rd32 rd64] assms(3), of d vr sid version direction bytes] that by (auto simp: to_option_def)
  next
    assume "python_struct_ok d" "python_struct_typed widen d vp" "to_ipc w conv d sid version direction vp = Inr bytes"
    then show ?thesis
      using written_stream [OF python_writer [OF assms(1,2,5)] assms(3), of d vp sid version direction bytes] that by (auto simp: to_option_def)
  next
    assume "ts_struct_ok d" "ts_struct_typed num widen d vt" "toIpc w js d sid version direction vt = Inr bytes"
    then show ?thesis
      using written_stream [OF ts_writer [OF assms(1,2,7)] assms(3), of d vt sid version direction bytes] that by (auto simp: to_option_def)
  qed
  note compat = compatible_batch [OF b(2) assms(8,9) _ _ b(1)]
  from reader show ?thesis
  proof (elim disjE)
    assume "from_arrow_ipc sf rd32 rd64 r d' sid' version' direction' bytes = Inr vr'"
    from compat [OF rust_verdict no_metadata(1) rust_guarded [OF this]] show ?thesis by blast
  next
    assume "from_ipc sf rd64 r conv d' sid' version' direction' bytes = Inr vp'"
    from compat [OF python_verdict no_metadata(2) python_guarded [OF this]] show ?thesis by blast
  next
    assume "fromIpc sf rd64 num r js d' sid' version' direction' bytes = Inr vt'"
    from compat [OF ts_verdict [OF assms(6)] no_metadata(3) ts_guarded [OF this]] show ?thesis by blast
  qed
qed

theorem contract_drift_rejected_witness:
  "\<exists>bytes vp. to_arrow_ipc mem_arrow some_order document_struct (lit ''docs'') (lit ''1.0'') (lit ''input'') document_values = Inr bytes
    \<and> from_ipc (\<lambda>_. []) (\<lambda>_. 0) mem_arrow mem_conv document_struct (lit ''docs'') (lit ''1.0'') (lit ''input'') bytes = Inr vp
    \<and> compatible document_struct document_struct"
proof -
  obtain bytes vp where bytes: "to_option (to_arrow_ipc mem_arrow some_order document_struct (lit ''docs'') (lit ''1.0'') (lit ''input'') document_values) = Some bytes"
    "from_ipc (\<lambda>_. []) (\<lambda>_. 0) mem_arrow mem_conv document_struct (lit ''docs'') (lit ''1.0'') (lit ''input'') bytes = Inr vp"
    using rust_python.exchange [OF conjI [OF document_ok document_typed] document_python_ok] by blast
  have wrote: "to_arrow_ipc mem_arrow some_order document_struct (lit ''docs'') (lit ''1.0'') (lit ''input'') document_values = Inr bytes"
    using bytes(1) by (auto simp: to_option_def split: sum.splits)
  have exact: "exact_struct document_struct"
    using document_ts_ok by (simp add: exact_struct_def ts_struct_ok_def list_all_iff)
  show ?thesis
    using contract_drift_rejected [OF mem_builds mem_writes mem_carries some_order mem_converts mem_js_exact mem_js_converts
        exact exact disjI1 [OF conjI [OF document_ok conjI [OF document_typed wrote]]] disjI2 [OF disjI1 [OF bytes(2)]]]
      wrote bytes(2) by blast
qed

section \<open>Nullability\<close>

text \<open>
  C36. Nullability is part of a contract that no deserializer checks: a null written for a field of type
  \<open>optional<T>\<close> is accepted by a reader whose contract has the same field with the scalar type \<open>T\<close>; Rust
  then returns what the value buffer holds at the null slot as the value of the field, and Python
  returns \<open>None\<close> and TypeScript \<open>null\<close> for a field that is declared to have a value. The names are such that
  the code generated for both contracts compiles and does not hide what it uses (\<open>rust_struct_ok\<close>,
  \<open>python_struct_ok\<close>, \<open>ts_struct_ok\<close>).
\<close>

theorem null_read_as_value:
  assumes "builds w" and "writes w" and "carries w r" and "iterates iter" and "converts widen conv"
    and "js_converts num widen js" and "is_scalar_type t"
    and ok: "rust_struct_ok sf rd32 rd64
      \<lparr>struct_name = n, struct_fields = [\<lparr>field_name = x, field_ty = LOptional t, field_default = None\<rparr>]\<rparr>"
    and "rust_struct_ok sf rd32 rd64 d'" and "python_struct_ok d'" and "ts_struct_ok d'"
    and d': "d' = \<lparr>struct_name = n, struct_fields = [\<lparr>field_name = x, field_ty = t, field_default = None\<rparr>]\<rparr>"
  shows "\<exists>bytes. to_arrow_ipc w iter
        \<lparr>struct_name = n, struct_fields = [\<lparr>field_name = x, field_ty = LOptional t, field_default = None\<rparr>]\<rparr>
        sid version direction [ROption None] = Inr bytes
    \<and> from_arrow_ipc sf rd32 rd64 r d' sid version direction bytes = Inr [RScalar (one_of (null_slot r (leaf_arrow t)))]
    \<and> from_ipc sf rd64 r conv d' sid version direction bytes = Inr [PyNone]
    \<and> fromIpc sf rd64 num r js d' sid version direction bytes = Inr [JsNull]"
proof -
  let ?f = "\<lparr>field_name = x, field_ty = LOptional t, field_default = None\<rparr>"
  let ?f' = "\<lparr>field_name = x, field_ty = t, field_default = None\<rparr>"
  let ?d = "\<lparr>struct_name = n, struct_fields = [?f]\<rparr>"
  have scalar: "\<not> is_list t" "\<not> is_optional t" "static_leaf t" "tensor_metadata (LOptional t) = None"
    using assms(7) by (cases t; simp add: is_scalar_type_def is_map_value_def static_leaf_def tensor_metadata_def)+
  have typed: "rust_struct_typed ?d [ROption None]"
    using scalar by (simp add: rust_struct_typed_def rust_typed_def)
  obtain bytes where bytes: "to_arrow_ipc w iter ?d sid version direction [ROption None] = Inr bytes"
    using binding_writer.written [OF rust_writer [OF assms(1,2,4)] conjI [OF ok typed], of sid version direction]
    by (auto simp: to_option_def split: sum.splits)
  have "\<exists>b. open_stream r bytes = Inr [Inr b] \<and> contract r ?d sid version direction b [Null]"
    using written_stream [OF rust_writer [OF assms(1,2,4)] assms(3) conjI [OF ok typed], of sid version direction bytes]
      bytes by (simp add: to_option_def)
  then obtain b where b: "open_stream r bytes = Inr [Inr b]" and con: "contract r ?d sid version direction b [Null]" by blast
  from con obtain fld c where field: "field_with_name (batch_schema r b) x = Some fld" "batch_column r b x = Some c"
    "col_type c = af_type fld" "kind (af_type fld) = leaf_arrow t" "col_cells c = [Null]"
    and meta: "num_rows r b = 1" "map_of (as_meta (batch_schema r b)) = contract_meta sid version direction"
    using scalar(3) by (auto simp: contract_def field_ok_def)
  have ty: "af_type fld = leaf_arrow t" using field(4) kind_leaf by blast
  have "rust_field_extraction sf rd32 rd64 r b ?f' = Inr (RScalar (one_of (null_slot r (leaf_arrow t))))"
    using assms(7) field ty
    by (cases t) (simp_all add: rust_field_extraction_def rust_simple_extraction_def slot_def is_scalar_type_def is_map_value_def)
  moreover have "python_field_extraction sf rd64 r conv b ?f' = Inr PyNone"
    using assms(5,7) field ty
    by (cases t) (simp_all add: python_field_extraction_def python_scalar_extraction_def python_column_def
        python_typed_value_def converts_def is_scalar_type_def is_map_value_def)
  moreover have "ts_field_extraction sf rd64 num r js b ?f' = Inr JsNull"
    using assms(6,7) field ty
    by (cases t) (simp_all add: ts_field_extraction_def ts_scalar_extraction_def laicAssertFieldType_def
        js_converts_def is_scalar_type_def is_map_value_def)
  ultimately show ?thesis
    using bytes b meta unfolding d'
    by (simp add: from_arrow_ipc_def from_ipc_def fromIpc_def laicAssertMetadata_def)
qed

theorem null_read_as_value_witness:
  "\<exists>bytes. to_arrow_ipc mem_arrow some_order
      \<lparr>struct_name = lit ''Reply'', struct_fields = [\<lparr>field_name = lit ''ok'', field_ty = LOptional LBool, field_default = None\<rparr>]\<rparr>
      (lit ''docs'') (lit ''1.0'') (lit ''output'') [ROption None] = Inr bytes
    \<and> from_arrow_ipc (\<lambda>_. []) (\<lambda>_. 0) (\<lambda>_. 0) mem_arrow
      \<lparr>struct_name = lit ''Reply'', struct_fields = [\<lparr>field_name = lit ''ok'', field_ty = LBool, field_default = None\<rparr>]\<rparr>
      (lit ''docs'') (lit ''1.0'') (lit ''output'') bytes = Inr [RScalar (SBool False)]
    \<and> from_ipc (\<lambda>_. []) (\<lambda>_. 0) mem_arrow mem_conv
      \<lparr>struct_name = lit ''Reply'', struct_fields = [\<lparr>field_name = lit ''ok'', field_ty = LBool, field_default = None\<rparr>]\<rparr>
      (lit ''docs'') (lit ''1.0'') (lit ''output'') bytes = Inr [PyNone]
    \<and> fromIpc (\<lambda>_. []) (\<lambda>_. 0) word_of_int mem_arrow mem_js
      \<lparr>struct_name = lit ''Reply'', struct_fields = [\<lparr>field_name = lit ''ok'', field_ty = LBool, field_default = None\<rparr>]\<rparr>
      (lit ''docs'') (lit ''1.0'') (lit ''output'') bytes = Inr [JsNull]"
proof -
  let ?d = "\<lambda>t. \<lparr>struct_name = lit ''Reply'', struct_fields = [\<lparr>field_name = lit ''ok'', field_ty = t, field_default = None\<rparr>]\<rparr>"
  have valid: "valid_struct (?d (LOptional LBool))" "valid_struct (?d LBool)"
    by (simp_all add: valid_struct_def valid_field_def default_ok_def supported_def static_leaf_def is_scalar_type_def
        is_map_value_def is_reserved_codegen_identifier_def RESERVED_def lit_inject)
  have rust: "rust_struct_ok (\<lambda>_. []) (\<lambda>_. 0) (\<lambda>_. 0) (?d (LOptional LBool))" "rust_struct_ok (\<lambda>_. []) (\<lambda>_. 0) (\<lambda>_. 0) (?d LBool)"
    using valid by (simp_all add: rust_struct_ok_def rust_compiles_def usize_dims_def tensor_metadata_def rust_taken_def
        rust_globals_def lit_inject)
  have python: "python_struct_ok (?d LBool)"
    using valid(2) by (simp add: python_struct_ok_def python_taken_def python_globals_def lit_inject)
  have "lit ''ok'' \<noteq> lit ''ok'' @ lit ''_column''" "lit ''ok'' \<noteq> lit ''ok'' @ lit ''_field''" by (simp_all add: lit_def)
  then have ts: "ts_struct_ok (?d LBool)"
    using valid(2) by (simp add: ts_struct_ok_def ts_taken_def ts_globals_def ts_dims_ok_def tensor_metadata_def lit_inject lit_def)
  have scalar: "is_scalar_type LBool" by (simp add: is_scalar_type_def is_map_value_def)
  have slot: "one_of (null_slot mem_arrow (leaf_arrow LBool)) = SBool False" by (simp add: mem_arrow_def)
  show ?thesis
    using null_read_as_value [OF mem_builds mem_writes mem_carries some_order mem_converts mem_js_converts scalar rust python ts
        refl, of "lit ''docs''" "lit ''1.0''" "lit ''output''"] slot by simp
qed

end
