(* ===== verification/Laicc_Gaps.thy ===== *)
theory Laicc_Gaps
  imports Laicc_Interop
begin

text \<open>
  What the validator and the generated checks do not see: contracts they accept although the generated
  code then does not do, or does not check, what the contract says.
\<close>

section \<open>Tensors below an optional list\<close>

text \<open>Two structs whose contracts ask for the same batches.\<close>

definition same_contract :: "struct_def \<Rightarrow> struct_def \<Rightarrow> bool" where
  "same_contract d d' \<longleftrightarrow> list_all2 (\<lambda>f f'. field_name f = field_name f' \<and> field_kind (field_ty f) = field_kind (field_ty f')
     \<and> tensor_metadata (field_ty f) = tensor_metadata (field_ty f')) (struct_fields d) (struct_fields d')"

lemma same_contract_names:
  "same_contract d d' \<Longrightarrow> map field_name (struct_fields d) = map field_name (struct_fields d')"
  by (auto simp: same_contract_def list_all2_conv_all_nth intro: nth_equalityI)

lemma field_same:
  assumes "field_name f = field_name f'" and "field_kind (field_ty f) = field_kind (field_ty f')"
    and "tensor_metadata (field_ty f) = tensor_metadata (field_ty f')"
  shows "field_ok lib b f x = field_ok lib b f' x"
  using assms by (simp add: field_ok_def tensor_meta_ok_def)

lemma contract_same:
  assumes "same_contract d d'" and "contract lib d sid version direction b xs"
  shows "contract lib d' sid version direction b xs"
proof -
  note names = same_contract_names [OF assms(1)]
  then have "field_name ` set (struct_fields d) = field_name ` set (struct_fields d')" by (metis set_map)
  moreover have "list_all2 (field_ok lib b) (struct_fields d') xs"
    using assms field_same unfolding same_contract_def contract_def list_all2_conv_all_nth by metis
  ultimately show ?thesis using assms(2) names by (simp add: contract_def)
qed

text \<open>The two validated shapes that hide a tensor from \<open>tensor_metadata\<close>.\<close>

datatype nesting = OptionalList | ListOfOptional

fun nested :: "nesting \<Rightarrow> laic_type \<Rightarrow> laic_type" where
  "nested OptionalList t = LOptional (LList t)"
| "nested ListOfOptional t = LList (LOptional t)"

lemma nested_tensor [simp]:
  "tensor_metadata (nested n (LTensor dtype dims)) = None"
  "field_kind (nested n (LTensor dtype dims)) = ListType Binary True"
  "is_value (nested n (LTensor dtype dims)) = is_value (nested n (LTensor dtype' dims')) \<longleftrightarrow> True"
  "py_view widen (nested n t) c = py_of widen c"
  by (cases n; simp add: tensor_metadata_def fun_eq_iff py_view_def split: py_value.split)+

definition one_field :: "text \<Rightarrow> text \<Rightarrow> laic_type \<Rightarrow> struct_def" where
  "one_field name x t = \<lparr>struct_name = name, struct_fields = [\<lparr>field_name = x, field_ty = t, field_default = None\<rparr>]\<rparr>"

text \<open>
  C37. The dtype and shape of a tensor in an \<open>optional<list<T>>\<close> or a \<open>list<optional<T>>\<close> are part of no check:
  the validator accepts such a field for every dtype and fixed shape, and the Python and TypeScript code
  generated for any other dtype and shape reads what Python wrote, as if the contracts were equal.
\<close>

theorem nested_tensor_contract_lost:
  assumes "builds w" and "writes w" and "carries w p" and "carries w t"
    and "converts widen conv" and "js_exact num" and "js_converts num widen js"
    and d: "d = one_field name x (nested n (LTensor dtype dims))" "python_struct_ok d" "python_struct_typed widen d vs"
    and d': "d' = one_field name' x (nested n (LTensor dtype' dims'))" "python_struct_ok d'" "ts_struct_ok d'"
  shows "\<exists>bytes xs. to_ipc w conv d sid version direction vs = Inr bytes \<and> views (py_view widen) d xs = vs
    \<and> from_ipc sf rd64 p conv d' sid version direction bytes = Inr vs
    \<and> fromIpc sf rd64 num t js d' sid version direction bytes = Inr (views (ts_view num widen) d' xs)"
proof -
  let ?xs = "python_cells conv d vs"
  note writer = python_writer [OF assms(1,2,5)] and typed = conjI [OF d(2,3)]
  obtain bytes where "to_option (to_ipc w conv d sid version direction vs) = Some bytes"
    using binding_writer.written [OF writer typed, of sid version direction] by blast
  note wrote = this
  have vals: "values_of d ?xs" by (rule binding_writer.cells_values [OF writer typed])
  have same: "same_contract d d'" by (simp add: same_contract_def d(1) d'(1) one_field_def)
  have vals': "values_of d' ?xs"
    using vals by (cases n) (simp_all add: values_of_def d(1) d'(1) one_field_def list_all2_Cons1)
  have "from_ipc sf rd64 p conv d' sid version direction bytes = Inr (views (py_view widen) d' ?xs)"
  proof -
    from written_stream [OF writer assms(3) typed wrote] obtain b where
      b: "open_stream p bytes = Inr [Inr b]" "contract p d sid version direction b ?xs" by blast
    show ?thesis unfolding views_def
      by (rule binding_reader.reads_contract [OF python_reader [OF assms(5)] d'(2) b(1) contract_same [OF same b(2)] vals'])
  qed
  moreover have "fromIpc sf rd64 num t js d' sid version direction bytes = Inr (views (ts_view num widen) d' ?xs)"
  proof -
    from written_stream [OF writer assms(4) typed wrote] obtain b where
      b: "open_stream t bytes = Inr [Inr b]" "contract t d sid version direction b ?xs" by blast
    show ?thesis unfolding views_def
      by (rule binding_reader.reads_contract [OF ts_reader [OF assms(6,7)] d'(3) b(1) contract_same [OF same b(2)] vals'])
  qed
  moreover have "views (py_view widen) d' ?xs = views (py_view widen) d ?xs"
    by (cases ?xs) (simp_all add: views_def d(1) d'(1) one_field_def)
  ultimately show ?thesis
    using views_python [OF d(2,3) assms(5)] wrote by (auto simp: to_option_def split: sum.splits)
qed

theorem nested_tensor_contract_lost_witness:
  "\<exists>bytes. to_ipc mem_arrow mem_conv (one_field (lit ''Batch'') (lit ''rows'') (LOptional (LList (LTensor TF32 [Fixed 2]))))
      (lit ''docs'') (lit ''1.0'') (lit ''input'') [PyList [Some (PyBytes [0, 0, 128, 63])]] = Inr bytes
    \<and> from_ipc (\<lambda>_. []) (\<lambda>_. 0) mem_arrow mem_conv
        (one_field (lit ''Batch'') (lit ''rows'') (LOptional (LList (LTensor TI64 [Fixed 9, Fixed 9]))))
        (lit ''docs'') (lit ''1.0'') (lit ''input'') bytes = Inr [PyList [Some (PyBytes [0, 0, 128, 63])]]"
proof -
  let ?d = "\<lambda>dtype dims. one_field (lit ''Batch'') (lit ''rows'') (nested OptionalList (LTensor dtype dims))"
  have valid: "valid_struct (?d TF32 [Fixed 2])" "valid_struct (?d TI64 [Fixed 9, Fixed 9])"
    by (simp_all add: one_field_def valid_struct_def valid_field_def default_ok_def supported_def static_leaf_def
        tensor_dims_ok_def is_reserved_codegen_identifier_def RESERVED_def lit_inject)
  have ok: "python_struct_ok (?d TF32 [Fixed 2])" "python_struct_ok (?d TI64 [Fixed 9, Fixed 9])"
    using valid by (simp_all add: python_struct_ok_def one_field_def python_taken_def python_globals_def lit_inject)
  have ts: "ts_struct_ok (?d TI64 [Fixed 9, Fixed 9])"
    using valid(2) by (simp add: ts_struct_ok_def one_field_def ts_taken_def ts_globals_def lit_inject ts_dims_ok_def Let_def tensor_metadata_def)
  have typed: "python_struct_typed ucast (?d TF32 [Fixed 2]) [PyList [Some (PyBytes [0, 0, 128, 63])]]"
    by (simp add: python_struct_typed_def one_field_def py_typed_def py_fits_def)
  from nested_tensor_contract_lost [OF mem_builds mem_writes mem_carries mem_carries mem_converts mem_js_exact
      mem_js_converts refl ok(1) typed refl ok(2) ts]
  show ?thesis unfolding nested.simps by blast
qed

section \<open>Names and defaults\<close>

text \<open>
  Struct names are not compared: a skill whose output struct has the name of its input struct is as valid
  as the skill, so one file may define two structs, or classes, of one name.
\<close>

lemma duplicate_struct_names_valid:
  "valid_skill s \<Longrightarrow>
     validate (f\<lparr>file_skills := [s]\<rparr>) = Inr () \<Longrightarrow>
     validate (f\<lparr>file_skills := [s\<lparr>skill_output := (skill_output s)\<lparr>struct_name := struct_name (skill_input s)\<rparr>\<rparr>]\<rparr>) = Inr ()"
  by (simp add: validate_ok valid_file_def valid_skill_def valid_struct_def)

text \<open>
  An integer default of a float field is valid, is emitted without a decimal point, and is then no
  literal of the field's Rust type.
\<close>

lemma integer_default_of_float:
  assumes "t = LF32 \<or> t = LF64"
  shows "default_ok t (Some (IntegerLit i)) \<and> literal_to_rust sf (IntegerLit i) = decimal_int i
    \<and> 46 \<notin> set (decimal_int i) \<and> rust_literal sf rd32 rd64 t (IntegerLit i) = None"
proof -
  have "46 \<notin> set (decimal_int i)" using decimal_is_digit [of 46] by (auto simp: decimal_int_def is_digit_def)
  then show ?thesis using assms by (auto simp: default_ok_def)
qed

text \<open>
  On a stream without a batch the Rust code reports an empty stream; in the Python code the
  \<open>StopIteration\<close> of pyarrow escapes, the only malformed stream that raises neither \<open>ValueError\<close> nor an
  Arrow error.
\<close>

lemma python_empty_stream:
  "open_stream lib bytes = Inr [] \<Longrightarrow>
     from_arrow_ipc sf rd32 rd64 lib d sid version direction bytes = Inl EmptyStream
     \<and> from_ipc sf rd64 lib conv d sid version direction bytes = Inl PyStopIteration"
  by (simp add: from_arrow_ipc_def from_ipc_def)

end
