(* ===== verification/Laic_Relay.thy ===== *)
theory Laic_Relay
  imports Laic_Transport Laic_Pattern
begin

text \<open>
  Messages across two hosts: an IPC sender, a gateway that forwards from IPC to QUIC, the QUIC stream, a
  gateway that forwards from QUIC to IPC, and an IPC receiver. \<open>gateway.rs\<close> leaves the forwarding loop to
  its caller; the loops here forward a given number of messages and stop at the first error.
\<close>

section \<open>Forwarding loops\<close>

fun relay_to_quic where
  "relay_to_quic b 0 g w = Some (Inr (), g, w)"
| "relay_to_quic b (Suc n) g w =
     (case forward_ipc_to_quic b g w of
        None \<Rightarrow> None
      | Some (Inl e, g, w) \<Rightarrow> Some (Inl e, g, w)
      | Some (Inr _, g, w) \<Rightarrow> relay_to_quic b n g w)"

fun relay_to_ipc where
  "relay_to_ipc b 0 g = (Inr (), g)"
| "relay_to_ipc b (Suc n) g =
     (case forward_quic_to_ipc b g of
        (Inl e, g) \<Rightarrow> (Inl e, g)
      | (Inr _, g) \<Rightarrow> relay_to_ipc b n g)"

section \<open>One step\<close>

lemma forward_ipc_step:
  assumes law: "shm_law cap pub (b_poll b) queue" and live: "\<And>q. is_ok (fst (b_poll b q))"
    and wr: "writer_law (b_write b) sent" and m: "message_inv m" "fits_ipc m"
    and ends: "\<not> ipc_closed (gw_ipc g)" "\<not> quic_closed (gw_quic g)"
    and q: "queue (ipc_subscriber (gw_ipc g)) = message_frame m # rest"
  shows "\<exists>r g' w'. forward_ipc_to_quic b g w = Some (r, g', w')
    \<and> queue (ipc_subscriber (gw_ipc g')) = rest \<and> \<not> ipc_closed (gw_ipc g') \<and> \<not> quic_closed (gw_quic g')
    \<and> (\<exists>k. sent (quic_send_stream (gw_quic g')) = sent (quic_send_stream (gw_quic g)) @ take k (frame_bytes m))
    \<and> (is_ok r \<longrightarrow> sent (quic_send_stream (gw_quic g')) = sent (quic_send_stream (gw_quic g)) @ frame_bytes m)"
proof -
  obtain s' where p: "b_poll b (ipc_subscriber (gw_ipc g)) = (Inr (Some (message_frame m)), s')" "queue s' = rest"
    using shm_law_poll_head [OF law live q] by blast
  have "polled (b_poll b) 0 (ipc_subscriber (gw_ipc g)) (Inr (message_frame m)) s'" using p(1) by simp
  from ipc_receive_polled [OF ends(1) this, of "b_clock b" w]
  obtain w' where rec: "ipc_receive (b_poll b) (b_clock b) (gw_ipc g) w =
      Some (Inr m, (gw_ipc g)\<lparr>ipc_subscriber := s'\<rparr>, w')"
    using unpack_message_frame [OF m] by (auto simp: ipc_verdict_def)
  obtain r st where wf: "write_frame (b_write b) m (quic_send_stream (gw_quic g)) = (r, st)" by fastforce
  have "is_ok r \<Longrightarrow> sent st = sent (quic_send_stream (gw_quic g)) @ frame_bytes m"
    using write_frame_ok [OF wr m(1)] wf by (cases r) auto
  moreover have "\<exists>k. sent st = sent (quic_send_stream (gw_quic g)) @ take k (frame_bytes m)"
    using write_frame_ok [OF wr m(1)] write_frame_error [OF wr m(1)] wf fits_ipc_within_max [OF m]
    by (cases r) (auto intro: exI [of _ "length (frame_bytes m)"])
  ultimately show ?thesis
    using rec wf p(2) ends by (auto simp: forward_ipc_to_quic_def quic_send_def)
qed

lemma forward_quic_step:
  assumes rd: "reader_law (b_read b) pending" and law: "shm_law cap (b_publisher b) poll queue"
    and m: "message_inv m" "fits_ipc m" and ends: "\<not> quic_closed (gw_quic g)" "\<not> ipc_closed (gw_ipc g)"
    and p: "pending (quic_recv_stream (gw_quic g)) = frame_bytes m @ rest"
    and fwd: "forward_quic_to_ipc b g = (Inr u, g')"
  shows "pending (quic_recv_stream (gw_quic g')) = rest \<and> \<not> quic_closed (gw_quic g') \<and> \<not> ipc_closed (gw_ipc g')
    \<and> queue (ipc_publisher (gw_ipc g')) = overflow_push cap (queue (ipc_publisher (gw_ipc g))) (message_frame m)"
proof -
  obtain s' where s': "read_frame (b_read b) (quic_recv_stream (gw_quic g)) = (Inr m, s')" "pending s' = rest"
    using read_frame_frame_bytes [OF rd m(1) fits_ipc_within_max [OF m] p] by blast
  obtain r c where snd: "ipc_send (b_publisher b) m (gw_ipc g) = (r, c)" by fastforce
  then have "r = Inr u" and g': "g' = g\<lparr>gw_quic := (gw_quic g)\<lparr>quic_recv_stream := s'\<rparr>, gw_ipc := c\<rparr>"
    using fwd s'(1) ends(1) by (auto simp: forward_quic_to_ipc_def quic_receive_def)
  then have "queue (ipc_publisher c) = overflow_push cap (queue (ipc_publisher (gw_ipc g))) (message_frame m)
      \<and> c = (gw_ipc g)\<lparr>ipc_publisher := ipc_publisher c\<rparr>"
    using ipc_send_cases [OF law m(1) snd] by simp
  moreover from this have "\<not> ipc_closed c" using ends(2) by (metis ipc_connection.select_convs(4) ipc_connection.surjective ipc_connection.update_convs(1))
  ultimately show ?thesis using s'(2) ends(1) g' by simp
qed

section \<open>Runs of the loops\<close>

abbreviation frames :: "message list \<Rightarrow> bytes" where
  "frames ms \<equiv> concat (map frame_bytes ms)"

lemma relay_to_quic_run:
  assumes law: "shm_law cap pub (b_poll b) queue" and live: "\<And>q. is_ok (fst (b_poll b q))"
    and wr: "writer_law (b_write b) sent"
  shows "list_all message_inv ms \<Longrightarrow> list_all fits_ipc ms \<Longrightarrow> \<not> ipc_closed (gw_ipc g) \<Longrightarrow> \<not> quic_closed (gw_quic g) \<Longrightarrow>
    queue (ipc_subscriber (gw_ipc g)) = map message_frame ms @ rest \<Longrightarrow>
    \<exists>r g' w'. relay_to_quic b (length ms) g w = Some (r, g', w')
      \<and> (\<exists>k. sent (quic_send_stream (gw_quic g')) = sent (quic_send_stream (gw_quic g)) @ take k (frames ms))
      \<and> (is_ok r \<longrightarrow> queue (ipc_subscriber (gw_ipc g')) = rest
          \<and> sent (quic_send_stream (gw_quic g')) = sent (quic_send_stream (gw_quic g)) @ frames ms)"
proof (induction ms arbitrary: g w)
  case (Cons m ms)
  have m: "message_inv m" "fits_ipc m"
    "queue (ipc_subscriber (gw_ipc g)) = message_frame m # (map message_frame ms @ rest)"
    using Cons.prems by simp_all
  from forward_ipc_step [OF law live wr m(1,2) Cons.prems(3,4) m(3), of w]
  obtain r g1 w1 k where step: "forward_ipc_to_quic b g w = Some (r, g1, w1)"
    "queue (ipc_subscriber (gw_ipc g1)) = map message_frame ms @ rest" "\<not> ipc_closed (gw_ipc g1)" "\<not> quic_closed (gw_quic g1)"
    "sent (quic_send_stream (gw_quic g1)) = sent (quic_send_stream (gw_quic g)) @ take k (frame_bytes m)"
    "is_ok r \<longrightarrow> sent (quic_send_stream (gw_quic g1)) = sent (quic_send_stream (gw_quic g)) @ frame_bytes m"
    by blast
  show ?case
  proof (cases r)
    case (Inl e)
    have "take k (frame_bytes m) = take (min k (length (frame_bytes m))) (frames (m # ms))"
      by (cases "k \<le> length (frame_bytes m)") simp_all
    then have "\<exists>j. sent (quic_send_stream (gw_quic g1)) = sent (quic_send_stream (gw_quic g)) @ take j (frames (m # ms))"
      using step(5) by metis
    then show ?thesis using step(1) Inl by simp
  next
    case (Inr u)
    have p: "list_all message_inv ms" "list_all fits_ipc ms" using Cons.prems(1,2) by simp_all
    from Cons.IH [OF p step(3,4,2), of w1]
    obtain r' g' w' j where run: "relay_to_quic b (length ms) g1 w1 = Some (r', g', w')"
      "sent (quic_send_stream (gw_quic g')) = sent (quic_send_stream (gw_quic g1)) @ take j (frames ms)"
      "is_ok r' \<longrightarrow> queue (ipc_subscriber (gw_ipc g')) = rest
          \<and> sent (quic_send_stream (gw_quic g')) = sent (quic_send_stream (gw_quic g1)) @ frames ms" by blast
    have "sent (quic_send_stream (gw_quic g')) =
        sent (quic_send_stream (gw_quic g)) @ take (length (frame_bytes m) + j) (frames (m # ms))"
      using run(2) step(6) Inr by simp
    then have "\<exists>k. sent (quic_send_stream (gw_quic g')) = sent (quic_send_stream (gw_quic g)) @ take k (frames (m # ms))"
      by blast
    then show ?thesis using run(1,3) step(1,6) Inr by simp
  qed
qed auto

text \<open>
  A stream cut anywhere: reading it yields the next message whole, or fails. No proper prefix of a frame
  is the frame of another message, since the header fixes the length.
\<close>

lemma read_frame_prefix:
  assumes law: "reader_law rd pending" and inv: "message_inv m" and max: "within_max m"
    and pend: "pending r = take j (frame_bytes m @ rest)" and read: "read_frame rd r = (Inr k, r')"
  shows "length (frame_bytes m) \<le> j"
proof (rule ccontr)
  assume short: "\<not> length (frame_bytes m) \<le> j"
  have k: "message_inv k" "pending r = frame_bytes k @ pending r'" using read_frame_ok [OF law read] by simp_all
  then have whole: "frame_bytes k @ pending r' = take j (frame_bytes m)" using pend short by simp
  have sizes: "length (header_bytes (header m)) = HEADER_SIZE" "length (header_bytes (header k)) = HEADER_SIZE"
    using inv k(1) by (simp_all add: message_inv_def hdr.wire_length)
  have "length (frame_bytes k) + length (pending r') = length (take j (frame_bytes m))" using arg_cong [OF whole, of length] by simp
  then have len: "length (frame_bytes k) \<le> j" "length (frame_bytes k) < length (frame_bytes m)" using short by simp_all
  have "take HEADER_SIZE (frame_bytes k @ pending r') = header_bytes (header k)" using sizes(2) by (simp add: frame_bytes_def)
  moreover have "HEADER_SIZE \<le> j" using len(1) sizes(2) by (simp add: frame_bytes_def)
  then have "take HEADER_SIZE (take j (frame_bytes m)) = header_bytes (header m)" using sizes(1) by (simp add: frame_bytes_def min_def)
  ultimately have same: "header_bytes (header k) = header_bytes (header m)" using whole by simp
  have ok: "header_ok (header k)" "header_ok (header m)" using inv k(1) by (simp_all add: message_inv_def)
  have "Inr (header k) = (Inr (header m) :: laic_error + message_header)"
    using hdr.dec_exact [OF ok(1)] hdr.dec_exact [OF ok(2)] unfolding same by (rule trans [OF sym])
  then have "length (payload k) = length (payload m)" using inv k(1) by (auto simp: message_inv_def)
  then show False using len(2) sizes by (simp add: frame_bytes_def)
qed

lemma forward_quic_error:
  assumes "reader_law (b_read b) pending" and "shm_law cap (b_publisher b) poll queue"
    and "forward_quic_to_ipc b g = (Inl e, g')"
  shows "queue (ipc_publisher (gw_ipc g')) = queue (ipc_publisher (gw_ipc g))"
proof (cases "quic_receive (b_read b) (gw_quic g)")
  case (Pair v q)
  show ?thesis
  proof (cases v)
    case (Inl d)
    then show ?thesis using Pair assms(3) by (auto simp: forward_quic_to_ipc_def)
  next
    case (Inr m)
    then obtain s' where "read_frame (b_read b) (quic_recv_stream (gw_quic g)) = (Inr m, s')"
      using Pair by (auto simp: quic_receive_def split: if_splits prod.splits)
    then have inv: "message_inv m" using read_frame_ok [OF assms(1)] by blast
    obtain c where c: "ipc_send (b_publisher b) m (gw_ipc g) = (Inl e, c)" "g' = g\<lparr>gw_quic := q, gw_ipc := c\<rparr>"
      using Pair Inr assms(3) by (auto simp: forward_quic_to_ipc_def split: prod.splits)
    show ?thesis using ipc_send_cases [OF assms(2) inv c(1)] c(2) by simp
  qed
qed

lemma relay_to_ipc_prefix:
  assumes rd: "reader_law (b_read b) pending" and law: "shm_law cap (b_publisher b) poll queue"
  shows "list_all message_inv ms \<Longrightarrow> list_all fits_ipc ms \<Longrightarrow> \<not> quic_closed (gw_quic g) \<Longrightarrow> \<not> ipc_closed (gw_ipc g) \<Longrightarrow>
    pending (quic_recv_stream (gw_quic g)) = take j (frames ms) \<Longrightarrow> relay_to_ipc b n g = (r, g') \<Longrightarrow>
    \<exists>k \<le> length ms. (is_ok r \<longrightarrow> k = n)
      \<and> queue (ipc_publisher (gw_ipc g')) = foldl (overflow_push cap) (queue (ipc_publisher (gw_ipc g))) (map message_frame (take k ms))"
proof (induction n arbitrary: g ms j)
  case (Suc n)
  obtain v g1 where f: "forward_quic_to_ipc b g = (v, g1)" by fastforce
  show ?case
  proof (cases v)
    case (Inl e)
    then have "r = Inl e" "g' = g1" using Suc.prems(6) f by simp_all
    then show ?thesis using forward_quic_error [OF rd law] f Inl by (intro exI [of _ 0]) auto
  next
    case (Inr u)
    then obtain m' s' where read: "read_frame (b_read b) (quic_recv_stream (gw_quic g)) = (Inr m', s')"
      using f Suc.prems(3) by (auto simp: forward_quic_to_ipc_def quic_receive_def split: prod.splits sum.splits)
    from read_frame_ok [OF rd read] have "0 < length (frame_bytes m')" "take j (frames ms) = frame_bytes m' @ pending s'"
      using Suc.prems(5) by (simp_all add: length_frame_bytes wire_size_def HEADER_SIZE_def)
    then obtain m ms' where ms: "ms = m # ms'" by (cases ms) auto
    have m: "message_inv m" "fits_ipc m" "list_all message_inv ms'" "list_all fits_ipc ms'"
      using Suc.prems(1,2) ms by simp_all
    have "length (frame_bytes m) \<le> j"
      using read_frame_prefix [OF rd m(1) fits_ipc_within_max [OF m(1,2)] _ read, of j "frames ms'"] Suc.prems(5) ms by simp
    then have pend: "pending (quic_recv_stream (gw_quic g)) = frame_bytes m @ take (j - length (frame_bytes m)) (frames ms')"
      using Suc.prems(5) ms by simp
    from forward_quic_step [OF rd law m(1,2) Suc.prems(3,4) pend f [unfolded Inr]]
    have g1: "pending (quic_recv_stream (gw_quic g1)) = take (j - length (frame_bytes m)) (frames ms')"
      "\<not> quic_closed (gw_quic g1)" "\<not> ipc_closed (gw_ipc g1)"
      "queue (ipc_publisher (gw_ipc g1)) = overflow_push cap (queue (ipc_publisher (gw_ipc g))) (message_frame m)" by simp_all
    have "relay_to_ipc b n g1 = (r, g')" using Suc.prems(6) f Inr by simp
    from Suc.IH [OF m(3,4) g1(2,3,1) this] obtain k where k: "k \<le> length ms'" "is_ok r \<longrightarrow> k = n"
      "queue (ipc_publisher (gw_ipc g')) = foldl (overflow_push cap) (queue (ipc_publisher (gw_ipc g1))) (map message_frame (take k ms'))"
      by blast
    then show ?thesis using ms g1(4) by (intro exI [of _ "Suc k"]) simp
  qed
qed (auto intro: exI [of _ 0])

section \<open>Two hosts\<close>

text \<open>The laws of the external calls of one host; its polls do not fail.\<close>

definition backend_laws ::
    "('c, 'c, 't, 'w, 'r, 'k) backends \<Rightarrow> ('w \<Rightarrow> bytes) \<Rightarrow> ('r \<Rightarrow> bytes) \<Rightarrow> ('c \<Rightarrow> ipc_frame list) \<Rightarrow> bool" where
  "backend_laws b sent pending queue \<longleftrightarrow>
     shm_law SUBSCRIBER_BUFFER_SIZE (b_publisher b) (b_poll b) queue \<and> (\<forall>q. is_ok (fst (b_poll b q)))
     \<and> writer_law (b_write b) sent \<and> reader_law (b_read b) pending"

text \<open>
  A relay over two hosts \<open>a\<close> and \<open>b\<close>: the sender published \<open>ms\<close>; the gateway \<open>g\<close> of its host forwards up
  to \<open>n\<close> messages to QUIC and ends with \<open>r\<close>; the stream delivers the first \<open>got\<close> bytes of what was
  written; the gateway \<open>h\<close> of the other host forwards up to \<open>n'\<close> messages from there and ends with \<open>r'\<close>.
  All channels were empty and open before; \<open>c\<close> is the receiver's connection.
\<close>

definition relay_attempt where
  "relay_attempt a b sent pending queue queue' ms sender g w h c n r got n' r' \<longleftrightarrow>
     (\<exists>sender' g' w' h'. ipc_sends (b_publisher a) ms sender = (Inr (), sender')
        \<and> queue (ipc_publisher sender) = [] \<and> ipc_subscriber (gw_ipc g) = ipc_publisher sender'
        \<and> \<not> ipc_closed (gw_ipc g) \<and> \<not> quic_closed (gw_quic g) \<and> sent (quic_send_stream (gw_quic g)) = []
        \<and> n \<le> length ms \<and> relay_to_quic a n g w = Some (r, g', w')
        \<and> \<not> ipc_closed (gw_ipc h) \<and> \<not> quic_closed (gw_quic h) \<and> queue' (ipc_publisher (gw_ipc h)) = []
        \<and> pending (quic_recv_stream (gw_quic h)) = take got (sent (quic_send_stream (gw_quic g')))
        \<and> relay_to_ipc b n' h = (r', h')
        \<and> ipc_subscriber c = ipc_publisher (gw_ipc h') \<and> \<not> ipc_closed c)"

text \<open>One in which every step succeeded.\<close>

definition relayed where
  "relayed a b sent pending queue queue' ms sender g w h c \<longleftrightarrow>
     (\<exists>got. relay_attempt a b sent pending queue queue' ms sender g w h c (length ms) (Inr ()) got (length ms) (Inr ()))"

lemma relay_attempt_delivery:
  assumes a: "backend_laws a sent pending' queue" and b: "backend_laws b sent' pending queue'"
    and inv: "list_all message_inv ms" and len: "length ms \<le> 16"
    and run: "relay_attempt a b sent pending queue queue' ms sender g w h c n r got n' r'"
  shows "\<exists>k \<le> length ms. (is_ok r' \<longrightarrow> k = n')
    \<and> (\<exists>c' v'. ipc_receives (b_poll b) (b_clock b) k c v = Some (Inr (take k ms), c', v')
        \<and> queue' (ipc_subscriber c') = [])"
proof -
  from a have law: "shm_law SUBSCRIBER_BUFFER_SIZE (b_publisher a) (b_poll a) queue" "\<And>q. is_ok (fst (b_poll a q))"
    "writer_law (b_write a) sent" by (simp_all add: backend_laws_def)
  from b have law': "shm_law SUBSCRIBER_BUFFER_SIZE (b_publisher b) (b_poll b) queue'" "\<And>q. is_ok (fst (b_poll b q))"
    "reader_law (b_read b) pending" by (simp_all add: backend_laws_def)
  from run obtain sender' g' w' h' where
    sends: "ipc_sends (b_publisher a) ms sender = (Inr (), sender')" "queue (ipc_publisher sender) = []"
      "ipc_subscriber (gw_ipc g) = ipc_publisher sender'"
    and g: "\<not> ipc_closed (gw_ipc g)" "\<not> quic_closed (gw_quic g)" "sent (quic_send_stream (gw_quic g)) = []"
      "n \<le> length ms" "relay_to_quic a n g w = Some (r, g', w')"
    and h: "\<not> quic_closed (gw_quic h)" "\<not> ipc_closed (gw_ipc h)" "queue' (ipc_publisher (gw_ipc h)) = []"
      "pending (quic_recv_stream (gw_quic h)) = take got (sent (quic_send_stream (gw_quic g')))"
      "relay_to_ipc b n' h = (r', h')"
    and c: "ipc_subscriber c = ipc_publisher (gw_ipc h')" "\<not> ipc_closed c"
    unfolding relay_attempt_def by blast
  have small: "length ms \<le> SUBSCRIBER_BUFFER_SIZE" "0 < SUBSCRIBER_BUFFER_SIZE"
    using len by (simp_all add: SUBSCRIBER_BUFFER_SIZE_def)
  have fill: "foldl (overflow_push SUBSCRIBER_BUFFER_SIZE) [] (map message_frame (take k ms)) = map message_frame (take k ms)" for k
    using foldl_overflow_push [OF small(2), of "[]" "map message_frame (take k ms)"] small(1) by simp
  have fits: "list_all fits_ipc ms" and "queue (ipc_publisher sender') = map message_frame ms"
    using ipc_sends_queue [OF law(1) inv sends(1)] sends(2) fill [of "length ms"] by simp_all
  moreover have "map message_frame ms = map message_frame (take n ms) @ map message_frame (drop n ms)"
    by (metis append_take_drop_id map_append)
  ultimately have waiting: "queue (ipc_subscriber (gw_ipc g)) = map message_frame (take n ms) @ map message_frame (drop n ms)"
    using sends(3) by simp
  have some: "list_all message_inv (take k ms)" "list_all fits_ipc (take k ms)" for k
    using inv fits by (auto simp: list_all_iff dest: in_set_takeD)
  have "\<exists>i. sent (quic_send_stream (gw_quic g')) = take i (frames (take n ms))"
    using relay_to_quic_run [OF law some g(1,2) waiting, of w] g(3-5) by auto
  then obtain i where "pending (quic_recv_stream (gw_quic h)) = take (min got i) (frames (take n ms))" using h(4) by auto
  from relay_to_ipc_prefix [OF law'(3,1) some h(1,2) this h(5)]
  obtain k where k: "k \<le> length (take n ms)" "is_ok r' \<longrightarrow> k = n'"
    "queue' (ipc_publisher (gw_ipc h')) = map message_frame (take k (take n ms))"
    using h(3) fill by (auto simp: take_map [symmetric])
  then have "queue' (ipc_subscriber c) = map message_frame (take k ms) @ []" "length (take k ms) = k" "k \<le> length ms"
    using c(1) by simp_all
  with ipc_receives_queue [OF law'(1,2) c(2) this(1) some, of "b_clock b" v] k(2) show ?thesis by auto
qed

lemma relayed_delivery:
  assumes "backend_laws a sent pending' queue" and "backend_laws b sent' pending queue'"
    and "list_all message_inv ms" and "length ms \<le> 16"
    and "relayed a b sent pending queue queue' ms sender g w h c"
  shows "\<exists>c' v'. ipc_receives (b_poll b) (b_clock b) (length ms) c v = Some (Inr ms, c', v')"
  using assms(5) relay_attempt_delivery [OF assms(1-4)] unfolding relayed_def by fastforce

section \<open>Properties\<close>

text \<open>
  C7. A relay over two gateways delivers a prefix: of a burst of at most 16 messages sent by IPC on one
  host, forwarded to QUIC and from QUIC to IPC on the other host, the receiver gets the first \<open>k\<close>, each
  once, intact and in the order sent, and nothing else is left there. This holds wherever either gateway
  stops, with any error, and wherever the stream is cut; \<open>k\<close> is the number of messages the second gateway
  was asked to forward when it reports success.
\<close>

theorem relay_between_hosts:
  assumes "backend_laws a sent pending' queue" and "backend_laws b sent' pending queue'"
    and "list_all message_inv ms" and "length ms \<le> 16"
    and "relay_attempt a b sent pending queue queue' ms sender g w h c n r got n' r'"
  shows "\<exists>k \<le> length ms. (is_ok r' \<longrightarrow> k = n')
    \<and> (\<exists>c' v'. ipc_receives (b_poll b) (b_clock b) k c v = Some (Inr (take k ms), c', v')
        \<and> queue' (ipc_subscriber c') = [])"
  by (rule relay_attempt_delivery [OF assms])

lemma mem_backend_laws: "backend_laws mem_backends (\<lambda>w. w) (\<lambda>r. r) (\<lambda>q. q)"
  by (simp add: backend_laws_def mem_backends_def mem_shm_law mem_write_law mem_read_law)
    (simp add: mem_poll_def split: list.split)

text \<open>One message over two hosts in memory.\<close>

lemma mem_attempt:
  assumes "message_inv m" and "fits_ipc m"
  shows "relay_attempt mem_backends mem_backends (\<lambda>w. w) (\<lambda>r. r) (\<lambda>q. q) (\<lambda>q. q) [m] (mem_conn [])
    (gateway_new (mem_conn [message_frame m]) (mem_quic [])) quiet_world
    (gateway_new (mem_conn []) (mem_quic (frame_bytes m))) (mem_conn [message_frame m])
    (length [m]) (Inr ()) (length (frame_bytes m)) (length [m]) (Inr ())"
proof -
  let ?g = "gateway_new (mem_conn [message_frame m]) (mem_quic [])"
  let ?h = "gateway_new (mem_conn []) (mem_quic (frame_bytes m))"
  have pub: "b_publisher mem_backends = mem_pub SUBSCRIBER_BUFFER_SIZE" by (simp add: mem_backends_def)
  have sends: "ipc_sends (b_publisher mem_backends) [m] (mem_conn []) =
      (Inr (), (mem_conn [])\<lparr>ipc_publisher := [message_frame m]\<rparr>)"
    using assms by (simp add: pub mem_ipc_send overflow_push_def SUBSCRIBER_BUFFER_SIZE_def)
  have law: "shm_law SUBSCRIBER_BUFFER_SIZE (b_publisher mem_backends) (b_poll mem_backends) (\<lambda>q. q)"
    "\<And>q. is_ok (fst (b_poll mem_backends q))" "writer_law (b_write mem_backends) (\<lambda>w. w)"
    using mem_backend_laws by (simp_all add: backend_laws_def)
  have ends: "\<not> ipc_closed (gw_ipc ?g)" "\<not> quic_closed (gw_quic ?g)" "ipc_subscriber (gw_ipc ?g) = message_frame m # []"
    "quic_send_stream (gw_quic ?g) = []"
    by (simp_all add: gateway_new_def mem_conn_def mem_quic_def)
  obtain r g1 w1 where fwd: "forward_ipc_to_quic mem_backends ?g quiet_world = Some (r, g1, w1)"
    "is_ok r \<longrightarrow> quic_send_stream (gw_quic g1) = frame_bytes m"
    using forward_ipc_step [OF law assms ends(1-3), of quiet_world] ends(4) by auto
  have "is_ok r"
  proof -
    obtain w' where "ipc_receive mem_poll still_clock (mem_conn [message_frame m]) quiet_world =
        Some (Inr m, (mem_conn [message_frame m])\<lparr>ipc_subscriber := []\<rparr>, w')"
      using ipc_receive_polled [of "mem_conn [message_frame m]" mem_poll 0 "Inr (message_frame m)" "[]" still_clock quiet_world]
        unpack_message_frame [OF assms] by (auto simp: mem_conn_def mem_poll_def ipc_verdict_def)
    then show ?thesis
      using fwd(1) mem_write_frame [OF assms(1) fits_ipc_within_max [OF assms]]
      by (auto simp: forward_ipc_to_quic_def gateway_new_def mem_backends_def quic_send_def mem_quic_def)
  qed
  then have run: "relay_to_quic mem_backends (length [m]) ?g quiet_world = Some (Inr (), g1, w1)"
    "quic_send_stream (gw_quic g1) = frame_bytes m"
    using fwd by (auto simp: is_ok_iff)
  obtain s' where s': "read_frame mem_read (frame_bytes m) = (Inr m, s')"
    using read_frame_frame_bytes [OF mem_read_law assms(1) fits_ipc_within_max [OF assms], of "frame_bytes m" "[]"] by auto
  then have returned: "relay_to_ipc mem_backends (length [m]) ?h = (Inr (), ?h\<lparr>gw_quic := (gw_quic ?h)\<lparr>quic_recv_stream := s'\<rparr>,
      gw_ipc := (mem_conn [])\<lparr>ipc_publisher := [message_frame m]\<rparr>\<rparr>)"
    using assms by (simp add: forward_quic_to_ipc_def quic_receive_def gateway_new_def mem_quic_def mem_backends_def
        mem_ipc_send overflow_push_def SUBSCRIBER_BUFFER_SIZE_def)
  show ?thesis
    unfolding relay_attempt_def using sends run returned
    by (intro exI conjI; (rule sends run returned | simp add: gateway_new_def mem_conn_def mem_quic_def)?)
      (simp_all add: gateway_new_def mem_conn_def mem_quic_def)
qed

lemma mem_relayed:
  assumes "message_inv m" and "fits_ipc m"
  shows "relayed mem_backends mem_backends (\<lambda>w. w) (\<lambda>r. r) (\<lambda>q. q) (\<lambda>q. q) [m] (mem_conn [])
    (gateway_new (mem_conn [message_frame m]) (mem_quic [])) quiet_world
    (gateway_new (mem_conn []) (mem_quic (frame_bytes m))) (mem_conn [message_frame m])"
  unfolding relayed_def using mem_attempt [OF assms] by blast

theorem relay_between_hosts_witness:
  "\<exists>c' v'. ipc_receives mem_poll still_clock 1 (mem_conn [message_frame sample_message]) quiet_world
      = Some (Inr [sample_message], c', v')"
proof -
  have polls: "b_poll mem_backends = mem_poll" "b_clock mem_backends = still_clock" by (simp_all add: mem_backends_def)
  have "list_all message_inv [sample_message]" "length [sample_message] \<le> 16" by (simp_all add: sample_message_inv)
  from relay_between_hosts [OF mem_backend_laws mem_backend_laws this mem_attempt [OF sample_message_inv sample_message_fits],
      of quiet_world]
  show ?thesis by (auto simp: polls)
qed

end
