(* ===== verification/Laic_Skill_Call.thy ===== *)
theory Laic_Skill_Call
  imports Laic_Relay Laicc_Interop
begin

text \<open>
  A skill call over two hosts, the case the library and the compiler are for together: a Rust client
  serializes its input with the generated \<open>to_arrow_ipc\<close>, sends it as a skill request, the request goes
  through both gateways, and a Python server deserializes it with the generated \<open>from_ipc\<close>; its output
  takes the same way back in a skill response.
\<close>

section \<open>One payload\<close>

text \<open>A relayed message whose payload one binding wrote is received, and the other binding reads it.\<close>

lemma payload_delivered:
  assumes laws: "backend_laws a sent pending' queue" "backend_laws b sent' pending queue'"
    and m: "message_inv m" "payload m = bytes" and run: "relayed a b sent pending queue queue' [m] s g w h c"
    and pair: "binding_writer wlib enc typed cells" "binding_reader rlib dec admits view" "carries wlib rlib"
    and wrote: "typed d vs" "admits d" "enc d sid ver direction vs = Some bytes"
  shows "(\<exists>c' v'. ipc_receives (b_poll b) (b_clock b) 1 c v = Some (Inr [m], c', v'))
    \<and> values_of d (cells d vs) \<and> dec d sid ver direction (payload m) = Inr (views view d (cells d vs))"
proof -
  have p: "list_all message_inv [m]" "length [m] \<le> 16" using m(1) by simp_all
  have "\<exists>c' v'. ipc_receives (b_poll b) (b_clock b) 1 c v = Some (Inr [m], c', v')"
    using relayed_delivery [OF laws p run, of v] by auto
  moreover have "dec d sid ver direction bytes = Inr (views view d (cells d vs))"
    using binding_pair.exchange [OF binding_pair.intro [OF pair(1,2) binding_pair_axioms.intro [OF pair(3)]] wrote(1,2), of sid ver direction]
      wrote(3) by (simp add: views_def)
  ultimately show ?thesis using binding_writer.cells_values [OF pair(1) wrote(1)] m(2) by simp
qed

lemma skill_response_Inr:
  assumes "skill_response request j f q p = Some (Inr n)"
  shows "is_skill_response n \<and> message_inv n \<and> correlation_id (header n) = msg_id (header request)
    \<and> msg_id (header n) = j \<and> payload n = p"
proof -
  obtain k where k: "message_new SKILL_RESPONSE j f q p = Some k" "n = set_correlation_id (msg_id (header request)) k"
    using assms by (auto simp: skill_response_def split: if_splits option.splits)
  have "message_inv n" using k(2) set_correlation_id_inv [OF message_new_inv [OF k(1)]] by simp
  moreover have "is_skill_response n \<and> correlation_id (header n) = msg_id (header request) \<and> msg_id (header n) = j \<and> payload n = p"
    using message_new_Some [OF k(1)] k(2) by (simp add: is_skill_response_def) (simp add: set_correlation_id_def)
  ultimately show ?thesis by simp
qed

section \<open>The call\<close>

text \<open>
  C4. A skill call from a Rust client to a Python server on another host, through two gateways and back:
  when every step of the two relays succeeded, the server receives the request unchanged, and the
  generated Python reads from its payload its view of the row of Arrow values the client's object is the
  Rust view of; the client receives the response unchanged, with the request's id as its correlation id,
  and the generated Rust reads from its payload its view of the row the server's object stands for.
\<close>

theorem skill_call_between_hosts:
  assumes laws: "backend_laws a sent pending' queue" "backend_laws b sent' pending queue'"
    and libs: "builds r" "writes r" "builds p" "writes p" "carries r p" "carries p r"
    and langs: "iterates iter" "converts widen conv"
    and input: "rust_struct_ok sf rd32 rd64 din" "python_struct_ok din" "rust_struct_typed din vi"
    and outp: "rust_struct_ok sf rd32 rd64 dout" "python_struct_ok dout" "python_struct_typed widen dout vo"
    and request: "to_arrow_ipc r iter din sid ver (lit ''input'') vi = Inr inbytes"
      "skill_request i Arrow q inbytes = Some m" "relayed a b sent pending queue queue' [m] s g w h c"
    and response: "to_ipc p conv dout sid ver (lit ''output'') vo = Inr outbytes"
      "skill_response m j Arrow q' outbytes = Some (Inr n)" "relayed b a sent' pending' queue' queue [n] s' g' w' h' c'"
  shows "(\<exists>xs e v'. ipc_receives (b_poll b) (b_clock b) 1 c v = Some (Inr [m], e, v') \<and> is_skill_request m
      \<and> values_of din xs \<and> views rust_view din xs = vi
      \<and> from_ipc sf rd64 p conv din sid ver (lit ''input'') (payload m) = Inr (views (py_view widen) din xs))
    \<and> (\<exists>xs e v'. ipc_receives (b_poll a) (b_clock a) 1 c' v = Some (Inr [n], e, v') \<and> is_skill_response n
      \<and> correlation_id (header n) = i \<and> values_of dout xs \<and> views (py_view widen) dout xs = vo
      \<and> from_arrow_ipc sf rd32 rd64 r dout sid ver (lit ''output'') (payload n) = Inr (views rust_view dout xs))"
proof
  have new: "message_new SKILL_REQUEST i Arrow q inbytes = Some m" using request(2) by (simp add: skill_request_def)
  have m: "is_skill_request m" "msg_id (header m) = i" "payload m = inbytes"
    using message_new_Some [OF new] by (simp_all add: is_skill_request_def)
  have wrote: "to_option (to_arrow_ipc r iter din sid ver (lit ''input'') vi) = Some inbytes"
    "to_option (to_ipc p conv dout sid ver (lit ''output'') vo) = Some outbytes"
    using request(1) response(1) by (simp_all add: to_option_def)
  show "\<exists>xs e v'. ipc_receives (b_poll b) (b_clock b) 1 c v = Some (Inr [m], e, v') \<and> is_skill_request m
      \<and> values_of din xs \<and> views rust_view din xs = vi
      \<and> from_ipc sf rd64 p conv din sid ver (lit ''input'') (payload m) = Inr (views (py_view widen) din xs)"
    using payload_delivered [OF laws message_new_inv [OF new] m(3) request(3) rust_writer [OF libs(1,2) langs(1)]
        python_reader [OF langs(2)] libs(5) conjI [OF input(1,3)] input(2) wrote(1)]
      views_rust [OF input(1,3) langs(1)] m(1) by blast
  have n: "is_skill_response n" "message_inv n" "correlation_id (header n) = i" "payload n = outbytes"
    using skill_response_Inr [OF response(2)] m(2) by simp_all
  show "\<exists>xs e v'. ipc_receives (b_poll a) (b_clock a) 1 c' v = Some (Inr [n], e, v') \<and> is_skill_response n
      \<and> correlation_id (header n) = i \<and> values_of dout xs \<and> views (py_view widen) dout xs = vo
      \<and> from_arrow_ipc sf rd32 rd64 r dout sid ver (lit ''output'') (payload n) = Inr (views rust_view dout xs)"
    using payload_delivered [OF laws(2,1) n(2,4) response(3) python_writer [OF libs(3,4) langs(2)]
        rust_reader libs(6) conjI [OF outp(2,3)] outp(1) wrote(2)]
      views_python [OF outp(2,3) langs(2)] n(1,3) by blast
qed

section \<open>An example\<close>

text \<open>
  The library in memory with the lengths of its streams renamed by \<open>f\<close>, whose inverse is \<open>k\<close>, so that two
  given streams fit an IPC slot.
\<close>

definition mem_arrow_renamed :: "(nat \<Rightarrow> nat) \<Rightarrow> (nat \<Rightarrow> nat) \<Rightarrow> mem_batch arrow_lib" where
  "mem_arrow_renamed f k = mem_arrow
     \<lparr>write_stream := (\<lambda>b. Inr (replicate (f (to_nat b)) 0)), open_stream := (\<lambda>bytes. Inr [Inr (from_nat (k (length bytes)))])\<rparr>"

lemma renamed_builds: "builds (mem_arrow_renamed f k)"
  using mem_builds by (simp add: builds_def mem_arrow_renamed_def)

lemma renamed_writes: "writes (mem_arrow_renamed f k)"
  by (simp add: writes_def mem_arrow_renamed_def)

lemma renamed_carries: "(\<And>n. k (f n) = n) \<Longrightarrow> carries (mem_arrow_renamed f k) (mem_arrow_renamed f k)"
  by (simp add: carries_def mem_arrow_renamed_def same_batch_def)

lemma renamed_to_arrow_ipc:
  "to_arrow_ipc mem_arrow iter d sid ver direction vs = Inr bytes \<Longrightarrow>
     to_arrow_ipc (mem_arrow_renamed f k) iter d sid ver direction vs = Inr (replicate (f (length bytes)) 0)"
  by (auto simp: to_arrow_ipc_def mem_arrow_renamed_def mem_arrow_def Let_def try_bind_def split: sum.splits)

lemma renamed_to_ipc:
  "to_ipc mem_arrow conv d sid ver direction vs = Inr bytes \<Longrightarrow>
     to_ipc (mem_arrow_renamed f k) conv d sid ver direction vs = Inr (replicate (f (length bytes)) 0)"
  by (auto simp: to_ipc_def mem_arrow_renamed_def mem_arrow_def Let_def try_bind_def split: sum.splits)

definition swapped :: "nat \<Rightarrow> nat \<Rightarrow> nat \<Rightarrow> nat" where
  "swapped x y n = (if n = x then y else if n = y then x else n)"

lemma swapped_twice [simp]: "swapped x y (swapped x y n) = n"
  by (simp add: swapped_def)

text \<open>Two numbers can be renamed to small ones.\<close>

lemma renaming:
  fixes x y :: nat
  shows "\<exists>f k. (\<forall>n. k (f n) = n) \<and> f x \<le> (2::nat) \<and> f y \<le> 2"
proof -
  let ?f = "\<lambda>n. swapped (swapped x 1 y) 2 (swapped x 1 n)"
  let ?k = "\<lambda>n. swapped x 1 (swapped (swapped x 1 y) 2 n)"
  have "?k (?f n) = n" for n by simp
  moreover have "?f x \<le> 2" "?f y \<le> 2" by (simp_all add: swapped_def)
  ultimately show ?thesis by (intro exI [of _ ?f] exI [of _ ?k]) simp
qed

lemma to_option_Inr: "to_option r = Some x \<Longrightarrow> r = Inr x"
  by (simp add: to_option_def split: sum.splits)

lemma small_message:
  assumes "length bytes \<le> 2"
  shows "\<exists>m. message_new t i f q bytes = Some m \<and> message_inv m \<and> fits_ipc m"
proof -
  obtain m where m: "message_new t i f q bytes = Some m" using assms by (simp add: message_new_def)
  then show ?thesis
    using message_new_inv [OF m] message_new_Some [OF m] assms by (simp add: fits_ipc_def MAX_IPC_PAYLOAD_LEN_def)
qed

theorem skill_call_between_hosts_witness:
  "\<exists>(lib :: mem_batch arrow_lib) m n xs ys c c' v v'.
     ipc_receives mem_poll still_clock 1 (mem_conn [message_frame m]) quiet_world = Some (Inr [m], c, v)
     \<and> from_ipc (\<lambda>_. []) (\<lambda>_. 0) lib mem_conv document_struct (lit ''docs'') (lit ''1.0'') (lit ''input'') (payload m)
       = Inr (views (py_view ucast) document_struct xs) \<and> views rust_view document_struct xs = document_values
     \<and> ipc_receives mem_poll still_clock 1 (mem_conn [message_frame n]) quiet_world = Some (Inr [n], c', v')
     \<and> correlation_id (header n) = 7
     \<and> from_arrow_ipc (\<lambda>_. []) (\<lambda>_. 0) (\<lambda>_. 0) lib document_struct (lit ''docs'') (lit ''1.0'') (lit ''output'') (payload n)
       = Inr (views rust_view document_struct ys) \<and> views (py_view ucast) document_struct ys = document_object"
proof -
  let ?din = "lit ''input''" and ?dout = "lit ''output''" and ?id = "lit ''docs''" and ?ver = "lit ''1.0''"
  obtain b1 where "to_option (to_arrow_ipc mem_arrow some_order document_struct ?id ?ver ?din document_values) = Some b1"
    using rust_mem.exchange [OF conjI [OF document_ok document_typed] document_ok, of ?id ?ver ?din] by blast
  note b1 = to_option_Inr [OF this]
  obtain b2 where "to_option (to_ipc mem_arrow mem_conv document_struct ?id ?ver ?dout document_object) = Some b2"
    using binding_writer.written [OF python_writer [OF mem_builds mem_writes mem_converts]
        conjI [OF document_python_ok document_python_typed], of ?id ?ver ?dout] by blast
  note b2 = to_option_Inr [OF this]
  obtain f k :: "nat \<Rightarrow> nat" where f: "\<forall>n. k (f n) = n" "f (length b1) \<le> 2" "f (length b2) \<le> 2"
    using renaming [of "length b1" "length b2"] by blast
  let ?lib = "mem_arrow_renamed f k"
  note w1 = renamed_to_arrow_ipc [OF b1, of f k] and w2 = renamed_to_ipc [OF b2, of f k]
  have carries: "carries ?lib ?lib" using f(1) by (simp add: renamed_carries)
  have "length (replicate (f (length b1)) (0 :: u8)) \<le> 2" using f(2) by simp
  then obtain m where m: "skill_request 7 Arrow Normal (replicate (f (length b1)) 0) = Some m" "message_inv m" "fits_ipc m"
    using small_message unfolding skill_request_def by blast
  have "length (replicate (f (length b2)) (0 :: u8)) \<le> 2" using f(3) by simp
  then obtain n0 where n0: "message_new SKILL_RESPONSE 8 Arrow Normal (replicate (f (length b2)) 0) = Some n0" "message_inv n0" "fits_ipc n0"
    using small_message by blast
  let ?n = "set_correlation_id (msg_id (header m)) n0"
  have req: "is_skill_request m" using message_new_Some m(1) by (auto simp: skill_request_def is_skill_request_def)
  have n: "skill_response m 8 Arrow Normal (replicate (f (length b2)) 0) = Some (Inr ?n)" "message_inv ?n" "fits_ipc ?n"
    using req n0 set_correlation_id_inv [OF n0(2)] by (simp_all add: skill_response_def fits_ipc_def set_correlation_id_def)
  have polls: "b_poll mem_backends = mem_poll" "b_clock mem_backends = still_clock" by (simp_all add: mem_backends_def)
  note call = skill_call_between_hosts [OF mem_backend_laws mem_backend_laws renamed_builds renamed_writes renamed_builds
      renamed_writes carries carries some_order mem_converts document_ok document_python_ok document_typed
      document_ok document_python_ok document_python_typed w1 m(1) mem_relayed [OF m(2,3)] w2 n(1) mem_relayed [OF n(2,3)],
      where sf = "\<lambda>_. []" and ?rd32.0 = "\<lambda>_. 0" and ?rd64.0 = "\<lambda>_. 0" and v = quiet_world, unfolded polls]
  from call obtain xs c v where x: "ipc_receives mem_poll still_clock 1 (mem_conn [message_frame m]) quiet_world = Some (Inr [m], c, v)"
    "from_ipc (\<lambda>_. []) (\<lambda>_. 0) ?lib mem_conv document_struct ?id ?ver ?din (payload m)
      = Inr (views (py_view ucast) document_struct xs)" "views rust_view document_struct xs = document_values" by blast
  from call obtain ys c' v' where y: "ipc_receives mem_poll still_clock 1 (mem_conn [message_frame ?n]) quiet_world = Some (Inr [?n], c', v')"
    "correlation_id (header ?n) = 7"
    "from_arrow_ipc (\<lambda>_. []) (\<lambda>_. 0) (\<lambda>_. 0) ?lib document_struct ?id ?ver ?dout (payload ?n)
      = Inr (views rust_view document_struct ys)" "views (py_view ucast) document_struct ys = document_object" by blast
  show ?thesis by (intro exI conjI) (rule x y)+
qed

end
