(* ===== verification/Laic_Protocol_Tests.thy ===== *)
theory Laic_Protocol_Tests
  imports Laic_Pattern Laic_Flow
begin

text \<open>
  The unit tests of \<open>crates/laic/src/protocol/\<close>, \<open>pattern.rs\<close> and \<open>flow.rs\<close>, evaluated on the model. A test
  is a bool: the conjunction of its assertions, with \<open>False\<close> where it panics. They say of the definitions
  what the repository says of the code; each module's tests are one lemma.
\<close>

text \<open>\<open>let Err(err) = r else \<dots>; assert_eq!(err.code().as_u16(), code)\<close>\<close>

definition fails_with :: "laic_error + 'a \<Rightarrow> u16 \<Rightarrow> bool" where
  "fails_with r c = (case r of Inl e \<Rightarrow> as_u16 (laic_code e) = c | Inr _ \<Rightarrow> False)"

text \<open>\<open>let Ok(x) = r else \<dots>; assertions\<close>\<close>

definition succeeds :: "'e + 'a \<Rightarrow> ('a \<Rightarrow> bool) \<Rightarrow> bool" where
  "succeeds r p = (case r of Inl _ \<Rightarrow> False | Inr x \<Rightarrow> p x)"

section \<open>Header\<close>

definition encode_decode_roundtrip :: bool where
  "encode_decode_roundtrip =
     (case encode sample_header (replicate HEADER_SIZE 0) of (r, buf) \<Rightarrow>
        succeeds r (\<lambda>_. succeeds (decode buf) (\<lambda>decoded. decoded = sample_header)))"

definition encode_buffer_too_short :: bool where
  "encode_buffer_too_short = fails_with (fst (encode sample_header (replicate 39 0))) 0x0302"

definition decode_buffer_too_short :: bool where
  "decode_buffer_too_short = fails_with (decode (replicate 10 0)) 0x0302"

definition decode_invalid_magic :: bool where
  "decode_invalid_magic =
     (case encode sample_header (replicate HEADER_SIZE 0) of (r, buf) \<Rightarrow>
        succeeds r (\<lambda>_. fails_with (decode (buf[0 := 0xFF])) 0x0301))"

definition decode_invalid_payload_format :: bool where
  "decode_invalid_payload_format =
     (let hdr = sample_header\<lparr>payload_format := 99\<rparr>;
          buf = replicate HEADER_SIZE 0;
          buf = splice 0 (le_bytes 4 (magic hdr)) buf;
          buf = splice 4 (le_bytes 2 (version hdr)) buf;
          buf = splice 6 (le_bytes 2 (msg_type hdr)) buf;
          buf = splice 8 (le_bytes 8 (msg_id hdr)) buf;
          buf = splice 16 (le_bytes 8 (correlation_id hdr)) buf;
          buf = splice 24 (le_bytes 4 (payload_len hdr)) buf;
          buf = buf[28 := 99];
          buf = buf[29 := qos hdr];
          buf = splice 30 (le_bytes 2 (credit_grant hdr)) buf;
          buf = splice 32 (le_bytes 4 (flags hdr)) buf
      in fails_with (decode buf) 0x0304)"

definition decode_invalid_qos :: bool where
  "decode_invalid_qos =
     (case encode sample_header (replicate HEADER_SIZE 0) of (r, buf) \<Rightarrow>
        succeeds r (\<lambda>_. fails_with (decode (buf[29 := 5])) 0x0305))"

definition little_endian_byte_order :: bool where
  "little_endian_byte_order =
     (case encode sample_header (replicate HEADER_SIZE 0) of (r, buf) \<Rightarrow>
        succeeds r (\<lambda>_. buf ! 0 = 0x43 \<and> buf ! 1 = 0x49 \<and> buf ! 2 = 0x41 \<and> buf ! 3 = 0x4C
          \<and> buf ! 8 = 0x08 \<and> buf ! 9 = 0x07))"

definition encode_into_larger_buffer :: bool where
  "encode_into_larger_buffer =
     (case encode sample_header (replicate 128 0) of (r, buf) \<Rightarrow>
        succeeds r (\<lambda>_. list_all (\<lambda>b. b = 0) (drop 40 buf)))"

definition decode_unsupported_version :: bool where
  "decode_unsupported_version =
     (case encode sample_header (replicate HEADER_SIZE 0) of (r, buf) \<Rightarrow>
        succeeds r (\<lambda>_. fails_with (decode (buf[4 := 0x02, 5 := 0x00])) 0x0303))"

definition encode_invalid_payload_format :: bool where
  "encode_invalid_payload_format =
     fails_with (fst (encode (sample_header\<lparr>payload_format := 99\<rparr>) (replicate HEADER_SIZE 0))) 0x0304"

definition encode_invalid_qos :: bool where
  "encode_invalid_qos = fails_with (fst (encode (sample_header\<lparr>qos := 7\<rparr>) (replicate HEADER_SIZE 0))) 0x0305"

definition encode_invalid_magic :: bool where
  "encode_invalid_magic =
     fails_with (fst (encode (sample_header\<lparr>magic := 0xDEADBEEF\<rparr>) (replicate HEADER_SIZE 0))) 0x0301"

definition encode_invalid_version :: bool where
  "encode_invalid_version =
     fails_with (fst (encode (sample_header\<lparr>version := 0x9999\<rparr>) (replicate HEADER_SIZE 0))) 0x0303"

lemma header_tests:
  "encode_decode_roundtrip \<and> encode_buffer_too_short \<and> decode_buffer_too_short \<and> decode_invalid_magic
   \<and> decode_invalid_payload_format \<and> decode_invalid_qos \<and> little_endian_byte_order \<and> encode_into_larger_buffer
   \<and> decode_unsupported_version \<and> encode_invalid_payload_format \<and> encode_invalid_qos \<and> encode_invalid_magic
   \<and> encode_invalid_version"
  by code_simp

section \<open>Constants\<close>

definition magic_is_laic_ascii :: bool where
  "magic_is_laic_ascii \<longleftrightarrow> be_bytes 4 MAGIC = [0x4C, 0x41, 0x49, 0x43]"

definition version_encoding :: bool where
  "version_encoding \<longleftrightarrow> drop_bit 8 VERSION = 0 \<and> VERSION AND 0xFF = 1"

definition payload_format_roundtrip :: bool where
  "payload_format_roundtrip = list_all (\<lambda>fmt. is_ok (format_from_u8 (format_byte fmt))) [Arrow, Protobuf, Raw]"

definition payload_format_invalid :: bool where
  "payload_format_invalid \<longleftrightarrow> \<not> is_ok (format_from_u8 3) \<and> \<not> is_ok (format_from_u8 255)"

definition qos_roundtrip :: bool where
  "qos_roundtrip = list_all (\<lambda>q. is_ok (qos_from_u8 (qos_byte q))) [Normal, High, Emergency]"

definition qos_invalid :: bool where
  "qos_invalid \<longleftrightarrow> \<not> is_ok (qos_from_u8 3) \<and> \<not> is_ok (qos_from_u8 255)"

definition msg_type_constants :: bool where
  "msg_type_constants \<longleftrightarrow> msg_type_as_u16 DATA = 0x0001 \<and> msg_type_as_u16 CONTROL = 0x0002
     \<and> msg_type_as_u16 ACK = 0x0003 \<and> msg_type_as_u16 HEARTBEAT = 0x0004"

text \<open>\<open>count_ones\<close>\<close>

definition count_ones :: "u32 \<Rightarrow> nat" where
  "count_ones w = length (filter (bit w) [0..<32])"

definition flags_are_distinct_bits :: bool where
  "flags_are_distinct_bits =
     (let every = [FLAG_COMPRESSED, FLAG_FRAGMENTED, FLAG_ACK_REQUESTED, FLAG_END_OF_STREAM, FLAG_HAS_CREDIT_GRANT]
      in list_all (\<lambda>i. list_all (\<lambda>j. every ! i AND every ! j = 0) [i + 1..<length every]) [0..<length every]
         \<and> list_all (\<lambda>flag. count_ones flag = 1) every)"

lemma constants_tests:
  "magic_is_laic_ascii \<and> version_encoding \<and> payload_format_roundtrip \<and> payload_format_invalid \<and> qos_roundtrip
   \<and> qos_invalid \<and> msg_type_constants \<and> flags_are_distinct_bits"
  by code_simp

lemma flag_values: "FLAG_END_OF_STREAM = 8" "FLAG_HAS_CREDIT_GRANT = 16"
  by code_simp+

section \<open>Message\<close>

text \<open>\<open>Message::new\<close> and then assertions; the panic fails the test.\<close>

definition with_message :: "message option \<Rightarrow> (message \<Rightarrow> bool) \<Rightarrow> bool" where
  "with_message r p = (case r of None \<Rightarrow> False | Some m \<Rightarrow> p m)"

definition new_message_fields :: bool where
  "new_message_fields = with_message (message_new DATA 42 Arrow Normal [1, 2, 3, 4]) (\<lambda>msg.
     magic (header msg) = MAGIC \<and> version (header msg) = VERSION \<and> msg_type (header msg) = msg_type_as_u16 DATA
     \<and> msg_id (header msg) = 42 \<and> payload_len (header msg) = 4 \<and> payload_format (header msg) = format_byte Arrow
     \<and> qos (header msg) = qos_byte Normal \<and> payload msg = [1, 2, 3, 4])"

definition wire_size_test :: bool where
  "wire_size_test = with_message (message_new CONTROL 1 Protobuf High (replicate 100 0)) (\<lambda>msg.
     wire_size msg = HEADER_SIZE + 100)"

definition empty_payload :: bool where
  "empty_payload = with_message (message_new HEARTBEAT 0 Raw Normal []) (\<lambda>msg.
     payload_len (header msg) = 0 \<and> wire_size msg = HEADER_SIZE)"

definition from_parts_valid :: bool where
  "from_parts_valid = with_message (message_new DATA 1 Arrow Normal (replicate 8 0xAB)) (\<lambda>msg.
     case into_parts msg of (h, p) \<Rightarrow> succeeds (from_parts h p) (\<lambda>rebuilt.
       payload_len (header rebuilt) = 8 \<and> length (payload rebuilt) = 8))"

definition from_parts_rejects_length_mismatch :: bool where
  "from_parts_rejects_length_mismatch = with_message (message_new DATA 1 Arrow Normal (replicate 10 0)) (\<lambda>msg.
     case into_parts msg of (h, _) \<Rightarrow> fails_with (from_parts h (replicate 5 0)) 0x0306)"

definition into_parts_preserves_data :: bool where
  "into_parts_preserves_data = with_message (message_new DATA 99 Raw Emergency [1, 2, 3, 4, 5]) (\<lambda>msg.
     case into_parts msg of (h, p) \<Rightarrow> msg_id h = 99 \<and> p = [1, 2, 3, 4, 5])"

definition from_parts_rejects_invalid_magic :: bool where
  "from_parts_rejects_invalid_magic = with_message (message_new DATA 1 Arrow Normal (replicate 4 0)) (\<lambda>msg.
     case into_parts msg of (h, p) \<Rightarrow> fails_with (from_parts (h\<lparr>magic := 0xDEADBEEF\<rparr>) p) 0x0301)"

definition from_parts_rejects_invalid_version :: bool where
  "from_parts_rejects_invalid_version = with_message (message_new DATA 1 Arrow Normal (replicate 4 0)) (\<lambda>msg.
     case into_parts msg of (h, p) \<Rightarrow> fails_with (from_parts (h\<lparr>version := 0x9999\<rparr>) p) 0x0303)"

definition from_parts_rejects_invalid_payload_format :: bool where
  "from_parts_rejects_invalid_payload_format = with_message (message_new DATA 1 Arrow Normal (replicate 4 0)) (\<lambda>msg.
     case into_parts msg of (h, p) \<Rightarrow> fails_with (from_parts (h\<lparr>payload_format := 99\<rparr>) p) 0x0304)"

definition from_parts_rejects_invalid_qos :: bool where
  "from_parts_rejects_invalid_qos = with_message (message_new DATA 1 Arrow Normal (replicate 4 0)) (\<lambda>msg.
     case into_parts msg of (h, p) \<Rightarrow> fails_with (from_parts (h\<lparr>qos := 7\<rparr>) p) 0x0305)"

definition set_credit_grant_sets_flag :: bool where
  "set_credit_grant_sets_flag = with_message (message_new DATA 1 Arrow Normal (replicate 4 0)) (\<lambda>msg.
     credit_grant (header msg) = 0 \<and> flags (header msg) AND FLAG_HAS_CREDIT_GRANT = 0
     \<and> (let msg = set_credit_grant 42 msg in
          credit_grant (header msg) = 42 \<and> flags (header msg) AND FLAG_HAS_CREDIT_GRANT \<noteq> 0))"

definition set_credit_grant_clears_flag_on_zero :: bool where
  "set_credit_grant_clears_flag_on_zero = with_message (message_new DATA 1 Arrow Normal (replicate 4 0)) (\<lambda>msg.
     let msg = set_credit_grant 10 msg in
       flags (header msg) AND FLAG_HAS_CREDIT_GRANT \<noteq> 0
       \<and> (let msg = set_credit_grant 0 msg in
            credit_grant (header msg) = 0 \<and> flags (header msg) AND FLAG_HAS_CREDIT_GRANT = 0))"

definition msg_type_returns_correct_type :: bool where
  "msg_type_returns_correct_type =
     (with_message (message_new DATA 1 Arrow Normal (replicate 4 0)) (\<lambda>msg. message_type msg = DATA)
      \<and> with_message (message_new HEARTBEAT 2 Raw Normal []) (\<lambda>msg2. message_type msg2 = HEARTBEAT))"

definition set_correlation_id_test :: bool where
  "set_correlation_id_test = with_message (message_new DATA 1 Arrow Normal (replicate 4 0)) (\<lambda>msg.
     correlation_id (header msg) = 0 \<and> correlation_id (header (set_correlation_id 12345 msg)) = 12345)"

definition set_end_of_stream_flag :: bool where
  "set_end_of_stream_flag = with_message (message_new DATA 1 Arrow Normal (replicate 4 0)) (\<lambda>msg.
     \<not> is_end_of_stream msg \<and> is_end_of_stream (set_end_of_stream msg))"

definition clear_end_of_stream_flag :: bool where
  "clear_end_of_stream_flag = with_message (message_new DATA 1 Arrow Normal (replicate 4 0)) (\<lambda>msg.
     let msg = set_end_of_stream msg in
       is_end_of_stream msg \<and> \<not> is_end_of_stream (clear_end_of_stream msg))"

definition end_of_stream_preserves_other_flags :: bool where
  "end_of_stream_preserves_other_flags = with_message (message_new DATA 1 Arrow Normal (replicate 4 0)) (\<lambda>msg.
     let msg = set_credit_grant 10 msg in
       flags (header msg) AND FLAG_HAS_CREDIT_GRANT \<noteq> 0
       \<and> (let msg = set_end_of_stream msg in
            is_end_of_stream msg \<and> flags (header msg) AND FLAG_HAS_CREDIT_GRANT \<noteq> 0
            \<and> (let msg = clear_end_of_stream msg in
                 \<not> is_end_of_stream msg \<and> flags (header msg) AND FLAG_HAS_CREDIT_GRANT \<noteq> 0)))"

lemmas message_test_defs =
  new_message_fields_def wire_size_test_def empty_payload_def from_parts_valid_def
  from_parts_rejects_length_mismatch_def into_parts_preserves_data_def
  from_parts_rejects_invalid_magic_def from_parts_rejects_invalid_version_def
  from_parts_rejects_invalid_payload_format_def from_parts_rejects_invalid_qos_def
  set_credit_grant_sets_flag_def set_credit_grant_clears_flag_on_zero_def
  msg_type_returns_correct_type_def set_correlation_id_test_def set_end_of_stream_flag_def
  clear_end_of_stream_flag_def end_of_stream_preserves_other_flags_def with_message_def succeeds_def
  fails_with_def message_new_def into_parts_def from_parts_def check_header_def format_from_u8_def
  qos_from_u8_def set_credit_grant_def set_correlation_id_def set_end_of_stream_def
  clear_end_of_stream_def is_end_of_stream_def message_type_def wire_size_def flag_values MAGIC_def
  VERSION_def

lemma message_tests:
  "new_message_fields \<and> wire_size_test \<and> empty_payload \<and> from_parts_valid \<and> from_parts_rejects_length_mismatch
   \<and> into_parts_preserves_data \<and> from_parts_rejects_invalid_magic \<and> from_parts_rejects_invalid_version
   \<and> from_parts_rejects_invalid_payload_format \<and> from_parts_rejects_invalid_qos \<and> set_credit_grant_sets_flag
   \<and> set_credit_grant_clears_flag_on_zero \<and> msg_type_returns_correct_type \<and> set_correlation_id_test
   \<and> set_end_of_stream_flag \<and> clear_end_of_stream_flag \<and> end_of_stream_preserves_other_flags"
  by (intro conjI) (simp_all add: message_test_defs)

section \<open>Patterns\<close>

definition msg_type_constants_no_overlap_with_core :: bool where
  "msg_type_constants_no_overlap_with_core \<longleftrightarrow>
     msg_type_as_u16 SKILL_REQUEST \<ge> 0x0010 \<and> msg_type_as_u16 SKILL_RESPONSE \<ge> 0x0010
     \<and> msg_type_as_u16 STREAM_DATA \<ge> 0x0020 \<and> msg_type_as_u16 TOPIC_PUBLISH \<ge> 0x0030"

definition skill_request_msg_type :: bool where
  "skill_request_msg_type = with_message (skill_request 1 Protobuf Normal [1, 2, 3]) (\<lambda>msg.
     message_type msg = SKILL_REQUEST \<and> msg_id (header msg) = 1 \<and> correlation_id (header msg) = 0)"

text \<open>\<open>let Ok(resp) = skill_response(\<dots>) else panic\<close>\<close>

definition with_response :: "(laic_error + message) option \<Rightarrow> (message \<Rightarrow> bool) \<Rightarrow> bool" where
  "with_response r p = (case r of None \<Rightarrow> False | Some r \<Rightarrow> succeeds r p)"

definition skill_response_correlation :: bool where
  "skill_response_correlation = with_message (skill_request 42 Protobuf Normal [1]) (\<lambda>req.
     with_response (skill_response req 100 Protobuf Normal [2]) (\<lambda>resp.
       message_type resp = SKILL_RESPONSE \<and> msg_id (header resp) = 100 \<and> correlation_id (header resp) = 42))"

definition stream_chunk_without_end :: bool where
  "stream_chunk_without_end = with_message (stream_chunk 1 Arrow Normal (replicate 10 0) False) (\<lambda>msg.
     message_type msg = STREAM_DATA \<and> \<not> is_end_of_stream msg)"

definition stream_chunk_with_end :: bool where
  "stream_chunk_with_end = with_message (stream_chunk 2 Arrow Normal (replicate 5 0) True) (\<lambda>msg.
     message_type msg = STREAM_DATA \<and> is_end_of_stream msg)"

definition topic_publish_msg_type :: bool where
  "topic_publish_msg_type = with_message (topic_publish 1 Raw High [0xAB]) (\<lambda>msg.
     message_type msg = TOPIC_PUBLISH)"

definition matchers_are_exclusive :: bool where
  "matchers_are_exclusive =
     with_message (skill_request 1 Protobuf Normal []) (\<lambda>req.
     with_response (skill_response req 2 Protobuf Normal []) (\<lambda>resp.
     with_message (stream_chunk 3 Arrow Normal [] False) (\<lambda>chunk.
     with_message (topic_publish 4 Raw Normal []) (\<lambda>topic.
       is_skill_request req \<and> \<not> is_skill_response req \<and> \<not> is_stream_data req \<and> \<not> is_topic_publish req
       \<and> \<not> is_skill_request resp \<and> is_skill_response resp
       \<and> \<not> is_skill_request chunk \<and> is_stream_data chunk
       \<and> \<not> is_skill_request topic \<and> is_topic_publish topic))))"

definition skill_response_carries_request_payload_format :: bool where
  "skill_response_carries_request_payload_format =
     with_message (skill_request 1 Protobuf Normal [1]) (\<lambda>req.
     with_response (skill_response req 2 Raw High [2]) (\<lambda>resp.
       payload_format (header resp) = format_byte Raw \<and> qos (header resp) = qos_byte High))"

definition skill_response_rejects_non_request :: bool where
  "skill_response_rejects_non_request = with_message (topic_publish 1 Raw Normal []) (\<lambda>topic.
     case skill_response topic 2 Raw Normal [] of None \<Rightarrow> False | Some r \<Rightarrow> fails_with r 0x0307)"

lemmas pattern_test_defs =
  msg_type_constants_no_overlap_with_core_def skill_request_msg_type_def skill_response_correlation_def
  stream_chunk_without_end_def stream_chunk_with_end_def topic_publish_msg_type_def
  matchers_are_exclusive_def skill_response_carries_request_payload_format_def
  skill_response_rejects_non_request_def with_message_def with_response_def succeeds_def fails_with_def
  message_new_def skill_request_def skill_response_def stream_chunk_def topic_publish_def
  set_end_of_stream_def set_correlation_id_def is_end_of_stream_def message_type_def matchers
  pattern_types flag_values

lemma pattern_tests:
  "msg_type_constants_no_overlap_with_core \<and> skill_request_msg_type \<and> skill_response_correlation
   \<and> stream_chunk_without_end \<and> stream_chunk_with_end \<and> topic_publish_msg_type \<and> matchers_are_exclusive
   \<and> skill_response_carries_request_payload_format \<and> skill_response_rejects_non_request"
  by (intro conjI) (simp_all add: pattern_test_defs)

section \<open>Flow control\<close>

definition new_sets_initial_credits :: bool where
  "new_sets_initial_credits \<longleftrightarrow> available (credit_new 100) = 100"

definition acquire_decrements :: bool where
  "acquire_decrements =
     (case acquire (credit_new 3) of (r, c) \<Rightarrow> is_ok r \<and> available c = 2
      \<and> (case acquire c of (r, c) \<Rightarrow> is_ok r \<and> available c = 1
      \<and> (case acquire c of (r, c) \<Rightarrow> is_ok r \<and> available c = 0)))"

definition acquire_exhausted_returns_flow_error :: bool where
  "acquire_exhausted_returns_flow_error =
     (case fst (acquire (credit_new 0)) of
        Inl err \<Rightarrow> as_u16 (flow_code err) = 0x0401 \<and> flow_is_retryable err
      | Inr _ \<Rightarrow> False)"

definition replenish_adds_credits :: bool where
  "replenish_adds_credits \<longleftrightarrow> available (replenish 50 (credit_new 0)) = 50"

definition replenish_saturates_at_max :: bool where
  "replenish_saturates_at_max \<longleftrightarrow> available (replenish 20 (credit_new (- 1 - 10))) = - 1"

definition acquire_then_replenish_cycle :: bool where
  "acquire_then_replenish_cycle =
     (case acquire (credit_new 2) of (r1, c) \<Rightarrow> case acquire c of (r2, c) \<Rightarrow> case acquire c of (r3, c) \<Rightarrow>
      case acquire (replenish 1 c) of (r4, c) \<Rightarrow> case acquire c of (r5, c) \<Rightarrow>
        is_ok r1 \<and> is_ok r2 \<and> \<not> is_ok r3 \<and> is_ok r4 \<and> \<not> is_ok r5)"

definition zero_replenish_is_noop :: bool where
  "zero_replenish_is_noop \<longleftrightarrow> available (replenish 0 (credit_new 5)) = 5"

lemmas flow_test_defs =
  new_sets_initial_credits_def acquire_decrements_def acquire_exhausted_returns_flow_error_def
  replenish_adds_credits_def replenish_saturates_at_max_def acquire_then_replenish_cycle_def
  zero_replenish_is_noop_def credit_new_def acquire_def replenish_def saturating_add_def

lemma flow_tests:
  "new_sets_initial_credits \<and> acquire_decrements \<and> acquire_exhausted_returns_flow_error \<and> replenish_adds_credits
   \<and> replenish_saturates_at_max \<and> acquire_then_replenish_cycle \<and> zero_replenish_is_noop"
  by (intro conjI) (simp_all add: flow_test_defs)

end
