(* ===== verification/Laic_Transport_Tests.thy ===== *)
theory Laic_Transport_Tests
  imports Laic_Protocol_Tests Laic_Handshake Laic_Ipc
begin

text \<open>
  The unit tests of \<open>transport/framing.rs\<close>, \<open>transport/ipc.rs\<close> and \<open>handshake/tests.rs\<close>, evaluated on the
  model. The duplex pipe of a framing test is the stream in memory, read to its end once the client is
  dropped; the IPC service is the channel in memory; the protobuf codec is an argument.
\<close>

section \<open>Framing\<close>

definition framing_message :: "bytes \<Rightarrow> message option" where
  "framing_message p = message_new DATA 42 Arrow Normal p"

definition write_read_roundtrip :: bool where
  "write_read_roundtrip = with_message (framing_message [1, 2, 3, 4, 5]) (\<lambda>msg.
     case write_frame mem_write msg [] of (r, client) \<Rightarrow> succeeds r (\<lambda>_.
       succeeds (fst (read_frame mem_read client)) (\<lambda>received.
         header received = header msg \<and> payload received = payload msg)))"

definition roundtrip_empty_payload :: bool where
  "roundtrip_empty_payload = with_message (framing_message []) (\<lambda>msg.
     case write_frame mem_write msg [] of (r, client) \<Rightarrow> succeeds r (\<lambda>_.
       succeeds (fst (read_frame mem_read client)) (\<lambda>received. length (payload received) = 0)))"

definition read_truncated_header :: bool where
  "read_truncated_header =
     (case mem_write (replicate 10 0) [] of (r, client) \<Rightarrow> succeeds r (\<lambda>_.
        fails_with (fst (read_frame mem_read client)) 0x0105))"

definition read_truncated_payload :: bool where
  "read_truncated_payload = with_message (framing_message (replicate 100 0)) (\<lambda>msg.
     case encode (header msg) (replicate HEADER_SIZE 0) of (r, header_buf) \<Rightarrow> succeeds r (\<lambda>_.
     case mem_write header_buf [] of (r, client) \<Rightarrow> succeeds r (\<lambda>_.
     case mem_write (replicate 50 0) client of (r, client) \<Rightarrow> succeeds r (\<lambda>_.
       fails_with (fst (read_frame mem_read client)) 0x0105))))"

definition read_payload_exceeds_max :: bool where
  "read_payload_exceeds_max =
     (let h = \<lparr>magic = MAGIC, version = VERSION, msg_type = msg_type_as_u16 DATA, msg_id = 1,
               correlation_id = 0, payload_len = MAX_PAYLOAD_LEN + 1, payload_format = format_byte Arrow,
               qos = qos_byte Normal, credit_grant = 0, flags = 0, reserved = [0, 0, 0, 0]\<rparr>
      in case encode h (replicate HEADER_SIZE 0) of (r, header_buf) \<Rightarrow> succeeds r (\<lambda>_.
         case mem_write header_buf [] of (r, client) \<Rightarrow> succeeds r (\<lambda>_.
           fails_with (fst (read_frame mem_read client)) 0x0109)))"

definition read_invalid_magic :: bool where
  "read_invalid_magic =
     (case mem_write (replicate HEADER_SIZE 0) [] of (r, client) \<Rightarrow> succeeds r (\<lambda>_.
        fails_with (fst (read_frame mem_read client)) 0x0301))"

definition multiple_frames_sequential :: bool where
  "multiple_frames_sequential =
     with_message (framing_message (replicate 10 0xAA)) (\<lambda>msg1.
     with_message (framing_message (replicate 20 0xBB)) (\<lambda>msg2.
     case write_frame mem_write msg1 [] of (r, client) \<Rightarrow> succeeds r (\<lambda>_.
     case write_frame mem_write msg2 client of (r, client) \<Rightarrow> succeeds r (\<lambda>_.
     case read_frame mem_read client of (r, server) \<Rightarrow> succeeds r (\<lambda>r1.
       succeeds (fst (read_frame mem_read server)) (\<lambda>r2.
         payload r1 = replicate 10 0xAA \<and> payload r2 = replicate 20 0xBB))))))"

definition write_frame_rejects_oversized_payload :: bool where
  "write_frame_rejects_oversized_payload =
     with_message (framing_message (replicate (unat MAX_PAYLOAD_LEN + 1) 0)) (\<lambda>msg.
       fails_with (fst (write_frame mem_write msg [])) 0x0109)"

text \<open>A message of at most a few bytes, over a stream in memory.\<close>

lemma framing_message_sent:
  assumes "length p \<le> 100"
  shows "\<exists>m. framing_message p = Some m \<and> payload m = p \<and> message_inv m
    \<and> (\<forall>w. write_frame mem_write m w = (Inr (), w @ frame_bytes m))
    \<and> (\<forall>rest. read_frame mem_read (frame_bytes m @ rest) = (Inr m, rest))"
proof -
  obtain m where m: "message_new DATA 42 Arrow Normal p = Some m" using assms by (simp add: message_new_def)
  note inv = message_new_inv [OF m]
  have "payload_len (header m) = of_nat (length p)" "payload m = p" using message_new_Some [OF m] by simp_all
  then have max: "within_max m"
    using assms by (simp add: within_max_def MAX_PAYLOAD_LEN_def word_le_nat_alt unat_of_nat)
  have "read_frame mem_read (frame_bytes m @ rest) = (Inr m, rest)" for rest
    using read_frame_frame_bytes [OF mem_read_law inv max, of "frame_bytes m @ rest" rest] by auto
  then show ?thesis using m message_new_Some [OF m] inv mem_write_frame [OF inv max] by (simp add: framing_message_def)
qed

lemma framing_header_encoded:
  assumes "header_ok h"
  shows "encode h (replicate HEADER_SIZE 0) = (Inr (), header_bytes h)"
    "mem_read HEADER_SIZE (header_bytes h @ rest) = (Inr (header_bytes h), rest)" "decode (header_bytes h) = Inr h"
  using hdr.enc_exact [OF assms] hdr.wire_length [OF assms] hdr.dec_exact [OF assms]
  by (simp_all add: mem_read_def)

lemma oversized_code [simp]: "as_u16 (laic_code (oversized_error n)) = 0x0109"
  by (simp add: oversized_error_def)

lemma framing_tests:
  "write_read_roundtrip \<and> roundtrip_empty_payload \<and> read_truncated_header \<and> read_truncated_payload
   \<and> read_payload_exceeds_max \<and> read_invalid_magic \<and> multiple_frames_sequential \<and> write_frame_rejects_oversized_payload"
proof (intro conjI)
  obtain m where m: "framing_message [1, 2, 3, 4, 5] = Some m" "\<forall>w. write_frame mem_write m w = (Inr (), w @ frame_bytes m)"
    "\<forall>rest. read_frame mem_read (frame_bytes m @ rest) = (Inr m, rest)"
    using framing_message_sent [of "[1, 2, 3, 4, 5]"] by auto
  then show write_read_roundtrip
    using spec [OF m(3), of "[]"]
    by (simp add: write_read_roundtrip_def with_message_def succeeds_def)
  obtain m where m: "framing_message [] = Some m" "payload m = []" "\<forall>w. write_frame mem_write m w = (Inr (), w @ frame_bytes m)"
    "\<forall>rest. read_frame mem_read (frame_bytes m @ rest) = (Inr m, rest)"
    using framing_message_sent [of "[]"] by auto
  then show roundtrip_empty_payload
    using spec [OF m(4), of "[]"]
    by (simp add: roundtrip_empty_payload_def with_message_def succeeds_def)
  show read_truncated_header
    by (simp add: read_truncated_header_def succeeds_def mem_write_def read_frame_def mem_read_def HEADER_SIZE_def fails_with_def)
  show read_invalid_magic by code_simp
  have "header_ok \<lparr>magic = MAGIC, version = VERSION, msg_type = msg_type_as_u16 DATA, msg_id = 1,
     correlation_id = 0, payload_len = MAX_PAYLOAD_LEN + 1, payload_format = format_byte Arrow,
     qos = qos_byte Normal, credit_grant = 0, flags = 0, reserved = [0, 0, 0, 0]\<rparr>" (is "header_ok ?h")
    by (simp add: header_ok_def check_header_def header_array_lens_def format_from_u8_def qos_from_u8_def)
  note enc = framing_header_encoded [OF this]
  have "MAX_PAYLOAD_LEN < payload_len ?h" by (simp add: MAX_PAYLOAD_LEN_def)
  then show read_payload_exceeds_max
    using enc(1,3) enc(2) [of "[]"]
    by (simp add: read_payload_exceeds_max_def Let_def succeeds_def mem_write_def read_frame_def fails_with_def)
  obtain m where m: "framing_message (replicate 100 0) = Some m" "payload m = replicate 100 0" "message_inv m"
    using framing_message_sent [of "replicate 100 0"] by auto
  then have hok: "header_ok (header m)" and len: "unat (payload_len (header m)) = 100" by (simp_all add: message_inv_def)
  have "\<not> MAX_PAYLOAD_LEN < payload_len (header m)" using len by (simp add: MAX_PAYLOAD_LEN_def word_less_nat_alt)
  moreover have "mem_read 100 (replicate 50 0) = (Inl ''early eof'', [])" by (simp add: mem_read_def)
  ultimately show read_truncated_payload
    using m(1) len framing_header_encoded [OF hok]
    by (simp add: read_truncated_payload_def with_message_def succeeds_def mem_write_def read_frame_def fails_with_def)
  obtain m where m: "framing_message (replicate 10 0xAA) = Some m" "payload m = replicate 10 0xAA"
    "\<forall>w. write_frame mem_write m w = (Inr (), w @ frame_bytes m)"
    "\<forall>rest. read_frame mem_read (frame_bytes m @ rest) = (Inr m, rest)"
    using framing_message_sent [of "replicate 10 0xAA"] by auto
  obtain k where k: "framing_message (replicate 20 0xBB) = Some k" "payload k = replicate 20 0xBB"
    "\<forall>w. write_frame mem_write k w = (Inr (), w @ frame_bytes k)"
    "\<forall>rest. read_frame mem_read (frame_bytes k @ rest) = (Inr k, rest)"
    using framing_message_sent [of "replicate 20 0xBB"] by auto
  show multiple_frames_sequential
    using m k spec [OF k(4), of "[]"]
    by (simp add: multiple_frames_sequential_def with_message_def succeeds_def)
  show write_frame_rejects_oversized_payload
    by (simp add: write_frame_rejects_oversized_payload_def with_message_def framing_message_def message_new_def
        MAX_PAYLOAD_LEN_def write_frame_def fails_with_def)
qed

section \<open>IPC\<close>

text \<open>
  The frame a malicious client publishes: a hand-encoded header whose length is one over the slot. The
  client's publisher and the server's subscriber are the two ends of a channel in memory.
\<close>

definition malformed_frame :: ipc_frame where
  "malformed_frame =
     (let buf = replicate HEADER_SIZE 0;
          buf = splice 0 (le_bytes 4 MAGIC) buf;
          buf = splice 4 (le_bytes 2 VERSION) buf;
          buf = splice 6 (le_bytes 2 (1 :: u16)) buf;
          bad_len = MAX_IPC_PAYLOAD_LEN + 1;
          buf = splice 24 (le_bytes 4 bad_len) buf;
          buf = buf[28 := 1];
          buf = buf[29 := 0]
      in \<lparr>frame_header = buf, frame_payload = replicate (unat MAX_IPC_PAYLOAD_LEN) 0\<rparr>)"

definition receive_rejects_oversized_payload_len_in_header :: bool where
  "receive_rejects_oversized_payload_len_in_header =
     (case loan_uninit (mem_pub SUBSCRIBER_BUFFER_SIZE) [] of (r, channel) \<Rightarrow> succeeds r (\<lambda>_.
      case publish (mem_pub SUBSCRIBER_BUFFER_SIZE) malformed_frame channel of (r, channel) \<Rightarrow> succeeds r (\<lambda>_.
      case ipc_receive mem_poll still_clock (mem_conn channel) quiet_world of
        None \<Rightarrow> False
      | Some (r, _, _) \<Rightarrow> fails_with r 0x0109)))"

lemma malformed_header:
  "decode (frame_header malformed_frame) =
     Inr \<lparr>magic = MAGIC, version = VERSION, msg_type = 1, msg_id = 0, correlation_id = 0, payload_len = 65537,
          payload_format = 1, qos = 0, credit_grant = 0, flags = 0, reserved = [0, 0, 0, 0]\<rparr>"
  by (simp add: malformed_frame_def Let_def) code_simp

lemma ipc_tests: "receive_rejects_oversized_payload_len_in_header"
proof -
  let ?c = "mem_conn [malformed_frame]"
  have "polled mem_poll 0 (ipc_subscriber ?c) (Inr malformed_frame) []" by (simp add: mem_conn_def mem_poll_def)
  then obtain w' where "ipc_receive mem_poll still_clock ?c quiet_world =
      Some (ipc_verdict (Inr malformed_frame), ?c\<lparr>ipc_subscriber := []\<rparr>, w')"
    using ipc_receive_polled [of ?c mem_poll 0 "Inr malformed_frame" "[]" still_clock quiet_world]
    by (auto simp: mem_conn_def)
  then show ?thesis
    using malformed_header
    by (simp add: receive_rejects_oversized_payload_len_in_header_def mem_pub_def succeeds_def overflow_push_def
        SUBSCRIBER_BUFFER_SIZE_def ipc_verdict_def unpack_frame_def MAX_IPC_PAYLOAD_LEN_def ipc_capacity_error_def fails_with_def)
qed

section \<open>Handshake\<close>

definition sample_hello :: hello where
  "sample_hello = \<lparr>hello_version = ucast VERSION, hello_domain = ''prod-a'', hello_nonce = replicate HANDSHAKE_TOKEN_LEN 7\<rparr>"

definition sample_client_config :: handshake_config where
  "sample_client_config = config_new ''prod-a'' (Some ''prod-b'')"

definition sample_server_config :: handshake_config where
  "sample_server_config = server_config_new ''prod-b'' None"

definition sample_success_ack :: hello_ack where
  "sample_success_ack =
     \<lparr>ack_version = ucast VERSION, ack_domain = ''prod-b'', ack_client_nonce = replicate HANDSHAKE_TOKEN_LEN 7,
      ack_server_nonce = replicate HANDSHAKE_TOKEN_LEN 8, ack_session_id = replicate HANDSHAKE_TOKEN_LEN 9,
      rejection_code = 0, rejected_expected = None\<rparr>"

definition sample_rejection_ack :: hello_ack where
  "sample_rejection_ack = sample_success_ack\<lparr>rejection_code := 0x0309, rejected_expected := Some ''prod-a''\<rparr>"

definition hello_protobuf_roundtrip :: "hello proto_codec \<Rightarrow> bool" where
  "hello_protobuf_roundtrip codec = succeeds (encode_proto codec sample_hello) (\<lambda>encoded.
     succeeds (decode_proto codec encoded) (\<lambda>decoded. decoded = sample_hello))"

definition decode_control_message_rejects_non_control_type :: "hello proto_codec \<Rightarrow> bool" where
  "decode_control_message_rejects_non_control_type codec = succeeds (encode_proto codec sample_hello) (\<lambda>p.
     with_message (message_new DATA 1 Protobuf High p) (\<lambda>m. fails_with (decode_control_message codec m) 0x0307))"

definition decode_control_message_rejects_non_protobuf_control_payload :: "hello proto_codec \<Rightarrow> bool" where
  "decode_control_message_rejects_non_protobuf_control_payload codec = succeeds (encode_proto codec sample_hello) (\<lambda>p.
     with_message (message_new CONTROL 1 Raw High p) (\<lambda>m. fails_with (decode_control_message codec m) 0x030C))"

definition decode_control_message_rejects_malformed_protobuf_handshake_payload :: "hello proto_codec \<Rightarrow> bool" where
  "decode_control_message_rejects_malformed_protobuf_handshake_payload codec =
     with_message (message_new CONTROL 1 Protobuf High [0x08]) (\<lambda>m. fails_with (decode_control_message codec m) 0x030B)"

definition validate_protocol_version_rejects_mismatch :: bool where
  "validate_protocol_version_rejects_mismatch =
     fails_with (validate_protocol_version VERSION (ucast VERSION + 1)) 0x0308"

definition validate_expected_domain_rejects_mismatch :: bool where
  "validate_expected_domain_rejects_mismatch =
     fails_with (validate_expected_domain (Some ''prod-a'') ''prod-b'') 0x0309"

definition validate_peer_hello_rejects_empty_trust_domain :: bool where
  "validate_peer_hello_rejects_empty_trust_domain =
     fails_with (validate_peer_hello sample_server_config (sample_hello\<lparr>hello_domain := []\<rparr>)) 0x030B"

definition decode_token_rejects_wrong_length :: bool where
  "decode_token_rejects_wrong_length = fails_with (decode_token ''session_id'' [1, 2, 3]) 0x030B"

definition validate_ack_rejection_requires_expected_domain_for_trust_mismatch :: bool where
  "validate_ack_rejection_requires_expected_domain_for_trust_mismatch =
     fails_with (validate_ack_rejection sample_client_config
       (sample_rejection_ack\<lparr>ack_server_nonce := [], ack_session_id := [], rejected_expected := None\<rparr>)) 0x030B"

definition validate_ack_rejection_rejects_session_material_on_rejection :: bool where
  "validate_ack_rejection_rejects_session_material_on_rejection =
     fails_with (validate_ack_rejection sample_client_config sample_rejection_ack) 0x030B"

definition validate_ack_rejection_success_requires_server_nonce :: bool where
  "validate_ack_rejection_success_requires_server_nonce =
     fails_with (validate_ack_rejection sample_client_config (sample_success_ack\<lparr>ack_server_nonce := []\<rparr>)) 0x030B"

definition validate_ack_rejection_success_requires_session_id :: bool where
  "validate_ack_rejection_success_requires_session_id =
     fails_with (validate_ack_rejection sample_client_config (sample_success_ack\<lparr>ack_session_id := []\<rparr>)) 0x030B"

definition validate_ack_rejection_success_rejects_rejection_explanation :: bool where
  "validate_ack_rejection_success_rejects_rejection_explanation =
     fails_with (validate_ack_rejection sample_client_config
       (sample_success_ack\<lparr>rejected_expected := Some ''prod-c''\<rparr>)) 0x030B"

lemmas handshake_test_defs =
  validate_protocol_version_rejects_mismatch_def validate_expected_domain_rejects_mismatch_def
  validate_peer_hello_rejects_empty_trust_domain_def decode_token_rejects_wrong_length_def
  validate_ack_rejection_requires_expected_domain_for_trust_mismatch_def
  validate_ack_rejection_rejects_session_material_on_rejection_def
  validate_ack_rejection_success_requires_server_nonce_def
  validate_ack_rejection_success_requires_session_id_def
  validate_ack_rejection_success_rejects_rejection_explanation_def sample_hello_def
  sample_client_config_def sample_server_config_def sample_success_ack_def sample_rejection_ack_def
  fails_with_def validate_protocol_version_def validate_expected_domain_def validate_peer_hello_def
  validate_trust_domain_def decode_token_def validate_ack_rejection_def validate_ack_shape_def
  invalid_payload_def config_new_def server_config_new_def VERSION_def HANDSHAKE_TOKEN_LEN_def

lemma handshake_tests:
  "validate_protocol_version_rejects_mismatch \<and> validate_expected_domain_rejects_mismatch
   \<and> validate_peer_hello_rejects_empty_trust_domain \<and> decode_token_rejects_wrong_length
   \<and> validate_ack_rejection_requires_expected_domain_for_trust_mismatch
   \<and> validate_ack_rejection_rejects_session_material_on_rejection
   \<and> validate_ack_rejection_success_requires_server_nonce \<and> validate_ack_rejection_success_requires_session_id
   \<and> validate_ack_rejection_success_rejects_rejection_explanation"
  by (intro conjI) (simp_all add: handshake_test_defs)

text \<open>With a codec that encodes the hello, decodes what it encoded and rejects a lone field key.\<close>

lemma handshake_codec_tests:
  assumes "proto_law codec" and "proto_encode codec sample_hello = Inr bs" and "length bs < 2 ^ 32"
    and "proto_decode codec [0x08] = Inl e"
  shows "hello_protobuf_roundtrip codec \<and> decode_control_message_rejects_non_control_type codec
    \<and> decode_control_message_rejects_non_protobuf_control_payload codec
    \<and> decode_control_message_rejects_malformed_protobuf_handshake_payload codec"
proof -
  have enc: "encode_proto codec sample_hello = Inr bs" using assms(2) by (simp add: encode_proto_def)
  show ?thesis
    using assms(3,4) enc decode_encode_proto [OF assms(1) enc]
    by (simp add: hello_protobuf_roundtrip_def decode_control_message_rejects_non_control_type_def
        decode_control_message_rejects_non_protobuf_control_payload_def
        decode_control_message_rejects_malformed_protobuf_handshake_payload_def succeeds_def with_message_def
        message_new_def fails_with_def decode_control_message_def message_type_def DATA_def CONTROL_def
        format_from_u8_def decode_proto_def invalid_payload_def)
qed

section \<open>Codecs\<close>

text \<open>
  The tests of \<open>codec/arrow.rs\<close> and \<open>codec/proto.rs\<close> that do not depend on the bytes a library writes; the
  library and the batch the test builds with it are arguments.
\<close>

definition arrow_roundtrip_test :: "('batch, 'sch, 'wr, 'rd) arrow_ops \<Rightarrow> 'batch \<Rightarrow> bool" where
  "arrow_roundtrip_test ops sample_batch = succeeds (encode_record_batch ops sample_batch) (\<lambda>bs.
     succeeds (decode_record_batch ops bs) (\<lambda>decoded. decoded = sample_batch))"

text \<open>\<open>str::contains\<close>\<close>

definition contains :: "string \<Rightarrow> string \<Rightarrow> bool" where
  "contains s needle = list_ex (\<lambda>i. take (length needle) (drop i s) = needle) [0..<Suc (length s)]"

definition decode_rejects_multi_batch :: "('batch, 'sch, 'wr, 'rd) arrow_ops \<Rightarrow> 'batch \<Rightarrow> bool" where
  "decode_rejects_multi_batch ops batch =
     succeeds (writer_new ops (batch_schema ops batch)) (\<lambda>writer.
     succeeds (writer_write ops batch writer) (\<lambda>writer.
     succeeds (writer_write ops batch writer) (\<lambda>writer.
     succeeds (writer_finish ops writer) (\<lambda>writer.
       case decode_record_batch ops (writer_buffer ops writer) of
         Inl e \<Rightarrow> contains (display_laic_error e) ''>1''
       | Inr _ \<Rightarrow> False))))"

lemma arrow_tests:
  assumes "arrow_law ops written items" and "\<And>sch. is_ok (writer_new ops sch)"
    and "\<And>b w. is_ok (writer_write ops b w)" and "\<And>w. is_ok (writer_finish ops w)"
  shows "arrow_roundtrip_test ops batch \<and> decode_rejects_multi_batch ops batch"
proof -
  obtain w0 where w0: "writer_new ops (batch_schema ops batch) = Inr w0" using assms(2) by (auto simp: is_ok_iff)
  obtain w1 where w1: "writer_write ops batch w0 = Inr w1" using assms(3) [of batch w0] by (auto simp: is_ok_iff)
  obtain w2 where w2: "writer_write ops batch w1 = Inr w2" using assms(3) [of batch w1] by (auto simp: is_ok_iff)
  obtain v1 where v1: "writer_finish ops w1 = Inr v1" using assms(4) [of w1] by (auto simp: is_ok_iff)
  obtain v2 where v2: "writer_finish ops w2 = Inr v2" using assms(4) [of w2] by (auto simp: is_ok_iff)
  have "written w1 = [batch]" using arrow_law_write [OF assms(1) w0 w1] .
  moreover from this have "written w2 = [batch, batch]" using assms(1) w2 unfolding arrow_law_def by fastforce
  ultimately obtain r1 r2 where r: "reader_new ops (writer_buffer ops v1) = Inr r1" "items r1 = [Inr batch]"
    "reader_new ops (writer_buffer ops v2) = Inr r2" "items r2 = [Inr batch, Inr batch]"
    using arrow_law_finish [OF assms(1) v1] arrow_law_finish [OF assms(1) v2] by auto
  obtain s1 where s1: "reader_next ops r1 = (Some (Inr batch), s1)" "items s1 = []"
    using arrow_law_next(2) [OF assms(1) r(2)] by blast
  obtain s2 where s2: "reader_next ops r2 = (Some (Inr batch), s2)" "items s2 = [Inr batch]"
    using arrow_law_next(2) [OF assms(1) r(4)] by blast
  obtain s3 where s3: "reader_next ops s2 = (Some (Inr batch), s3)" using arrow_law_next(2) [OF assms(1) s2(2)] by blast
  have one: "decode_record_batch ops (writer_buffer ops v1) = Inr batch"
    using r(1) s1 arrow_law_next(1) [OF assms(1) s1(2)] by (simp add: decode_record_batch_def)
  have two: "decode_record_batch ops (writer_buffer ops v2) = Inl (arrow_decode ''expected 1 record batch, got >1'')"
    using r(3) s2 s3 by (simp add: decode_record_batch_def)
  have "contains (display_laic_error (arrow_decode ''expected 1 record batch, got >1'')) ''>1''" by code_simp
  then show ?thesis
    using w0 w1 w2 v1 v2 one two
    by (simp add: arrow_roundtrip_test_def decode_rejects_multi_batch_def succeeds_def encode_record_batch_def)
qed

record test_msg =
  test_name :: string
  test_value :: u32

definition proto_roundtrip_test :: "test_msg proto_codec \<Rightarrow> bool" where
  "proto_roundtrip_test codec =
     (let original = \<lparr>test_name = ''hello'', test_value = 42\<rparr> in
      succeeds (encode_proto codec original) (\<lambda>bs. bs \<noteq> [] \<and>
        succeeds (decode_proto codec bs) (\<lambda>decoded. decoded = original)))"

definition empty_message_roundtrip :: "test_msg proto_codec \<Rightarrow> bool" where
  "empty_message_roundtrip codec =
     (let original = \<lparr>test_name = [], test_value = 0\<rparr> in
      succeeds (encode_proto codec original) (\<lambda>bs.
        succeeds (decode_proto codec bs) (\<lambda>decoded. decoded = original)))"

text \<open>A codec that encodes every message, a message with a field set as at least one byte.\<close>

lemma proto_tests:
  assumes "proto_law codec" and "\<And>m. is_ok (proto_encode codec m)"
    and "\<And>m. proto_encode codec m = Inr [] \<Longrightarrow> test_name m = [] \<and> test_value m = 0"
  shows "proto_roundtrip_test codec \<and> empty_message_roundtrip codec"
proof -
  have "succeeds (encode_proto codec m) (\<lambda>bs. (test_name m \<noteq> [] \<longrightarrow> bs \<noteq> []) \<and>
      succeeds (decode_proto codec bs) (\<lambda>decoded. decoded = m))" for m
    using assms(2,3) [of m] assms(1)
    by (auto simp: succeeds_def encode_proto_def decode_proto_def proto_law_def is_ok_iff split: sum.split)
  from this [of "\<lparr>test_name = ''hello'', test_value = 42\<rparr>"] this [of "\<lparr>test_name = [], test_value = 0\<rparr>"]
  show ?thesis by (simp add: proto_roundtrip_test_def empty_message_roundtrip_def Let_def)
qed

end
