(* ===== verification/Laicc_Generator_Tests.thy ===== *)
theory Laicc_Generator_Tests
  imports Laicc_Rust_Types Laicc_Python Laicc_Names
begin

text \<open>
  The unit tests of \<open>crates/laicc/src/codegen/mod.rs\<close>, \<open>rust_types.rs\<close> and \<open>python_types.rs\<close>, evaluated on
  the model: a test is the conjunction of its assertions.
\<close>

section \<open>Text functions\<close>

definition test_to_pascal_case :: bool where
  "test_to_pascal_case \<longleftrightarrow>
     to_pascal_case (lit ''INPUT_TOO_LONG'') = lit ''InputTooLong''
     \<and> to_pascal_case (lit ''MODEL_NOT_FOUND'') = lit ''ModelNotFound''
     \<and> to_pascal_case (lit ''TIMEOUT'') = lit ''Timeout''
     \<and> to_pascal_case (lit ''echo'') = lit ''Echo''
     \<and> to_pascal_case (lit ''health_check'') = lit ''HealthCheck''
     \<and> to_pascal_case (lit ''image_classify'') = lit ''ImageClassify''"

text \<open>The backslash is code point 92.\<close>

definition escape_python_like_string_literal_body :: bool where
  "escape_python_like_string_literal_body \<longleftrightarrow>
     escape_string_literal_body (lit ''line1'' @ [10] @ lit ''line2'') PythonLike = lit ''line1'' @ [92] @ lit ''nline2''
     \<and> escape_string_literal_body (lit ''C:'' @ [92] @ lit ''temp'' @ [92] @ lit ''file.txt'') PythonLike
         = lit ''C:'' @ [92, 92] @ lit ''temp'' @ [92, 92] @ lit ''file.txt''
     \<and> escape_string_literal_body (lit ''before'' @ [0] @ [0x31] @ lit ''after'') PythonLike
         = lit ''before'' @ [92] @ lit ''x001after''"

definition escape_rust_string_literal_body :: bool where
  "escape_rust_string_literal_body \<longleftrightarrow>
     escape_string_literal_body (lit ''line1'' @ [10] @ lit ''line2'') Rust = lit ''line1'' @ [92] @ lit ''nline2''
     \<and> escape_string_literal_body (lit ''C:'' @ [92] @ lit ''temp'' @ [92] @ lit ''file.txt'') Rust
         = lit ''C:'' @ [92, 92] @ lit ''temp'' @ [92, 92] @ lit ''file.txt''"

lemma text_tests:
  "test_to_pascal_case \<and> escape_python_like_string_literal_body \<and> escape_rust_string_literal_body"
  by (simp add: test_to_pascal_case_def escape_python_like_string_literal_body_def escape_rust_string_literal_body_def
      lit_def to_pascal_case_def to_upper_def to_lower_def escape_string_literal_body_def escape_char_def is_control_def)

section \<open>Rust types\<close>

definition scalar_rust_types :: bool where
  "scalar_rust_types \<longleftrightarrow> rust_type LString = lit ''String'' \<and> rust_type LI32 = lit ''i32''
     \<and> rust_type LF64 = lit ''f64'' \<and> rust_type LBytes = lit ''Vec<u8>''"

definition container_rust_types :: bool where
  "container_rust_types \<longleftrightarrow> rust_type (LList LString) = lit ''Vec<String>''
     \<and> rust_type (LOptional LI32) = lit ''Option<i32>''
     \<and> rust_type (LMap LString LF64) = lit ''HashMap<String, f64>''"

definition tensor_rust_type :: bool where
  "tensor_rust_type \<longleftrightarrow> rust_type (LTensor TF32 [Fixed 768]) = lit ''Vec<u8>''"

definition scalar_arrow_datatypes :: bool where
  "scalar_arrow_datatypes \<longleftrightarrow> arrow_datatype LString = lit ''DataType::Utf8''
     \<and> arrow_datatype LBool = lit ''DataType::Boolean'' \<and> arrow_datatype LI32 = lit ''DataType::Int32''"

lemma rust_type_tests:
  "scalar_rust_types \<and> container_rust_types \<and> tensor_rust_type \<and> scalar_arrow_datatypes"
  by (simp add: scalar_rust_types_def container_rust_types_def tensor_rust_type_def scalar_arrow_datatypes_def lit_def)

section \<open>Python types\<close>

definition scalar_python_types :: bool where
  "scalar_python_types \<longleftrightarrow> python_type LString = lit ''str'' \<and> python_type LI32 = lit ''int''
     \<and> python_type LF64 = lit ''float'' \<and> python_type LBytes = lit ''bytes'' \<and> python_type LBool = lit ''bool''"

definition container_python_types :: bool where
  "container_python_types \<longleftrightarrow> python_type (LList LString) = lit ''list[str]''
     \<and> python_type (LOptional LI32) = lit ''int | None''
     \<and> python_type (LMap LString LF64) = lit ''dict[str, float]''"

definition scalar_pyarrow_types :: bool where
  "scalar_pyarrow_types \<longleftrightarrow> pyarrow_type LString = lit ''pa.string()'' \<and> pyarrow_type LBool = lit ''pa.bool_()''
     \<and> pyarrow_type LI32 = lit ''pa.int32()'' \<and> pyarrow_type LF64 = lit ''pa.float64()''"

definition tensor_python_type :: bool where
  "tensor_python_type =
     (let ty = LTensor TF32 [Fixed 768] in
        python_type ty = lit ''bytes'' \<and> pyarrow_type ty = lit ''pa.binary()'')"

lemma python_type_tests:
  "scalar_python_types \<and> container_python_types \<and> scalar_pyarrow_types \<and> tensor_python_type"
  by (simp add: scalar_python_types_def container_python_types_def scalar_pyarrow_types_def tensor_python_type_def fmt_def lit_def
      template_char_def)

end
