(* ===== verification/Spec2Isabelle.thy ===== *)
theory Spec2Isabelle
  imports
    Prelude Laic_Errors Laic_Constants Laic_Header Laic_Message Laic_Flow Laic_Pattern Laic_Framing
    Laic_Lifecycle Laic_Shm Laic_Ipc Laic_Emergency Laic_Tls Laic_Quic Laic_Transport Laic_Codec
    Laic_Handshake Laicc_Text Laicc_Ast Laicc_Validate Laicc_Rust_Types Laicc_Rust_Serialize
    Laicc_Rust_Deserialize Laicc_Rust_Contract Laicc_Python Laicc_Typescript Laicc_Inspect
    Laicc_Numbers Laicc_Parser Laicc_Grammar Laicc_Roundtrip Laicc_Cli Laicc_Shape Laicc_Names
    Laic_Duplex Laicc_Arrow Laicc_Rust_Binding Laicc_Python_Binding Laicc_Typescript_Binding
    Laicc_Interop Laicc_Gaps Laic_Relay Laic_Skill_Call Laic_Protocol_Tests Laic_Transport_Tests
    Laicc_Generator_Tests
begin

text \<open>
  A model of LAIC (crates under \<open>src/crates/\<close>): a message protocol with shared-memory (IPC) and QUIC
  transports for AI components (crate \<open>laic\<close>), and the compiler of its contract files (crate \<open>laicc\<close>).

  \<^bold>\<open>The protocol.\<close> A \<open>Message\<close> (40-byte header and payload) is built through \<open>Message::new\<close> or checked
  by \<open>from_parts\<close>; the patterns build RPC, streaming and publish messages of it. The transports move
  messages: QUIC as a sequence of frames on a byte stream, IPC as fixed-size slots of a lossy
  shared-memory queue. \<open>Transport\<close> is the facade over both, \<open>Gateway\<close> forwards between them, the
  handshake runs over a QUIC connection, the emergency channel is a second, isolated shared-memory
  path for raw bytes, and the credit controller is the flow-control mechanism.

  \<^bold>\<open>The compiler.\<close> \<open>laicc\<close> reads a contract file, parses it into an AST, validates it and writes one
  file of Rust, Python or TypeScript code; \<open>laicc inspect\<close> prints the Arrow schema instead.

  \<^bold>\<open>Theories\<close> of \<open>crates/laic/src\<close>:
  \<^item> \<open>Prelude\<close>: machine integers as words, \<open>Result\<close> as a sum, the \<open>?\<close> operator, slices, endian
    layouts, number formatting; the collections \<open>result_simps\<close> and \<open>layout_simps\<close>.
  \<^item> \<open>Laic_Errors\<close> (\<open>error.rs\<close>, \<open>error/protocol.rs\<close>): the error hierarchy. Locale \<open>error_layer\<close>: a
    layer's codes lie in its range and identify the variant.
  \<^item> \<open>Laic_Constants\<close>, \<open>Laic_Header\<close>, \<open>Laic_Message\<close> (\<open>protocol/\<close>): formats, QoS, flags; the header
    codec with locale \<open>header_codec\<close> (what decoding promises about encoding); messages, their
    invariant and their API.
  \<^item> \<open>Laic_Flow\<close> (\<open>flow.rs\<close>): credits on \<open>u16\<close>, refined against a ledger of natural numbers.
  \<^item> \<open>Laic_Pattern\<close> (\<open>pattern.rs\<close>): message constructors and matchers.
  \<^item> \<open>Laic_Framing\<close> (\<open>transport/framing.rs\<close>): frames on a stream.
  \<^item> \<open>Laic_Lifecycle\<close> (the contract of \<open>transport/mod.rs\<close>): locale \<open>connection_lifecycle\<close>, interpreted
    by the IPC connection, the QUIC connection, the facade and the emergency channel: after a close, sends
    and receives answer \<open>ShuttingDown\<close> and repeated closes succeed.
  \<^item> \<open>Laic_Shm\<close>: the shared-memory ports of iceoryx2 as parameters, and \<open>polled\<close>, what polling them
    yields. \<open>Laic_Ipc\<close> (\<open>transport/ipc.rs\<close>) and \<open>Laic_Emergency\<close> (\<open>emergency.rs\<close>) are over it.
    \<open>Laic_Duplex\<close>: the two ends of a channel in every interleaving of their operations, as a step
    relation with ghost histories; locale \<open>lossy_endpoint\<close>, interpreted by both channels.
  \<^item> \<open>Laic_Tls\<close>, \<open>Laic_Quic\<close>, \<open>Laic_Transport\<close> (\<open>transport/tls.rs\<close>, \<open>quic.rs\<close>, \<open>mod.rs\<close>,
    \<open>gateway.rs\<close>).
  \<^item> \<open>Laic_Codec\<close> (\<open>codec/\<close>) and \<open>Laic_Handshake\<close> (\<open>handshake.rs\<close>).
  \<^item> \<open>Laic_Relay\<close>: messages over two hosts, IPC to QUIC to IPC through a gateway on each; the forwarding
    loops, which \<open>gateway.rs\<close> leaves to its caller, take a number of messages. \<open>relay_attempt\<close> is a run in which
    either gateway may stop and the stream may be cut, \<open>relayed\<close> one in which every step succeeded,
    \<open>backend_laws\<close> the laws of the calls of one host.
  \<^item> \<open>Laic_Protocol_Tests\<close>, \<open>Laic_Transport_Tests\<close>: the unit tests of the crate as bools, each proved true.

  \<^bold>\<open>Theories\<close> of \<open>crates/laicc/src\<close>; a text is its list of code points:
  \<^item> \<open>Laicc_Text\<close> (\<open>codegen/mod.rs\<close>): case conversion and string escaping, with the round trips through
    the target languages' literal syntax; \<open>raw\<close> and \<open>fmt\<close> write the Rust string literals and format
    strings of the generators.
  \<^item> \<open>Laicc_Ast\<close> (\<open>ast.rs\<close>, \<open>error.rs\<close>) and \<open>Laicc_Validate\<close> (\<open>validate.rs\<close>): the checks in source
    order; \<open>valid_file\<close>, the files they accept in terms of their tables; and \<open>contract_file\<close>, the rules of the
    language without those tables (keywords per target language, an inductive grammar of types, ranges of
    defaults), which \<open>validate_iff\<close> shows them to decide.
  \<^item> \<open>Laicc_Numbers\<close>: decimal parsing of the standard library. \<open>Laicc_Parser\<close> (\<open>parser.rs\<close>, \<open>lib.rs\<close>):
    from the pairs of pest to the AST. \<open>Laicc_Grammar\<close> (\<open>laic.pest\<close>): the shape of those pairs, and the
    verdict of the parser on every conforming tree. \<open>Laicc_Roundtrip\<close>: the tree of an AST, the range of
    the parser and the outcome of \<open>compile\<close>.
  \<^item> \<open>Laicc_Rust_Types\<close>, \<open>Laicc_Rust_Serialize\<close>, \<open>Laicc_Rust_Deserialize\<close>, \<open>Laicc_Rust_Contract\<close>
    (\<open>codegen/rust*.rs\<close>), \<open>Laicc_Python\<close> (\<open>codegen/python*.rs\<close>), \<open>Laicc_Typescript\<close>
    (\<open>codegen/typescript*.rs\<close>): the generators, text for text; \<open>None\<close> is a panic of the generator.
  \<^item> \<open>Laicc_Inspect\<close> (\<open>inspect.rs\<close>), with the agreement of the four schema descriptions.
  \<^item> \<open>Laicc_Shape\<close>: the tensor-metadata checks that the generated code runs, per language, as functions;
    locale \<open>tensor_binding\<close> is their contract, interpreted by all three.
  \<^item> \<open>Laicc_Arrow\<close>: Arrow types, cells, schemas and the library interface \<open>arrow_lib\<close>; the batch a contract
    asks for, and what the two halves of a generated binding promise about it (locales
    \<open>binding_writer\<close>, \<open>binding_reader\<close>, \<open>binding_pair\<close>; \<open>scalar_view\<close> for dynamically typed scalars).
    \<open>Laicc_Rust_Binding\<close>, \<open>Laicc_Python_Binding\<close>, \<open>Laicc_Typescript_Binding\<close>: the serializers and
    deserializers that the generators emit, as functions, statement by statement, with their round
    trips; the run-time schema is tied to the emitted text (\<open>rust_expression_emitted\<close> and its like).
    \<open>rust_struct_ok\<close>, \<open>python_struct_ok\<close> and \<open>ts_struct_ok\<close> say that the emitted code compiles and that no field
    and no struct name hides a name it uses; shadowing itself is not modelled.
    \<open>Laicc_Interop\<close>: exchange between languages, what a deserializer lets through, contract drift.
    \<open>Laicc_Gaps\<close>: what neither the validator nor the generated checks see.
  \<^item> \<open>Laicc_Names\<close>: when the emitted Rust error enum has distinct variants; \<open>name_key\<close> is what the case
    conversion keeps of a name.
  \<^item> \<open>Laicc_Cli\<close> (\<open>main.rs\<close>): paths, the two commands and the exit code over a file system.
  \<^item> \<open>Laicc_Generator_Tests\<close>: the unit tests of the crate.
  \<^item> \<open>Laic_Skill_Call\<close>: both crates together, a skill call from generated Rust on one host to generated
    Python on another and back.

  \<^bold>\<open>Correspondence.\<close> A \<open>&mut self\<close> method takes and returns the record of its struct; \<open>Err\<close> is \<open>Inl\<close>;
  a panic, or a loop that never returns, is \<open>None\<close>. An \<open>async\<close> function is its sequential result:
  cancellation between awaits is not modelled, and a third-party await that never resolves has no
  outcome to give. Process-wide state (message ids, token counter, polling budget, clock) is an
  explicit world. A generator that appends to a \<open>String\<close> is the function that yields the text.

  \<^bold>\<open>Third-party code\<close> (tokio streams, iceoryx2, quinn, rustls, Arrow, prost, the pest engine, the
  reading and display of \<open>f64\<close>, the file system, the rounding of JavaScript numbers) is an argument:
  operations, with laws (\<open>writer_law\<close>, \<open>reader_law\<close>, \<open>shm_law\<close>, \<open>arrow_law\<close>, \<open>proto_law\<close>, \<open>pest_law\<close>,
  \<open>float_law\<close>, \<open>fs_law\<close>, \<open>js_exact\<close>; for the generated bindings \<open>builds\<close>, \<open>writes\<close>, \<open>carries\<close>, the order
  \<open>iterates\<close> of a \<open>HashMap\<close>, and the conversions \<open>converts\<close>, \<open>js_converts\<close>) as named hypotheses, each satisfied by an instance the witnesses
  use. Schema and field metadata count as maps (\<open>same_schema\<close>), dimensions compared by TypeScript are at most
  \<open>2 ^ 53\<close>, tokens of the handshake suppose a clock below \<open>2 ^ 64\<close> nanoseconds, and \<open>fs_law\<close> identifies a
  file with its path, so that links are outside it.

  \<^bold>\<open>Loops.\<close> The two polling loops are \<open>partial_function\<close>s; \<open>ipc_receive_spec\<close> and
  \<open>emergency_receive_spec\<close> say exactly when they return. Everything else terminates: structurally, or by
  the size of the type or parse tree (\<open>parse_laic_type\<close>, \<open>validate_field_type\<close>). No fuel is used.

  \<^bold>\<open>Not modelled.\<close> \<open>Debug\<close> output beyond the values that error messages show, the accessors of private
  fields (they are the record fields), \<open>source\<close> and the \<open>From\<close> impls of the errors (the constructors of
  \<open>laic_error\<close>), integration tests and benches, the unit tests that fix the bytes Arrow or prost write, the
  argument parsing of clap (its result is the record \<open>cli\<close>), the parsing engine of pest (a
  parameter that yields trees of the grammar), and \<open>laicc-verify\<close>, a crate without code of its own that
  compiles generated files as a test.
\<close>

end
